(* ===== verification/Prelude.thy ===== *)
theory Prelude
  imports Main "HOL-Library.Word"
begin

text \<open>
  Shared vocabulary of the development: the types that stand for Go's basic
  types, 64-bit wrap-around, error messages as unrendered format strings, the
  named theorem collections the components add to, and the generic list and
  option lemmas that several of them use.

  \<^item> A Go \<open>string\<close> is a sequence of bytes, which is exactly Isabelle's
    \<^typ>\<open>string\<close> (a list of 8-bit characters); \<open>[]byte\<close> is the same type.
  \<^item> A Go function that returns \<open>(T, error)\<close> returns a sum: \<open>Inl e\<close> is a non-nil
    error, \<open>Inr v\<close> a value with a nil error.
  \<^item> A nilable pointer is an option.
  \<^item> \<open>int64\<close> values are integers; every \<open>+\<close> and \<open>-\<close> whose overflow the code
    could meet is wrapped with \<open>wrap64\<close>.
\<close>

named_theorems str_simps \<open>rewrite rules for the string operations\<close>
named_theorems re_simps \<open>membership rules for the regular expressions\<close>
named_theorems bound_intros \<open>introduction rules for numeric bounds\<close>

type_synonym gobytes = string

subsection \<open>Bytes as numbers\<close>

abbreviation ord :: "char \<Rightarrow> nat" where
  "ord c \<equiv> of_char c"

abbreviation chr :: "nat \<Rightarrow> char" where
  "chr n \<equiv> char_of n"

lemma ord_less_256 [simp]: "ord c < 256"
  by (simp add: of_char_def)

lemma ord_chr: "n < 256 \<Longrightarrow> ord (chr n) = n"
  by simp

lemma chr_inject: "m < 256 \<Longrightarrow> n < 256 \<Longrightarrow> chr m = chr n \<longleftrightarrow> m = n"
  by (metis ord_chr)

subsection \<open>64-bit signed integers\<close>

definition wrap64 :: "int \<Rightarrow> int" where
  "wrap64 x = (x + 2 ^ 63) mod 2 ^ 64 - 2 ^ 63"

definition is_int64 :: "int \<Rightarrow> bool" where
  "is_int64 x \<longleftrightarrow> - (2 ^ 63) \<le> x \<and> x < 2 ^ 63"

lemma wrap64_id: "is_int64 x \<Longrightarrow> wrap64 x = x"
  by (simp add: wrap64_def is_int64_def)

lemma wrap64_range [bound_intros]: "is_int64 (wrap64 x)"
  by (simp add: wrap64_def is_int64_def)

text \<open>A difference that leaves the range by at most one period wraps by exactly one period.\<close>

lemma mod_int_unique: "0 \<le> r \<Longrightarrow> r < m \<Longrightarrow> x = q * m + r \<Longrightarrow> x mod m = (r :: int)"
  by simp

lemma wrap64_high: "2 ^ 63 \<le> x \<Longrightarrow> x < 2 ^ 64 + 2 ^ 63 \<Longrightarrow> wrap64 x = x - 2 ^ 64"
  unfolding wrap64_def by (subst mod_int_unique [where q = 1 and r = "x - 2 ^ 63"]) auto

lemma wrap64_low: "- (2 ^ 63) - 2 ^ 64 \<le> x \<Longrightarrow> x < - (2 ^ 63) \<Longrightarrow> wrap64 x = x + 2 ^ 64"
  unfolding wrap64_def by (subst mod_int_unique [where q = "-1" and r = "x + 2 ^ 63 + 2 ^ 64"]) auto

lemma wrap64_sword: "wrap64 x = sint (word_of_int x :: 64 word)"
  by (simp add: wrap64_def sint_sbintrunc' signed_take_bit_eq_take_bit_shift take_bit_eq_mod)

subsection \<open>Messages\<close>

text \<open>
  An error text is kept as the format string with its arguments, unrendered: no
  branch of the code reads a rendered text back except where it is signed or sent,
  and there the rendering is written out.
\<close>

datatype farg = FStr string | FInt int | FType string | FErr string

datatype gomsg = Lit string | Sprintf string "farg list"

subsection \<open>Lists\<close>

lemma takeWhile_dropWhile_id: "takeWhile P xs @ dropWhile P xs = xs"
  by simp

lemma dropWhile_nonempty_hd: "dropWhile P xs = y # ys \<Longrightarrow> \<not> P y"
  by (metis dropWhile_eq_Cons_conv)

lemma map_of_insert_other: "k \<noteq> k' \<Longrightarrow> map_of ((k', v) # m) k = map_of m k"
  by simp

lemma find_Some_iff_ex: "(\<exists>y. find P xs = Some y) \<longleftrightarrow> (\<exists>x \<in> set xs. P x)"
  by (induction xs) auto

lemma find_SomeD: "find P xs = Some y \<Longrightarrow> y \<in> set xs \<and> P y"
  by (metis find_Some_iff nth_mem)

lemma sum_case_Inr_iff:
  "(case r of Inl e \<Rightarrow> Inl e | Inr x \<Rightarrow> f x) = Inr y \<longleftrightarrow> (\<exists>x. r = Inr x \<and> f x = Inr y)"
  by (cases r) auto

end
