(* ===== verification/Go_Utf8.thy ===== *)
theory Go_Utf8
  imports Go_Strings
begin

text \<open>
  UTF-8 in both directions: a rune that decodes cleanly is encoded back to the bytes it was
  read from, and replacing every invalid byte by U+FFFD, as \<open>encoding/json\<close> does to the
  strings it reads and writes, leaves valid text alone.
\<close>

lemma sextet: "z < 64 \<Longrightarrow> (a * 64 + z) div 64 = (a :: nat) \<and> (a * 64 + z) mod 64 = z"
  by simp

lemma encode_rune_2:
  assumes "2 \<le> x" "x < 32" "y < 64"
  shows "encode_rune (x * 64 + y) = [chr (192 + x), chr (128 + y)]"
  using assms by (simp add: encode_rune_def)

lemma encode_rune_long:
  "2048 \<le> r \<Longrightarrow> r < 65536 \<Longrightarrow> \<not> (55296 \<le> r \<and> r \<le> 57343) \<Longrightarrow>
     encode_rune r = [chr (224 + r div 4096), chr (128 + r div 64 mod 64), chr (128 + r mod 64)]"
  "65536 \<le> r \<Longrightarrow> r \<le> 1114111 \<Longrightarrow>
     encode_rune r = [chr (240 + r div 262144), chr (128 + r div 4096 mod 64),
       chr (128 + r div 64 mod 64), chr (128 + r mod 64)]"
  by (auto simp: encode_rune_def Let_def)

lemma encode_rune_3:
  assumes "x < 16" "y < 64" "z < 64" "x = 0 \<longrightarrow> 32 \<le> y" "x = 13 \<longrightarrow> y \<le> 31"
  shows "encode_rune ((x * 64 + y) * 64 + z) = [chr (224 + x), chr (128 + y), chr (128 + z)]"
proof -
  let ?r = "(x * 64 + y) * 64 + z"
  have q: "?r div 64 = x * 64 + y" "?r mod 64 = z" by (fact sextet [OF assms(3), THEN conjunct1], fact sextet [OF assms(3), THEN conjunct2])
  have "?r div 4096 = ?r div 64 div 64" by (simp add: div_mult2_eq [symmetric])
  then have d: "?r div 4096 = x" "?r div 64 mod 64 = y" unfolding q using sextet [OF assms(2)] by auto
  have b: "\<not> (55296 \<le> ?r \<and> ?r \<le> 57343)" "?r < 65536" "2048 \<le> ?r"
    using assms by (cases "x = 13"; cases "x = 0"; cases "x < 13"; simp)+
  show ?thesis by (simp only: encode_rune_long(1) [OF b(3,2,1)] d q(2))
qed

lemma encode_rune_4:
  assumes "x < 5" "y < 64" "z < 64" "w < 64" "x = 0 \<longrightarrow> 16 \<le> y" "x = 4 \<longrightarrow> y \<le> 15"
  shows "encode_rune (((x * 64 + y) * 64 + z) * 64 + w) =
    [chr (240 + x), chr (128 + y), chr (128 + z), chr (128 + w)]"
proof -
  let ?r = "((x * 64 + y) * 64 + z) * 64 + w"
  have q: "?r div 64 = (x * 64 + y) * 64 + z" "?r mod 64 = w" by (rule sextet [OF assms(4), THEN conjunct1], rule sextet [OF assms(4), THEN conjunct2])
  have dd: "r div 4096 = r div 64 div 64" "r div 262144 = r div 64 div 64 div 64" for r :: nat
    by (simp_all add: div_mult2_eq [symmetric])
  have d: "?r div 262144 = x" "?r div 4096 mod 64 = y" "?r div 64 mod 64 = z"
    unfolding dd q sextet [OF assms(3), THEN conjunct1] sextet [OF assms(3), THEN conjunct2]
      sextet [OF assms(2), THEN conjunct1] sextet [OF assms(2), THEN conjunct2] by (rule refl)+
  have b1: "65536 \<le> ?r"
  proof (cases "x = 0")
    case True then show ?thesis using assms(5) by simp
  next
    case False then have "1 \<le> x" by simp then show ?thesis by simp
  qed
  have b2: "?r \<le> 1114111"
  proof (cases "x = 4")
    case True then have "y \<le> 15" using assms(6) by simp
    with True show ?thesis using assms(3,4) by simp
  next
    case False then have "x \<le> 3" using assms(1) by simp
    then show ?thesis using assms(2-4) by simp
  qed
  note b = b1 b2
  show ?thesis by (simp only: encode_rune_long(2) [OF b] d q(2))
qed

lemma byte_split: "k \<le> ord c \<Longrightarrow> ord c < k + n \<Longrightarrow> \<exists>x < n. c = chr (k + x) \<and> ord c = k + x"
  by (rule exI [of _ "ord c - k"]) simp

lemma decode_tail_Suc:
  "decode_tail (Suc n) lo hi r s = Some v \<longleftrightarrow> (\<exists>c t. s = c # t \<and> lo \<le> ord c \<and> ord c \<le> hi \<and>
     decode_tail n 128 191 (r * 64 + ord c mod 64) t = Some v)"
  by (cases s) (auto simp: in_range_def)

lemma lead_mod:
  "x < 64 \<Longrightarrow> (128 + x) mod 64 = (x :: nat)" "x < 32 \<Longrightarrow> (192 + x) mod 32 = x"
  "x < 16 \<Longrightarrow> (224 + x) mod 16 = x" "x < 8 \<Longrightarrow> (240 + x) mod 8 = x"
  using mod_mult_self1 [of x 2 64] mod_mult_self1 [of x 6 32] mod_mult_self1 [of x 14 16] mod_mult_self1 [of x 30 8]
  by (simp_all add: add.commute)

lemma cont_byte:
  assumes "128 \<le> ord c" "ord c \<le> 191"
  shows "\<exists>x < 64. c = chr (128 + x) \<and> ord c mod 64 = x \<and> ord c = 128 + x"
proof -
  obtain x where x: "x < 64" "c = chr (128 + x)" "ord c = 128 + x" using byte_split [of 128 c 64] assms by auto
  then have "ord c mod 64 = x" using lead_mod(1) by simp
  with x show ?thesis by blast
qed

definition multi :: "nat \<Rightarrow> nat \<Rightarrow> nat \<Rightarrow> nat \<Rightarrow> string \<Rightarrow> nat \<times> nat" where
  "multi k lo hi r t = (case decode_tail k lo hi r t of None \<Rightarrow> (rune_error, 1) | Some v \<Rightarrow> (v, Suc k))"

lemma decode_rune_multi:
  "194 \<le> ord c \<Longrightarrow> ord c \<le> 223 \<Longrightarrow> decode_rune (c # t) = multi 1 128 191 (ord c mod 32) t"
  "224 \<le> ord c \<Longrightarrow> ord c \<le> 239 \<Longrightarrow> decode_rune (c # t) =
     multi 2 (if ord c = 224 then 160 else 128) (if ord c = 237 then 159 else 191) (ord c mod 16) t"
  "240 \<le> ord c \<Longrightarrow> ord c \<le> 244 \<Longrightarrow> decode_rune (c # t) =
     multi 3 (if ord c = 240 then 144 else 128) (if ord c = 244 then 143 else 191) (ord c mod 8) t"
  by (simp_all add: decode_rune_def multi_def Let_def del: decode_tail.simps One_nat_def)

lemma multi_Some: "multi k lo hi r t = (v, n) \<Longrightarrow> (v, n) \<noteq> (rune_error, 1) \<Longrightarrow>
   decode_tail k lo hi r t = Some v \<and> n = Suc k"
  by (auto simp: multi_def split: option.splits)

text \<open>A rune that decodes without an error is encoded back to the bytes it was read from.\<close>

lemma encode_decode_rune:
  assumes dec: "decode_rune s = (r, n)" and ok: "(r, n) \<noteq> (rune_error, 1)" and "s \<noteq> []"
  shows "take n s = encode_rune r"
proof -
  obtain c t where s: "s = c # t" using assms(3) by (cases s) auto
  consider (a) "ord c < 128" | (b) "194 \<le> ord c" "ord c \<le> 223" | (c) "224 \<le> ord c" "ord c \<le> 239"
    | (d) "240 \<le> ord c" "ord c \<le> 244"
    using dec ok unfolding s decode_rune_def by (fastforce simp: Let_def split: if_splits)
  then show ?thesis
  proof cases
    case a
    then have "n = 1" "r = ord c" using dec by (simp_all add: s)
    then show ?thesis using a by (simp add: s encode_rune_ascii)
  next
    case b
    obtain x where x: "x < 32" "c = chr (192 + x)" "ord c = 192 + x"
      using byte_split [of 192 c 32] b by auto
    then have "ord c mod 32 = x" using lead_mod(2) [of x] by simp
    then have m: "decode_tail 1 128 191 x t = Some r \<and> n = 2"
      using multi_Some [of 1 128 191 x t r n] dec ok decode_rune_multi(1) [OF b, of t] by (simp add: s del: One_nat_def)
    obtain d u where d: "t = d # u" "128 \<le> ord d" "ord d \<le> 191" "r = x * 64 + ord d mod 64"
      using m by (auto simp: decode_tail_Suc)
    then show ?thesis
      using cont_byte [OF d(2,3)] encode_rune_2 [of x "ord d mod 64"] x b m by (auto simp: s numeral_2_eq_2)
  next
    case c
    obtain x where x: "x < 16" "c = chr (224 + x)" "ord c = 224 + x"
      using byte_split [of 224 c 16] c by auto
    then have "ord c mod 16 = x" using lead_mod(3) [of x] by simp
    then have m: "decode_tail 2 (if x = 0 then 160 else 128) (if x = 13 then 159 else 191) x t = Some r \<and> n = 3"
      using multi_Some [of 2 _ _ x t r n] dec ok decode_rune_multi(2) [OF c, of t] x by (simp add: s)
    obtain d e u where d: "t = d # e # u" "128 \<le> ord d" "ord d \<le> 191" "128 \<le> ord e" "ord e \<le> 191"
       "x = 0 \<longrightarrow> 160 \<le> ord d" "x = 13 \<longrightarrow> ord d \<le> 159" "r = (x * 64 + ord d mod 64) * 64 + ord e mod 64"
      using m by (auto simp: decode_tail_Suc numeral_2_eq_2 split: if_splits)
    obtain y z where "y < 64" "z < 64" "d = chr (128 + y)" "e = chr (128 + z)" "ord d = 128 + y" "ord d mod 64 = y"
       "ord e mod 64 = z"
      using cont_byte [OF d(2,3)] cont_byte [OF d(4,5)] by blast
    then show ?thesis
      using encode_rune_3 [of x y z] x d m by (simp add: s)
  next
    case d
    obtain x where x: "x < 5" "c = chr (240 + x)" "ord c = 240 + x"
      using byte_split [of 240 c 5] d by auto
    then have "ord c mod 8 = x" using lead_mod(4) [of x] by simp
    then have m: "decode_tail 3 (if x = 0 then 144 else 128) (if x = 4 then 143 else 191) x t = Some r \<and> n = 4"
      using multi_Some [of 3 _ _ x t r n] dec ok decode_rune_multi(3) [OF d, of t] x by (simp add: s)
    obtain b2 b3 b4 u where e: "t = b2 # b3 # b4 # u" "128 \<le> ord b2" "ord b2 \<le> 191" "128 \<le> ord b3" "ord b3 \<le> 191"
       "128 \<le> ord b4" "ord b4 \<le> 191" "x = 0 \<longrightarrow> 144 \<le> ord b2" "x = 4 \<longrightarrow> ord b2 \<le> 143"
       "r = ((x * 64 + ord b2 mod 64) * 64 + ord b3 mod 64) * 64 + ord b4 mod 64"
      using m by (auto simp: decode_tail_Suc numeral_3_eq_3 split: if_splits)
    obtain y z w where "y < 64" "z < 64" "w < 64" "b2 = chr (128 + y)" "b3 = chr (128 + z)" "b4 = chr (128 + w)"
       "ord b2 = 128 + y" "ord b2 mod 64 = y" "ord b3 mod 64 = z" "ord b4 mod 64 = w"
      using cont_byte [OF e(2,3)] cont_byte [OF e(4,5)] cont_byte [OF e(6,7)] by blast
    then show ?thesis
      using encode_rune_4 [of x y z w] x e m by (simp add: s)
  qed
qed

text \<open>A string as \<open>encoding/json\<close> reads or writes it: each invalid byte becomes U+FFFD.\<close>

definition sanitize :: "string \<Rightarrow> string" where
  "sanitize s = concat (map encode_rune (runes s))"

lemma utf8_valid_step:
  "s \<noteq> [] \<Longrightarrow> utf8_valid s \<longleftrightarrow> decode_rune s \<noteq> (rune_error, 1) \<and> utf8_valid (drop (snd (decode_rune s)) s)"
  by (subst utf8_valid.simps) simp

lemma runes_step: "s \<noteq> [] \<Longrightarrow> runes s = fst (decode_rune s) # runes (drop (snd (decode_rune s)) s)"
  by (subst runes.simps) simp

lemma sanitize_valid: "utf8_valid s \<Longrightarrow> sanitize s = s"
proof (induction s rule: runes.induct)
  case (1 s)
  show ?case
  proof (cases "s = []")
    case False
    obtain r n where d: "decode_rune s = (r, n)" by fastforce
    have ok: "(r, n) \<noteq> (rune_error, 1)" "utf8_valid (drop n s)"
      using 1(2) d by (auto simp: utf8_valid_step [OF False])
    have "sanitize (drop n s) = drop n s" using 1(1) [OF False] ok(2) d by simp
    then show ?thesis
      using encode_decode_rune [OF d ok(1) False] d
      by (simp add: sanitize_def runes_step [OF False] flip: encode_decode_rune [OF d ok(1) False])
  qed (simp add: sanitize_def)
qed

lemma sanitize_ascii [simp]: "ascii s \<Longrightarrow> sanitize s = s"
  by (rule sanitize_valid [OF ascii_utf8_valid])

lemma decode_tail_within: "decode_tail k lo hi r t = Some v \<Longrightarrow> k \<le> length t"
  by (induction k lo hi r t rule: decode_tail.induct) (auto split: if_splits)

lemma decode_rune_within: "decode_rune s = (r, n) \<Longrightarrow> n \<le> length s"
  by (auto simp: decode_rune_def Let_def simp del: decode_tail.simps dest!: decode_tail_within
      split: list.splits if_splits option.splits)

lemma decode_tail_prefix:
  "decode_tail k lo hi r t = Some v \<Longrightarrow> decode_tail k lo hi r (take k t @ u) = Some v"
  by (induction k lo hi r t rule: decode_tail.induct) (auto split: if_splits)

lemma decode_rune_prefix:
  assumes "decode_rune s = (r, n)" and "(r, n) \<noteq> (rune_error, 1)" and "s \<noteq> []"
  shows "decode_rune (take n s @ u) = (r, n)"
proof -
  obtain c t where s: "s = c # t" using assms(3) by (cases s) auto
  show ?thesis
    using assms(1,2) unfolding s decode_rune_def
    by (auto simp: Let_def decode_tail_prefix simp del: decode_tail.simps split: if_splits option.splits)
qed

lemma rune_error_big: "\<not> ascii (encode_rune rune_error)"
  using encode_rune_3 [of 15 63 61] by (simp add: rune_error_def ord_chr del: char_of_mod_256)

lemma encode_rune_low: "ascii (encode_rune r) \<Longrightarrow> r < 128"
proof (rule ccontr)
  assume a: "ascii (encode_rune r)" "\<not> r < 128"
  have b: "128 \<le> ord (chr (k + x))" if "128 \<le> k" "k + x < 256" for k x using that by (simp add: ord_chr)
  show False
  proof (cases "(55296 \<le> r \<and> r \<le> 57343) \<or> 1114111 < r")
    case True
    then have "encode_rune r = encode_rune rune_error" by (auto simp: encode_rune_def rune_error_def)
    then show False using a(1) by (simp add: rune_error_big)
  next
    case False
    have "hd (encode_rune r) = chr (192 + r div 64) \<and> r < 2048 \<or> hd (encode_rune r) = chr (224 + r div 4096) \<and> r < 65536
        \<or> hd (encode_rune r) = chr (240 + r div 262144)" "encode_rune r \<noteq> []"
      using False a(2) by (auto simp: encode_rune_def Let_def)
    moreover have "r div 64 < 32" if "r < 2048" using that by simp
    moreover have "r div 4096 < 16" if "r < 65536" using that by simp
    moreover have "r div 262144 < 5" using False by auto
    ultimately have "128 \<le> ord (hd (encode_rune r))"
      using b [of 192 "r div 64"] b [of 224 "r div 4096"] b [of 240 "r div 262144"] by auto
    moreover have "hd (encode_rune r) \<in> set (encode_rune r)" using \<open>encode_rune r \<noteq> []\<close> by simp
    ultimately show False using a(1) by (auto simp: ascii_def)
  qed
qed

lemma ascii_sanitize: "ascii (sanitize s) \<Longrightarrow> sanitize s = s"
proof (induction s rule: runes.induct)
  case (1 s)
  show ?case
  proof (cases "s = []")
    case False
    obtain r n where d: "decode_rune s = (r, n)" by fastforce
    have s: "sanitize s = encode_rune r @ sanitize (drop n s)"
      by (simp add: sanitize_def runes_step [OF False] d)
    then have a: "ascii (encode_rune r)" "ascii (sanitize (drop n s))" using 1(2) by simp_all
    then have "(r, n) \<noteq> (rune_error, 1)" by (auto dest: encode_rune_low simp: rune_error_def)
    then have "take n s = encode_rune r" using encode_decode_rune d False by blast
    then show ?thesis using 1(1) [OF False] a(2) d s append_take_drop_id [of n s] by simp
  qed (simp add: sanitize_def)
qed

lemma sanitize_eq_ascii: "ascii w \<Longrightarrow> sanitize s = w \<longleftrightarrow> s = w"
  using ascii_sanitize sanitize_ascii by metis

lemma decode_replacement: "decode_rune (encode_rune rune_error @ u) = (rune_error, 3)"
  using encode_rune_3 [of 15 63 61]
  by (simp add: rune_error_def decode_rune_def ord_chr in_range_def numeral_2_eq_2 del: char_of_mod_256)

lemma sanitize_idem [simp]: "sanitize (sanitize s) = sanitize s"
proof (induction s rule: runes.induct)
  case (1 s)
  show ?case
  proof (cases "s = []")
    case False
    obtain r n where d: "decode_rune s = (r, n)" by fastforce
    have s: "sanitize s = encode_rune r @ sanitize (drop n s)"
      by (simp add: sanitize_def runes_step [OF False] d)
    have "decode_rune (encode_rune r @ sanitize (drop n s)) = (r, length (encode_rune r))"
    proof (cases "(r, n) = (rune_error, 1)")
      case True
      then show ?thesis using decode_replacement encode_rune_3 [of 15 63 61] by (simp add: rune_error_def)
    next
      case ok: False
      have "take n s = encode_rune r" by (rule encode_decode_rune [OF d ok False])
      moreover have "n \<le> length s" by (rule decode_rune_within [OF d])
      ultimately show ?thesis
        using decode_rune_prefix [OF d ok False, of "sanitize (drop n s)"] by (metis length_take min.absorb2)
    qed
    moreover have "encode_rune r \<noteq> []" by (auto simp: encode_rune_def Let_def)
    ultimately have "sanitize (sanitize s) = encode_rune r @ sanitize (sanitize (drop n s))"
      unfolding s by (simp add: sanitize_def [of "encode_rune r @ sanitize (drop n s)"] runes_step
          flip: sanitize_def)
    then show ?thesis using 1 [OF False] d by (simp add: s)
  qed (simp add: sanitize_def)
qed

end
