(* ===== verification/Go_Strconv.thy ===== *)
theory Go_Strconv
  imports Go_Strings
begin

text \<open>
  Decimal numbers: \<open>strconv.ParseInt(s, 10, 64)\<close>, \<open>big.Int.SetString(s, 10)\<close>,
  \<open>%d\<close> formatting, and the round trips between them.
\<close>

definition is_digit :: "char \<Rightarrow> bool" where
  "is_digit c \<longleftrightarrow> 48 \<le> ord c \<and> ord c \<le> 57"

definition digit_val :: "char \<Rightarrow> nat" where
  "digit_val c = ord c - 48"

definition digit_char :: "nat \<Rightarrow> char" where
  "digit_char n = chr (48 + n)"

lemma digit_char [simp]: "n < 10 \<Longrightarrow> is_digit (digit_char n)" "n < 10 \<Longrightarrow> digit_val (digit_char n) = n"
  by (auto simp: is_digit_def digit_char_def digit_val_def)

lemma digit_char_0: "digit_char 0 = CHR ''0''"
  by code_simp

lemma digit_val_less [simp]: "is_digit c \<Longrightarrow> digit_val c < 10"
  by (auto simp: is_digit_def digit_val_def)

lemma is_digit_ascii: "is_digit c \<Longrightarrow> ord c < 128"
  by (simp add: is_digit_def)

lemma is_digit_not_space: "is_digit c \<Longrightarrow> \<not> is_space (ord c)"
  by (auto simp: is_digit_def is_space_def)

section \<open>Formatting\<close>

fun nat_str :: "nat \<Rightarrow> string" where
  "nat_str n = (if n < 10 then [digit_char n] else nat_str (n div 10) @ [digit_char (n mod 10)])"

declare nat_str.simps [simp del]

definition itoa :: "int \<Rightarrow> string" where
  "itoa i = (if i < 0 then CHR ''-'' # nat_str (nat (- i)) else nat_str (nat i))"

lemma nat_str_nonempty [simp]: "nat_str n \<noteq> []"
  by (subst nat_str.simps) simp

lemma nat_str_digits: "c \<in> set (nat_str n) \<Longrightarrow> is_digit c"
proof (induction n rule: nat_str.induct)
  case (1 n)
  then show ?case by (cases "n < 10") (auto simp: nat_str.simps [of n])
qed

section \<open>Parsing\<close>

definition digits_val :: "string \<Rightarrow> nat" where
  "digits_val s = foldl (\<lambda>n c. n * 10 + digit_val c) 0 s"

definition parse_nat :: "string \<Rightarrow> nat option" where
  "parse_nat s = (if s \<noteq> [] \<and> list_all is_digit s then Some (digits_val s) else None)"

definition parse_signed :: "string \<Rightarrow> int option" where
  "parse_signed s = (case s of
     [] \<Rightarrow> None
   | c # t \<Rightarrow> if c = CHR ''-'' then map_option (\<lambda>n. - int n) (parse_nat t)
              else if c = CHR ''+'' then map_option int (parse_nat t)
              else map_option int (parse_nat s))"

text \<open>\<open>strconv.ParseInt(s, 10, 64)\<close>: a syntax or a range error is \<^term>\<open>None\<close>.\<close>

definition parse_int64 :: "string \<Rightarrow> int option" where
  "parse_int64 s = (case parse_signed s of None \<Rightarrow> None
     | Some i \<Rightarrow> if is_int64 i then Some i else None)"

text \<open>\<open>new(big.Int).SetString(s, 10)\<close>.\<close>

definition big_set_string :: "string \<Rightarrow> int option" where
  "big_set_string = parse_signed"

lemma digits_val_Nil [simp]: "digits_val [] = 0"
  by (simp add: digits_val_def)

lemma digits_val_snoc [simp]: "digits_val (s @ [c]) = digits_val s * 10 + digit_val c"
  by (simp add: digits_val_def)

lemma digits_val_append: "digits_val (s @ t) = digits_val s * 10 ^ length t + digits_val t"
proof (induction t rule: rev_induct)
  case (snoc c t)
  then show ?case
    by (simp del: append_assoc add: append_assoc [symmetric] algebra_simps)
qed simp

lemma digits_val_Cons: "digits_val (c # s) = digit_val c * 10 ^ length s + digits_val s"
  using digits_val_append [of "[c]" s] by (simp add: digits_val_def)

lemma digits_val_zeros [simp]: "digits_val (replicate n (CHR ''0'')) = 0"
  by (induction n) (simp_all add: digits_val_Cons digit_val_def)

lemma digits_val_less: "list_all is_digit s \<Longrightarrow> digits_val s < 10 ^ length s"
proof (induction s rule: rev_induct)
  case (snoc c s)
  then have "digits_val s + 1 \<le> 10 ^ length s" and "digit_val c < 10"
    by auto
  then have "(digits_val s + 1) * 10 \<le> 10 ^ length s * 10"
    by (simp add: mult_le_mono1)
  with \<open>digit_val c < 10\<close> show ?case by simp
qed simp

lemma digits_val_nat_str [simp]: "digits_val (nat_str n) = n"
proof (induction n rule: nat_str.induct)
  case (1 n)
  then show ?case
    by (cases "n < 10") (auto simp: nat_str.simps [of n] digits_val_def)
qed

lemma parse_nat_nat_str [simp]: "parse_nat (nat_str n) = Some n"
  by (auto simp: parse_nat_def list_all_iff nat_str_digits)

lemma nat_str_hd: "\<exists>c t. nat_str n = c # t \<and> is_digit c"
  by (metis list.exhaust list.set_intros(1) nat_str_digits nat_str_nonempty)

lemma parse_signed_itoa [simp]: "parse_signed (itoa i) = Some i"
proof (cases "i < 0")
  case False
  obtain c t where ct: "nat_str (nat i) = c # t" "is_digit c"
    using nat_str_hd by blast
  then have "c \<noteq> CHR ''-''" "c \<noteq> CHR ''+''"
    by (auto simp: is_digit_def)
  with False ct(1) show ?thesis
    using parse_nat_nat_str [of "nat i"] by (simp add: itoa_def parse_signed_def)
qed (simp add: itoa_def parse_signed_def)

lemma parse_int64_itoa: "is_int64 i \<Longrightarrow> parse_int64 (itoa i) = Some i"
  by (simp add: parse_int64_def)

lemma parse_int64_range: "parse_int64 s = Some i \<Longrightarrow> is_int64 i"
  by (auto simp: parse_int64_def split: option.splits if_splits)

lemma itoa_chars: "c \<in> set (itoa i) \<Longrightarrow> is_digit c \<or> c = CHR ''-''"
  by (auto simp: itoa_def nat_str_digits split: if_splits)

lemma itoa_ascii: "ascii (itoa i)"
  using itoa_chars is_digit_ascii by (fastforce simp: ascii_def)

lemma itoa_nonempty [simp]: "itoa i \<noteq> []"
  by (simp add: itoa_def)

lemma itoa_inject: "itoa i = itoa j \<longleftrightarrow> i = j"
  by (metis option.inject parse_signed_itoa)

text \<open>Digit strings parse to their value whichever parser reads them.\<close>

lemma digits_not_sign: "list_all is_digit s \<Longrightarrow> s = c # t \<Longrightarrow> c \<noteq> CHR ''-'' \<and> c \<noteq> CHR ''+''"
  by (auto simp: is_digit_def)

lemma parse_signed_digits:
  "s \<noteq> [] \<Longrightarrow> list_all is_digit s \<Longrightarrow> parse_signed s = Some (int (digits_val s))"
  using digits_not_sign [of s] by (cases s) (auto simp: parse_signed_def parse_nat_def)

lemma big_set_string_digits:
  "s \<noteq> [] \<Longrightarrow> list_all is_digit s \<Longrightarrow> big_set_string s = Some (int (digits_val s))"
  by (simp add: big_set_string_def parse_signed_digits)

text \<open>A digit string without a leading zero is the canonical rendering of its value.\<close>

lemma nat_str_digits_val:
  "s \<noteq> [] \<Longrightarrow> list_all is_digit s \<Longrightarrow> hd s \<noteq> CHR ''0'' \<Longrightarrow> nat_str (digits_val s) = s"
proof (induction s rule: rev_induct)
  case (snoc c s)
  show ?case
  proof (cases "s = []")
    case True
    with snoc.prems show ?thesis
      by (subst nat_str.simps) (auto simp: digits_val_def digit_char_def digit_val_def is_digit_def)
  next
    case False
    with snoc have IH: "nat_str (digits_val s) = s" by simp
    have "digits_val s \<noteq> 0"
    proof
      assume "digits_val s = 0"
      then have "s = [CHR ''0'']"
        using IH by (simp add: nat_str.simps [of 0] digit_char_0)
      with snoc.prems show False by simp
    qed
    moreover have "digit_val c < 10" "digit_char (digit_val c) = c"
      using snoc.prems by (auto simp: digit_char_def digit_val_def is_digit_def)
    ultimately show ?thesis
      using IH by (subst nat_str.simps) simp
  qed
qed simp

end
