(* ===== verification/Go_Value.thy ===== *)
theory Go_Value
  imports Go_Strconv
begin

text \<open>
  Go's \<open>any\<close> as the SDK inspects it. A value is tagged with its dynamic type; the tag
  \<open>GOther\<close> stands for every type no type switch of the SDK names (a struct, a function),
  by its \<open>%T\<close> name and the JSON value \<open>json.Marshal\<close> gives for it, if any.
  A \<open>map[string]any\<close> is the list of its entries with distinct keys, in the order a
  \<open>range\<close> over it visits them, which Go leaves open.

  A finite \<open>float64\<close> is \<open>F64 m e\<close> for \<open>m * 2^e\<close>, with \<open>m\<close> odd or \<open>m = e = 0\<close>, so that
  equal numbers are equal terms.
\<close>

datatype f64 = F64 int int | FNaN | FInf bool

datatype gval =
    GNil
  | GBool bool
  | GString string
  | GBytes string
  | GRaw string
  | GInt int
  | GFloat f64
  | GNumber string
  | GList "gval list"
  | GStrs "string list"
  | GMap "(string \<times> gval) list"
  | GStrMap "(string \<times> string) list"
  | GStrsMap "(string \<times> string list) list"
  | GOther string "gval option"

definition obj_get :: "(string \<times> gval) list \<Rightarrow> string \<Rightarrow> gval option" where
  "obj_get m k = map_of m k"

text \<open>\<open>m[k].(string)\<close> and \<open>m[k].(bool)\<close> with their \<open>ok\<close> result.\<close>

definition obj_string :: "(string \<times> gval) list \<Rightarrow> string \<Rightarrow> string option" where
  "obj_string m k = (case obj_get m k of Some (GString s) \<Rightarrow> Some s | _ \<Rightarrow> None)"

definition obj_float :: "(string \<times> gval) list \<Rightarrow> string \<Rightarrow> f64 option" where
  "obj_float m k = (case obj_get m k of Some (GFloat x) \<Rightarrow> Some x | _ \<Rightarrow> None)"

definition obj_map :: "(string \<times> gval) list \<Rightarrow> string \<Rightarrow> (string \<times> gval) list option" where
  "obj_map m k = (case obj_get m k of Some (GMap x) \<Rightarrow> Some x | _ \<Rightarrow> None)"

lemma obj_string_Some: "obj_string m k = Some s \<longleftrightarrow> obj_get m k = Some (GString s)"
  by (auto simp: obj_string_def split: option.splits gval.splits)

lemma obj_float_Some: "obj_float m k = Some x \<longleftrightarrow> obj_get m k = Some (GFloat x)"
  by (auto simp: obj_float_def split: option.splits gval.splits)

lemma obj_map_Some: "obj_map m k = Some x \<longleftrightarrow> obj_get m k = Some (GMap x)"
  by (auto simp: obj_map_def split: option.splits gval.splits)

end
