(* ===== verification/Go_Crypto.thy ===== *)
theory Go_Crypto
  imports Go_Strings
begin

unbundle bit_operations_syntax

text \<open>
  The encodings and hashes of Go's standard library that the SDK signs with:
  \<open>encoding/hex\<close>, \<open>encoding/base64\<close> (padded, unpadded and strict decoding),
  \<open>crypto/sha256\<close> and \<open>crypto/hmac\<close>. All of them are executable definitions; the
  lemmas give the lengths and the round trips the signature proofs rest on.
\<close>

section \<open>Hexadecimal\<close>

definition hex_digit :: "nat \<Rightarrow> char" where
  "hex_digit n = (if n < 10 then chr (48 + n) else chr (87 + n))"

definition hex_val :: "char \<Rightarrow> nat option" where
  "hex_val c = (let n = ord c in
     if 48 \<le> n \<and> n \<le> 57 then Some (n - 48)
     else if 97 \<le> n \<and> n \<le> 102 then Some (n - 87)
     else if 65 \<le> n \<and> n \<le> 70 then Some (n - 55) else None)"

definition hex_encode :: "string \<Rightarrow> string" where
  "hex_encode s = concat (map (\<lambda>c. [hex_digit (ord c div 16), hex_digit (ord c mod 16)]) s)"

fun hex_decode :: "string \<Rightarrow> string option" where
  "hex_decode [] = Some []"
| "hex_decode [_] = None"
| "hex_decode (a # b # s) = (case (hex_val a, hex_val b) of
     (Some x, Some y) \<Rightarrow> map_option ((#) (chr (16 * x + y))) (hex_decode s)
   | _ \<Rightarrow> None)"

lemma ord_hex_digit: "n < 16 \<Longrightarrow> ord (hex_digit n) = (if n < 10 then 48 + n else 87 + n)"
  by (auto simp: hex_digit_def)

lemma hex_val_digit [simp]: "n < 16 \<Longrightarrow> hex_val (hex_digit n) = Some n"
  by (simp add: hex_val_def ord_hex_digit)

lemma hex_val_less: "hex_val c = Some n \<Longrightarrow> n < 16"
  by (auto simp: hex_val_def Let_def split: if_splits)

lemma length_hex_encode [simp]: "length (hex_encode s) = 2 * length s"
  by (induction s) (auto simp: hex_encode_def)

lemma hex_encode_Cons:
  "hex_encode (c # s) = hex_digit (ord c div 16) # hex_digit (ord c mod 16) # hex_encode s"
  by (simp add: hex_encode_def)

lemma ord_div_16: "ord c div 16 < 16"
  using ord_less_256 [of c] by linarith

lemma hex_decode_encode: "hex_decode (hex_encode s) = Some s"
proof (induction s)
  case (Cons c s)
  have "chr (16 * (ord c div 16) + ord c mod 16) = c"
    by (metis mult_div_mod_eq char_of_char)
  with Cons show ?case
    by (simp add: hex_encode_Cons ord_div_16)
qed (simp add: hex_encode_def)

lemma hex_encode_inject: "hex_encode s = hex_encode t \<longleftrightarrow> s = t"
  by (metis hex_decode_encode option.inject)

definition is_lower_hex :: "char \<Rightarrow> bool" where
  "is_lower_hex c \<longleftrightarrow> (48 \<le> ord c \<and> ord c \<le> 57) \<or> (97 \<le> ord c \<and> ord c \<le> 102)"

lemma is_lower_hex_digit [simp]: "n < 16 \<Longrightarrow> is_lower_hex (hex_digit n)"
  by (simp add: is_lower_hex_def ord_hex_digit)

lemma hex_encode_chars: "c \<in> set (hex_encode s) \<Longrightarrow> is_lower_hex c"
  by (auto simp: hex_encode_def ord_div_16)

lemma length_hex_decode: "hex_decode s = Some t \<Longrightarrow> length s = 2 * length t"
  by (induction s arbitrary: t rule: hex_decode.induct) (auto split: option.splits)

lemma hex_decode_Some_iff:
  "(\<exists>t. hex_decode s = Some t) \<longleftrightarrow> even (length s) \<and> (\<forall>c \<in> set s. hex_val c \<noteq> None)"
  by (induction s rule: hex_decode.induct) (auto split: option.splits)

lemma hex_digit_val_lower: "is_lower_hex c \<Longrightarrow> hex_val c = Some n \<Longrightarrow> hex_digit n = c"
  by (auto simp: is_lower_hex_def hex_val_def hex_digit_def Let_def split: if_splits)

lemma hex_encode_decode:
  "hex_decode s = Some t \<Longrightarrow> \<forall>c \<in> set s. is_lower_hex c \<Longrightarrow> hex_encode t = s"
proof (induction s arbitrary: t rule: hex_decode.induct)
  case (3 a b s)
  then obtain x y t' where v: "hex_val a = Some x" "hex_val b = Some y" "hex_decode s = Some t'"
      "t = chr (16 * x + y) # t'"
    by (auto split: option.splits)
  then have "x < 16" "y < 16" by (auto dest: hex_val_less)
  then have "ord (chr (16 * x + y)) = 16 * x + y" by simp
  with 3 v \<open>y < 16\<close> show ?case
    by (simp add: hex_encode_Cons hex_digit_val_lower)
qed (auto simp: hex_encode_def)

section \<open>Base64\<close>

text \<open>The alphabet \<open>A..Z a..z 0..9 + /\<close>, by position.\<close>

definition b64_char :: "nat \<Rightarrow> char" where
  "b64_char n = (if n < 26 then chr (65 + n) else if n < 52 then chr (71 + n)
     else if n < 62 then chr (n - 4) else if n = 62 then CHR ''+'' else CHR ''/'')"

definition b64_val :: "char \<Rightarrow> nat option" where
  "b64_val c = (let n = ord c in
     if 65 \<le> n \<and> n \<le> 90 then Some (n - 65)
     else if 97 \<le> n \<and> n \<le> 122 then Some (n - 71)
     else if 48 \<le> n \<and> n \<le> 57 then Some (n + 4)
     else if n = 43 then Some 62 else if n = 47 then Some 63 else None)"

fun b64_encode :: "string \<Rightarrow> string" where
  "b64_encode [] = []"
| "b64_encode [a] = [b64_char (ord a div 4), b64_char (ord a mod 4 * 16), CHR ''='', CHR ''='']"
| "b64_encode [a, b] =
     [b64_char (ord a div 4), b64_char (ord a mod 4 * 16 + ord b div 16),
      b64_char (ord b mod 16 * 4), CHR ''='']"
| "b64_encode (a # b # c # s) =
     b64_char (ord a div 4) # b64_char (ord a mod 4 * 16 + ord b div 16) #
     b64_char (ord b mod 16 * 4 + ord c div 64) # b64_char (ord c mod 64) # b64_encode s"

text \<open>
  One decoder for the three encodings: \<open>padded\<close> is \<open>StdEncoding\<close> (with \<open>strict\<close> for
  \<open>StdEncoding.Strict()\<close>, which refuses non-zero trailing bits), and not \<open>padded\<close> is
  \<open>RawStdEncoding\<close>. Newlines are ignored wherever they stand.
\<close>

fun b64_groups :: "bool \<Rightarrow> bool \<Rightarrow> string \<Rightarrow> string option" where
  "b64_groups padded strict [] = Some []"
| "b64_groups padded strict [_] = None"
| "b64_groups padded strict [a, b] = (if padded then None else
     (case (b64_val a, b64_val b) of
        (Some x, Some y) \<Rightarrow> if strict \<and> y mod 16 \<noteq> 0 then None else Some [chr (x * 4 + y div 16)]
      | _ \<Rightarrow> None))"
| "b64_groups padded strict [a, b, c] = (if padded then None else
     (case (b64_val a, b64_val b, b64_val c) of
        (Some x, Some y, Some z) \<Rightarrow> if strict \<and> z mod 4 \<noteq> 0 then None
          else Some [chr (x * 4 + y div 16), chr (y mod 16 * 16 + z div 4)]
      | _ \<Rightarrow> None))"
| "b64_groups padded strict (a # b # c # d # s) =
     (case (b64_val a, b64_val b) of
        (Some x, Some y) \<Rightarrow>
          (case (b64_val c, b64_val d) of
             (Some z, Some w) \<Rightarrow>
               map_option (\<lambda>t. chr (x * 4 + y div 16) # chr (y mod 16 * 16 + z div 4) #
                 chr (z mod 4 * 64 + w) # t) (b64_groups padded strict s)
           | (Some z, None) \<Rightarrow>
               if padded \<and> d = CHR ''='' \<and> s = [] \<and> \<not> (strict \<and> z mod 4 \<noteq> 0)
               then Some [chr (x * 4 + y div 16), chr (y mod 16 * 16 + z div 4)] else None
           | (None, _) \<Rightarrow>
               if padded \<and> c = CHR ''='' \<and> d = CHR ''='' \<and> s = [] \<and> \<not> (strict \<and> y mod 16 \<noteq> 0)
               then Some [chr (x * 4 + y div 16)] else None)
      | _ \<Rightarrow> None)"

definition strip_newlines :: "string \<Rightarrow> string" where
  "strip_newlines s = filter (\<lambda>c. c \<noteq> CHR 0x0A \<and> c \<noteq> CHR 0x0D) s"

definition b64_std_decode :: "string \<Rightarrow> string option" where
  "b64_std_decode s = b64_groups True False (strip_newlines s)"

definition b64_strict_decode :: "string \<Rightarrow> string option" where
  "b64_strict_decode s = b64_groups True True (strip_newlines s)"

definition b64_raw_decode :: "string \<Rightarrow> string option" where
  "b64_raw_decode s = b64_groups False False (strip_newlines s)"

lemma b64_val_char [simp]: "n < 64 \<Longrightarrow> b64_val (b64_char n) = Some n"
  by (auto simp: b64_val_def b64_char_def Let_def)

lemma b64_val_less: "b64_val c = Some n \<Longrightarrow> n < 64"
  by (auto simp: b64_val_def Let_def split: if_splits)

lemma b64_val_pad [simp]: "b64_val (CHR ''='') = None"
  by code_simp

definition is_b64 :: "char \<Rightarrow> bool" where
  "is_b64 c \<longleftrightarrow> b64_val c \<noteq> None \<or> c = CHR ''=''"

lemma b64_bounds [simp]:
  "ord a div 4 < 64" "ord a mod 4 * 16 + ord b div 16 < 64" "ord a mod 16 * 4 + ord b div 64 < 64"
  "ord a mod 4 * 16 < 64" "ord a mod 16 * 4 < 64"
  using ord_less_256 [of a] ord_less_256 [of b] by linarith+

lemma b64_bounds_mod: "ord a mod 64 < 64"
  by simp

lemma b64_encode_chars: "c \<in> set (b64_encode s) \<Longrightarrow> is_b64 c"
  by (induction s rule: b64_encode.induct) (auto simp: is_b64_def)

lemma is_b64_not_newline: "is_b64 c \<Longrightarrow> c \<noteq> CHR 0x0A \<and> c \<noteq> CHR 0x0D"
  by (auto simp: is_b64_def b64_val_def)

lemma strip_newlines_b64: "strip_newlines (b64_encode s) = b64_encode s"
  unfolding strip_newlines_def
  by (rule filter_True) (blast dest: b64_encode_chars is_b64_not_newline)

lemma quot_rem:
  fixes q r n :: nat
  assumes "r < n"
  shows "(q * n + r) div n = q" and "(q * n + r) mod n = r"
  using assms by simp_all

lemma ord_quot: "ord a div 16 < 16" "ord a div 64 < 4"
  using ord_less_256 [of a] by linarith+

lemmas join_bits = quot_rem [OF ord_quot(1)] quot_rem [OF ord_quot(2)]

lemma regroup:
  "ord a div 4 * 4 + (ord a mod 4 * 16 + ord b div 16) div 16 = ord a"
  "(ord a mod 4 * 16 + ord b div 16) mod 16 * 16 + (ord b mod 16 * 4 + ord c div 64) div 4 = ord b"
  "(ord b mod 16 * 4 + ord c div 64) mod 4 * 64 + ord c mod 64 = ord c"
  "ord a div 4 * 4 + ord a mod 4 * 16 div 16 = ord a"
  "(ord a mod 4 * 16 + ord b div 16) mod 16 * 16 + ord b mod 16 * 4 div 4 = ord b"
  by (simp_all only: join_bits nonzero_mult_div_cancel_right div_mult_mod_eq
      zero_neq_numeral [symmetric] not_False_eq_True)

lemma b64_groups_encode: "b64_groups True strict (b64_encode s) = Some s"
proof (induction s rule: b64_encode.induct)
  case (4 a b c s)
  then show ?case
    by (simp only: b64_encode.simps b64_groups.simps b64_val_char b64_bounds b64_bounds_mod
      prod.case option.case option.map regroup char_of_char)
qed (simp_all only: b64_encode.simps b64_groups.simps b64_val_char b64_bounds b64_val_pad
  prod.case option.case regroup char_of_char, simp_all)

lemma b64_std_decode_encode: "b64_std_decode (b64_encode s) = Some s"
  by (simp add: b64_std_decode_def strip_newlines_b64 b64_groups_encode)

lemma b64_strict_decode_encode: "b64_strict_decode (b64_encode s) = Some s"
  by (simp add: b64_strict_decode_def strip_newlines_b64 b64_groups_encode)

lemma b64_encode_nonempty: "s \<noteq> [] \<Longrightarrow> b64_encode s \<noteq> []"
  by (cases s rule: b64_encode.cases) auto

section \<open>SHA-256\<close>

definition sha256_k :: "32 word list" where
  "sha256_k = [
    0x428A2F98, 0x71374491, 0xB5C0FBCF, 0xE9B5DBA5, 0x3956C25B, 0x59F111F1, 0x923F82A4, 0xAB1C5ED5,
    0xD807AA98, 0x12835B01, 0x243185BE, 0x550C7DC3, 0x72BE5D74, 0x80DEB1FE, 0x9BDC06A7, 0xC19BF174,
    0xE49B69C1, 0xEFBE4786, 0x0FC19DC6, 0x240CA1CC, 0x2DE92C6F, 0x4A7484AA, 0x5CB0A9DC, 0x76F988DA,
    0x983E5152, 0xA831C66D, 0xB00327C8, 0xBF597FC7, 0xC6E00BF3, 0xD5A79147, 0x06CA6351, 0x14292967,
    0x27B70A85, 0x2E1B2138, 0x4D2C6DFC, 0x53380D13, 0x650A7354, 0x766A0ABB, 0x81C2C92E, 0x92722C85,
    0xA2BFE8A1, 0xA81A664B, 0xC24B8B70, 0xC76C51A3, 0xD192E819, 0xD6990624, 0xF40E3585, 0x106AA070,
    0x19A4C116, 0x1E376C08, 0x2748774C, 0x34B0BCB5, 0x391C0CB3, 0x4ED8AA4A, 0x5B9CCA4F, 0x682E6FF3,
    0x748F82EE, 0x78A5636F, 0x84C87814, 0x8CC70208, 0x90BEFFFA, 0xA4506CEB, 0xBEF9A3F7, 0xC67178F2]"

definition sha256_init :: "32 word list" where
  "sha256_init = [
    0x6A09E667, 0xBB67AE85, 0x3C6EF372, 0xA54FF53A, 0x510E527F, 0x9B05688C, 0x1F83D9AB, 0x5BE0CD19]"

definition word_of_bytes :: "char list \<Rightarrow> 32 word" where
  "word_of_bytes bs = foldl (\<lambda>w c. push_bit 8 w OR of_nat (ord c)) 0 bs"

definition bytes_of_word :: "32 word \<Rightarrow> string" where
  "bytes_of_word w = map (\<lambda>k. chr (unat (drop_bit k w AND 255))) [24, 16, 8, 0]"

definition bytes_of_nat64 :: "nat \<Rightarrow> string" where
  "bytes_of_nat64 n = map (\<lambda>k. chr (n div 2 ^ k mod 256)) [56, 48, 40, 32, 24, 16, 8, 0]"

definition sha256_pad :: "string \<Rightarrow> string" where
  "sha256_pad m = m @ CHR 0x80 # replicate ((119 - length m mod 64) mod 64) (CHR 0x00) @
     bytes_of_nat64 (8 * length m)"

fun chunks :: "nat \<Rightarrow> 'a list \<Rightarrow> 'a list list" where
  "chunks n [] = []"
| "chunks n (x # xs) = (if n = 0 then [] else take n (x # xs) # chunks n (drop n (x # xs)))"

text \<open>The message schedule is kept newest word first.\<close>

fun sha256_extend :: "nat \<Rightarrow> 32 word list \<Rightarrow> 32 word list" where
  "sha256_extend 0 ws = ws"
| "sha256_extend (Suc n) ws =
     (let x = ws ! 14; y = ws ! 1;
          s0 = word_rotr 7 x XOR word_rotr 18 x XOR drop_bit 3 x;
          s1 = word_rotr 17 y XOR word_rotr 19 y XOR drop_bit 10 y
      in sha256_extend n ((ws ! 15 + s0 + ws ! 6 + s1) # ws))"

fun sha256_round :: "32 word list \<Rightarrow> 32 word \<times> 32 word \<Rightarrow> 32 word list" where
  "sha256_round [a, b, c, d, e, f, g, h] (k, w) =
     (let s1 = word_rotr 6 e XOR word_rotr 11 e XOR word_rotr 25 e;
          ch = (e AND f) XOR (NOT e AND g);
          t1 = h + s1 + ch + k + w;
          s0 = word_rotr 2 a XOR word_rotr 13 a XOR word_rotr 22 a;
          maj = (a AND b) XOR (a AND c) XOR (b AND c)
      in [t1 + (s0 + maj), a, b, c, d + t1, e, f, g])"
| "sha256_round st _ = st"

definition sha256_block :: "32 word list \<Rightarrow> string \<Rightarrow> 32 word list" where
  "sha256_block st block =
     (let ws = rev (sha256_extend 48 (rev (map word_of_bytes (chunks 4 block))))
      in map2 (+) st (foldl sha256_round st (zip sha256_k ws)))"

definition sha256 :: "string \<Rightarrow> string" where
  "sha256 m = concat (map bytes_of_word (foldl sha256_block sha256_init (chunks 64 (sha256_pad m))))"

lemma length_sha256_round: "length (sha256_round st kw) = length st"
  by (induction st kw rule: sha256_round.induct) (auto simp: Let_def)

lemma length_foldl_keeps:
  "(\<And>st x. length (f st x) = length st) \<Longrightarrow> length (foldl f st xs) = length st"
  by (induction xs arbitrary: st) auto

lemma length_sha256_block: "length (sha256_block st b) = length st"
  by (simp add: sha256_block_def Let_def length_foldl_keeps length_sha256_round)

lemma length_sha256 [simp]: "length (sha256 m) = 32"
proof -
  have "length (foldl sha256_block sha256_init bs) = 8" for bs
    by (simp add: length_foldl_keeps length_sha256_block sha256_init_def)
  then show ?thesis
    by (simp add: sha256_def length_concat o_def bytes_of_word_def sum_list_triv)
qed

section \<open>HMAC\<close>

definition hmac_key :: "string \<Rightarrow> string" where
  "hmac_key k = (let k' = (if length k > 64 then sha256 k else k)
     in k' @ replicate (64 - length k') (CHR 0x00))"

definition xor_bytes :: "nat \<Rightarrow> string \<Rightarrow> string" where
  "xor_bytes b s = map (\<lambda>c. chr (ord c XOR b)) s"

definition hmac_sha256 :: "string \<Rightarrow> string \<Rightarrow> string" where
  "hmac_sha256 key msg =
     sha256 (xor_bytes 92 (hmac_key key) @ sha256 (xor_bytes 54 (hmac_key key) @ msg))"

lemma length_hmac_sha256 [simp]: "length (hmac_sha256 k m) = 32"
  by (simp add: hmac_sha256_def)

end
