(* ===== verification/Regex.thy ===== *)
theory Regex
  imports Go_Strings
begin

text \<open>
  Regular expressions for the patterns the SDK compiles with \<open>regexp.MustCompile\<close>. A
  pattern of the form \<open>^...$\<close> (without the multi-line flag) matches a string exactly
  when the whole string is in the language of the expression between the anchors.
  \<open>re_match\<close> decides that by Brzozowski derivatives, so every pattern is executable;
  \<open>lang\<close> is its meaning, and the lemmas here read facts about a matched string off the
  pattern.

  Go matches runes and the development's strings are bytes. Every pattern modelled here
  either names ASCII characters only, or uses a negated class or \<open>.\<close> only under \<open>+\<close> or
  \<open>*\<close>: then each byte of a multi-byte character is in the class too, and the byte-wise
  language is the language of the pattern.
\<close>

datatype re =
    RZero
  | ROne
  | RCls "(char \<times> char) list"
  | RNeg "(char \<times> char) list"
  | RSeq re re
  | RAlt re re
  | RStar re

definition in_cls :: "(char \<times> char) list \<Rightarrow> char \<Rightarrow> bool" where
  "in_cls rs c \<longleftrightarrow> list_ex (\<lambda>(lo, hi). ord lo \<le> ord c \<and> ord c \<le> ord hi) rs"

fun nullable :: "re \<Rightarrow> bool" where
  "nullable RZero = False"
| "nullable ROne = True"
| "nullable (RCls rs) = False"
| "nullable (RNeg rs) = False"
| "nullable (RSeq r s) = (nullable r \<and> nullable s)"
| "nullable (RAlt r s) = (nullable r \<or> nullable s)"
| "nullable (RStar r) = True"

fun mk_seq :: "re \<Rightarrow> re \<Rightarrow> re" where
  "mk_seq RZero s = RZero"
| "mk_seq ROne s = s"
| "mk_seq r s = RSeq r s"

fun mk_alt :: "re \<Rightarrow> re \<Rightarrow> re" where
  "mk_alt RZero s = s"
| "mk_alt r RZero = r"
| "mk_alt r s = RAlt r s"

fun re_deriv :: "char \<Rightarrow> re \<Rightarrow> re" where
  "re_deriv c RZero = RZero"
| "re_deriv c ROne = RZero"
| "re_deriv c (RCls rs) = (if in_cls rs c then ROne else RZero)"
| "re_deriv c (RNeg rs) = (if in_cls rs c then RZero else ROne)"
| "re_deriv c (RSeq r s) =
     (if nullable r then mk_alt (mk_seq (re_deriv c r) s) (re_deriv c s)
      else mk_seq (re_deriv c r) s)"
| "re_deriv c (RAlt r s) = mk_alt (re_deriv c r) (re_deriv c s)"
| "re_deriv c (RStar r) = mk_seq (re_deriv c r) (RStar r)"

fun re_match :: "re \<Rightarrow> string \<Rightarrow> bool" where
  "re_match r [] = nullable r"
| "re_match r (c # s) = re_match (re_deriv c r) s"

subsection \<open>Derived forms, as the pattern syntax has them\<close>

definition rchr :: "char \<Rightarrow> re" where
  "rchr c = RCls [(c, c)]"

definition rplus :: "re \<Rightarrow> re" where
  "rplus r = RSeq r (RStar r)"

definition ropt :: "re \<Rightarrow> re" where
  "ropt r = RAlt r ROne"

fun rlit :: "string \<Rightarrow> re" where
  "rlit [] = ROne"
| "rlit (c # s) = RSeq (rchr c) (rlit s)"

fun rrep :: "nat \<Rightarrow> re \<Rightarrow> re" where
  "rrep 0 r = ROne"
| "rrep (Suc n) r = RSeq r (rrep n r)"

text \<open>\<open>r{0,n}\<close>\<close>

fun rupto :: "nat \<Rightarrow> re \<Rightarrow> re" where
  "rupto 0 r = ROne"
| "rupto (Suc n) r = RAlt ROne (RSeq r (rupto n r))"

fun rseqs :: "re list \<Rightarrow> re" where
  "rseqs [] = ROne"
| "rseqs (r # rs) = RSeq r (rseqs rs)"

subsection \<open>Meaning\<close>

inductive_set star_lang :: "string set \<Rightarrow> string set" for L where
  star_Nil: "[] \<in> star_lang L"
| star_append: "s \<in> L \<Longrightarrow> t \<in> star_lang L \<Longrightarrow> s @ t \<in> star_lang L"

fun lang :: "re \<Rightarrow> string set" where
  "lang RZero = {}"
| "lang ROne = {[]}"
| "lang (RCls rs) = {[c] | c. in_cls rs c}"
| "lang (RNeg rs) = {[c] | c. \<not> in_cls rs c}"
| "lang (RSeq r s) = {u @ v | u v. u \<in> lang r \<and> v \<in> lang s}"
| "lang (RAlt r s) = lang r \<union> lang s"
| "lang (RStar r) = star_lang (lang r)"

lemma nullable_iff: "nullable r \<longleftrightarrow> [] \<in> lang r"
  by (induction r) (auto intro: star_lang.intros)

lemma lang_mk_seq [simp]: "lang (mk_seq r s) = lang (RSeq r s)"
  by (cases r) auto

lemma lang_mk_alt [simp]: "lang (mk_alt r s) = lang (RAlt r s)"
  by (cases r; cases s) auto

lemma star_lang_Cons:
  "c # s \<in> star_lang L \<longleftrightarrow> (\<exists>u v. s = u @ v \<and> c # u \<in> L \<and> v \<in> star_lang L)"
proof
  assume "c # s \<in> star_lang L"
  then show "\<exists>u v. s = u @ v \<and> c # u \<in> L \<and> v \<in> star_lang L"
  proof (induction "c # s" arbitrary: s)
    case (star_append u t)
    then show ?case by (cases u) auto
  qed
next
  assume "\<exists>u v. s = u @ v \<and> c # u \<in> L \<and> v \<in> star_lang L"
  then show "c # s \<in> star_lang L"
    using star_lang.star_append by (metis append_Cons)
qed

lemma lang_re_deriv: "s \<in> lang (re_deriv c r) \<longleftrightarrow> c # s \<in> lang r"
proof (induction r arbitrary: s)
  case (RSeq r1 r2)
  have "c # s \<in> lang (RSeq r1 r2) \<longleftrightarrow>
      (\<exists>u v. s = u @ v \<and> c # u \<in> lang r1 \<and> v \<in> lang r2) \<or> ([] \<in> lang r1 \<and> c # s \<in> lang r2)"
    unfolding lang.simps mem_Collect_eq Cons_eq_append_conv by blast
  moreover have "s \<in> lang (re_deriv c (RSeq r1 r2)) \<longleftrightarrow>
      (\<exists>u v. s = u @ v \<and> c # u \<in> lang r1 \<and> v \<in> lang r2) \<or> ([] \<in> lang r1 \<and> c # s \<in> lang r2)"
    using RSeq by (auto simp: nullable_iff)
  ultimately show ?case by blast
next
  case (RStar r)
  then show ?case by (auto simp: star_lang_Cons)
qed auto

lemma re_match_lang: "re_match r s \<longleftrightarrow> s \<in> lang r"
  by (induction s arbitrary: r) (auto simp: nullable_iff lang_re_deriv)

subsection \<open>Reading a pattern\<close>

lemma lang_rchr [re_simps]: "s \<in> lang (rchr c) \<longleftrightarrow> s = [c]"
proof -
  have "ord d = ord c \<longleftrightarrow> d = c" for d
    by (simp add: of_char_eq_iff)
  then show ?thesis
    by (auto simp: rchr_def in_cls_def order_antisym)
qed

lemma lang_rlit [re_simps]: "s \<in> lang (rlit l) \<longleftrightarrow> s = l"
  by (induction l arbitrary: s) (auto simp: lang_rchr)

lemma lang_seq [re_simps]: "s \<in> lang (RSeq p q) \<longleftrightarrow> (\<exists>u v. s = u @ v \<and> u \<in> lang p \<and> v \<in> lang q)"
  by auto

lemma lang_alt [re_simps]: "s \<in> lang (RAlt p q) \<longleftrightarrow> s \<in> lang p \<or> s \<in> lang q"
  by auto

lemma lang_ropt [re_simps]: "s \<in> lang (ropt r) \<longleftrightarrow> s = [] \<or> s \<in> lang r"
  by (auto simp: ropt_def)

lemma lang_one [re_simps]: "s \<in> lang ROne \<longleftrightarrow> s = []"
  by auto

text \<open>A starred class matches the strings whose characters are all in the class.\<close>

definition char_lang :: "(char \<Rightarrow> bool) \<Rightarrow> re \<Rightarrow> bool" where
  "char_lang P r \<longleftrightarrow> lang r = {[c] | c. P c}"

lemma lang_seq_mono: "lang p \<subseteq> lang p' \<Longrightarrow> lang q \<subseteq> lang q' \<Longrightarrow> lang (RSeq p q) \<subseteq> lang (RSeq p' q')"
  unfolding subset_iff lang_seq by blast

lemma lang_seq_chars:
  assumes "char_lang P r"
  shows "s \<in> lang (RSeq r q) \<longleftrightarrow> (\<exists>c t. s = c # t \<and> P c \<and> t \<in> lang q)"
proof -
  have "s \<in> lang (RSeq r q) \<longleftrightarrow> (\<exists>u v. s = u @ v \<and> (\<exists>c. u = [c] \<and> P c) \<and> v \<in> lang q)"
    using assms by (simp add: char_lang_def)
  also have "\<dots> \<longleftrightarrow> (\<exists>c t. s = [c] @ t \<and> P c \<and> t \<in> lang q)"
    by blast
  finally show ?thesis by simp
qed

lemma char_lang_cls: "char_lang (in_cls rs) (RCls rs)"
  by (simp add: char_lang_def)

lemma char_lang_neg: "char_lang (\<lambda>c. \<not> in_cls rs c) (RNeg rs)"
  by (simp add: char_lang_def)

lemma star_chars: "s \<in> star_lang {[c] | c. P c} \<longleftrightarrow> (\<forall>c \<in> set s. P c)"
proof
  assume "s \<in> star_lang {[c] | c. P c}"
  then show "\<forall>c \<in> set s. P c" by induction auto
next
  assume "\<forall>c \<in> set s. P c"
  then show "s \<in> star_lang {[c] | c. P c}"
    by (induction s) (auto simp: star_lang_Cons intro: star_lang.star_Nil)
qed

lemma lang_star_chars: "char_lang P r \<Longrightarrow> s \<in> lang (RStar r) \<longleftrightarrow> (\<forall>c \<in> set s. P c)"
  by (simp add: char_lang_def star_chars)

lemma lang_plus_chars:
  assumes "char_lang P r"
  shows "s \<in> lang (rplus r) \<longleftrightarrow> s \<noteq> [] \<and> (\<forall>c \<in> set s. P c)"
  unfolding rplus_def lang_seq_chars [OF assms] lang_star_chars [OF assms]
  by (cases s) auto

lemma lang_rep_chars:
  assumes "char_lang P r"
  shows "s \<in> lang (rrep n r) \<longleftrightarrow> length s = n \<and> (\<forall>c \<in> set s. P c)"
proof (induction n arbitrary: s)
  case (Suc n)
  then show ?case
    unfolding rrep.simps lang_seq_chars [OF assms] by (cases s) auto
qed auto

lemma lang_upto_chars:
  assumes "char_lang P r"
  shows "s \<in> lang (rupto n r) \<longleftrightarrow> length s \<le> n \<and> (\<forall>c \<in> set s. P c)"
proof (induction n arbitrary: s)
  case (Suc n)
  then show ?case
    unfolding rupto.simps lang_alt lang_one lang_seq_chars [OF assms] by (cases s) auto
qed auto

lemma lang_cls [re_simps]: "s \<in> lang (RCls rs) \<longleftrightarrow> (\<exists>c. s = [c] \<and> in_cls rs c)"
  by auto

lemma lang_star_cls [re_simps]: "s \<in> lang (RStar (RCls rs)) \<longleftrightarrow> (\<forall>c \<in> set s. in_cls rs c)"
  by (rule lang_star_chars [OF char_lang_cls])

lemma lang_plus_cls [re_simps]: "s \<in> lang (rplus (RCls rs)) \<longleftrightarrow> s \<noteq> [] \<and> (\<forall>c \<in> set s. in_cls rs c)"
  by (rule lang_plus_chars [OF char_lang_cls])

lemma lang_rep_cls [re_simps]: "s \<in> lang (rrep n (RCls rs)) \<longleftrightarrow> length s = n \<and> (\<forall>c \<in> set s. in_cls rs c)"
  by (rule lang_rep_chars [OF char_lang_cls])

lemma lang_upto_cls [re_simps]: "s \<in> lang (rupto n (RCls rs)) \<longleftrightarrow> length s \<le> n \<and> (\<forall>c \<in> set s. in_cls rs c)"
  by (rule lang_upto_chars [OF char_lang_cls])

lemma lang_plus_neg [re_simps]: "s \<in> lang (rplus (RNeg rs)) \<longleftrightarrow> s \<noteq> [] \<and> (\<forall>c \<in> set s. \<not> in_cls rs c)"
  by (rule lang_plus_chars [OF char_lang_neg])

lemma lang_star_neg [re_simps]: "s \<in> lang (RStar (RNeg rs)) \<longleftrightarrow> (\<forall>c \<in> set s. \<not> in_cls rs c)"
  by (rule lang_star_chars [OF char_lang_neg])

subsection \<open>Classes and patterns several components share\<close>

definition digit_cls :: "(char \<times> char) list" where
  "digit_cls = [(CHR ''0'', CHR ''9'')]"

definition lower_hex_cls :: "(char \<times> char) list" where
  "lower_hex_cls = [(CHR ''0'', CHR ''9''), (CHR ''a'', CHR ''f'')]"

definition hex_cls :: "(char \<times> char) list" where
  "hex_cls = [(CHR ''0'', CHR ''9''), (CHR ''a'', CHR ''f''), (CHR ''A'', CHR ''F'')]"

text \<open>\<open>\s\<close> of Go's regular expressions: tab, newline, form feed, carriage return, space.\<close>

definition space_cls :: "(char \<times> char) list" where
  "space_cls = [(CHR 0x09, CHR 0x0A), (CHR 0x0C, CHR 0x0D), (CHR '' '', CHR '' '')]"

definition uuid_re :: "(char \<times> char) list \<Rightarrow> re" where
  "uuid_re cls = rseqs [rrep 8 (RCls cls), rchr (CHR ''-''), rrep 4 (RCls cls), rchr (CHR ''-''),
     rrep 4 (RCls cls), rchr (CHR ''-''), rrep 4 (RCls cls), rchr (CHR ''-''), rrep 12 (RCls cls)]"

lemma in_cls_simps: "in_cls [] c = False"
  "in_cls ((lo, hi) # rs) c \<longleftrightarrow> ord lo \<le> ord c \<and> ord c \<le> ord hi \<or> in_cls rs c"
  by (auto simp: in_cls_def)

lemma in_hex_cls:
  "in_cls hex_cls c \<longleftrightarrow> (48 \<le> ord c \<and> ord c \<le> 57) \<or> (97 \<le> ord c \<and> ord c \<le> 102) \<or> (65 \<le> ord c \<and> ord c \<le> 70)"
  by (simp add: hex_cls_def in_cls_simps)

lemma in_lower_hex_cls:
  "in_cls lower_hex_cls c \<longleftrightarrow> (48 \<le> ord c \<and> ord c \<le> 57) \<or> (97 \<le> ord c \<and> ord c \<le> 102)"
  by (simp add: lower_hex_cls_def in_cls_simps)

lemma in_digit_cls: "in_cls digit_cls c \<longleftrightarrow> 48 \<le> ord c \<and> ord c \<le> 57"
  by (simp add: digit_cls_def in_cls_simps)

lemma in_space_cls: "in_cls space_cls c \<longleftrightarrow> ord c = 9 \<or> ord c = 10 \<or> ord c = 12 \<or> ord c = 13 \<or> ord c = 32"
  by (auto simp: space_cls_def in_cls_simps)

lemma uuid_re_length: "re_match (uuid_re cls) s \<Longrightarrow> length s = 36"
  by (auto simp: re_match_lang uuid_re_def lang_rep_cls lang_rchr simp del: rrep.simps)

lemma uuid_re_chars: "re_match (uuid_re cls) s \<Longrightarrow> c \<in> set s \<Longrightarrow> in_cls cls c \<or> c = CHR ''-''"
  by (auto simp: re_match_lang uuid_re_def lang_rep_cls lang_rchr simp del: rrep.simps)

end
