(* ===== verification/Go_Json.thy ===== *)
theory Go_Json
  imports Go_Utf8 Go_Value Go_Crypto Regex
begin

text \<open>
  Go's \<open>encoding/json\<close> as the SDK uses it: the syntax check and the values of a document,
  numbers kept as their literals or read as \<open>float64\<close> and \<open>int64\<close>, decoding into structs
  with the field matching and the merging of repeated members that package does, and
  \<open>json.Marshal\<close> of values. A struct decoder changes an existing value and answers \<open>None\<close>
  for an error.
\<close>

datatype json =
    JNull
  | JBool bool
  | JNum string
  | JStr string
  | JArr "json list"
  | JObj "(string \<times> json) list"

section \<open>Tokens\<close>

datatype jtok = TOpenObj | TCloseObj | TOpenArr | TCloseArr | TColon | TComma
  | TNull | TBool bool | TNum string | TStr string

definition json_ws :: "char \<Rightarrow> bool" where
  "json_ws c \<longleftrightarrow> ord c \<in> {9, 10, 13, 32}"

definition json_number_re :: re where
  "json_number_re = rseqs [ropt (rchr (CHR ''-'')),
     RAlt (rchr (CHR ''0'')) (RSeq (RCls [(CHR ''1'', CHR ''9'')]) (RStar (RCls digit_cls))),
     ropt (RSeq (rchr (CHR ''.'')) (rplus (RCls digit_cls))),
     ropt (rseqs [RCls [(CHR ''e'', CHR ''e''), (CHR ''E'', CHR ''E'')],
        ropt (RCls [(CHR ''+'', CHR ''+''), (CHR ''-'', CHR ''-'')]), rplus (RCls digit_cls)])]"

definition is_json_number :: "string \<Rightarrow> bool" where
  "is_json_number s = re_match json_number_re s"

definition number_char :: "char \<Rightarrow> bool" where
  "number_char c \<longleftrightarrow> is_digit c \<or> c \<in> {CHR ''+'', CHR ''-'', CHR ''.'', CHR ''e'', CHR ''E''}"

text \<open>The four digits after \<open>backslash u\<close>.\<close>

definition hex4 :: "string \<Rightarrow> nat option" where
  "hex4 s = (case map hex_val s of
     [Some a, Some b, Some c, Some d] \<Rightarrow> Some (((a * 16 + b) * 16 + c) * 16 + d) | _ \<Rightarrow> None)"

definition unescape_char :: "char \<Rightarrow> char option" where
  "unescape_char c = map_of [(CHR 0x22, CHR 0x22), (CHR 0x5C, CHR 0x5C), (CHR ''/'', CHR ''/''),
     (CHR ''b'', CHR 0x08), (CHR ''f'', CHR 0x0C), (CHR ''n'', CHR 0x0A), (CHR ''r'', CHR 0x0D),
     (CHR ''t'', CHR 0x09)] c"

definition high_surrogate :: "nat \<Rightarrow> bool" where "high_surrogate r \<longleftrightarrow> 55296 \<le> r \<and> r < 56320"
definition low_surrogate :: "nat \<Rightarrow> bool" where "low_surrogate r \<longleftrightarrow> 56320 \<le> r \<and> r < 57344"

text \<open>
  The rune an escape \<open>r\<close> stands for, given the text after it, and how much of that text it
  uses: a surrogate pair uses the second escape, any other surrogate is U+FFFD.
\<close>

definition escape_rune :: "nat \<Rightarrow> string \<Rightarrow> nat \<times> nat" where
  "escape_rune r s =
     (if high_surrogate r \<or> low_surrogate r then
        (case hex4 (take 4 (drop 2 s)) of
           None \<Rightarrow> (rune_error, 0)
         | Some r2 \<Rightarrow> if take 2 s = [CHR 0x5C, CHR ''u''] \<and> high_surrogate r \<and> low_surrogate r2
             then (65536 + (r - 55296) * 1024 + (r2 - 56320), 6) else (rune_error, 0))
      else (r, 0))"

text \<open>The text of a string after its opening quote: its value and what follows the closing one.\<close>

function json_string :: "string \<Rightarrow> (string \<times> string) option" where
  "json_string s = (case s of [] \<Rightarrow> None | c # t \<Rightarrow>
     if c = CHR 0x22 then Some ([], t)
     else if ord c < 32 then None
     else if c = CHR 0x5C then
       (case t of [] \<Rightarrow> None | e # u \<Rightarrow>
          if e = CHR ''u'' then
            (case hex4 (take 4 u) of None \<Rightarrow> None | Some r \<Rightarrow>
               let (v, n) = escape_rune r (drop 4 u)
               in map_option (apfst ((@) (encode_rune v))) (json_string (drop n (drop 4 u))))
          else (case unescape_char e of None \<Rightarrow> None
                | Some x \<Rightarrow> map_option (apfst (Cons x)) (json_string u)))
     else let (r, n) = decode_rune s
          in map_option (apfst ((@) (encode_rune r))) (json_string (drop n s)))"
  by pat_completeness auto
termination
proof (relation "measure length", goal_cases)
  case (4 s c t p r n)
  then show ?case using decode_rune_progress [of s] by (cases "decode_rune s") auto
qed auto

declare json_string.simps [simp del]

definition lit_tokens :: "(string \<times> jtok) list" where
  "lit_tokens = [(''null'', TNull), (''true'', TBool True), (''false'', TBool False)]"

definition punct_tokens :: "(char \<times> jtok) list" where
  "punct_tokens = [(CHR 0x7B, TOpenObj), (CHR 0x7D, TCloseObj), (CHR 0x5B, TOpenArr), (CHR 0x5D, TCloseArr),
     (CHR '':'', TColon), (CHR '','', TComma)]"

text \<open>
  The number at the start of a text, and what follows it. The scanner never goes back, so a
  fraction or an exponent that starts and does not end is an error.
\<close>

definition number_goes_on :: "string \<Rightarrow> string \<Rightarrow> bool" where
  "number_goes_on p r = (case r of [] \<Rightarrow> False | c # _ \<Rightarrow>
     CHR ''e'' \<notin> set p \<and> CHR ''E'' \<notin> set p \<and>
     (c \<in> {CHR ''e'', CHR ''E''} \<or> (c = CHR ''.'' \<and> CHR ''.'' \<notin> set p)))"

definition scan_number :: "string \<Rightarrow> (string \<times> string) option" where
  "scan_number s = (case find (\<lambda>k. is_json_number (take k s)) (rev [1..<Suc (length (takeWhile number_char s))]) of
     None \<Rightarrow> None
   | Some k \<Rightarrow> if number_goes_on (take k s) (drop k s) then None else Some (take k s, drop k s))"

text \<open>The first token of a text that does not start with white space.\<close>

definition next_token :: "string \<Rightarrow> (jtok \<times> string) option" where
  "next_token s = (case s of [] \<Rightarrow> None | c # t \<Rightarrow>
     (case map_of punct_tokens c of Some k \<Rightarrow> Some (k, t) | None \<Rightarrow>
      if c = CHR 0x22 then map_option (apfst TStr) (json_string t)
      else if number_char c then map_option (apfst TNum) (scan_number s)
      else (case find (\<lambda>(w, k). has_prefix s w) lit_tokens of
              None \<Rightarrow> None | Some (w, k) \<Rightarrow> Some (k, drop (length w) s))))"

lemma json_string_shorter: "json_string s = Some (v, t) \<Longrightarrow> length t < length s"
proof (induction s arbitrary: v rule: json_string.induct)
  case (1 s)
  show ?case
    using 1(4) 1(1-3) decode_rune_progress
    by (subst (asm) json_string.simps)
      (fastforce split: list.splits if_splits option.splits prod.splits)
qed


lemma scan_number_shorter: "scan_number s = Some (w, r) \<Longrightarrow> s \<noteq> [] \<Longrightarrow> length r < length s"
  by (auto simp: scan_number_def intro!: diff_less split: option.splits if_splits dest!: find_SomeD)

lemma next_token_shorter: "next_token s = Some (k, t) \<Longrightarrow> length t < length s"
proof (induction s)
  case (Cons c u)
  have w: "scan_number (c # u) = Some (w, r) \<Longrightarrow> length r < Suc (length u)" for w r
    using scan_number_shorter [of "c # u" w r] by simp
  show ?case
    using Cons(2) json_string_shorter [of u] w
    by (fastforce simp: next_token_def Let_def lit_tokens_def has_prefix_def split: option.splits if_splits)
qed (simp add: next_token_def)

text \<open>
  The tokens of a text, as many as there are, and whether only white space is left after
  them.
\<close>

function json_lex :: "string \<Rightarrow> jtok list \<times> bool" where
  "json_lex s = (case dropWhile json_ws s of [] \<Rightarrow> ([], True) | c # t \<Rightarrow>
     (case next_token (c # t) of None \<Rightarrow> ([], False) | Some (k, u) \<Rightarrow> apfst (Cons k) (json_lex u)))"
  by pat_completeness auto
termination
proof (relation "measure length", goal_cases)
  case (2 s c t p k u)
  then have "length u < length (c # t)" using next_token_shorter [of "c # t" k u] 2 by simp
  also have "\<dots> \<le> length s" using length_dropWhile_le [of json_ws s] 2(1) by simp
  finally show ?case by simp
qed auto

declare json_lex.simps [simp del]

section \<open>Values\<close>

text \<open>What encloses the value being read: an array with the elements before it, or an object
  with the members before it and the key of this one, both in reverse.\<close>

datatype jframe = FArr "json list" | FObj "(string \<times> json) list" string

definition max_nesting :: nat where "max_nesting = 10000"

text \<open>
  \<open>parse_value\<close> expects a value inside the frames of the stack, \<open>parse_after\<close> has read one,
  and \<open>parse_key\<close> expects the key of the next member.
\<close>

fun parse_value :: "jframe list \<Rightarrow> jtok list \<Rightarrow> (json \<times> jtok list) option"
  and parse_after :: "json \<Rightarrow> jframe list \<Rightarrow> jtok list \<Rightarrow> (json \<times> jtok list) option"
  and parse_key :: "(string \<times> json) list \<Rightarrow> jframe list \<Rightarrow> jtok list \<Rightarrow> (json \<times> jtok list) option"
where
  "parse_value st (TNull # ts) = parse_after JNull st ts"
| "parse_value st (TBool b # ts) = parse_after (JBool b) st ts"
| "parse_value st (TNum n # ts) = parse_after (JNum n) st ts"
| "parse_value st (TStr x # ts) = parse_after (JStr x) st ts"
| "parse_value st (TOpenArr # TCloseArr # ts) =
     (if max_nesting \<le> length st then None else parse_after (JArr []) st ts)"
| "parse_value st (TOpenArr # ts) =
     (if max_nesting \<le> length st then None else parse_value (FArr [] # st) ts)"
| "parse_value st (TOpenObj # TCloseObj # ts) =
     (if max_nesting \<le> length st then None else parse_after (JObj []) st ts)"
| "parse_value st (TOpenObj # ts) =
     (if max_nesting \<le> length st then None else parse_key [] st ts)"
| "parse_value st ts = None"
| "parse_after v [] ts = Some (v, ts)"
| "parse_after v (FArr acc # st) (TComma # ts) = parse_value (FArr (v # acc) # st) ts"
| "parse_after v (FArr acc # st) (TCloseArr # ts) = parse_after (JArr (rev (v # acc))) st ts"
| "parse_after v (FObj acc k # st) (TComma # ts) = parse_key ((k, v) # acc) st ts"
| "parse_after v (FObj acc k # st) (TCloseObj # ts) = parse_after (JObj (rev ((k, v) # acc))) st ts"
| "parse_after v (f # st) ts = None"
| "parse_key acc st (TStr k # TColon # ts) = parse_value (FObj acc k # st) ts"
| "parse_key acc st ts = None"

text \<open>A whole document (\<open>json.Unmarshal\<close>, \<open>json.Valid\<close>), and the first value of a stream
  (\<open>Decoder.Decode\<close>).\<close>

definition json_parse :: "string \<Rightarrow> json option" where
  "json_parse s = (case json_lex s of (ts, clean) \<Rightarrow>
     (case parse_value [] ts of Some (v, []) \<Rightarrow> if clean then Some v else None | _ \<Rightarrow> None))"

definition json_first :: "string \<Rightarrow> json option" where
  "json_first s = map_option fst (parse_value [] (fst (json_lex s)))"

section \<open>Text of a value\<close>

text \<open>The flag is \<open>SetEscapeHTML\<close> of an encoder, which \<open>json.Marshal\<close> sets.\<close>

definition json_escape :: "bool \<Rightarrow> char \<Rightarrow> string" where
  "json_escape html c =
     (if c = CHR 0x22 then [CHR 0x5C, CHR 0x22] else if c = CHR 0x5C then [CHR 0x5C, CHR 0x5C]
      else if c = CHR 0x08 then [CHR 0x5C, CHR ''b''] else if c = CHR 0x0C then [CHR 0x5C, CHR ''f'']
      else if c = CHR 0x0A then [CHR 0x5C, CHR ''n''] else if c = CHR 0x0D then [CHR 0x5C, CHR ''r'']
      else if c = CHR 0x09 then [CHR 0x5C, CHR ''t'']
      else if ord c < 32 \<or> (html \<and> c \<in> {CHR ''<'', CHR ''>'', CHR ''&''}) then
        [CHR 0x5C, CHR ''u'', CHR ''0'', CHR ''0'', hex_digit (ord c div 16), hex_digit (ord c mod 16)]
      else [c])"

definition escape_multi :: "nat \<Rightarrow> string" where
  "escape_multi r =
     (if r = 8232 then CHR 0x5C # ''u2028'' else if r = 8233 then CHR 0x5C # ''u2029'' else encode_rune r)"

text \<open>The text of the first rune of a string; an invalid byte is written as an escape.\<close>

definition quote_first :: "bool \<Rightarrow> string \<Rightarrow> string" where
  "quote_first html s = (case decode_rune s of (r, n) \<Rightarrow>
     if (r, n) = (rune_error, 1) then CHR 0x5C # ''ufffd''
     else if r < 128 then json_escape html (chr r) else escape_multi r)"

function quote_body :: "bool \<Rightarrow> string \<Rightarrow> string" where
  "quote_body html s = (if s = [] then [] else quote_first html s @ quote_body html (drop (snd (decode_rune s)) s))"
  by pat_completeness auto
termination
  by (relation "measure (length \<circ> snd)") (auto simp: decode_rune_progress)

declare quote_body.simps [simp del]

definition json_quote :: "bool \<Rightarrow> string \<Rightarrow> string" where
  "json_quote html s = CHR 0x22 # quote_body html s @ [CHR 0x22]"

fun text_of :: "bool \<Rightarrow> json \<Rightarrow> string" where
  "text_of html JNull = ''null''"
| "text_of html (JBool b) = (if b then ''true'' else ''false'')"
| "text_of html (JNum n) = n"
| "text_of html (JStr s) = json_quote html s"
| "text_of html (JArr vs) = CHR 0x5B # join '','' (map (text_of html) vs) @ [CHR 0x5D]"
| "text_of html (JObj ms) = CHR 0x7B # join '','' (map (\<lambda>(k, v). json_quote html k @ CHR '':'' # text_of html v) ms) @ [CHR 0x7D]"

abbreviation json_text :: "json \<Rightarrow> string" where
  "json_text \<equiv> text_of True"

end
