(* ===== verification/Go_Json_Text.thy ===== *)
theory Go_Json_Text
  imports Go_Json
begin

text \<open>
  Reading back what \<open>json.Marshal\<close> wrote: the lexer and the parser of Go_Json invert its
  printer, up to the replacement of invalid UTF-8 in strings.
\<close>

lemma json_string_step:
  "json_string (CHR 0x22 # t) = Some ([], t)"
  "32 \<le> ord c \<Longrightarrow> c \<noteq> CHR 0x22 \<Longrightarrow> c \<noteq> CHR 0x5C \<Longrightarrow> decode_rune (c # t) = (r, n) \<Longrightarrow>
     json_string (c # t) = map_option (apfst ((@) (encode_rune r))) (json_string (drop n (c # t)))"
  "e \<noteq> CHR ''u'' \<Longrightarrow> unescape_char e = Some x \<Longrightarrow>
     json_string (CHR 0x5C # e # u) = map_option (apfst (Cons x)) (json_string u)"
  "hex4 [a, b, c', d] = Some q \<Longrightarrow> \<not> high_surrogate q \<Longrightarrow> \<not> low_surrogate q \<Longrightarrow>
     json_string (CHR 0x5C # CHR ''u'' # a # b # c' # d # u) =
       map_option (apfst ((@) (encode_rune q))) (json_string u)"
  by (subst json_string.simps, simp add: escape_rune_def)+

lemma append_single [simp]: "(@) [c] = (#) c"
  by (rule ext) simp

lemma escape_ascii:
  assumes "ord c < 128"
  shows "json_string (json_escape html c @ u) = map_option (apfst (Cons c)) (json_string u)"
proof (cases "c \<in> {CHR 0x22, CHR 0x5C, CHR 0x08, CHR 0x0C, CHR 0x0A, CHR 0x0D, CHR 0x09}")
  case True
  then show ?thesis by (auto simp: json_escape_def json_string_step unescape_char_def)
next
  case False
  show ?thesis
  proof (cases "ord c < 32 \<or> (html \<and> c \<in> {CHR ''<'', CHR ''>'', CHR ''&''})")
    case True
    have "hex_val (hex_digit (ord c div 16)) = Some (ord c div 16)" "hex_val (hex_digit (ord c mod 16)) = Some (ord c mod 16)"
      using assms by simp_all
    then have "hex4 [CHR ''0'', CHR ''0'', hex_digit (ord c div 16), hex_digit (ord c mod 16)] = Some (ord c)"
      by (simp add: hex4_def hex_val_def)
    moreover have "json_escape html c = [CHR 0x5C, CHR ''u'', CHR ''0'', CHR ''0'', hex_digit (ord c div 16), hex_digit (ord c mod 16)]"
      using False True by (auto simp: json_escape_def)
    ultimately show ?thesis
      using json_string_step(4) [of "CHR ''0''" "CHR ''0''" _ _ "ord c"] assms
      by (simp add: high_surrogate_def low_surrogate_def encode_rune_ascii)
  next
    case 2: False
    then have "json_escape html c = [c]" using False by (simp add: json_escape_def)
    then show ?thesis
      using 2 False assms json_string_step(2) [of c u "ord c" 1] by (simp add: encode_rune_ascii)
  qed
qed

lemma escape_multi_rune:
  assumes "decode_rune s = (r, n)" and "(r, n) \<noteq> (rune_error, 1)" and "s \<noteq> []" and "128 \<le> r"
  shows "json_string (escape_multi r @ u) = map_option (apfst ((@) (encode_rune r))) (json_string u)"
proof (cases "r = 8232 \<or> r = 8233")
  case True
  then show ?thesis
    by (auto simp: escape_multi_def json_string_step(4) hex4_def hex_val_def high_surrogate_def low_surrogate_def)
next
  case False
  obtain c t where s: "s = c # t" using assms(3) by (cases s) auto
  have c: "128 \<le> ord c" using assms by (cases "ord c < 128") (auto simp: s)
  have n: "1 \<le> n" using decode_rune_width [OF assms(3)] assms(1) by simp
  have e: "encode_rune r = take n s" using encode_decode_rune assms by simp
  have l: "n \<le> length s" using decode_rune_within [OF assms(1)] .
  have c2: "c \<noteq> CHR 0x22" "c \<noteq> CHR 0x5C" using c by auto
  obtain n' where n': "n = Suc n'" using n by (cases n) auto
  have "json_string (take n s @ u) = map_option (apfst ((@) (encode_rune r))) (json_string (drop n (take n s @ u)))"
    using json_string_step(2) [of c "take n' t @ u" r n] c c2 decode_rune_prefix [OF assms(1-3), of u] by (auto simp: s n')
  then show ?thesis using False l e by (simp add: escape_multi_def)
qed

lemma quote_first_decodes:
  assumes "s \<noteq> []"
  shows "json_string (quote_first html s @ u) =
    map_option (apfst ((@) (encode_rune (fst (decode_rune s))))) (json_string u)"
proof (cases "decode_rune s = (rune_error, 1)")
  case True
  then show ?thesis
    by (simp add: quote_first_def json_string_step(4) hex4_def hex_val_def high_surrogate_def low_surrogate_def
        rune_error_def)
next
  case False
  obtain r n where d: "decode_rune s = (r, n)" by fastforce
  show ?thesis
  proof (cases "r < 128")
    case True
    then show ?thesis
      using d escape_ascii [of "chr r" html u] by (auto simp: quote_first_def ord_chr encode_rune_ascii rune_error_def)
  next
    case r: False
    then show ?thesis
      using escape_multi_rune [OF d _ assms] False d by (auto simp: quote_first_def)
  qed
qed

lemma quote_body_decodes: "json_string (quote_body html s @ CHR 0x22 # u) = Some (sanitize s, u)"
proof (induction html s rule: quote_body.induct)
  case (1 html s)
  show ?case
  proof (cases "s = []")
    case True
    then show ?thesis by (simp add: quote_body.simps json_string_step(1) sanitize_def)
  next
    case False
    then show ?thesis
      using 1 quote_first_decodes [OF False]
      by (subst quote_body.simps) (simp add: sanitize_def runes_step)
  qed
qed


fun re_all :: "(char \<Rightarrow> bool) \<Rightarrow> re \<Rightarrow> bool" where
  "re_all P (RCls rs) \<longleftrightarrow> (\<forall>c. in_cls rs c \<longrightarrow> P c)"
| "re_all P (RNeg rs) \<longleftrightarrow> (\<forall>c. \<not> in_cls rs c \<longrightarrow> P c)"
| "re_all P (RSeq q r) \<longleftrightarrow> re_all P q \<and> re_all P r"
| "re_all P (RAlt q r) \<longleftrightarrow> re_all P q \<and> re_all P r"
| "re_all P (RStar r) \<longleftrightarrow> re_all P r"
| "re_all P r \<longleftrightarrow> True"

lemma star_lang_all: "s \<in> star_lang A \<Longrightarrow> (\<And>t. t \<in> A \<Longrightarrow> \<forall>c \<in> set t. P c) \<Longrightarrow> \<forall>c \<in> set s. P c"
  by (induction rule: star_lang.induct) auto

lemma re_all_lang: "re_all P r \<Longrightarrow> s \<in> lang r \<Longrightarrow> \<forall>c \<in> set s. P c"
proof (induction r arbitrary: s)
  case (RStar r)
  then show ?case using star_lang_all [of s "lang r" P] by auto
qed auto

lemma number_char_ord:
  "number_char c \<longleftrightarrow> 48 \<le> ord c \<and> ord c \<le> 57 \<or> ord c \<in> {43, 45, 46, 69, 101}"
  by (auto simp: number_char_def is_digit_def simp flip: of_char_eq_iff [where 'a = nat])

lemma number_chars:
  assumes "is_json_number s"
  shows "s \<noteq> [] \<and> (\<forall>c \<in> set s. number_char c)"
proof
  have "re_all number_char json_number_re"
    by (auto simp: json_number_re_def ropt_def rchr_def rplus_def in_cls_simps in_digit_cls number_char_ord)
  then show "\<forall>c \<in> set s. number_char c"
    using assms re_all_lang by (simp add: is_json_number_def re_match_lang)
  have "\<not> re_match json_number_re []" by code_simp
  then show "s \<noteq> []" using assms by (auto simp: is_json_number_def)
qed

lemma scan_number_whole:
  assumes "is_json_number w" and "u = [] \<or> \<not> number_char (hd u)"
  shows "scan_number (w @ u) = Some (w, u)"
proof -
  have w: "w \<noteq> []" "takeWhile number_char (w @ u) = w"
    using number_chars [OF assms(1)] assms(2) by (cases u; simp add: takeWhile_append)+
  then have "rev [1..<Suc (length w)] = length w # rev [1..<length w]"
    by (cases w) simp_all
  moreover have "\<not> number_goes_on w u"
    using assms(2) by (cases u) (auto simp: number_goes_on_def number_char_def)
  ultimately show ?thesis using assms(1) w by (simp add: scan_number_def)
qed

lemma next_token_number:
  assumes "is_json_number w" and "u = [] \<or> \<not> number_char (hd u)"
  shows "next_token (w @ u) = Some (TNum w, u)"
proof -
  obtain c t where w: "w = c # t" using number_chars [OF assms(1)] by (cases w) auto
  have c: "number_char c" using number_chars [OF assms(1)] by (simp add: w)
  then have "map_of punct_tokens c = None" "c \<noteq> CHR 0x22"
    by (auto simp: number_char_def is_digit_def punct_tokens_def)
  then show ?thesis using c scan_number_whole [OF assms] by (simp add: next_token_def w)
qed

fun json_toks :: "json \<Rightarrow> jtok list" where
  "json_toks JNull = [TNull]"
| "json_toks (JBool b) = [TBool b]"
| "json_toks (JNum n) = [TNum n]"
| "json_toks (JStr s) = [TStr s]"
| "json_toks (JArr []) = [TOpenArr, TCloseArr]"
| "json_toks (JArr (v # vs)) = TOpenArr # json_toks v @ concat (map (\<lambda>x. TComma # json_toks x) vs) @ [TCloseArr]"
| "json_toks (JObj []) = [TOpenObj, TCloseObj]"
| "json_toks (JObj ((k, v) # ms)) =
     TOpenObj # TStr k # TColon # json_toks v @
     concat (map (\<lambda>(k, x). TComma # TStr k # TColon # json_toks x) ms) @ [TCloseObj]"

fun json_depth :: "json \<Rightarrow> nat" where
  "json_depth (JArr vs) = Suc (fold max (map json_depth vs) 0)"
| "json_depth (JObj ms) = Suc (fold max (map (json_depth \<circ> snd) ms) 0)"
| "json_depth v = 0"

lemma fold_max_le: "fold max xs (a :: nat) \<le> n \<longleftrightarrow> a \<le> n \<and> (\<forall>x \<in> set xs. x \<le> n)"
  by (induction xs arbitrary: a) auto


lemma json_lex_step:
  "next_token (c # t) = Some (k, u) \<Longrightarrow> \<not> json_ws c \<Longrightarrow> json_lex (c # t) = apfst (Cons k) (json_lex u)"
  by (subst json_lex.simps) simp

lemma lex_punct:
  "map_of punct_tokens c = Some k \<Longrightarrow> json_lex (c # u) = apfst (Cons k) (json_lex u)"
  by (rule json_lex_step) (auto simp: next_token_def punct_tokens_def json_ws_def split: if_splits)

lemma lex_quote: "json_lex (json_quote html s @ u) = apfst (Cons (TStr (sanitize s))) (json_lex u)"
  unfolding json_quote_def append_Cons
  by (rule json_lex_step) (auto simp: next_token_def punct_tokens_def json_ws_def quote_body_decodes)

lemma lex_number:
  assumes "is_json_number w" and "u = [] \<or> \<not> number_char (hd u)"
  shows "json_lex (w @ u) = apfst (Cons (TNum w)) (json_lex u)"
proof -
  obtain c t where w: "w = c # t" using number_chars [OF assms(1)] by (cases w) auto
  have "number_char c" using number_chars [OF assms(1)] by (simp add: w)
  then have "\<not> json_ws c" by (auto simp: number_char_ord json_ws_def)
  then show ?thesis
    using json_lex_step [of c "t @ u"] next_token_number [OF assms] by (simp add: w)
qed

lemma lex_literal:
  "json_lex (''null'' @ u) = apfst (Cons TNull) (json_lex u)"
  "json_lex (''true'' @ u) = apfst (Cons (TBool True)) (json_lex u)"
  "json_lex (''false'' @ u) = apfst (Cons (TBool False)) (json_lex u)"
  by (simp_all add: json_lex_step next_token_def punct_tokens_def number_char_def is_digit_def lit_tokens_def
      has_prefix_def json_ws_def)

text \<open>What reading back a marshalled value gives: its strings with invalid bytes replaced.\<close>

fun sanitize_json :: "json \<Rightarrow> json" where
  "sanitize_json (JStr s) = JStr (sanitize s)"
| "sanitize_json (JArr vs) = JArr (map sanitize_json vs)"
| "sanitize_json (JObj ms) = JObj (map (\<lambda>(k, v). (sanitize k, sanitize_json v)) ms)"
| "sanitize_json v = v"

fun numbers_ok :: "json \<Rightarrow> bool" where
  "numbers_ok (JNum n) = is_json_number n"
| "numbers_ok (JArr vs) = list_all numbers_ok vs"
| "numbers_ok (JObj ms) = list_all (numbers_ok \<circ> snd) ms"
| "numbers_ok v = True"

definition ends_value :: "string \<Rightarrow> bool" where
  "ends_value u \<longleftrightarrow> u = [] \<or> \<not> number_char (hd u)"

lemma ends_value_simps [simp]:
  "ends_value []" "ends_value (CHR '','' # u)" "ends_value (CHR 0x5D # u)" "ends_value (CHR 0x7D # u)"
  by (auto simp: ends_value_def number_char_def is_digit_def)

lemma join_Cons: "join sep (x # xs) = x @ concat (map ((@) sep) xs)"
  by (induction xs arbitrary: x) auto

lemma lex_concat:
  assumes "\<And>x u. x \<in> set xs \<Longrightarrow> ends_value u \<Longrightarrow> json_lex (f x @ u) = apfst ((@) (g x)) (json_lex u)"
    and "ends_value u"
  shows "json_lex (concat (map (\<lambda>x. CHR '','' # f x) xs) @ u) =
    apfst ((@) (concat (map (\<lambda>x. TComma # g x) xs))) (json_lex u)"
  using assms(1)
proof (induction xs)
  case (Cons x xs)
  have e: "ends_value (concat (map (\<lambda>x. CHR '','' # f x) xs) @ u)"
    using assms(2) by (cases xs) auto
  have "map_of punct_tokens CHR '','' = Some TComma" by (simp add: punct_tokens_def)
  from lex_punct [OF this] show ?case
    using Cons e by (cases "json_lex u") simp
qed (cases "json_lex u", simp)

lemma lex_json_text:
  "numbers_ok v \<Longrightarrow> ends_value u \<Longrightarrow>
     json_lex (text_of html v @ u) = apfst ((@) (json_toks (sanitize_json v))) (json_lex u)"
proof (induction v arbitrary: u)
  case (JNum n)
  then show ?case using lex_number [of n u] by (cases "json_lex u") (simp add: ends_value_def)
next
  case (JBool b)
  then show ?case using lex_literal [of u] by (cases "json_lex u") simp
next
  case JNull
  then show ?case using lex_literal [of u] by (cases "json_lex u") simp
next
  case (JStr s)
  then show ?case using lex_quote [of html s u] by (cases "json_lex u") simp
next
  case (JArr vs)
  have p: "map_of punct_tokens CHR 0x5B = Some TOpenArr" "map_of punct_tokens CHR 0x5D = Some TCloseArr"
    by (simp_all add: punct_tokens_def)
  show ?case
  proof (cases vs)
    case Nil
    then show ?thesis using lex_punct [OF p(1)] lex_punct [OF p(2)] by (cases "json_lex u") simp
  next
    case (Cons x xs)
    have x: "json_lex (text_of html x @ w) = apfst ((@) (json_toks (sanitize_json x))) (json_lex w)"
      if "ends_value w" for w using JArr(1) [of x w] JArr(2) that by (simp add: Cons)
    have xs: "json_lex (concat (map (\<lambda>x. CHR '','' # text_of html x) xs) @ CHR 0x5D # u) =
        apfst ((@) (concat (map (\<lambda>x. TComma # json_toks (sanitize_json x)) xs))) (json_lex (CHR 0x5D # u))"
      by (rule lex_concat) (use JArr(1,2) in \<open>auto simp: Cons list_all_iff\<close>)
    have e: "ends_value (concat (map (\<lambda>x. CHR '','' # text_of html x) xs) @ CHR 0x5D # u)"
      by (cases xs) auto
    have t: "text_of html (JArr vs) @ u =
        CHR 0x5B # text_of html x @ concat (map (\<lambda>x. CHR '','' # text_of html x) xs) @ CHR 0x5D # u"
      by (simp add: Cons join_Cons comp_def)
    show ?thesis
      unfolding t lex_punct [OF p(1)] x [OF e] xs lex_punct [OF p(2)]
      by (cases "json_lex u") (simp add: Cons comp_def)
  qed
next
  case (JObj ms)
  let ?f = "\<lambda>(k, v). json_quote html k @ CHR '':'' # text_of html v"
  let ?g = "\<lambda>(k, v). TStr (sanitize k) # TColon # json_toks (sanitize_json v)"
  have p: "map_of punct_tokens CHR 0x7B = Some TOpenObj" "map_of punct_tokens CHR 0x7D = Some TCloseObj"
    "map_of punct_tokens CHR '':'' = Some TColon"
    by (simp_all add: punct_tokens_def)
  have m: "json_lex (?f a @ w) = apfst ((@) (?g a)) (json_lex w)" if "a \<in> set ms" "ends_value w" for a w
  proof -
    obtain k v where a: "a = (k, v)" by fastforce
    have "json_lex (text_of html v @ w) = apfst ((@) (json_toks (sanitize_json v))) (json_lex w)"
      using JObj(1) [of a v w] JObj(2) that by (auto simp: a list_all_iff)
    then show ?thesis
      using lex_quote [of html k] lex_punct [OF p(3)] by (cases "json_lex w") (simp add: a)
  qed
  show ?case
  proof (cases ms)
    case Nil
    then show ?thesis using lex_punct [OF p(1)] lex_punct [OF p(2)] by (cases "json_lex u") simp
  next
    case (Cons x xs)
    have xs: "json_lex (concat (map (\<lambda>x. CHR '','' # ?f x) xs) @ CHR 0x7D # u) =
        apfst ((@) (concat (map (\<lambda>x. TComma # ?g x) xs))) (json_lex (CHR 0x7D # u))"
      by (rule lex_concat) (use m in \<open>auto simp: Cons\<close>)
    have e: "ends_value (concat (map (\<lambda>x. CHR '','' # ?f x) xs) @ CHR 0x7D # u)"
      by (cases xs) auto
    have t: "text_of html (JObj ms) @ u =
        CHR 0x7B # ?f x @ concat (map (\<lambda>x. CHR '','' # ?f x) xs) @ CHR 0x7D # u"
      by (simp add: Cons join_Cons comp_def)
    have x: "json_lex (?f x @ w) = apfst ((@) (?g x)) (json_lex w)" if "ends_value w" for w
      using m that by (simp add: Cons)
    obtain k v where kv: "x = (k, v)" by fastforce
    show ?thesis
      unfolding t lex_punct [OF p(1)] x [OF e] xs lex_punct [OF p(2)]
      by (cases "json_lex u") (simp add: Cons kv comp_def split_beta)
  qed
qed


lemma depth_elem: "json_depth (JArr vs) + n \<le> m \<Longrightarrow> x \<in> set vs \<Longrightarrow> json_depth x + Suc n \<le> m"
  using fold_max_le [of "map json_depth vs" 0 "fold max (map json_depth vs) 0"] by fastforce

lemma depth_member: "json_depth (JObj ms) + n \<le> m \<Longrightarrow> (k, x) \<in> set ms \<Longrightarrow> json_depth x + Suc n \<le> m"
  using fold_max_le [of "map (json_depth \<circ> snd) ms" 0 "fold max (map (json_depth \<circ> snd) ms) 0"] by fastforce

lemma parse_elems:
  assumes "\<And>x ts f. x \<in> set xs \<Longrightarrow> parse_value (f # st) (json_toks x @ ts) = parse_after x (f # st) ts"
  shows "parse_after v (FArr acc # st) (concat (map (\<lambda>x. TComma # json_toks x) xs) @ TCloseArr # ts) =
    parse_after (JArr (rev acc @ v # xs)) st ts"
  using assms by (induction xs arbitrary: v acc) simp_all

lemma parse_members:
  assumes "\<And>x ts f. x \<in> snd ` set ms \<Longrightarrow> parse_value (f # st) (json_toks x @ ts) = parse_after x (f # st) ts"
  shows "parse_after v (FObj acc k # st)
      (concat (map (\<lambda>(k, x). TComma # TStr k # TColon # json_toks x) ms) @ TCloseObj # ts) =
    parse_after (JObj (rev acc @ (k, v) # ms)) st ts"
  using assms by (induction ms arbitrary: v k acc) auto

lemma parse_open_arr: "parse_value st (TOpenArr # json_toks x @ ts) =
   (if max_nesting \<le> length st then None else parse_value (FArr [] # st) (json_toks x @ ts))"
  by (cases x rule: json_toks.cases) auto

lemma parse_json_toks:
  "json_depth v + length st \<le> max_nesting \<Longrightarrow> parse_value st (json_toks v @ ts) = parse_after v st ts"
proof (induction v arbitrary: st ts)
  case (JArr vs)
  have len: "\<not> max_nesting \<le> length st" using JArr(2) by simp
  have e: "parse_value (f # st) (json_toks x @ ts) = parse_after x (f # st) ts" if "x \<in> set vs" for x f ts
    using JArr(1) [OF that] depth_elem [OF JArr(2) that] by simp
  show ?case
  proof (cases vs)
    case (Cons x xs)
    then show ?thesis
      using len e parse_elems [of xs st x "[]" ts] by (simp add: parse_open_arr)
  qed (use len in simp)
next
  case (JObj ms)
  have len: "\<not> max_nesting \<le> length st" using JObj(2) by simp
  have e: "parse_value (f # st) (json_toks x @ ts) = parse_after x (f # st) ts" if "(k, x) \<in> set ms" for k x f ts
    using JObj(1) [OF that] depth_member [OF JObj(2) that] by simp
  show ?case
  proof (cases ms)
    case (Cons a xs)
    then show ?thesis
      using len e parse_members [of xs st "snd a" "[]" "fst a" ts] by (cases a) force
  qed (use len in simp)
qed simp_all

text \<open>A marshalled value reads back as itself, with invalid bytes of its strings replaced.\<close>

lemma json_parse_text:
  assumes "numbers_ok v" and "json_depth (sanitize_json v) \<le> max_nesting"
  shows "json_parse (text_of html v) = Some (sanitize_json v)"
proof -
  have "json_lex (text_of html v @ []) = apfst ((@) (json_toks (sanitize_json v))) (json_lex [])"
    by (rule lex_json_text) (simp_all add: assms)
  moreover have "json_lex [] = ([], True)" by (simp add: json_lex.simps)
  moreover have "parse_value [] (json_toks (sanitize_json v) @ []) = parse_after (sanitize_json v) [] []"
    by (rule parse_json_toks) (simp add: assms)
  ultimately show ?thesis by (simp add: json_parse_def)
qed

lemma json_text_obj_trim: "trim_space (text_of html (JObj ms)) = text_of html (JObj ms)"
  by (rule trim_space_solid) (simp add: solid_ends_def is_space_def)

lemma nat_str_leading: "nat_str n = c # t \<Longrightarrow> n \<noteq> 0 \<Longrightarrow> c \<noteq> CHR ''0''"
proof (induction n arbitrary: c t rule: nat_str.induct)
  case (1 n)
  show ?case
  proof (cases "n < 10")
    case True
    have "digit_char n \<noteq> CHR ''0''" using True 1(3) digit_char(2) [of n] by (auto simp: digit_val_def)
    then show ?thesis using 1(2) True by (subst (asm) nat_str.simps) auto
  next
    case False
    obtain d u where d: "nat_str (n div 10) = d # u" using nat_str_hd by blast
    then have "c = d" using 1(2) False by (subst (asm) nat_str.simps) auto
    then show ?thesis using 1(1) [OF False d] False by simp
  qed
qed

lemma lang_seqI: "u \<in> lang r \<Longrightarrow> v \<in> lang q \<Longrightarrow> u @ v \<in> lang (RSeq r q)"
  by auto

lemma itoa_json_number: "is_json_number (itoa i)"
proof -
  have nat: "nat_str n \<in> lang (RAlt (rchr (CHR ''0'')) (RSeq (RCls [(CHR ''1'', CHR ''9'')]) (RStar (RCls digit_cls))))" for n
  proof (cases "n = 0")
    case True
    then have "nat_str n = ''0''" by (simp add: nat_str.simps digit_char_0)
    then show ?thesis by (simp add: re_simps lang_rchr)
  next
    case False
    obtain c t where c: "nat_str n = c # t" "is_digit c" using nat_str_hd by blast
    have "c \<noteq> CHR ''0''" using nat_str_leading [OF c(1) False] .
    then have "in_cls [(CHR ''1'', CHR ''9'')] c"
      using c(2) by (auto simp: in_cls_simps is_digit_def simp flip: of_char_eq_iff [where 'a = nat])
    moreover have "\<forall>x \<in> set t. in_cls digit_cls x"
      using nat_str_digits [of _ n] by (auto simp: c(1) in_digit_cls is_digit_def)
    ultimately have "c # t \<in> lang (RSeq (RCls [(CHR ''1'', CHR ''9'')]) (RStar (RCls digit_cls)))"
      unfolding lang_seq_chars [OF char_lang_cls] lang_star_cls by blast
    then show ?thesis unfolding c(1) lang.simps(6) by (rule UnI2)
  qed
  have sign: "(if i < 0 then ''-'' else []) \<in> lang (ropt (rchr (CHR ''-'')))" by (simp add: ropt_def lang_rchr)
  have opt: "[] \<in> lang (ropt r)" for r by (simp add: ropt_def)
  have "(if i < 0 then ''-'' else []) @ nat_str (nat \<bar>i\<bar>) @ [] @ [] @ [] \<in> lang json_number_re"
    unfolding json_number_re_def rseqs.simps by (intro lang_seqI sign nat opt) simp
  moreover have "itoa i = (if i < 0 then ''-'' else []) @ nat_str (nat \<bar>i\<bar>) @ [] @ [] @ []" by (simp add: itoa_def)
  ultimately show ?thesis unfolding is_json_number_def re_match_lang by simp
qed

text \<open>A value whose text reads back as itself.\<close>

definition printable :: "nat \<Rightarrow> json \<Rightarrow> bool" where
  "printable n v \<longleftrightarrow> numbers_ok v \<and> sanitize_json v = v \<and> json_depth v \<le> n"

lemma printable_obj:
  "(\<And>k v. (k, v) \<in> set ms \<Longrightarrow> printable n v \<and> sanitize k = k) \<Longrightarrow> printable (Suc n) (JObj ms)"
  by (fastforce simp: printable_def list_all_iff fold_max_le intro!: map_idI)

lemma printable_arr: "(\<And>v. v \<in> set vs \<Longrightarrow> printable n v) \<Longrightarrow> printable (Suc n) (JArr vs)"
  by (auto simp: printable_def list_all_iff fold_max_le intro!: map_idI)

end
