(* ===== verification/Go_Json_Decode.thy ===== *)
theory Go_Json_Decode
  imports Go_Json "HOL-Library.List_Lexorder" "HOL-Library.Char_ord"
begin

text \<open>
  Numbers of \<open>encoding/json\<close>, the passage between documents and Go's \<open>any\<close>, and decoding
  into structs.
\<close>

section \<open>Floating point\<close>

fun bits :: "nat \<Rightarrow> nat" where
  "bits n = (if n = 0 then 0 else Suc (bits (n div 2)))"

declare bits.simps [simp del]

function f64_canon :: "int \<Rightarrow> int \<Rightarrow> f64" where
  "f64_canon m e = (if m = 0 then F64 0 0 else if even m then f64_canon (m div 2) (e + 1) else F64 m e)"
  by pat_completeness auto
termination
  by (relation "measure (\<lambda>(m, e). nat \<bar>m\<bar>)") auto

declare f64_canon.simps [simp del]

definition div_half_even :: "nat \<Rightarrow> nat \<Rightarrow> nat" where
  "div_half_even n d = (let q = n div d; r = n mod d
     in if d < 2 * r \<or> (2 * r = d \<and> odd q) then q + 1 else q)"

text \<open>The binary exponent \<open>b\<close> with \<open>2 ^ (b - 1) \<le> n / d < 2 ^ b\<close>.\<close>

definition ratio_exp :: "nat \<Rightarrow> nat \<Rightarrow> int" where
  "ratio_exp n d = (let b = int (bits n) - int (bits d)
     in if d * 2 ^ nat b \<le> n * 2 ^ nat (- b) then b + 1 else b)"

text \<open>The \<open>float64\<close> nearest to \<open>n / d\<close>, ties to even, with Go's overflow to infinity.\<close>

definition f64_of_ratio :: "bool \<Rightarrow> nat \<Rightarrow> nat \<Rightarrow> f64" where
  "f64_of_ratio neg n d =
     (if n = 0 then F64 0 0
      else let k = max (ratio_exp n d - 53) (- 1074);
               q = div_half_even (n * 2 ^ nat (- k)) (d * 2 ^ nat k)
           in if 0 \<le> k \<and> 2 ^ 1024 \<le> q * 2 ^ nat k then FInf neg
              else f64_canon (if neg then - int q else int q) k)"

text \<open>A number literal as its sign, its digits as a natural number and its decimal exponent.\<close>

definition number_parts :: "string \<Rightarrow> bool \<times> nat \<times> int" where
  "number_parts s =
     (let neg = has_prefix s ''-''; body = trim_prefix s ''-'';
          mant = takeWhile (\<lambda>c. c \<notin> {CHR ''e'', CHR ''E''}) body;
          ex = drop (Suc (length mant)) body;
          whole = takeWhile is_digit mant; frac = drop (Suc (length whole)) mant
      in (neg, digits_val (whole @ frac),
          (case parse_signed ex of None \<Rightarrow> 0 | Some e \<Rightarrow> e) - int (length frac)))"

definition f64_of_decimal :: "bool \<Rightarrow> nat \<Rightarrow> int \<Rightarrow> f64" where
  "f64_of_decimal neg m e = f64_of_ratio neg (m * 10 ^ nat e) (10 ^ nat (- e))"

definition f64_of_number :: "string \<Rightarrow> f64" where
  "f64_of_number s = (case number_parts s of (neg, m, e) \<Rightarrow> f64_of_decimal neg m e)"

text \<open>
  The shortest decimal that reads back as \<open>x\<close>, as digits \<open>c\<close> and exponent \<open>s\<close> for
  \<open>c * 10 ^ s\<close>: with as few digits as possible, and of these the nearest to \<open>x\<close>.
\<close>

definition shortest_with :: "nat \<Rightarrow> nat \<Rightarrow> int \<Rightarrow> f64 \<Rightarrow> (nat \<times> int) option" where
  "shortest_with n d s x =
     (let num = n * 10 ^ nat (- s); den = d * 10 ^ nat s; q = num div den; r = num mod den;
          cands = (if 2 * r < den \<or> (2 * r = den \<and> even q) then [q, q + 1] else [q + 1, q])
      in map_option (\<lambda>c. (c, s)) (find (\<lambda>c. f64_of_decimal False c s = x) cands))"

definition decimal_exp :: "nat \<Rightarrow> nat \<Rightarrow> int" where
  "decimal_exp n d = (if d \<le> n then int (length (nat_str (n div d))) - 1
     else (case find (\<lambda>j. d \<le> n * 10 ^ j) [1..<400] of Some j \<Rightarrow> - int j | None \<Rightarrow> 0))"

definition shortest :: "int \<Rightarrow> int \<Rightarrow> nat \<times> int" where
  "shortest m e =
     (let n = nat \<bar>m\<bar> * 2 ^ nat e; d = 2 ^ nat (- e); E = decimal_exp n d;
          ts = List.map_filter (\<lambda>k. shortest_with n d (E - int k) (F64 \<bar>m\<bar> e)) [0..<17]
      in case ts of [] \<Rightarrow> (n, 0) | t # _ \<Rightarrow> t)"

text \<open>\<open>json.Marshal\<close> of a finite \<open>float64\<close>.\<close>

definition strip_zeros :: "string \<Rightarrow> string" where
  "strip_zeros ds = rev (dropWhile (\<lambda>c. c = CHR ''0'') (rev ds))"

definition fixed_digits :: "string \<Rightarrow> int \<Rightarrow> string" where
  "fixed_digits ds pt =
     (if pt < 0 then ''0.'' @ replicate (nat (- pt - 1)) (CHR ''0'') @ ds
      else if int (length ds) \<le> pt + 1 then ds @ replicate (nat (pt + 1) - length ds) (CHR ''0'')
      else take (nat (pt + 1)) ds @ ''.'' @ drop (nat (pt + 1)) ds)"

definition format_f64 :: "int \<Rightarrow> int \<Rightarrow> string" where
  "format_f64 m e =
     (if m = 0 then ''0''
      else case shortest m e of (c, s) \<Rightarrow>
        (let all = nat_str c; ds = strip_zeros all; pt = s + int (length all) - 1;
             sign = (if m < 0 then ''-'' else []);
             body = (if pt < - 6 \<or> 21 \<le> pt then
                       take 1 ds @ (if length ds = 1 then [] else CHR ''.'' # drop 1 ds) @ ''e'' @
                       (if pt < 0 then itoa pt else CHR ''+'' # itoa pt)
                     else fixed_digits ds pt)
         in sign @ body))"

section \<open>Documents and Go values\<close>

fun upsert :: "string \<Rightarrow> 'a \<Rightarrow> (string \<times> 'a) list \<Rightarrow> (string \<times> 'a) list" where
  "upsert k v [] = [(k, v)]"
| "upsert k v ((k', v') # m) = (if k = k' then (k, v) # m else (k', v') # upsert k v m)"

text \<open>
  Decoding into an \<open>any\<close>, with or without \<open>UseNumber\<close>. A number outside the range of
  \<open>float64\<close> leaves \<open>nil\<close> behind and is the error that \<open>json_in_range\<close> excludes.
\<close>

fun to_any :: "bool \<Rightarrow> json \<Rightarrow> gval" where
  "to_any use_number JNull = GNil"
| "to_any use_number (JBool b) = GBool b"
| "to_any use_number (JNum n) =
     (if use_number then GNumber n
      else case f64_of_number n of FInf _ \<Rightarrow> GNil | x \<Rightarrow> GFloat x)"
| "to_any use_number (JStr s) = GString s"
| "to_any use_number (JArr vs) = GList (map (to_any use_number) vs)"
| "to_any use_number (JObj ms) =
     GMap (foldl (\<lambda>m (k, v). upsert k v m) [] (map (\<lambda>(k, v). (k, to_any use_number v)) ms))"

fun json_in_range :: "json \<Rightarrow> bool" where
  "json_in_range (JNum n) = (case f64_of_number n of FInf _ \<Rightarrow> False | _ \<Rightarrow> True)"
| "json_in_range (JArr vs) = list_all json_in_range vs"
| "json_in_range (JObj ms) = list_all (json_in_range \<circ> snd) ms"
| "json_in_range v = True"

definition all_some :: "'a option list \<Rightarrow> 'a list option" where
  "all_some xs = (if None \<in> set xs then None else Some (map the xs))"

text \<open>
  \<open>json.Marshal\<close> of a value, as the document it denotes: map keys in order, byte slices in
  base64, invalid UTF-8 replaced; an error for what JSON cannot express and for a raw
  message or a number literal that is not JSON.
\<close>

fun of_any :: "gval \<Rightarrow> json option" where
  "of_any GNil = Some JNull"
| "of_any (GBool b) = Some (JBool b)"
| "of_any (GString s) = Some (JStr (sanitize s))"
| "of_any (GBytes b) = Some (JStr (b64_encode b))"
| "of_any (GRaw s) = json_parse s"
| "of_any (GInt n) = Some (JNum (itoa n))"
| "of_any (GFloat (F64 m e)) = Some (JNum (format_f64 m e))"
| "of_any (GFloat _) = None"
| "of_any (GNumber n) = (if n = [] then Some (JNum ''0'') else if is_json_number n then Some (JNum n) else None)"
| "of_any (GList vs) = map_option JArr (all_some (map of_any vs))"
| "of_any (GStrs ss) = Some (JArr (map (JStr \<circ> sanitize) ss))"
| "of_any (GMap m) = map_option JObj
     (all_some (map (\<lambda>(k, v). map_option (Pair (sanitize k)) (of_any v)) (sort_key fst m)))"
| "of_any (GStrMap m) = Some (JObj (map (\<lambda>(k, v). (sanitize k, JStr (sanitize v))) (sort_key fst m)))"
| "of_any (GStrsMap m) = Some (JObj (map (\<lambda>(k, v). (sanitize k, JArr (map (JStr \<circ> sanitize) v))) (sort_key fst m)))"
| "of_any (GOther t j) = (case j of None \<Rightarrow> None | Some v \<Rightarrow> of_any v)"

section \<open>Structs\<close>

type_synonym 'a dec = "json \<Rightarrow> 'a \<Rightarrow> 'a option"

definition dec_string :: "string dec" where
  "dec_string j old = (case j of JNull \<Rightarrow> Some old | JStr s \<Rightarrow> Some s | _ \<Rightarrow> None)"

definition dec_bool :: "bool dec" where
  "dec_bool j old = (case j of JNull \<Rightarrow> Some old | JBool b \<Rightarrow> Some b | _ \<Rightarrow> None)"

definition dec_int64 :: "int dec" where
  "dec_int64 j old = (case j of JNull \<Rightarrow> Some old | JNum n \<Rightarrow> parse_int64 n | _ \<Rightarrow> None)"

definition dec_float :: "f64 dec" where
  "dec_float j old = (case j of JNull \<Rightarrow> Some old
     | JNum n \<Rightarrow> (case f64_of_number n of FInf _ \<Rightarrow> None | x \<Rightarrow> Some x) | _ \<Rightarrow> None)"

definition dec_any :: "gval dec" where
  "dec_any j old = (if json_in_range j then Some (to_any False j) else None)"

definition dec_raw :: "json option dec" where
  "dec_raw j old = Some (Some j)"

definition dec_ptr :: "'a dec \<Rightarrow> 'a \<Rightarrow> 'a option dec" where
  "dec_ptr d zero j old = (case j of JNull \<Rightarrow> Some None
     | _ \<Rightarrow> map_option Some (d j (case old of None \<Rightarrow> zero | Some x \<Rightarrow> x)))"

text \<open>An element is decoded over the one a repeated member left at its index.\<close>

definition dec_list :: "'a dec \<Rightarrow> 'a \<Rightarrow> 'a list dec" where
  "dec_list d zero j old = (case j of JNull \<Rightarrow> Some []
     | JArr vs \<Rightarrow> all_some (map (\<lambda>(i, v). d v (if i < length old then old ! i else zero)) (enumerate 0 vs))
     | _ \<Rightarrow> None)"

definition dec_str_map :: "(string \<times> string) list dec" where
  "dec_str_map j old = (case j of JNull \<Rightarrow> Some []
     | JObj ms \<Rightarrow> map_option (foldl (\<lambda>m (k, v). upsert k v m) old)
         (all_some (map (\<lambda>(k, v). map_option (Pair k) (dec_string v [])) ms))
     | _ \<Rightarrow> None)"

definition fold_rune :: "nat \<Rightarrow> nat" where
  "fold_rune r = (if r = 8490 then 107 else if r = 383 then 115
     else if 65 \<le> r \<and> r \<le> 90 then r + 32 else r)"

definition fold_equal :: "string \<Rightarrow> string \<Rightarrow> bool" where
  "fold_equal a b \<longleftrightarrow> map fold_rune (runes a) = map fold_rune (runes b)"

text \<open>The field a member is stored in: the one of exactly that name, else the first whose name
  differs in case only.\<close>

definition find_field :: "(string \<times> 'a) list \<Rightarrow> string \<Rightarrow> 'a option" where
  "find_field fields k = (case map_of fields k of Some f \<Rightarrow> Some f
     | None \<Rightarrow> map_option snd (find (\<lambda>(n, _). fold_equal n k) fields))"

definition member_step :: "(string \<times> 'r dec) list \<Rightarrow> 'r option \<Rightarrow> string \<times> json \<Rightarrow> 'r option" where
  "member_step fields acc kv = (case acc of None \<Rightarrow> None | Some r \<Rightarrow>
     (case find_field fields (fst kv) of None \<Rightarrow> Some r | Some d \<Rightarrow> d (snd kv) r))"

definition dec_struct :: "(string \<times> 'r dec) list \<Rightarrow> 'r dec" where
  "dec_struct fields j r = (case j of JNull \<Rightarrow> Some r
     | JObj ms \<Rightarrow> foldl (member_step fields) (Some r) ms | _ \<Rightarrow> None)"

text \<open>A field, by its JSON name, its decoder, its selector and its update.\<close>

definition fld :: "string \<Rightarrow> 'a dec \<Rightarrow> ('r \<Rightarrow> 'a) \<Rightarrow> (('a \<Rightarrow> 'a) \<Rightarrow> 'r \<Rightarrow> 'r) \<Rightarrow> string \<times> 'r dec" where
  "fld name d get upd = (name, \<lambda>j r. map_option (\<lambda>x. upd (\<lambda>_. x) r) (d j (get r)))"

end
