(* ===== verification/Go_Json_Encode.thy ===== *)
theory Go_Json_Encode
  imports Go_Json_Text Go_Json_Decode
begin

text \<open>
  Building documents from typed values, field by field, and the facts that carry a struct
  through its document and back: which decoder inverts which encoder, and that what is
  built this way prints to a text that reads back as itself.
\<close>

abbreviation opt_string :: "string option dec" where "opt_string \<equiv> dec_ptr dec_string []"
abbreviation opt_bool :: "bool option dec" where "opt_bool \<equiv> dec_ptr dec_bool False"
abbreviation opt_int :: "int option dec" where "opt_int \<equiv> dec_ptr dec_int64 0"
abbreviation dec_strings :: "string list dec" where "dec_strings \<equiv> dec_list dec_string []"

definition enc_opt :: "('a \<Rightarrow> json) \<Rightarrow> 'a option \<Rightarrow> json" where
  "enc_opt f x = (case x of None \<Rightarrow> JNull | Some v \<Rightarrow> f v)"

definition omit_nil :: "string \<Rightarrow> ('a \<Rightarrow> json) \<Rightarrow> 'a option \<Rightarrow> (string \<times> json) list" where
  "omit_nil name f x = (case x of None \<Rightarrow> [] | Some v \<Rightarrow> [(name, f v)])"

definition enc_string :: "string \<Rightarrow> json" where "enc_string s = JStr (sanitize s)"
definition enc_int :: "int \<Rightarrow> json" where "enc_int n = JNum (itoa n)"

lemma member_step_omit [simp]:
  "foldl (member_step fs) (Some r) (omit_nil name f x @ ms) =
     foldl (member_step fs) (case x of None \<Rightarrow> Some r | Some v \<Rightarrow> member_step fs (Some r) (name, f v)) ms"
  by (cases x) (simp_all add: omit_nil_def)

lemma member_step_exact:
  "map_of fs k = Some d \<Longrightarrow> member_step fs (Some r) (k, j) = d j r"
  by (simp add: member_step_def find_field_def)

lemma dec_scalar [simp]:
  "dec_string (enc_string s) old = Some (sanitize s)" "dec_bool (JBool b) ob = Some b"
  "is_int64 n \<Longrightarrow> dec_int64 (enc_int n) oi = Some n"
  by (simp_all add: dec_string_def enc_string_def dec_bool_def dec_int64_def enc_int_def parse_int64_itoa)

lemma dec_pointer [simp]:
  "opt_string (enc_string s) None = Some (Some (sanitize s))" "opt_bool (JBool b) None = Some (Some b)"
  "is_int64 n \<Longrightarrow> opt_int (enc_int n) None = Some (Some n)"
  "opt_string (enc_opt enc_string x) None = Some (map_option sanitize x)"
  "opt_bool (enc_opt JBool y) None = Some y"
  by (auto simp: dec_ptr_def enc_opt_def enc_string_def dec_string_def dec_bool_def enc_int_def dec_int64_def
      parse_int64_itoa split: option.split)

lemma all_some_map: "(\<And>x. x \<in> set xs \<Longrightarrow> f x = Some (g x)) \<Longrightarrow> all_some (map f xs) = Some (map g xs)"
  by (auto simp: all_some_def)

lemma dec_list_fresh:
  assumes "\<And>x. x \<in> set xs \<Longrightarrow> d (f x) zero = Some (g x)"
  shows "dec_list d zero (JArr (map f xs)) [] = Some (map g xs)"
proof -
  have "map (\<lambda>(i, v). d v (if i < length [] then [] ! i else zero)) (enumerate k (map f ys)) = map (\<lambda>x. d (f x) zero) ys"
    for ys k by (induction ys arbitrary: k) auto
  then show ?thesis using assms by (simp add: dec_list_def all_some_map)
qed

text \<open>A map is marshalled with its keys in order.\<close>

lemma distinct_sort_key: "distinct (map fst (sort_key fst m)) \<longleftrightarrow> distinct (map fst m)"
  by (simp add: distinct_map)

lemma map_of_sort_key:
  assumes "distinct (map fst m)"
  shows "map_of (sort_key fst m) = map_of m"
proof
  fix k
  have "map_of (sort_key fst m) k = Some v \<longleftrightarrow> map_of m k = Some v" for v
    using assms distinct_sort_key [of m] by (simp add: map_of_eq_Some_iff)
  then show "map_of (sort_key fst m) k = map_of m k" by (metis not_None_eq)
qed

lemma printable_scalar [simp]:
  "printable n JNull" "printable n (JBool b)" "printable n (enc_string s)" "printable n (enc_int i)"
  by (simp_all add: printable_def enc_string_def enc_int_def itoa_json_number)

lemma printable_opt: "(\<And>v. printable n (f v)) \<Longrightarrow> printable n (enc_opt f x)"
  by (simp add: enc_opt_def split: option.split)

end
