(* ===== verification/Email_Types.thy ===== *)
theory Email_Types
  imports Go_Json_Encode
begin

text \<open>
  \<open>types.go\<close>: the structs of an email event with their decoding from JSON, one record per
  struct. The named string types (\<open>SpfResult\<close>, \<open>DmarcResult\<close> and the others) are strings, as
  in Go, so an unknown value is representable; pointers are options, and a slice is the list
  of its elements, \<open>nil\<close> and empty alike. \<open>X_zero\<close> is Go's zero value of \<open>X\<close>.
\<close>

record DKIMSignature =
  dkim_Domain :: string
  dkim_Selector :: "string option"
  dkim_Result :: string
  dkim_Aligned :: bool
  dkim_KeyBits :: "int option"
  dkim_Algo :: "string option"

definition DKIMSignature_zero :: DKIMSignature where
  "DKIMSignature_zero = \<lparr>
    dkim_Domain = [], dkim_Selector = None, dkim_Result = [], dkim_Aligned = False,
    dkim_KeyBits = None, dkim_Algo = None\<rparr>"

definition dec_DKIMSignature :: "DKIMSignature dec" where
  "dec_DKIMSignature = dec_struct [
    fld ''domain'' dec_string dkim_Domain dkim_Domain_update,
    fld ''selector'' opt_string dkim_Selector dkim_Selector_update,
    fld ''result'' dec_string dkim_Result dkim_Result_update,
    fld ''aligned'' dec_bool dkim_Aligned dkim_Aligned_update,
    fld ''keyBits'' opt_int dkim_KeyBits dkim_KeyBits_update,
    fld ''algo'' opt_string dkim_Algo dkim_Algo_update]"

record EmailAuth =
  auth_SPF :: string
  auth_DMARC :: string
  auth_DMARCPolicy :: "string option"
  auth_DMARCFromDomain :: "string option"
  auth_DMARCSpfAligned :: "bool option"
  auth_DMARCDkimAligned :: "bool option"
  auth_DMARCSpfStrict :: "bool option"
  auth_DMARCDkimStrict :: "bool option"
  auth_DKIMSignatures :: "DKIMSignature list"

definition EmailAuth_zero :: EmailAuth where
  "EmailAuth_zero = \<lparr>
    auth_SPF = [], auth_DMARC = [], auth_DMARCPolicy = None, auth_DMARCFromDomain = None,
    auth_DMARCSpfAligned = None, auth_DMARCDkimAligned = None, auth_DMARCSpfStrict = None,
    auth_DMARCDkimStrict = None, auth_DKIMSignatures = []\<rparr>"

definition auth_fields :: "(string \<times> EmailAuth dec) list" where
  "auth_fields = [
    fld ''spf'' dec_string auth_SPF auth_SPF_update,
    fld ''dmarc'' dec_string auth_DMARC auth_DMARC_update,
    fld ''dmarcPolicy'' opt_string auth_DMARCPolicy auth_DMARCPolicy_update,
    fld ''dmarcFromDomain'' opt_string auth_DMARCFromDomain auth_DMARCFromDomain_update,
    fld ''dmarcSpfAligned'' opt_bool auth_DMARCSpfAligned auth_DMARCSpfAligned_update,
    fld ''dmarcDkimAligned'' opt_bool auth_DMARCDkimAligned auth_DMARCDkimAligned_update,
    fld ''dmarcSpfStrict'' opt_bool auth_DMARCSpfStrict auth_DMARCSpfStrict_update,
    fld ''dmarcDkimStrict'' opt_bool auth_DMARCDkimStrict auth_DMARCDkimStrict_update,
    fld ''dkimSignatures'' (dec_list dec_DKIMSignature DKIMSignature_zero) auth_DKIMSignatures auth_DKIMSignatures_update]"

definition dec_EmailAuth :: "EmailAuth dec" where
  "dec_EmailAuth = dec_struct auth_fields"

record EmailRelay =
  relay_Hostname :: string
  relay_Via :: string

definition EmailRelay_zero :: EmailRelay where
  "EmailRelay_zero = \<lparr>
    relay_Hostname = [], relay_Via = []\<rparr>"

definition dec_EmailRelay :: "EmailRelay dec" where
  "dec_EmailRelay = dec_struct [
    fld ''hostname'' dec_string relay_Hostname relay_Hostname_update,
    fld ''via'' dec_string relay_Via relay_Via_update]"

record SMTPEnvelope =
  smtp_Helo :: "string option"
  smtp_MailFrom :: string
  smtp_RcptTo :: "string list"

definition SMTPEnvelope_zero :: SMTPEnvelope where
  "SMTPEnvelope_zero = \<lparr>
    smtp_Helo = None, smtp_MailFrom = [], smtp_RcptTo = []\<rparr>"

definition dec_SMTPEnvelope :: "SMTPEnvelope dec" where
  "dec_SMTPEnvelope = dec_struct [
    fld ''helo'' opt_string smtp_Helo smtp_Helo_update,
    fld ''mail_from'' dec_string smtp_MailFrom smtp_MailFrom_update,
    fld ''rcpt_to'' dec_strings smtp_RcptTo smtp_RcptTo_update]"

record EmailHeaders =
  hdr_MessageID :: "string option"
  hdr_Subject :: "string option"
  hdr_From :: string
  hdr_To :: string
  hdr_Date :: "string option"

definition EmailHeaders_zero :: EmailHeaders where
  "EmailHeaders_zero = \<lparr>
    hdr_MessageID = None, hdr_Subject = None, hdr_From = [], hdr_To = [], hdr_Date = None\<rparr>"

definition dec_EmailHeaders :: "EmailHeaders dec" where
  "dec_EmailHeaders = dec_struct [
    fld ''message_id'' opt_string hdr_MessageID hdr_MessageID_update,
    fld ''subject'' opt_string hdr_Subject hdr_Subject_update,
    fld ''from'' dec_string hdr_From hdr_From_update,
    fld ''to'' dec_string hdr_To hdr_To_update,
    fld ''date'' opt_string hdr_Date hdr_Date_update]"

record DownloadInfo =
  download_URL :: string
  download_ExpiresAt :: string

definition DownloadInfo_zero :: DownloadInfo where
  "DownloadInfo_zero = \<lparr>
    download_URL = [], download_ExpiresAt = []\<rparr>"

definition dec_DownloadInfo :: "DownloadInfo dec" where
  "dec_DownloadInfo = dec_struct [
    fld ''url'' dec_string download_URL download_URL_update,
    fld ''expires_at'' dec_string download_ExpiresAt download_ExpiresAt_update]"

record RawContent =
  raw_Included :: bool
  raw_Encoding :: "string option"
  raw_ReasonCode :: "string option"
  raw_MaxInlineBytes :: int
  raw_SizeBytes :: int
  raw_SHA256 :: string
  raw_Data :: "string option"

definition RawContent_zero :: RawContent where
  "RawContent_zero = \<lparr>
    raw_Included = False, raw_Encoding = None, raw_ReasonCode = None, raw_MaxInlineBytes = 0,
    raw_SizeBytes = 0, raw_SHA256 = [], raw_Data = None\<rparr>"

definition dec_RawContent :: "RawContent dec" where
  "dec_RawContent = dec_struct [
    fld ''included'' dec_bool raw_Included raw_Included_update,
    fld ''encoding'' opt_string raw_Encoding raw_Encoding_update,
    fld ''reason_code'' opt_string raw_ReasonCode raw_ReasonCode_update,
    fld ''max_inline_bytes'' dec_int64 raw_MaxInlineBytes raw_MaxInlineBytes_update,
    fld ''size_bytes'' dec_int64 raw_SizeBytes raw_SizeBytes_update,
    fld ''sha256'' dec_string raw_SHA256 raw_SHA256_update,
    fld ''data'' opt_string raw_Data raw_Data_update]"

record EmailContent =
  content_Raw :: RawContent
  content_Download :: DownloadInfo
  content_Restricted :: bool

definition EmailContent_zero :: EmailContent where
  "EmailContent_zero = \<lparr>
    content_Raw = RawContent_zero, content_Download = DownloadInfo_zero,
    content_Restricted = False\<rparr>"

text \<open>
  \<open>EmailContent.UnmarshalJSON\<close>: the two halves are present together or absent together, and
  absent means the credential is restricted. It runs on a JSON \<open>null\<close> too.
\<close>

record ContentWire =
  wire_Raw :: "RawContent option"
  wire_Download :: "DownloadInfo option"

definition dec_ContentWire :: "ContentWire dec" where
  "dec_ContentWire = dec_struct [
    fld ''raw'' (dec_ptr dec_RawContent RawContent_zero) wire_Raw wire_Raw_update,
    fld ''download'' (dec_ptr dec_DownloadInfo DownloadInfo_zero) wire_Download wire_Download_update]"

definition dec_EmailContent :: "EmailContent dec" where
  "dec_EmailContent j old =
     (case dec_ContentWire j \<lparr>wire_Raw = None, wire_Download = None\<rparr> of None \<Rightarrow> None
      | Some w \<Rightarrow> (case (wire_Raw w, wire_Download w) of
            (None, None) \<Rightarrow> Some (EmailContent_zero \<lparr>content_Restricted := True\<rparr>)
          | (Some r, Some d) \<Rightarrow>
              Some \<lparr>content_Raw = r, content_Download = d, content_Restricted = False\<rparr>
          | _ \<Rightarrow> None))"

record EmailAddress =
  addr_Address :: string
  addr_Name :: "string option"

definition EmailAddress_zero :: EmailAddress where
  "EmailAddress_zero = \<lparr>
    addr_Address = [], addr_Name = None\<rparr>"

definition dec_EmailAddress :: "EmailAddress dec" where
  "dec_EmailAddress = dec_struct [
    fld ''address'' dec_string addr_Address addr_Address_update,
    fld ''name'' opt_string addr_Name addr_Name_update]"

record WebhookAttachment =
  attach_Filename :: "string option"
  attach_ContentType :: string
  attach_SizeBytes :: int
  attach_SHA256 :: string
  attach_PartIndex :: int
  attach_TarPath :: string

definition WebhookAttachment_zero :: WebhookAttachment where
  "WebhookAttachment_zero = \<lparr>
    attach_Filename = None, attach_ContentType = [], attach_SizeBytes = 0,
    attach_SHA256 = [], attach_PartIndex = 0, attach_TarPath = []\<rparr>"

definition dec_WebhookAttachment :: "WebhookAttachment dec" where
  "dec_WebhookAttachment = dec_struct [
    fld ''filename'' opt_string attach_Filename attach_Filename_update,
    fld ''content_type'' dec_string attach_ContentType attach_ContentType_update,
    fld ''size_bytes'' dec_int64 attach_SizeBytes attach_SizeBytes_update,
    fld ''sha256'' dec_string attach_SHA256 attach_SHA256_update,
    fld ''part_index'' dec_int64 attach_PartIndex attach_PartIndex_update,
    fld ''tar_path'' dec_string attach_TarPath attach_TarPath_update]"

record ParsedError =
  perr_Code :: string
  perr_Message :: string
  perr_Retryable :: bool

definition ParsedError_zero :: ParsedError where
  "ParsedError_zero = \<lparr>
    perr_Code = [], perr_Message = [], perr_Retryable = False\<rparr>"

definition dec_ParsedError :: "ParsedError dec" where
  "dec_ParsedError = dec_struct [
    fld ''code'' dec_string perr_Code perr_Code_update,
    fld ''message'' dec_string perr_Message perr_Message_update,
    fld ''retryable'' dec_bool perr_Retryable perr_Retryable_update]"

record ParsedData =
  parsed_Status :: string
  parsed_Error :: "ParsedError option"
  parsed_BodyText :: "string option"
  parsed_BodyHTML :: "string option"
  parsed_ReplyTo :: "EmailAddress list"
  parsed_CC :: "EmailAddress list"
  parsed_BCC :: "EmailAddress list"
  parsed_ToAddresses :: "EmailAddress list"
  parsed_InReplyTo :: "string list"
  parsed_References :: "string list"
  parsed_Attachments :: "WebhookAttachment list"
  parsed_AttachmentsDownloadURL :: "string option"

definition ParsedData_zero :: ParsedData where
  "ParsedData_zero = \<lparr>
    parsed_Status = [], parsed_Error = None, parsed_BodyText = None, parsed_BodyHTML = None,
    parsed_ReplyTo = [], parsed_CC = [], parsed_BCC = [], parsed_ToAddresses = [],
    parsed_InReplyTo = [], parsed_References = [], parsed_Attachments = [],
    parsed_AttachmentsDownloadURL = None\<rparr>"

definition dec_ParsedData :: "ParsedData dec" where
  "dec_ParsedData = dec_struct [
    fld ''status'' dec_string parsed_Status parsed_Status_update,
    fld ''error'' (dec_ptr dec_ParsedError ParsedError_zero) parsed_Error parsed_Error_update,
    fld ''body_text'' opt_string parsed_BodyText parsed_BodyText_update,
    fld ''body_html'' opt_string parsed_BodyHTML parsed_BodyHTML_update,
    fld ''reply_to'' (dec_list dec_EmailAddress EmailAddress_zero) parsed_ReplyTo parsed_ReplyTo_update,
    fld ''cc'' (dec_list dec_EmailAddress EmailAddress_zero) parsed_CC parsed_CC_update,
    fld ''bcc'' (dec_list dec_EmailAddress EmailAddress_zero) parsed_BCC parsed_BCC_update,
    fld ''to_addresses'' (dec_list dec_EmailAddress EmailAddress_zero) parsed_ToAddresses parsed_ToAddresses_update,
    fld ''in_reply_to'' dec_strings parsed_InReplyTo parsed_InReplyTo_update,
    fld ''references'' dec_strings parsed_References parsed_References_update,
    fld ''attachments'' (dec_list dec_WebhookAttachment WebhookAttachment_zero) parsed_Attachments parsed_Attachments_update,
    fld ''attachments_download_url'' opt_string parsed_AttachmentsDownloadURL parsed_AttachmentsDownloadURL_update]"

record BounceAnalysis =
  bounce_IsBounce :: bool
  bounce_Kind :: string
  bounce_Type :: string
  bounce_Category :: string
  bounce_ClassifiedBy :: string
  bounce_FailedRecipient :: "string option"
  bounce_FailedRecipients :: "string list"
  bounce_SMTPCode :: "int option"
  bounce_StatusCode :: "string option"
  bounce_DiagnosticCode :: "string option"
  bounce_ReportedByMTA :: "string option"
  bounce_OriginalMessageID :: "string option"
  bounce_Reasons :: "string list"
  bounce_SentEmailID :: "string option"

definition BounceAnalysis_zero :: BounceAnalysis where
  "BounceAnalysis_zero = \<lparr>
    bounce_IsBounce = False, bounce_Kind = [], bounce_Type = [], bounce_Category = [],
    bounce_ClassifiedBy = [], bounce_FailedRecipient = None, bounce_FailedRecipients = [],
    bounce_SMTPCode = None, bounce_StatusCode = None, bounce_DiagnosticCode = None,
    bounce_ReportedByMTA = None, bounce_OriginalMessageID = None, bounce_Reasons = [],
    bounce_SentEmailID = None\<rparr>"

definition dec_BounceAnalysis :: "BounceAnalysis dec" where
  "dec_BounceAnalysis = dec_struct [
    fld ''is_bounce'' dec_bool bounce_IsBounce bounce_IsBounce_update,
    fld ''kind'' dec_string bounce_Kind bounce_Kind_update,
    fld ''type'' dec_string bounce_Type bounce_Type_update,
    fld ''category'' dec_string bounce_Category bounce_Category_update,
    fld ''classified_by'' dec_string bounce_ClassifiedBy bounce_ClassifiedBy_update,
    fld ''failed_recipient'' opt_string bounce_FailedRecipient bounce_FailedRecipient_update,
    fld ''failed_recipients'' dec_strings bounce_FailedRecipients bounce_FailedRecipients_update,
    fld ''smtp_code'' opt_int bounce_SMTPCode bounce_SMTPCode_update,
    fld ''status_code'' opt_string bounce_StatusCode bounce_StatusCode_update,
    fld ''diagnostic_code'' opt_string bounce_DiagnosticCode bounce_DiagnosticCode_update,
    fld ''reported_by_mta'' opt_string bounce_ReportedByMTA bounce_ReportedByMTA_update,
    fld ''original_message_id'' opt_string bounce_OriginalMessageID bounce_OriginalMessageID_update,
    fld ''reasons'' dec_strings bounce_Reasons bounce_Reasons_update,
    fld ''sent_email_id'' opt_string bounce_SentEmailID bounce_SentEmailID_update]"

record ReportDateRange =
  range_Start :: "string option"
  range_End :: "string option"

definition ReportDateRange_zero :: ReportDateRange where
  "ReportDateRange_zero = \<lparr>
    range_Start = None, range_End = None\<rparr>"

definition dec_ReportDateRange :: "ReportDateRange dec" where
  "dec_ReportDateRange = dec_struct [
    fld ''start'' opt_string range_Start range_Start_update,
    fld ''end'' opt_string range_End range_End_update]"

record TLSReportFailure =
  tlsf_ResultType :: "string option"
  tlsf_Count :: int
  tlsf_SendingMTAIP :: "string option"
  tlsf_ReceivingMXHostname :: "string option"

definition TLSReportFailure_zero :: TLSReportFailure where
  "TLSReportFailure_zero = \<lparr>
    tlsf_ResultType = None, tlsf_Count = 0, tlsf_SendingMTAIP = None,
    tlsf_ReceivingMXHostname = None\<rparr>"

definition dec_TLSReportFailure :: "TLSReportFailure dec" where
  "dec_TLSReportFailure = dec_struct [
    fld ''result_type'' opt_string tlsf_ResultType tlsf_ResultType_update,
    fld ''count'' dec_int64 tlsf_Count tlsf_Count_update,
    fld ''sending_mta_ip'' opt_string tlsf_SendingMTAIP tlsf_SendingMTAIP_update,
    fld ''receiving_mx_hostname'' opt_string tlsf_ReceivingMXHostname tlsf_ReceivingMXHostname_update]"

record TLSReportPolicy =
  tlsp_PolicyDomain :: "string option"
  tlsp_PolicyType :: "string option"
  tlsp_SuccessfulSessions :: int
  tlsp_FailedSessions :: int
  tlsp_Failures :: "TLSReportFailure list"

definition TLSReportPolicy_zero :: TLSReportPolicy where
  "TLSReportPolicy_zero = \<lparr>
    tlsp_PolicyDomain = None, tlsp_PolicyType = None, tlsp_SuccessfulSessions = 0,
    tlsp_FailedSessions = 0, tlsp_Failures = []\<rparr>"

definition dec_TLSReportPolicy :: "TLSReportPolicy dec" where
  "dec_TLSReportPolicy = dec_struct [
    fld ''policy_domain'' opt_string tlsp_PolicyDomain tlsp_PolicyDomain_update,
    fld ''policy_type'' opt_string tlsp_PolicyType tlsp_PolicyType_update,
    fld ''successful_sessions'' dec_int64 tlsp_SuccessfulSessions tlsp_SuccessfulSessions_update,
    fld ''failed_sessions'' dec_int64 tlsp_FailedSessions tlsp_FailedSessions_update,
    fld ''failures'' (dec_list dec_TLSReportFailure TLSReportFailure_zero) tlsp_Failures tlsp_Failures_update]"

record TLSReportAnalysis =
  tls_Kind :: string
  tls_Organization :: "string option"
  tls_ReportID :: "string option"
  tls_Contact :: "string option"
  tls_DateRange :: ReportDateRange
  tls_TotalSuccessfulSessions :: int
  tls_TotalFailedSessions :: int
  tls_Policies :: "TLSReportPolicy list"

definition TLSReportAnalysis_zero :: TLSReportAnalysis where
  "TLSReportAnalysis_zero = \<lparr>
    tls_Kind = [], tls_Organization = None, tls_ReportID = None, tls_Contact = None,
    tls_DateRange = ReportDateRange_zero, tls_TotalSuccessfulSessions = 0,
    tls_TotalFailedSessions = 0, tls_Policies = []\<rparr>"

definition dec_TLSReportAnalysis :: "TLSReportAnalysis dec" where
  "dec_TLSReportAnalysis = dec_struct [
    fld ''kind'' dec_string tls_Kind tls_Kind_update,
    fld ''organization'' opt_string tls_Organization tls_Organization_update,
    fld ''report_id'' opt_string tls_ReportID tls_ReportID_update,
    fld ''contact'' opt_string tls_Contact tls_Contact_update,
    fld ''date_range'' dec_ReportDateRange tls_DateRange tls_DateRange_update,
    fld ''total_successful_sessions'' dec_int64 tls_TotalSuccessfulSessions tls_TotalSuccessfulSessions_update,
    fld ''total_failed_sessions'' dec_int64 tls_TotalFailedSessions tls_TotalFailedSessions_update,
    fld ''policies'' (dec_list dec_TLSReportPolicy TLSReportPolicy_zero) tls_Policies tls_Policies_update]"

record DMARCPolicyPublished =
  dpol_Domain :: "string option"
  dpol_P :: "string option"
  dpol_SP :: "string option"
  dpol_Pct :: "int option"
  dpol_Adkim :: "string option"
  dpol_Aspf :: "string option"

definition DMARCPolicyPublished_zero :: DMARCPolicyPublished where
  "DMARCPolicyPublished_zero = \<lparr>
    dpol_Domain = None, dpol_P = None, dpol_SP = None, dpol_Pct = None, dpol_Adkim = None,
    dpol_Aspf = None\<rparr>"

definition dec_DMARCPolicyPublished :: "DMARCPolicyPublished dec" where
  "dec_DMARCPolicyPublished = dec_struct [
    fld ''domain'' opt_string dpol_Domain dpol_Domain_update,
    fld ''p'' opt_string dpol_P dpol_P_update,
    fld ''sp'' opt_string dpol_SP dpol_SP_update,
    fld ''pct'' opt_int dpol_Pct dpol_Pct_update,
    fld ''adkim'' opt_string dpol_Adkim dpol_Adkim_update,
    fld ''aspf'' opt_string dpol_Aspf dpol_Aspf_update]"

record DMARCRecord =
  drec_SourceIP :: "string option"
  drec_Count :: int
  drec_Disposition :: "string option"
  drec_DKIM :: "string option"
  drec_SPF :: "string option"
  drec_HeaderFrom :: "string option"

definition DMARCRecord_zero :: DMARCRecord where
  "DMARCRecord_zero = \<lparr>
    drec_SourceIP = None, drec_Count = 0, drec_Disposition = None, drec_DKIM = None,
    drec_SPF = None, drec_HeaderFrom = None\<rparr>"

definition dec_DMARCRecord :: "DMARCRecord dec" where
  "dec_DMARCRecord = dec_struct [
    fld ''source_ip'' opt_string drec_SourceIP drec_SourceIP_update,
    fld ''count'' dec_int64 drec_Count drec_Count_update,
    fld ''disposition'' opt_string drec_Disposition drec_Disposition_update,
    fld ''dkim'' opt_string drec_DKIM drec_DKIM_update,
    fld ''spf'' opt_string drec_SPF drec_SPF_update,
    fld ''header_from'' opt_string drec_HeaderFrom drec_HeaderFrom_update]"

record DMARCReportAnalysis =
  dmarc_Kind :: string
  dmarc_Organization :: "string option"
  dmarc_ReportID :: "string option"
  dmarc_DateRange :: ReportDateRange
  dmarc_PolicyPublished :: DMARCPolicyPublished
  dmarc_TotalCount :: int
  dmarc_DKIMPassCount :: int
  dmarc_SPFPassCount :: int
  dmarc_Records :: "DMARCRecord list"

definition DMARCReportAnalysis_zero :: DMARCReportAnalysis where
  "DMARCReportAnalysis_zero = \<lparr>
    dmarc_Kind = [], dmarc_Organization = None, dmarc_ReportID = None,
    dmarc_DateRange = ReportDateRange_zero,
    dmarc_PolicyPublished = DMARCPolicyPublished_zero, dmarc_TotalCount = 0,
    dmarc_DKIMPassCount = 0, dmarc_SPFPassCount = 0, dmarc_Records = []\<rparr>"

definition dec_DMARCReportAnalysis :: "DMARCReportAnalysis dec" where
  "dec_DMARCReportAnalysis = dec_struct [
    fld ''kind'' dec_string dmarc_Kind dmarc_Kind_update,
    fld ''organization'' opt_string dmarc_Organization dmarc_Organization_update,
    fld ''report_id'' opt_string dmarc_ReportID dmarc_ReportID_update,
    fld ''date_range'' dec_ReportDateRange dmarc_DateRange dmarc_DateRange_update,
    fld ''policy_published'' dec_DMARCPolicyPublished dmarc_PolicyPublished dmarc_PolicyPublished_update,
    fld ''total_count'' dec_int64 dmarc_TotalCount dmarc_TotalCount_update,
    fld ''dkim_pass_count'' dec_int64 dmarc_DKIMPassCount dmarc_DKIMPassCount_update,
    fld ''spf_pass_count'' dec_int64 dmarc_SPFPassCount dmarc_SPFPassCount_update,
    fld ''records'' (dec_list dec_DMARCRecord DMARCRecord_zero) dmarc_Records dmarc_Records_update]"

record SpamAssassinAnalysis =
  spam_Score :: f64

definition SpamAssassinAnalysis_zero :: SpamAssassinAnalysis where
  "SpamAssassinAnalysis_zero = \<lparr>
    spam_Score = (F64 0 0)\<rparr>"

definition dec_SpamAssassinAnalysis :: "SpamAssassinAnalysis dec" where
  "dec_SpamAssassinAnalysis = dec_struct [
    fld ''score'' dec_float spam_Score spam_Score_update]"

record ForwardOriginalSender =
  forig_Email :: string
  forig_Domain :: string

definition ForwardOriginalSender_zero :: ForwardOriginalSender where
  "ForwardOriginalSender_zero = \<lparr>
    forig_Email = [], forig_Domain = []\<rparr>"

definition dec_ForwardOriginalSender :: "ForwardOriginalSender dec" where
  "dec_ForwardOriginalSender = dec_struct [
    fld ''email'' dec_string forig_Email forig_Email_update,
    fld ''domain'' dec_string forig_Domain forig_Domain_update]"

record ForwardVerification =
  fver_Verdict :: string
  fver_Confidence :: string
  fver_DKIMVerified :: bool
  fver_DKIMDomain :: "string option"
  fver_DMARCPolicy :: "string option"

definition ForwardVerification_zero :: ForwardVerification where
  "ForwardVerification_zero = \<lparr>
    fver_Verdict = [], fver_Confidence = [], fver_DKIMVerified = False,
    fver_DKIMDomain = None, fver_DMARCPolicy = None\<rparr>"

definition dec_ForwardVerification :: "ForwardVerification dec" where
  "dec_ForwardVerification = dec_struct [
    fld ''verdict'' dec_string fver_Verdict fver_Verdict_update,
    fld ''confidence'' dec_string fver_Confidence fver_Confidence_update,
    fld ''dkim_verified'' dec_bool fver_DKIMVerified fver_DKIMVerified_update,
    fld ''dkim_domain'' opt_string fver_DKIMDomain fver_DKIMDomain_update,
    fld ''dmarc_policy'' opt_string fver_DMARCPolicy fver_DMARCPolicy_update]"

record ForwardResult =
  fres_Type :: string
  fres_AttachmentTarPath :: "string option"
  fres_AttachmentFilename :: "string option"
  fres_Analyzed :: "bool option"
  fres_OriginalSender :: "ForwardOriginalSender option"
  fres_Verification :: "ForwardVerification option"
  fres_Summary :: string

definition ForwardResult_zero :: ForwardResult where
  "ForwardResult_zero = \<lparr>
    fres_Type = [], fres_AttachmentTarPath = None, fres_AttachmentFilename = None,
    fres_Analyzed = None, fres_OriginalSender = None, fres_Verification = None,
    fres_Summary = []\<rparr>"

definition dec_ForwardResult :: "ForwardResult dec" where
  "dec_ForwardResult = dec_struct [
    fld ''type'' dec_string fres_Type fres_Type_update,
    fld ''attachment_tar_path'' opt_string fres_AttachmentTarPath fres_AttachmentTarPath_update,
    fld ''attachment_filename'' opt_string fres_AttachmentFilename fres_AttachmentFilename_update,
    fld ''analyzed'' opt_bool fres_Analyzed fres_Analyzed_update,
    fld ''original_sender'' (dec_ptr dec_ForwardOriginalSender ForwardOriginalSender_zero) fres_OriginalSender fres_OriginalSender_update,
    fld ''verification'' (dec_ptr dec_ForwardVerification ForwardVerification_zero) fres_Verification fres_Verification_update,
    fld ''summary'' dec_string fres_Summary fres_Summary_update]"

record ForwardAnalysis =
  fwd_Detected :: bool
  fwd_Results :: "ForwardResult list"
  fwd_AttachmentsFound :: int
  fwd_AttachmentsAnalyzed :: int
  fwd_AttachmentsLimit :: "int option"

definition ForwardAnalysis_zero :: ForwardAnalysis where
  "ForwardAnalysis_zero = \<lparr>
    fwd_Detected = False, fwd_Results = [], fwd_AttachmentsFound = 0,
    fwd_AttachmentsAnalyzed = 0, fwd_AttachmentsLimit = None\<rparr>"

definition dec_ForwardAnalysis :: "ForwardAnalysis dec" where
  "dec_ForwardAnalysis = dec_struct [
    fld ''detected'' dec_bool fwd_Detected fwd_Detected_update,
    fld ''results'' (dec_list dec_ForwardResult ForwardResult_zero) fwd_Results fwd_Results_update,
    fld ''attachments_found'' dec_int64 fwd_AttachmentsFound fwd_AttachmentsFound_update,
    fld ''attachments_analyzed'' dec_int64 fwd_AttachmentsAnalyzed fwd_AttachmentsAnalyzed_update,
    fld ''attachments_limit'' opt_int fwd_AttachmentsLimit fwd_AttachmentsLimit_update]"

record EmailAnalysis =
  analysis_Spamassassin :: "SpamAssassinAnalysis option"
  analysis_Forward :: "ForwardAnalysis option"
  analysis_Bounce :: "BounceAnalysis option"
  analysis_TLSReport :: "TLSReportAnalysis option"
  analysis_DMARCReport :: "DMARCReportAnalysis option"

definition EmailAnalysis_zero :: EmailAnalysis where
  "EmailAnalysis_zero = \<lparr>
    analysis_Spamassassin = None, analysis_Forward = None, analysis_Bounce = None,
    analysis_TLSReport = None, analysis_DMARCReport = None\<rparr>"

definition dec_EmailAnalysis :: "EmailAnalysis dec" where
  "dec_EmailAnalysis = dec_struct [
    fld ''spamassassin'' (dec_ptr dec_SpamAssassinAnalysis SpamAssassinAnalysis_zero) analysis_Spamassassin analysis_Spamassassin_update,
    fld ''forward'' (dec_ptr dec_ForwardAnalysis ForwardAnalysis_zero) analysis_Forward analysis_Forward_update,
    fld ''bounce'' (dec_ptr dec_BounceAnalysis BounceAnalysis_zero) analysis_Bounce analysis_Bounce_update,
    fld ''tls_report'' (dec_ptr dec_TLSReportAnalysis TLSReportAnalysis_zero) analysis_TLSReport analysis_TLSReport_update,
    fld ''dmarc_report'' (dec_ptr dec_DMARCReportAnalysis DMARCReportAnalysis_zero) analysis_DMARCReport analysis_DMARCReport_update]"

record Email =
  email_ID :: string
  email_ReceivedAt :: string
  email_SMTP :: SMTPEnvelope
  email_Headers :: EmailHeaders
  email_Content :: EmailContent
  email_Parsed :: ParsedData
  email_Analysis :: EmailAnalysis
  email_Auth :: EmailAuth
  email_Relay :: "EmailRelay option"
  email_Automated :: "bool option"
  email_AutomatedReasons :: "string list"

definition Email_zero :: Email where
  "Email_zero = \<lparr>
    email_ID = [], email_ReceivedAt = [], email_SMTP = SMTPEnvelope_zero,
    email_Headers = EmailHeaders_zero, email_Content = EmailContent_zero,
    email_Parsed = ParsedData_zero, email_Analysis = EmailAnalysis_zero,
    email_Auth = EmailAuth_zero, email_Relay = None, email_Automated = None,
    email_AutomatedReasons = []\<rparr>"

definition dec_Email :: "Email dec" where
  "dec_Email = dec_struct [
    fld ''id'' dec_string email_ID email_ID_update,
    fld ''received_at'' dec_string email_ReceivedAt email_ReceivedAt_update,
    fld ''smtp'' dec_SMTPEnvelope email_SMTP email_SMTP_update,
    fld ''headers'' dec_EmailHeaders email_Headers email_Headers_update,
    fld ''content'' dec_EmailContent email_Content email_Content_update,
    fld ''parsed'' dec_ParsedData email_Parsed email_Parsed_update,
    fld ''analysis'' dec_EmailAnalysis email_Analysis email_Analysis_update,
    fld ''auth'' dec_EmailAuth email_Auth email_Auth_update,
    fld ''relay'' (dec_ptr dec_EmailRelay EmailRelay_zero) email_Relay email_Relay_update,
    fld ''automated'' opt_bool email_Automated email_Automated_update,
    fld ''automated_reasons'' dec_strings email_AutomatedReasons email_AutomatedReasons_update]"

record Delivery =
  delivery_EndpointID :: string
  delivery_Attempt :: int
  delivery_AttemptedAt :: string

definition Delivery_zero :: Delivery where
  "Delivery_zero = \<lparr>
    delivery_EndpointID = [], delivery_Attempt = 0, delivery_AttemptedAt = []\<rparr>"

definition dec_Delivery :: "Delivery dec" where
  "dec_Delivery = dec_struct [
    fld ''endpoint_id'' dec_string delivery_EndpointID delivery_EndpointID_update,
    fld ''attempt'' dec_int64 delivery_Attempt delivery_Attempt_update,
    fld ''attempted_at'' dec_string delivery_AttemptedAt delivery_AttemptedAt_update]"

record EmailReceivedEvent =
  received_ID :: string
  received_Event :: string
  received_Version :: string
  received_Delivery :: Delivery
  received_Email :: Email

definition EmailReceivedEvent_zero :: EmailReceivedEvent where
  "EmailReceivedEvent_zero = \<lparr>
    received_ID = [], received_Event = [], received_Version = [],
    received_Delivery = Delivery_zero, received_Email = Email_zero\<rparr>"

definition dec_EmailReceivedEvent :: "EmailReceivedEvent dec" where
  "dec_EmailReceivedEvent = dec_struct [
    fld ''id'' dec_string received_ID received_ID_update,
    fld ''event'' dec_string received_Event received_Event_update,
    fld ''version'' dec_string received_Version received_Version_update,
    fld ''delivery'' dec_Delivery received_Delivery received_Delivery_update,
    fld ''email'' dec_Email received_Email received_Email_update]"

text \<open>\<open>json.Marshal\<close> of the authentication results; a pointer marked \<open>omitempty\<close> is left out when nil.\<close>

definition enc_DKIMSignature :: "DKIMSignature \<Rightarrow> json" where
  "enc_DKIMSignature s = JObj (
     [(''domain'', enc_string (dkim_Domain s))] @ omit_nil ''selector'' enc_string (dkim_Selector s) @
     [(''result'', enc_string (dkim_Result s)), (''aligned'', JBool (dkim_Aligned s))] @
     omit_nil ''keyBits'' enc_int (dkim_KeyBits s) @ omit_nil ''algo'' enc_string (dkim_Algo s))"

definition enc_EmailAuth :: "EmailAuth \<Rightarrow> json" where
  "enc_EmailAuth a = JObj (
     [(''spf'', enc_string (auth_SPF a)), (''dmarc'', enc_string (auth_DMARC a)),
      (''dmarcPolicy'', enc_opt enc_string (auth_DMARCPolicy a)),
      (''dmarcFromDomain'', enc_opt enc_string (auth_DMARCFromDomain a))] @
     omit_nil ''dmarcSpfAligned'' JBool (auth_DMARCSpfAligned a) @
     omit_nil ''dmarcDkimAligned'' JBool (auth_DMARCDkimAligned a) @
     [(''dmarcSpfStrict'', enc_opt JBool (auth_DMARCSpfStrict a)),
      (''dmarcDkimStrict'', enc_opt JBool (auth_DMARCDkimStrict a)),
      (''dkimSignatures'', JArr (map enc_DKIMSignature (auth_DKIMSignatures a)))])"

end
