(* ===== verification/Email_Encode.thy ===== *)
theory Email_Encode
  imports Email_Types
begin

text \<open>
  The custom marshalling of \<open>types.go\<close>: \<open>EmailContent.MarshalJSON\<close>, which writes restricted content
  as two nulls, and \<open>ForwardResult.MarshalJSON\<close>, which writes the members of an attachment for an
  attachment only and, as it goes through a map, all of them in the order of their names. Both are
  inverse to decoding, up to the replacement of invalid UTF-8.
\<close>

section \<open>Content\<close>

definition enc_DownloadInfo :: "DownloadInfo \<Rightarrow> json" where
  "enc_DownloadInfo d = JObj [(''url'', enc_string (download_URL d)), (''expires_at'', enc_string (download_ExpiresAt d))]"

definition enc_RawContent :: "RawContent \<Rightarrow> json" where
  "enc_RawContent r = JObj ((''included'', JBool (raw_Included r)) #
     omit_nil ''encoding'' enc_string (raw_Encoding r) @ omit_nil ''reason_code'' enc_string (raw_ReasonCode r) @
     [(''max_inline_bytes'', enc_int (raw_MaxInlineBytes r)), (''size_bytes'', enc_int (raw_SizeBytes r)),
      (''sha256'', enc_string (raw_SHA256 r))] @ omit_nil ''data'' enc_string (raw_Data r))"

definition enc_EmailContent :: "EmailContent \<Rightarrow> json" where
  "enc_EmailContent c =
     (if content_Restricted c then JObj [(''raw'', JNull), (''download'', JNull)]
      else JObj [(''raw'', enc_RawContent (content_Raw c)), (''download'', enc_DownloadInfo (content_Download c))])"

definition sanitize_raw :: "RawContent \<Rightarrow> RawContent" where
  "sanitize_raw r = r\<lparr>raw_Encoding := map_option sanitize (raw_Encoding r), raw_ReasonCode := map_option sanitize (raw_ReasonCode r),
     raw_SHA256 := sanitize (raw_SHA256 r), raw_Data := map_option sanitize (raw_Data r)\<rparr>"

definition sanitize_download :: "DownloadInfo \<Rightarrow> DownloadInfo" where
  "sanitize_download d = \<lparr>download_URL = sanitize (download_URL d), download_ExpiresAt = sanitize (download_ExpiresAt d)\<rparr>"

definition sanitize_content :: "EmailContent \<Rightarrow> EmailContent" where
  "sanitize_content c =
     (if content_Restricted c then EmailContent_zero\<lparr>content_Restricted := True\<rparr>
      else \<lparr>content_Raw = sanitize_raw (content_Raw c), content_Download = sanitize_download (content_Download c),
        content_Restricted = False\<rparr>)"

definition sizes_ok :: "RawContent \<Rightarrow> bool" where
  "sizes_ok r \<longleftrightarrow> is_int64 (raw_MaxInlineBytes r) \<and> is_int64 (raw_SizeBytes r)"

lemma dec_ptr_fresh: "j \<noteq> JNull \<Longrightarrow> d j zero = Some v \<Longrightarrow> dec_ptr d zero j None = Some (Some v)"
  by (cases j) (simp_all add: dec_ptr_def)

lemma dec_enc_download: "dec_DownloadInfo (enc_DownloadInfo d) DownloadInfo_zero = Some (sanitize_download d)"
  by (simp add: dec_DownloadInfo_def enc_DownloadInfo_def dec_struct_def member_step_exact fld_def DownloadInfo_zero_def
      sanitize_download_def)

lemma dec_enc_raw:
  "sizes_ok r \<Longrightarrow> dec_RawContent (enc_RawContent r) RawContent_zero = Some (sanitize_raw r)"
  by (cases "raw_Encoding r"; cases "raw_ReasonCode r"; cases "raw_Data r")
    (simp_all add: sizes_ok_def dec_RawContent_def enc_RawContent_def dec_struct_def member_step_exact fld_def RawContent_zero_def
      sanitize_raw_def omit_nil_def)

lemma dec_enc_content:
  assumes "sizes_ok (content_Raw c)"
  shows "dec_EmailContent (enc_EmailContent c) old = Some (sanitize_content c)"
proof (cases "content_Restricted c")
  case True
  then show ?thesis
    by (simp add: dec_EmailContent_def enc_EmailContent_def dec_ContentWire_def dec_struct_def member_step_exact fld_def
        dec_ptr_def sanitize_content_def)
next
  case False
  have "enc_RawContent r \<noteq> JNull" "enc_DownloadInfo d \<noteq> JNull" for r d
    by (simp_all add: enc_RawContent_def enc_DownloadInfo_def)
  note p = dec_ptr_fresh [of _ dec_RawContent, OF this(1) dec_enc_raw [OF assms]] dec_ptr_fresh [of _ dec_DownloadInfo, OF this(2) dec_enc_download]
  show ?thesis using False
    by (simp add: p dec_EmailContent_def enc_EmailContent_def dec_ContentWire_def dec_struct_def member_step_exact fld_def
        sanitize_content_def)
qed

lemma printable_content: "printable (Suc (Suc (Suc n))) (enc_EmailContent c)"
proof -
  have "printable (Suc (Suc n)) (enc_RawContent r)" for r
    unfolding enc_RawContent_def by (rule printable_obj) (auto simp: omit_nil_def split: option.splits)
  moreover have "printable (Suc (Suc n)) (enc_DownloadInfo d)" for d
    unfolding enc_DownloadInfo_def by (rule printable_obj) auto
  moreover have "printable (Suc (Suc (Suc n))) (JObj [(''raw'', JNull), (''download'', JNull)])"
    by (rule printable_obj) auto
  ultimately show ?thesis unfolding enc_EmailContent_def by (auto intro!: printable_obj)
qed

section \<open>Forwarded messages\<close>

definition enc_ForwardOriginalSender :: "ForwardOriginalSender \<Rightarrow> json" where
  "enc_ForwardOriginalSender s = JObj [(''email'', enc_string (forig_Email s)), (''domain'', enc_string (forig_Domain s))]"

definition enc_ForwardVerification :: "ForwardVerification \<Rightarrow> json" where
  "enc_ForwardVerification v = JObj [(''verdict'', enc_string (fver_Verdict v)), (''confidence'', enc_string (fver_Confidence v)),
     (''dkim_verified'', JBool (fver_DKIMVerified v)), (''dkim_domain'', enc_opt enc_string (fver_DKIMDomain v)),
     (''dmarc_policy'', enc_opt enc_string (fver_DMARCPolicy v))]"

definition forward_members :: "ForwardResult \<Rightarrow> (string \<times> json) list" where
  "forward_members r = [(''type'', enc_string (fres_Type r)),
     (''original_sender'', enc_opt enc_ForwardOriginalSender (fres_OriginalSender r)),
     (''verification'', enc_opt enc_ForwardVerification (fres_Verification r)), (''summary'', enc_string (fres_Summary r))] @
     (if fres_Type r = ''attachment'' then
        [(''attachment_tar_path'', enc_opt enc_string (fres_AttachmentTarPath r)),
         (''attachment_filename'', enc_opt enc_string (fres_AttachmentFilename r)),
         (''analyzed'', enc_opt JBool (fres_Analyzed r))] else [])"

definition enc_ForwardResult :: "ForwardResult \<Rightarrow> json" where
  "enc_ForwardResult r = JObj (sort_key fst (forward_members r))"

definition sanitize_sender :: "ForwardOriginalSender \<Rightarrow> ForwardOriginalSender" where
  "sanitize_sender s = \<lparr>forig_Email = sanitize (forig_Email s), forig_Domain = sanitize (forig_Domain s)\<rparr>"

definition sanitize_verification :: "ForwardVerification \<Rightarrow> ForwardVerification" where
  "sanitize_verification v = \<lparr>fver_Verdict = sanitize (fver_Verdict v), fver_Confidence = sanitize (fver_Confidence v),
     fver_DKIMVerified = fver_DKIMVerified v, fver_DKIMDomain = map_option sanitize (fver_DKIMDomain v),
     fver_DMARCPolicy = map_option sanitize (fver_DMARCPolicy v)\<rparr>"

text \<open>What is left of a forward result: the members of an attachment for an attachment only.\<close>

definition sanitize_forward :: "ForwardResult \<Rightarrow> ForwardResult" where
  "sanitize_forward r = (let a = fres_Type r = ''attachment'' in \<lparr>fres_Type = sanitize (fres_Type r),
     fres_AttachmentTarPath = (if a then map_option sanitize (fres_AttachmentTarPath r) else None),
     fres_AttachmentFilename = (if a then map_option sanitize (fres_AttachmentFilename r) else None),
     fres_Analyzed = (if a then fres_Analyzed r else None),
     fres_OriginalSender = map_option sanitize_sender (fres_OriginalSender r),
     fres_Verification = map_option sanitize_verification (fres_Verification r), fres_Summary = sanitize (fres_Summary r)\<rparr>)"

lemma dec_enc_sender: "dec_ForwardOriginalSender (enc_ForwardOriginalSender s) ForwardOriginalSender_zero = Some (sanitize_sender s)"
  by (simp add: dec_ForwardOriginalSender_def enc_ForwardOriginalSender_def dec_struct_def member_step_exact fld_def
      ForwardOriginalSender_zero_def sanitize_sender_def)

lemma dec_enc_verification:
  "dec_ForwardVerification (enc_ForwardVerification v) ForwardVerification_zero = Some (sanitize_verification v)"
  by (simp add: dec_ForwardVerification_def enc_ForwardVerification_def dec_struct_def member_step_exact fld_def
      ForwardVerification_zero_def sanitize_verification_def)

lemma dec_ptr_opt:
  assumes "\<And>v. d (f v) zero = Some (g v)" and "\<And>v. f v \<noteq> JNull"
  shows "dec_ptr d zero (enc_opt f x) None = Some (map_option g x)"
proof (cases x)
  case (Some v)
  then show ?thesis using dec_ptr_fresh [of "f v" d zero "g v"] assms by (simp add: enc_opt_def)
qed (simp add: enc_opt_def dec_ptr_def)

lemma forward_sorted:
  "sort_key fst (forward_members r) =
     (if fres_Type r = ''attachment'' then
        [(''analyzed'', enc_opt JBool (fres_Analyzed r)), (''attachment_filename'', enc_opt enc_string (fres_AttachmentFilename r)),
         (''attachment_tar_path'', enc_opt enc_string (fres_AttachmentTarPath r))] else []) @
     [(''original_sender'', enc_opt enc_ForwardOriginalSender (fres_OriginalSender r)), (''summary'', enc_string (fres_Summary r)),
      (''type'', enc_string (fres_Type r)), (''verification'', enc_opt enc_ForwardVerification (fres_Verification r))]"
  by (simp add: forward_members_def less_char_def)

lemma dec_enc_forward: "dec_ForwardResult (enc_ForwardResult r) ForwardResult_zero = Some (sanitize_forward r)"
proof -
  have p: "dec_ptr dec_ForwardOriginalSender ForwardOriginalSender_zero (enc_opt enc_ForwardOriginalSender x) None = Some (map_option sanitize_sender x)"
      "dec_ptr dec_ForwardVerification ForwardVerification_zero (enc_opt enc_ForwardVerification y) None = Some (map_option sanitize_verification y)"
    for x y
    by (rule dec_ptr_opt, rule dec_enc_sender dec_enc_verification,
        simp add: enc_ForwardOriginalSender_def enc_ForwardVerification_def)+
  show ?thesis unfolding enc_ForwardResult_def forward_sorted
    by (simp add: dec_ForwardResult_def dec_struct_def member_step_exact fld_def p ForwardResult_zero_def sanitize_forward_def)
qed

lemma printable_forward: "printable (Suc (Suc (Suc n))) (enc_ForwardResult r)"
proof -
  have "printable (Suc (Suc n)) (enc_ForwardOriginalSender s)" "printable (Suc (Suc n)) (enc_ForwardVerification v)" for s v
    unfolding enc_ForwardOriginalSender_def enc_ForwardVerification_def by (rule printable_obj; auto intro!: printable_opt)+
  then show ?thesis unfolding enc_ForwardResult_def forward_sorted
    by (intro printable_obj) (auto intro!: printable_opt split: if_splits)
qed

section \<open>Properties\<close>

text \<open>
  Email content and forward results survive marshalling, printing, parsing and decoding:
  restricted content comes back as restricted and nothing else does, and a forward result comes back with the
  members of its type, each up to the replacement of invalid UTF-8.
\<close>

theorem content_roundtrip:
  assumes "sizes_ok (content_Raw c)"
  shows "Option.bind (json_parse (json_text (enc_EmailContent c))) (\<lambda>j. dec_EmailContent j old) = Some (sanitize_content c) \<and>
    (content_Restricted (sanitize_content c) \<longleftrightarrow> content_Restricted c) \<and>
    Option.bind (json_parse (json_text (enc_ForwardResult r))) (\<lambda>j. dec_ForwardResult j ForwardResult_zero) = Some (sanitize_forward r)"
proof -
  have "json_parse (json_text (enc_EmailContent c)) = Some (enc_EmailContent c)"
      "json_parse (json_text (enc_ForwardResult r)) = Some (enc_ForwardResult r)"
    using printable_content [of 0 c] printable_forward [of 0 r] json_parse_text by (simp_all add: printable_def max_nesting_def)
  then show ?thesis using dec_enc_content [OF assms] dec_enc_forward by (simp add: sanitize_content_def EmailContent_zero_def)
qed

theorem content_roundtrip_witness:
  "Option.bind (json_parse (json_text (enc_EmailContent (EmailContent_zero\<lparr>content_Restricted := True\<rparr>))))
     (\<lambda>j. dec_EmailContent j EmailContent_zero) = Some (EmailContent_zero\<lparr>content_Restricted := True\<rparr>)"
  using content_roundtrip [of "EmailContent_zero\<lparr>content_Restricted := True\<rparr>" EmailContent_zero]
  by (simp add: sizes_ok_def EmailContent_zero_def RawContent_zero_def is_int64_def sanitize_content_def)

end
