(* ===== verification/Errors.thy ===== *)
theory Errors
  imports Prelude
begin

text \<open>
  \<open>errors.go\<close>: the error tables, the webhook error types and their constructors. The
  four Go struct types that embed \<open>PrimitiveWebhookError\<close> are the constructors of
  \<open>werr\<close>; \<open>OtherError\<close> is an error value of another package or of \<open>fmt.Errorf\<close>.
\<close>

record ErrorDefinition =
  def_message :: string
  def_suggestion :: string

definition VerificationErrors :: "string \<rightharpoonup> ErrorDefinition" where
  "VerificationErrors = map_of [
    (''INVALID_SIGNATURE_HEADER'', \<lparr>
      def_message = ''Missing or malformed Primitive-Signature header'',
      def_suggestion = ''Check that you're reading the correct header (Primitive-Signature) and it's being passed correctly from your web framework.''\<rparr>),
    (''TIMESTAMP_OUT_OF_RANGE'', \<lparr>
      def_message = ''Timestamp is too old (possible replay attack)'',
      def_suggestion = ''This could indicate a replay attack, network delay, or server clock drift. Check your server's time is synced.''\<rparr>),
    (''SIGNATURE_MISMATCH'', \<lparr>
      def_message = ''Signature doesn't match expected value'',
      def_suggestion = ''Verify the webhook secret matches and you're using the raw request body (not re-serialized JSON).''\<rparr>),
    (''MISSING_SECRET'', \<lparr>
      def_message = ''No webhook secret was provided'',
      def_suggestion = ''Pass your webhook secret from the Primitive dashboard. Check that the environment variable is set.''\<rparr>)]"

definition PayloadErrors :: "string \<rightharpoonup> ErrorDefinition" where
  "PayloadErrors = map_of [
    (''PAYLOAD_NULL'', \<lparr>
      def_message = ''Webhook payload is null'',
      def_suggestion = ''Ensure you're passing the parsed JSON body, not null. Check your framework's body parsing middleware.''\<rparr>),
    (''PAYLOAD_UNDEFINED'', \<lparr>
      def_message = ''Webhook payload is undefined'',
      def_suggestion = ''The payload was not provided. Make sure you're passing the request body to the handler.''\<rparr>),
    (''PAYLOAD_WRONG_TYPE'', \<lparr>
      def_message = ''Webhook payload must be an object'',
      def_suggestion = ''The payload should be a parsed JSON object. Check that you're not passing a string or other primitive.''\<rparr>),
    (''PAYLOAD_IS_ARRAY'', \<lparr>
      def_message = ''Webhook payload is an array, expected object'',
      def_suggestion = ''Primitive webhooks are single event objects, not arrays. Check the payload structure.''\<rparr>),
    (''PAYLOAD_MISSING_EVENT'', \<lparr>
      def_message = ''Webhook payload missing 'event' field'',
      def_suggestion = ''All webhook payloads must have an 'event' field. This may not be a valid Primitive webhook.''\<rparr>),
    (''PAYLOAD_UNKNOWN_EVENT'', \<lparr>
      def_message = ''Unknown webhook event type'',
      def_suggestion = ''This event type is not recognized. You may need to update your SDK or handle unknown events gracefully.''\<rparr>),
    (''PAYLOAD_EMPTY_BODY'', \<lparr>
      def_message = ''Request body is empty'',
      def_suggestion = ''The request body was empty. Ensure the webhook is sending data and your framework is parsing it correctly.''\<rparr>),
    (''JSON_PARSE_FAILED'', \<lparr>
      def_message = ''Failed to parse JSON body'',
      def_suggestion = ''The request body is not valid JSON. Check the raw body content and Content-Type header.''\<rparr>),
    (''INVALID_ENCODING'', \<lparr>
      def_message = ''Invalid body encoding'',
      def_suggestion = ''The request body encoding is not supported. Primitive webhooks use UTF-8 encoded JSON.''\<rparr>)]"

definition RawEmailErrors :: "string \<rightharpoonup> ErrorDefinition" where
  "RawEmailErrors = map_of [
    (''UNAVAILABLE'', \<lparr>
      def_message = ''Raw email content is unavailable for this credential'',
      def_suggestion = ''Use event.email.parsed for message content. This credential cannot download raw email.''\<rparr>),
    (''NOT_INCLUDED'', \<lparr>
      def_message = ''Raw email content not included inline'',
      def_suggestion = ''Use the download URL at event.email.content.download.url to fetch the raw email.''\<rparr>),
    (''INVALID_BASE64'', \<lparr>
      def_message = ''Raw email content is not valid base64'',
      def_suggestion = ''The raw email data is malformed. Fetch the raw email from the download URL or regenerate the webhook payload.''\<rparr>),
    (''HASH_MISMATCH'', \<lparr>
      def_message = ''SHA-256 hash verification failed'',
      def_suggestion = ''The raw email data may be corrupted. Try downloading from the URL instead.''\<rparr>)]"

text \<open>Reading a missing key of a Go map gives the zero value.\<close>

definition error_definition :: "(string \<rightharpoonup> ErrorDefinition) \<Rightarrow> string \<Rightarrow> ErrorDefinition" where
  "error_definition m code = (case m code of
     None \<Rightarrow> \<lparr>def_message = [], def_suggestion = []\<rparr> | Some d \<Rightarrow> d)"

record PrimitiveWebhookError =
  NameValue :: string
  CodeValue :: string
  MessageValue :: gomsg
  SuggestionValue :: gomsg
  Cause :: "gomsg option"

record ValidationIssue =
  issue_path :: string
  issue_message :: string
  issue_validator :: string

datatype werr =
    VerificationError PrimitiveWebhookError
  | PayloadError PrimitiveWebhookError
  | ValidationError PrimitiveWebhookError gomsg "ValidationIssue list" int
  | RawEmailDecodeError PrimitiveWebhookError
  | OtherError gomsg

definition error_name :: "PrimitiveWebhookError \<Rightarrow> string" where
  "error_name e = (if NameValue e = [] then ''PrimitiveWebhookError'' else NameValue e)"

text \<open>\<open>ToMap\<close>, the JSON form of an error.\<close>

datatype map_field = MText gomsg | MInt int

definition error_to_map :: "PrimitiveWebhookError \<Rightarrow> (string \<times> map_field) list" where
  "error_to_map e =
     [(''name'', MText (Lit (error_name e))), (''code'', MText (Lit (CodeValue e))),
      (''message'', MText (MessageValue e)), (''suggestion'', MText (SuggestionValue e))]"

definition validation_error_to_map ::
    "PrimitiveWebhookError \<Rightarrow> gomsg \<Rightarrow> int \<Rightarrow> (string \<times> map_field) list" where
  "validation_error_to_map e field additional =
     [(''name'', MText (Lit (error_name e))), (''code'', MText (Lit (CodeValue e))),
      (''field'', MText field), (''message'', MText (MessageValue e)),
      (''suggestion'', MText (SuggestionValue e)), (''additionalErrorCount'', MInt additional)]"

text \<open>\<open>message == ""\<close> on an unrendered message: a format with text around its verbs is never empty.\<close>

definition or_default :: "gomsg \<Rightarrow> string \<Rightarrow> gomsg" where
  "or_default m d = (if m = Lit [] then Lit d else m)"

definition NewWebhookVerificationError :: "string \<Rightarrow> gomsg \<Rightarrow> gomsg \<Rightarrow> werr" where
  "NewWebhookVerificationError code message suggestion =
     (let d = error_definition VerificationErrors code in
      VerificationError \<lparr>NameValue = ''WebhookVerificationError'', CodeValue = code,
        MessageValue = or_default message (def_message d),
        SuggestionValue = or_default suggestion (def_suggestion d), Cause = None\<rparr>)"

definition NewWebhookPayloadError :: "string \<Rightarrow> gomsg \<Rightarrow> gomsg \<Rightarrow> gomsg option \<Rightarrow> werr" where
  "NewWebhookPayloadError code message suggestion cause =
     (let d = error_definition PayloadErrors code in
      PayloadError \<lparr>NameValue = ''WebhookPayloadError'', CodeValue = code,
        MessageValue = or_default message (def_message d),
        SuggestionValue = or_default suggestion (def_suggestion d), Cause = cause\<rparr>)"

definition NewWebhookValidationError ::
    "gomsg \<Rightarrow> gomsg \<Rightarrow> gomsg \<Rightarrow> ValidationIssue list \<Rightarrow> werr" where
  "NewWebhookValidationError field message suggestion issues =
     ValidationError \<lparr>NameValue = ''WebhookValidationError'', CodeValue = ''SCHEMA_VALIDATION_FAILED'',
        MessageValue = message, SuggestionValue = suggestion, Cause = None\<rparr>
       field issues (max 0 (int (length issues) - 1))"

definition NewRawEmailDecodeError :: "string \<Rightarrow> gomsg \<Rightarrow> werr" where
  "NewRawEmailDecodeError code message =
     (let d = error_definition RawEmailErrors code in
      RawEmailDecodeError \<lparr>NameValue = ''RawEmailDecodeError'', CodeValue = code,
        MessageValue = or_default message (def_message d),
        SuggestionValue = Lit (def_suggestion d), Cause = None\<rparr>)"

text \<open>\<open>Code()\<close> of an error, empty for an error of another type.\<close>

fun err_code :: "werr \<Rightarrow> string" where
  "err_code (VerificationError e) = CodeValue e"
| "err_code (PayloadError e) = CodeValue e"
| "err_code (ValidationError e _ _ _) = CodeValue e"
| "err_code (RawEmailDecodeError e) = CodeValue e"
| "err_code (OtherError _) = []"

lemma err_code_verification [simp]: "err_code (NewWebhookVerificationError c m s) = c"
  by (simp add: NewWebhookVerificationError_def Let_def)

lemma err_code_payload [simp]: "err_code (NewWebhookPayloadError c m s x) = c"
  by (simp add: NewWebhookPayloadError_def Let_def)

lemma err_code_validation [simp]: "err_code (NewWebhookValidationError f m s i) = ''SCHEMA_VALIDATION_FAILED''"
  by (simp add: NewWebhookValidationError_def)

lemma err_code_raw [simp]: "err_code (NewRawEmailDecodeError c m) = c"
  by (simp add: NewRawEmailDecodeError_def Let_def)

end
