(* ===== verification/Webhook_Helpers.thy ===== *)
theory Webhook_Helpers
  imports Errors Go_Value Go_Crypto Regex "HOL-Library.Multiset"
begin

text \<open>
  \<open>helpers.go\<close> and \<open>constants.go\<close>: turning a body or a secret of any accepted type into
  bytes, reading a header from any accepted header container, and recognising a
  re-serialized body.
\<close>

section \<open>Constants\<close>

definition PrimitiveSignatureHeader :: string where "PrimitiveSignatureHeader = ''Primitive-Signature''"
definition LegacySignatureHeader :: string where "LegacySignatureHeader = ''MyMX-Signature''"
definition PrimitiveConfirmedHeader :: string where "PrimitiveConfirmedHeader = ''X-Primitive-Confirmed''"
definition LegacyConfirmedHeader :: string where "LegacyConfirmedHeader = ''X-MyMX-Confirmed''"
definition WebhookEventHeader :: string where "WebhookEventHeader = ''X-Webhook-Event''"
definition StandardWebhookIDHeader :: string where "StandardWebhookIDHeader = ''webhook-id''"
definition StandardWebhookTimestampHeader :: string where
  "StandardWebhookTimestampHeader = ''webhook-timestamp''"
definition StandardWebhookSignatureHeader :: string where
  "StandardWebhookSignatureHeader = ''webhook-signature''"
definition whsecPrefix :: string where "whsecPrefix = ''whsec_''"
definition defaultToleranceSeconds :: int where "defaultToleranceSeconds = 5 * 60"
definition futureToleranceSeconds :: int where "futureToleranceSeconds = 60"

section \<open>Bodies and secrets\<close>

text \<open>The \<open>%T\<close> name of a value.\<close>

fun type_name :: "gval \<Rightarrow> string" where
  "type_name GNil = ''<nil>''"
| "type_name (GBool _) = ''bool''"
| "type_name (GString _) = ''string''"
| "type_name (GBytes _) = ''[]uint8''"
| "type_name (GRaw _) = ''json.RawMessage''"
| "type_name (GInt _) = ''int64''"
| "type_name (GFloat _) = ''float64''"
| "type_name (GNumber _) = ''json.Number''"
| "type_name (GList _) = ''[]interface {}''"
| "type_name (GStrs _) = ''[]string''"
| "type_name (GMap _) = ''map[string]interface {}''"
| "type_name (GStrMap _) = ''map[string]string''"
| "type_name (GStrsMap _) = ''map[string][]string''"
| "type_name (GOther t _) = t"

definition invalid_encoding :: "string \<Rightarrow> werr" where
  "invalid_encoding label = NewWebhookPayloadError ''INVALID_ENCODING''
     (Sprintf ''%s contains invalid UTF-8 bytes'' [FStr label])
     (Sprintf ''Ensure the %s is valid UTF-8 encoded text. If the data is binary, it should be base64 encoded first.'' [FStr label])
     None"

definition wrong_type :: "gval \<Rightarrow> werr" where
  "wrong_type v = NewWebhookPayloadError ''PAYLOAD_WRONG_TYPE''
     (Sprintf ''Received %T instead of webhook payload object'' [FType (type_name v)])
     (Lit ''Webhook payloads must be objects.'') None"

definition bodyToString :: "gval \<Rightarrow> string \<Rightarrow> werr + string" where
  "bodyToString v label = (case v of
     GString s \<Rightarrow> Inr s
   | GBytes b \<Rightarrow> if utf8_valid b then Inr b else Inl (invalid_encoding label)
   | GRaw b \<Rightarrow> if utf8_valid b then Inr b else Inl (invalid_encoding label)
   | _ \<Rightarrow> Inl (wrong_type v))"

definition missing_secret :: werr where
  "missing_secret = NewWebhookVerificationError ''MISSING_SECRET''
     (Lit ''Webhook secret is required but was empty or not provided'') (Lit [])"

definition secretToBytes :: "gval \<Rightarrow> werr + gobytes" where
  "secretToBytes v = (case v of
     GString s \<Rightarrow> if s = [] then Inl missing_secret else Inr s
   | GBytes b \<Rightarrow> if b = [] then Inl missing_secret else Inr b
   | GNil \<Rightarrow> Inl missing_secret
   | _ \<Rightarrow> Inl missing_secret)"

lemma secretToBytes_Inr:
  "secretToBytes v = Inr k \<longleftrightarrow> (v = GString k \<or> v = GBytes k) \<and> k \<noteq> []"
  by (auto simp: secretToBytes_def split: gval.splits if_splits)

lemma secretToBytes_Inl: "secretToBytes v = Inl e \<Longrightarrow> err_code e = ''MISSING_SECRET''"
  by (auto simp: secretToBytes_def missing_secret_def split: gval.splits if_splits)

lemma bodyToString_Inl:
  "bodyToString v l = Inl e \<Longrightarrow> err_code e = ''INVALID_ENCODING'' \<or> err_code e = ''PAYLOAD_WRONG_TYPE''"
  by (auto simp: bodyToString_def invalid_encoding_def wrong_type_def split: gval.splits if_splits)

lemma bodyToString_label:
  "bodyToString v l = Inr b \<Longrightarrow> bodyToString v l' = Inr b"
  by (auto simp: bodyToString_def split: gval.splits if_splits)

section \<open>Headers\<close>

text \<open>
  The containers \<open>getHeaderValue\<close> accepts. \<open>http.Header\<close> is \<open>HGet\<close>: it is a named type
  with a \<open>Get\<close> method and no \<open>Has\<close> method.
\<close>

datatype headers =
    HStrMap "(string \<times> string) list"
  | HStrsMap "(string \<times> string list) list"
  | HAnyMap "(string \<times> gval) list"
  | HGetHas "string \<Rightarrow> string" "string \<Rightarrow> bool"
  | HGet "string \<Rightarrow> string"
  | HOther

text \<open>
  The text of a header value of a \<open>map[string]any\<close>; \<^term>\<open>None\<close> where the inner switch
  falls through and the loop goes on to the next key. \<open>sprint\<close> is \<open>fmt.Sprint\<close>.
\<close>

definition bytes_text :: "gobytes \<Rightarrow> string option" where
  "bytes_text b = (if utf8_valid b then Some b else None)"

definition any_text :: "(gval \<Rightarrow> string) \<Rightarrow> gval \<Rightarrow> string option" where
  "any_text sprint v = (case v of
     GString s \<Rightarrow> Some s
   | GBytes b \<Rightarrow> bytes_text b
   | GRaw b \<Rightarrow> bytes_text b
   | GStrs ss \<Rightarrow> (case ss of [] \<Rightarrow> None | s # _ \<Rightarrow> Some s)
   | GList vs \<Rightarrow> (case vs of [] \<Rightarrow> None | f # _ \<Rightarrow> (case f of
         GString s \<Rightarrow> Some s
       | GBytes b \<Rightarrow> bytes_text b
       | GRaw b \<Rightarrow> bytes_text b
       | _ \<Rightarrow> Some (sprint f)))
   | _ \<Rightarrow> Some (sprint v))"

fun first_text :: "('a \<Rightarrow> string option) \<Rightarrow> string \<Rightarrow> (string \<times> 'a) list \<Rightarrow> string" where
  "first_text tx target [] = []"
| "first_text tx target ((k, v) # m) =
     (if to_lower k = target then (case tx v of Some s \<Rightarrow> s | None \<Rightarrow> first_text tx target m)
      else first_text tx target m)"

definition getHeaderValue :: "(gval \<Rightarrow> string) \<Rightarrow> headers \<Rightarrow> string \<Rightarrow> string" where
  "getHeaderValue sprint h target = (let lowerTarget = to_lower target in (case h of
     HStrMap m \<Rightarrow> first_text Some lowerTarget m
   | HStrsMap m \<Rightarrow> first_text (\<lambda>vs. case vs of [] \<Rightarrow> None | v # _ \<Rightarrow> Some v) lowerTarget m
   | HAnyMap m \<Rightarrow> first_text (any_text sprint) lowerTarget m
   | HGetHas get has \<Rightarrow> get target
   | HGet get \<Rightarrow> get target
   | HOther \<Rightarrow> []))"

definition has_key_ci :: "string \<Rightarrow> (string \<times> 'a) list \<Rightarrow> bool" where
  "has_key_ci target m = list_ex (\<lambda>(k, _). to_lower k = target) m"

definition hasHeaderKey :: "headers \<Rightarrow> string \<Rightarrow> bool" where
  "hasHeaderKey h target = (let lowerTarget = to_lower target in (case h of
     HStrMap m \<Rightarrow> has_key_ci lowerTarget m
   | HStrsMap m \<Rightarrow> has_key_ci lowerTarget m
   | HAnyMap m \<Rightarrow> has_key_ci lowerTarget m
   | HGetHas get has \<Rightarrow> has target
   | HGet get \<Rightarrow> get target \<noteq> []
   | HOther \<Rightarrow> False))"

text \<open>Keys equal up to case at most once: then no order of the entries matters.\<close>

definition ci_unique :: "string \<Rightarrow> (string \<times> 'a) list \<Rightarrow> bool" where
  "ci_unique target m \<longleftrightarrow> length (filter (\<lambda>(k, _). to_lower k = target) m) \<le> 1"

lemma first_text_filter:
  "first_text tx target m = first_text tx target (filter (\<lambda>(k, _). to_lower k = target) m)"
  by (induction tx target m rule: first_text.induct) (auto split: option.splits)

lemma short_perm: "mset xs = mset ys \<Longrightarrow> length xs \<le> 1 \<Longrightarrow> xs = ys"
  by (cases xs; cases "tl xs") (auto dest: mset_eq_length)

lemma first_text_order:
  assumes "mset m = mset m'" and "ci_unique target m"
  shows "first_text tx target m = first_text tx target m'"
proof -
  have "filter (\<lambda>(k, _). to_lower k = target) m = filter (\<lambda>(k, _). to_lower k = target) m'"
    using assms by (intro short_perm) (simp_all add: ci_unique_def mset_filter)
  then show ?thesis
    by (subst (1 2) first_text_filter) simp
qed

lemma has_key_ci_order: "mset m = mset m' \<Longrightarrow> has_key_ci target m = has_key_ci target m'"
  by (auto simp: has_key_ci_def list_ex_iff dest: mset_eq_setD)

lemma first_text_absent: "\<not> has_key_ci target m \<Longrightarrow> first_text tx target m = []"
  by (induction tx target m rule: first_text.induct) (auto simp: has_key_ci_def)

section \<open>Re-serialized bodies\<close>

definition hexPattern :: re where
  "hexPattern = rplus (RCls hex_cls)"

text \<open>The pattern \<open>^\s*\{[\s\S]*\n\s{2,}\<close>, which need not reach the end of the text.\<close>

fun indented_line :: "string \<Rightarrow> bool" where
  "indented_line (a # b # c # s) =
     ((a = CHR 0x0A \<and> in_cls space_cls b \<and> in_cls space_cls c) \<or> indented_line (b # c # s))"
| "indented_line _ = False"

definition prettyPrintedJSON :: "string \<Rightarrow> bool" where
  "prettyPrintedJSON s = (case dropWhile (in_cls space_cls) s of
     [] \<Rightarrow> False | c # t \<Rightarrow> c = CHR 0x7B \<and> indented_line t)"

definition detectReserializedBody :: "string \<Rightarrow> string" where
  "detectReserializedBody body =
     (if prettyPrintedJSON body
      then ''Request body appears re-serialized (pretty-printed). Use the raw request body before any json.Unmarshal() or json.Marshal() calls.''
      else [])"

end
