(* ===== verification/Signing.thy ===== *)
theory Signing
  imports Webhook_Helpers
begin

text \<open>
  The two webhook signature schemes: \<open>Primitive-Signature\<close> (\<open>SignWebhookPayload\<close>,
  \<open>parseSignatureHeader\<close>, \<open>VerifyWebhookSignature\<close> of \<open>webhook.go\<close>) and Standard
  Webhooks (\<open>standard_webhooks.go\<close>). Both are HMAC-SHA256 tags over a rendered
  timestamp and body; the locale \<open>tag_scheme\<close> states what a tag format promises, and is
  interpreted for the hexadecimal and the base64 format. The clock is a parameter of the
  operations that read it.
\<close>

section \<open>What a tag format promises\<close>

locale tag_scheme =
  fixes tag :: "string \<Rightarrow> string \<Rightarrow> string"
    and tag_ok :: "string \<Rightarrow> string \<Rightarrow> string \<Rightarrow> bool"
    and raw_mac :: "string \<Rightarrow> string option"
  assumes raw_tag: "raw_mac (tag k c) = Some (hmac_sha256 k c)"
    and ok_iff: "tag_ok k c t \<longleftrightarrow> raw_mac t = Some (hmac_sha256 k c)"
begin

lemma own_tag_ok: "tag_ok k c (tag k c)"
  by (simp add: ok_iff raw_tag)

lemma any_ok_iff: "list_ex (tag_ok k c) ts \<longleftrightarrow> (\<exists>t \<in> set ts. raw_mac t = Some (hmac_sha256 k c))"
  by (simp add: list_ex_iff ok_iff)

lemma any_ok_own: "tag k c \<in> set ts \<Longrightarrow> list_ex (tag_ok k c) ts"
  using own_tag_ok by (auto simp: list_ex_iff)

lemma reuse_is_collision: "tag_ok k c t \<Longrightarrow> tag_ok k' c' t \<Longrightarrow> hmac_sha256 k c = hmac_sha256 k' c'"
  by (simp add: ok_iff)

lemma foreign_tag_collision: "tag_ok k c (tag k' c') \<Longrightarrow> hmac_sha256 k c = hmac_sha256 k' c'"
  by (simp add: ok_iff raw_tag)

end

section \<open>Primitive-Signature\<close>

record SignResult =
  SignHeader :: string
  SignTimestamp :: int
  SignV1 :: string

text \<open>\<open>fmt.Sprintf("%d.%s", timestamp, body)\<close>, the signed bytes.\<close>

definition signed_content :: "int \<Rightarrow> string \<Rightarrow> string" where
  "signed_content timestamp body = itoa timestamp @ CHR ''.'' # body"

definition SignWebhookPayload ::
    "int \<Rightarrow> gval \<Rightarrow> gval \<Rightarrow> int list \<Rightarrow> werr + SignResult" where
  "SignWebhookPayload clock rawBody secret timestamps =
     (case bodyToString rawBody ''raw body'' of Inl e \<Rightarrow> Inl e | Inr body \<Rightarrow>
      (case secretToBytes secret of Inl e \<Rightarrow> Inl e | Inr secretBytes \<Rightarrow>
         let timestamp = (case timestamps of [] \<Rightarrow> clock | t # _ \<Rightarrow> t);
             v1 = hex_encode (hmac_sha256 secretBytes (signed_content timestamp body))
         in Inr \<lparr>SignHeader = ''t='' @ itoa timestamp @ '',v1='' @ v1,
                 SignTimestamp = timestamp, SignV1 = v1\<rparr>))"

definition sig_part :: "int option \<times> string list \<Rightarrow> string \<Rightarrow> int option \<times> string list" where
  "sig_part st part = (case (st, cut (CHR ''='') (trim_space part)) of ((ts, sigs), (key, v, found)) \<Rightarrow>
     if \<not> found \<or> v = [] then (ts, sigs)
     else if key = ''t'' then (case parse_int64 v of None \<Rightarrow> (ts, sigs) | Some t \<Rightarrow> (Some t, sigs))
     else if key = ''v1'' then (ts, sigs @ [v])
     else (ts, sigs))"

definition parseSignatureHeader :: "string \<Rightarrow> (int \<times> string list) option" where
  "parseSignatureHeader signatureHeader =
     (if signatureHeader = [] then None
      else case foldl sig_part (None, []) (split_on (CHR '','') signatureHeader) of
             (Some t, s # ss) \<Rightarrow> Some (t, s # ss)
           | _ \<Rightarrow> None)"

record VerifyOptions =
  RawBody :: gval
  SignatureHeader :: string
  Secret :: gval
  ToleranceSeconds :: "int option"
  NowSeconds :: "int option"

definition or_else :: "'a option \<Rightarrow> 'a \<Rightarrow> 'a" where
  "or_else x d = (case x of None \<Rightarrow> d | Some v \<Rightarrow> v)"

text \<open>The age checks, shared by both schemes: \<^term>\<open>None\<close> when the timestamp is accepted.\<close>

definition timestamp_error :: "int \<Rightarrow> int \<Rightarrow> int \<Rightarrow> werr option" where
  "timestamp_error now tolerance timestamp =
     (let age = wrap64 (now - timestamp)
      in if age > tolerance then Some (NewWebhookVerificationError ''TIMESTAMP_OUT_OF_RANGE''
             (Sprintf ''Webhook timestamp too old (%ds). Max age is %ds.'' [FInt age, FInt tolerance]) (Lit []))
         else if age < - futureToleranceSeconds then Some (NewWebhookVerificationError ''TIMESTAMP_OUT_OF_RANGE''
             (Lit ''Webhook timestamp is too far in the future. Check server clock sync.'') (Lit []))
         else None)"

definition provided_ok :: "string \<Rightarrow> string \<Rightarrow> bool" where
  "provided_ok expected provided \<longleftrightarrow>
     length provided = length expected \<and> re_match hexPattern provided \<and> to_lower provided = expected"

definition signature_mismatch :: "string \<Rightarrow> werr" where
  "signature_mismatch body =
     (let hint = detectReserializedBody body;
          message = (if hint \<noteq> [] then ''No valid signature found. '' @ hint
            else ''No valid signature found. Verify the webhook secret matches and you're using the raw request body (not re-serialized JSON).'')
      in NewWebhookVerificationError ''SIGNATURE_MISMATCH'' (Lit message) (Lit []))"

definition VerifyWebhookSignature :: "int \<Rightarrow> VerifyOptions \<Rightarrow> werr + bool" where
  "VerifyWebhookSignature clock options =
     (case secretToBytes (Secret options) of Inl e \<Rightarrow> Inl e | Inr secretBytes \<Rightarrow>
     (case bodyToString (RawBody options) ''request body'' of Inl e \<Rightarrow> Inl e | Inr body \<Rightarrow>
     (case parseSignatureHeader (SignatureHeader options) of
        None \<Rightarrow> Inl (NewWebhookVerificationError ''INVALID_SIGNATURE_HEADER''
          (Lit ''Invalid Primitive-Signature header format. Expected: t={timestamp},v1={signature}'') (Lit []))
      | Some (timestamp, signatures) \<Rightarrow>
     (case timestamp_error (or_else (NowSeconds options) clock)
             (or_else (ToleranceSeconds options) defaultToleranceSeconds) timestamp of
        Some e \<Rightarrow> Inl e
      | None \<Rightarrow>
          let expected = hex_encode (hmac_sha256 secretBytes (signed_content timestamp body))
          in if list_ex (provided_ok expected) signatures then Inr True
             else Inl (signature_mismatch body)))))"

subsection \<open>The hexadecimal tag\<close>

definition hex_tag :: "string \<Rightarrow> string \<Rightarrow> string" where
  "hex_tag k c = hex_encode (hmac_sha256 k c)"

definition hex_tag_ok :: "string \<Rightarrow> string \<Rightarrow> string \<Rightarrow> bool" where
  "hex_tag_ok k c t = provided_ok (hex_tag k c) t"

lemma hex_val_lower [simp]: "hex_val (ascii_lower c) = hex_val c"
  by (auto simp: hex_val_def ord_ascii_lower Let_def)

lemma hex_decode_lower: "hex_decode (map ascii_lower s) = hex_decode s"
  by (induction s rule: hex_decode.induct) (auto split: option.splits)

lemma hexPattern_iff: "re_match hexPattern p \<longleftrightarrow> p \<noteq> [] \<and> (\<forall>c \<in> set p. in_cls hex_cls c)"
  by (simp add: re_match_lang hexPattern_def lang_plus_cls)

lemma hex_cls_ascii: "\<forall>c \<in> set p. in_cls hex_cls c \<Longrightarrow> ascii p"
  by (auto simp: ascii_def in_hex_cls)

lemma hex_cls_hex_val: "in_cls hex_cls c \<longleftrightarrow> hex_val c \<noteq> None"
  by (auto simp: in_hex_cls hex_val_def Let_def)

lemma lower_hex_of_hex: "hex_val c \<noteq> None \<Longrightarrow> is_lower_hex (ascii_lower c)"
  by (auto simp: hex_val_def is_lower_hex_def ord_ascii_lower Let_def split: if_splits)

lemma provided_ok_iff:
  assumes "m \<noteq> []"
  shows "provided_ok (hex_encode m) p \<longleftrightarrow> hex_decode p = Some m"
proof
  assume "provided_ok (hex_encode m) p"
  then have "map ascii_lower p = hex_encode m"
    using hex_cls_ascii by (auto simp: provided_ok_def hexPattern_iff to_lower_ascii)
  then show "hex_decode p = Some m"
    by (metis hex_decode_encode hex_decode_lower)
next
  assume dec: "hex_decode p = Some m"
  then have hex: "\<forall>c \<in> set p. hex_val c \<noteq> None"
    using hex_decode_Some_iff by blast
  then have "hex_encode m = map ascii_lower p"
    using dec by (intro hex_encode_decode) (auto simp: hex_decode_lower lower_hex_of_hex)
  moreover have "to_lower p = map ascii_lower p"
    using hex hex_cls_ascii [of p] by (simp add: to_lower_ascii hex_cls_hex_val)
  moreover have "p \<noteq> []"
    using assms dec by auto
  ultimately show "provided_ok (hex_encode m) p"
    using hex by (simp add: provided_ok_def hexPattern_iff hex_cls_hex_val)
qed

lemma hmac_nonempty [simp]: "hmac_sha256 k c \<noteq> []"
  by (metis length_hmac_sha256 length_0_conv zero_neq_numeral)

interpretation hex: tag_scheme hex_tag hex_tag_ok hex_decode
  by unfold_locales (simp_all add: hex_tag_def hex_tag_ok_def hex_decode_encode provided_ok_iff)

subsection \<open>The header round trip\<close>

lemma itoa_no_comma: "CHR '','' \<notin> set (itoa i)" "CHR ''='' \<notin> set (itoa i)" "CHR ''.'' \<notin> set (itoa i)"
  "CHR '' '' \<notin> set (itoa i)"
  using itoa_chars [of _ i] by (auto simp: is_digit_def dest!: itoa_chars)

lemma solid_endsI:
  "s = a # t \<Longrightarrow> ord a < 128 \<Longrightarrow> \<not> is_space (ord a) \<Longrightarrow> ord (last s) < 128 \<Longrightarrow>
   \<not> is_space (ord (last s)) \<Longrightarrow> solid_ends s"
  by (simp add: solid_ends_def)

lemma itoa_last: "ord (last (itoa i)) < 128 \<and> \<not> is_space (ord (last (itoa i)))"
proof -
  have "last (itoa i) \<in> set (itoa i)" by simp
  then have "is_digit (last (itoa i)) \<or> last (itoa i) = CHR ''-''" by (rule itoa_chars)
  then show ?thesis
    by (elim disjE) (simp_all add: is_digit_ascii is_digit_not_space, simp_all add: is_space_def)
qed

lemma lower_hex_ascii: "is_lower_hex c \<Longrightarrow> ord c < 128 \<and> \<not> is_space (ord c)"
  by (auto simp: is_lower_hex_def is_space_def)

lemma hex_encode_last: "s \<noteq> [] \<Longrightarrow> ord (last (hex_encode s)) < 128 \<and> \<not> is_space (ord (last (hex_encode s)))"
proof -
  assume "s \<noteq> []"
  then have "hex_encode s \<noteq> []" by (metis length_hex_encode length_0_conv mult_eq_0_iff zero_neq_numeral)
  then have "last (hex_encode s) \<in> set (hex_encode s)" by simp
  then show ?thesis using hex_encode_chars lower_hex_ascii by blast
qed

lemma hex_encode_no_comma: "CHR '','' \<notin> set (hex_encode s)" "CHR ''='' \<notin> set (hex_encode s)"
  using hex_encode_chars [of _ s] by (auto simp: is_lower_hex_def dest!: hex_encode_chars)

lemma parseSignatureHeader_signed:
  assumes "is_int64 t" and "m \<noteq> []"
  shows "parseSignatureHeader (''t='' @ itoa t @ '',v1='' @ hex_encode m) = Some (t, [hex_encode m])"
proof -
  let ?a = "''t='' @ itoa t" and ?b = "''v1='' @ hex_encode m"
  have ne: "hex_encode m \<noteq> []"
    using assms(2) by (metis length_hex_encode length_0_conv mult_eq_0_iff zero_neq_numeral)
  have "\<not> is_space 116" "\<not> is_space 118"
    by (simp_all add: is_space_def)
  then have "solid_ends ?a" "solid_ends ?b"
    using itoa_last [of t] hex_encode_last [OF assms(2)] ne by (simp_all add: solid_ends_def)
  then have trim: "trim_space ?a = ?a" "trim_space ?b = ?b"
    by (auto intro: trim_space_solid)
  have "CHR '','' \<notin> set ?a" "CHR '','' \<notin> set ?b"
    using itoa_no_comma hex_encode_no_comma by auto
  then have "split_on (CHR '','') (?a @ CHR '','' # ?b) = [?a, ?b]"
    by (simp only: split_on_append split_on_absent not_False_eq_True)
  moreover have "sig_part (None, []) ?a = (Some t, [])"
    using assms(1) trim(1) by (simp add: sig_part_def parse_int64_itoa)
  moreover have "sig_part (Some t, []) ?b = (Some t, [hex_encode m])"
    using ne trim(2) by (simp add: sig_part_def)
  ultimately have "foldl sig_part (None, []) (split_on (CHR '','') (?a @ CHR '','' # ?b)) = (Some t, [hex_encode m])"
    by (simp only: foldl.simps)
  then show ?thesis
    by (simp add: parseSignatureHeader_def del: split_on.simps)
qed

text \<open>Timestamps are delimited: the signed bytes determine timestamp and body.\<close>

lemma signed_content_inject:
  "signed_content t b = signed_content t' b' \<longleftrightarrow> t = t' \<and> b = b'"
proof
  assume "signed_content t b = signed_content t' b'"
  then have "cut (CHR ''.'') (itoa t @ CHR ''.'' # b) = cut (CHR ''.'') (itoa t' @ CHR ''.'' # b')"
    by (simp add: signed_content_def)
  then show "t = t' \<and> b = b'"
    by (simp add: cut_append itoa_no_comma itoa_inject)
qed simp

lemma timestamp_error_code: "timestamp_error n tol t = Some e \<Longrightarrow> err_code e = ''TIMESTAMP_OUT_OF_RANGE''"
  by (auto simp: timestamp_error_def Let_def split: if_splits)

lemma timestamp_error_None:
  "timestamp_error n tol t = None \<longleftrightarrow> - 60 \<le> wrap64 (n - t) \<and> wrap64 (n - t) \<le> tol"
  by (auto simp: timestamp_error_def Let_def futureToleranceSeconds_def)

lemma sm_code [simp]: "err_code (signature_mismatch b) = ''SIGNATURE_MISMATCH''"
  by (simp add: signature_mismatch_def Let_def)

lemma timestamp_window:
  assumes ts: "timestamp_error now tol t = None" and "is_int64 t" and "0 \<le> now" and "now < 2 ^ 62"
  shows "- 60 \<le> now - t \<and> now - t \<le> tol"
proof (cases "now - t < 2 ^ 63")
  case True
  then have "wrap64 (now - t) = now - t"
    using assms by (intro wrap64_id) (simp add: is_int64_def)
  with ts show ?thesis by (simp add: timestamp_error_None)
next
  case False
  then have "wrap64 (now - t) = now - t - 2 ^ 64"
    using assms by (intro wrap64_high) (auto simp: is_int64_def)
  with ts assms show ?thesis by (simp add: timestamp_error_None is_int64_def)
qed

lemma parse_parts_int64:
  "foldl sig_part (ts, sigs) parts = (Some t, sigs') \<Longrightarrow> (\<And>t. ts = Some t \<Longrightarrow> is_int64 t) \<Longrightarrow> is_int64 t"
proof (induction parts arbitrary: ts sigs)
  case (Cons p parts)
  obtain ts1 sigs1 where step: "sig_part (ts, sigs) p = (ts1, sigs1)"
    by (cases "sig_part (ts, sigs) p")
  have "is_int64 t'" if "ts1 = Some t'" for t'
    using step that Cons.prems(2)
    by (auto simp: sig_part_def parse_int64_range split: prod.splits if_splits option.splits)
  with Cons.IH [of ts1 sigs1] Cons.prems(1) step show ?case by simp
qed simp

lemma parseSignatureHeader_Some:
  assumes "parseSignatureHeader h = Some (t, sigs)"
  shows "foldl sig_part (None, []) (split_on (CHR '','') h) = (Some t, sigs)"
proof -
  obtain x y where "foldl sig_part (None, []) (split_on (CHR '','') h) = (x, y)"
    by (cases "foldl sig_part (None, []) (split_on (CHR '','') h)")
  with assms show ?thesis
    by (auto simp: parseSignatureHeader_def split: if_splits option.splits list.splits)
qed

lemma parseSignatureHeader_int64: "parseSignatureHeader h = Some (t, sigs) \<Longrightarrow> is_int64 t"
  using parse_parts_int64 [of None "[]"] parseSignatureHeader_Some by blast

lemma provided_ok_tag: "provided_ok (hex_encode (hmac_sha256 k c)) = hex_tag_ok k c"
  by (simp add: fun_eq_iff hex_tag_ok_def hex_tag_def)

lemma verify_iff:
  "VerifyWebhookSignature clock opts = Inr v \<longleftrightarrow> v \<and>
     (\<exists>key body t sigs. secretToBytes (Secret opts) = Inr key \<and>
        bodyToString (RawBody opts) ''request body'' = Inr body \<and>
        parseSignatureHeader (SignatureHeader opts) = Some (t, sigs) \<and>
        timestamp_error (or_else (NowSeconds opts) clock)
          (or_else (ToleranceSeconds opts) defaultToleranceSeconds) t = None \<and>
        list_ex (hex_tag_ok key (signed_content t body)) sigs)"
  by (auto simp: VerifyWebhookSignature_def provided_ok_tag Let_def
      split: sum.splits option.splits prod.splits)

lemma verify_errors:
  "VerifyWebhookSignature clock opts = Inl e \<Longrightarrow>
     (\<exists>e'. secretToBytes (Secret opts) = Inl e' \<and> e = e') \<or>
     (\<exists>e'. bodyToString (RawBody opts) ''request body'' = Inl e' \<and> e = e') \<or>
     (parseSignatureHeader (SignatureHeader opts) = None \<and> err_code e = ''INVALID_SIGNATURE_HEADER'') \<or>
     err_code e = ''TIMESTAMP_OUT_OF_RANGE'' \<or>
     (\<exists>key body t sigs. secretToBytes (Secret opts) = Inr key \<and>
        bodyToString (RawBody opts) ''request body'' = Inr body \<and>
        parseSignatureHeader (SignatureHeader opts) = Some (t, sigs) \<and>
        \<not> list_ex (hex_tag_ok key (signed_content t body)) sigs \<and> err_code e = ''SIGNATURE_MISMATCH'')"
  by (auto simp: VerifyWebhookSignature_def provided_ok_tag Let_def timestamp_error_code
      split: sum.splits option.splits prod.splits if_splits)

section \<open>Properties of Primitive-Signature\<close>

text \<open>
  C1. A body signed by \<open>SignWebhookPayload\<close> is accepted by \<open>VerifyWebhookSignature\<close>
  with the same secret and body at every clock reading inside the window, whatever
  tolerance is asked for.
\<close>

theorem verify_accepts_signed:
  assumes sign: "SignWebhookPayload clock rawBody secret timestamps = Inr r"
    and ts: "is_int64 (SignTimestamp r)"
    and now: "- 60 \<le> wrap64 (now - SignTimestamp r)"
      "wrap64 (now - SignTimestamp r) \<le> or_else tol defaultToleranceSeconds"
  shows "VerifyWebhookSignature clock' \<lparr>RawBody = rawBody, SignatureHeader = SignHeader r,
           Secret = secret, ToleranceSeconds = tol, NowSeconds = Some now\<rparr> = Inr True"
proof -
  from sign obtain key body t where key: "secretToBytes secret = Inr key"
      and body: "bodyToString rawBody ''raw body'' = Inr body"
      and r: "SignTimestamp r = t" "SignHeader r = ''t='' @ itoa t @ '',v1='' @ hex_tag key (signed_content t body)"
    by (auto simp: SignWebhookPayload_def hex_tag_def Let_def split: sum.splits)
  have "parseSignatureHeader (SignHeader r) = Some (t, [hex_tag key (signed_content t body)])"
    using ts r unfolding hex_tag_def by (simp only: parseSignatureHeader_signed hmac_nonempty not_False_eq_True)
  moreover have "list_ex (hex_tag_ok key (signed_content t body)) [hex_tag key (signed_content t body)]"
    by (rule hex.any_ok_own) simp
  ultimately show ?thesis
    using key bodyToString_label [OF body] now r(1)
    by (simp add: verify_iff timestamp_error_None or_else_def)
qed

theorem verify_accepts_signed_witness:
  "\<exists>r. SignWebhookPayload 0 (GString ''{}'') (GString ''s3cret'') [1700000000] = Inr r \<and>
     VerifyWebhookSignature 0 \<lparr>RawBody = GString ''{}'', SignatureHeader = SignHeader r,
       Secret = GString ''s3cret'', ToleranceSeconds = None, NowSeconds = Some 1700000300\<rparr> = Inr True"
proof -
  obtain r where r: "SignWebhookPayload 0 (GString ''{}'') (GString ''s3cret'') [1700000000] = Inr r"
      "SignTimestamp r = 1700000000"
    by (simp add: SignWebhookPayload_def bodyToString_def secretToBytes_def Let_def)
  have "VerifyWebhookSignature 0 \<lparr>RawBody = GString ''{}'', SignatureHeader = SignHeader r,
       Secret = GString ''s3cret'', ToleranceSeconds = None, NowSeconds = Some 1700000300\<rparr> = Inr True"
    by (rule verify_accepts_signed [OF r(1)])
      (simp_all add: r(2) is_int64_def wrap64_def or_else_def defaultToleranceSeconds_def)
  with r(1) show ?thesis by blast
qed

text \<open>
  C2. \<open>VerifyWebhookSignature\<close> returns no error exactly when the secret and the body are
  usable, the header parses, the timestamp is inside the window, and one of the header's
  \<open>v1\<close> entries is, up to the case of its letters, the hexadecimal HMAC-SHA256 of that
  timestamp and body; and it never returns \<open>false\<close> without an error.
\<close>

theorem verify_exact:
  "VerifyWebhookSignature clock opts = Inr v \<longleftrightarrow> v \<and>
     (\<exists>key body t sigs. secretToBytes (Secret opts) = Inr key \<and>
        bodyToString (RawBody opts) ''request body'' = Inr body \<and>
        parseSignatureHeader (SignatureHeader opts) = Some (t, sigs) \<and>
        - 60 \<le> wrap64 (or_else (NowSeconds opts) clock - t) \<and>
        wrap64 (or_else (NowSeconds opts) clock - t) \<le> or_else (ToleranceSeconds opts) 300 \<and>
        (\<exists>sig \<in> set sigs. hex_decode sig = Some (hmac_sha256 key (itoa t @ ''.'' @ body))))"
  unfolding verify_iff timestamp_error_None hex.any_ok_iff
  by (simp add: signed_content_def defaultToleranceSeconds_def)

text \<open>
  C3. Replay protection: with a clock between 1970 and \<open>2 ^ 62\<close> seconds, an accepted
  request carries a timestamp at most the tolerance old and at most a minute ahead, as
  unbounded integers; no timestamp, however extreme, gets in through the overflow of the
  64-bit subtraction.
\<close>

theorem verify_replay_window:
  assumes "VerifyWebhookSignature clock opts = Inr v"
    and "0 \<le> or_else (NowSeconds opts) clock" and "or_else (NowSeconds opts) clock < 2 ^ 62"
  shows "\<exists>t sigs. parseSignatureHeader (SignatureHeader opts) = Some (t, sigs) \<and>
    or_else (NowSeconds opts) clock - t \<le> or_else (ToleranceSeconds opts) defaultToleranceSeconds \<and>
    t \<le> or_else (NowSeconds opts) clock + 60"
proof -
  from assms(1) obtain t sigs where p: "parseSignatureHeader (SignatureHeader opts) = Some (t, sigs)"
    and w: "timestamp_error (or_else (NowSeconds opts) clock)
        (or_else (ToleranceSeconds opts) defaultToleranceSeconds) t = None"
    by (auto simp: verify_iff)
  from timestamp_window [OF w parseSignatureHeader_int64 [OF p] assms(2,3)] p show ?thesis
    by (intro exI conjI) (assumption, simp_all)
qed

theorem verify_replay_window_witness:
  "\<exists>opts t sigs. VerifyWebhookSignature 0 opts = Inr True \<and>
     parseSignatureHeader (SignatureHeader opts) = Some (t, sigs) \<and> t \<le> or_else (NowSeconds opts) 0 + 60"
proof -
  let ?h = "''t='' @ itoa 1700000000 @ '',v1='' @ hex_encode (hmac_sha256 ''k'' (signed_content 1700000000 ''b''))"
  let ?o = "\<lparr>RawBody = GString ''b'', SignatureHeader = ?h, Secret = GString ''k'',
    ToleranceSeconds = None, NowSeconds = Some 1700000000\<rparr>"
  have p: "parseSignatureHeader ?h =
      Some (1700000000, [hex_encode (hmac_sha256 ''k'' (signed_content 1700000000 ''b''))])"
    by (rule parseSignatureHeader_signed) (simp_all add: is_int64_def)
  have v: "VerifyWebhookSignature 0 ?o = Inr True"
    using hex.own_tag_ok [of "''k''" "signed_content 1700000000 ''b''"] p
    by (simp add: verify_iff timestamp_error_None secretToBytes_def bodyToString_def or_else_def wrap64_def
        defaultToleranceSeconds_def hex_tag_def)
  show ?thesis
    using v verify_replay_window [OF v] by (fastforce simp: or_else_def)
qed



text \<open>
  A signature binds its timestamp and its body together: the signed bytes are equal
  only for equal pairs, and a tag made for one content verifies for another exactly when
  their HMAC-SHA256 values collide.
\<close>

theorem signature_binds_content:
  "(signed_content t body = signed_content t' body' \<longleftrightarrow> t = t' \<and> body = body') \<and>
   (hex_tag_ok key c (hex_tag key' c') \<longleftrightarrow> hmac_sha256 key c = hmac_sha256 key' c')"
  using hex.ok_iff hex.raw_tag signed_content_inject by auto

end
