(* ===== verification/Go_Time.thy ===== *)
theory Go_Time
  imports Go_Strconv
begin

text \<open>
  \<open>time.Parse(time.RFC3339Nano, s)\<close>: a four-digit year, two-digit month and day, an hour of one
  or two digits, minute and second, an optional fraction after a period or a comma, and
  \<open>Z\<close> or a numeric offset, in seconds and nanoseconds since 1970. Go accepts offsets of
  up to 24 hours and 60 minutes.
\<close>

definition leap_year :: "nat \<Rightarrow> bool" where
  "leap_year y \<longleftrightarrow> y mod 4 = 0 \<and> (y mod 100 \<noteq> 0 \<or> y mod 400 = 0)"

definition days_in :: "nat \<Rightarrow> nat \<Rightarrow> nat" where
  "days_in y m = (if m = 2 then (if leap_year y then 29 else 28) else if m \<in> {4, 6, 9, 11} then 30 else 31)"

definition days_before_year :: "nat \<Rightarrow> int" where
  "days_before_year y = 365 * int y + int ((y + 3) div 4) - int ((y + 99) div 100) + int ((y + 399) div 400)"

definition unix_days :: "nat \<Rightarrow> nat \<Rightarrow> nat \<Rightarrow> int" where
  "unix_days y m d = days_before_year y + int (sum_list (map (days_in y) [1..<m])) + int d - 719529"

definition digits_n :: "nat \<Rightarrow> string \<Rightarrow> (nat \<times> string) option" where
  "digits_n n s = (if length (take n s) = n \<and> list_all is_digit (take n s)
     then Some (digits_val (take n s), drop n s) else None)"

text \<open>\<open>getnum\<close> without its \<open>fixed\<close> flag: two digits, or one.\<close>

definition digits_1_2 :: "string \<Rightarrow> (nat \<times> string) option" where
  "digits_1_2 s = (case digits_n 2 s of Some r \<Rightarrow> Some r | None \<Rightarrow> digits_n 1 s)"

definition lit :: "char \<Rightarrow> string \<Rightarrow> string option" where
  "lit c s = (case s of [] \<Rightarrow> None | x # t \<Rightarrow> if x = c then Some t else None)"

text \<open>The nanoseconds of a fraction, and what follows it.\<close>

definition fraction :: "string \<Rightarrow> nat \<times> string" where
  "fraction s = (case s of c # d # t \<Rightarrow>
       if c \<in> {CHR ''.'', CHR '',''} \<and> is_digit d then
         (let ds = takeWhile is_digit (d # t)
          in (digits_val (take 9 ds) * 10 ^ (9 - min 9 (length ds)), dropWhile is_digit (d # t)))
       else (0, s)
     | _ \<Rightarrow> (0, s))"

text \<open>The offset in seconds of a complete zone text.\<close>

definition zone :: "string \<Rightarrow> int option" where
  "zone s = (if s = ''Z'' then Some 0
     else if length s = 6 \<and> s ! 3 = CHR '':'' then
       (case (digits_n 2 (drop 1 s), digits_n 2 (drop 4 s)) of
          (Some (h, _), Some (m, _)) \<Rightarrow>
            if 24 < h \<or> 60 < m then None
            else if hd s = CHR ''+'' then Some (int ((h * 60 + m) * 60))
            else if hd s = CHR ''-'' then Some (- int ((h * 60 + m) * 60)) else None
        | _ \<Rightarrow> None)
     else None)"

text \<open>Seconds and nanoseconds since the epoch.\<close>

definition parse_rfc3339 :: "string \<Rightarrow> (int \<times> int) option" where
  "parse_rfc3339 s0 =
     (case digits_n 4 s0 of None \<Rightarrow> None | Some (y, s1) \<Rightarrow>
     (case Option.bind (lit (CHR ''-'') s1) (digits_n 2) of None \<Rightarrow> None | Some (mo, s2) \<Rightarrow>
     (case Option.bind (lit (CHR ''-'') s2) (digits_n 2) of None \<Rightarrow> None | Some (d, s3) \<Rightarrow>
     (case Option.bind (lit (CHR ''T'') s3) digits_1_2 of None \<Rightarrow> None | Some (h, s4) \<Rightarrow>
     (case Option.bind (lit (CHR '':'') s4) (digits_n 2) of None \<Rightarrow> None | Some (mi, s5) \<Rightarrow>
     (case Option.bind (lit (CHR '':'') s5) (digits_n 2) of None \<Rightarrow> None | Some (sec, s6) \<Rightarrow>
     (case fraction s6 of (ns, s7) \<Rightarrow>
     (case zone s7 of None \<Rightarrow> None | Some off \<Rightarrow>
        if 1 \<le> mo \<and> mo \<le> 12 \<and> 1 \<le> d \<and> d \<le> days_in y mo \<and> h < 24 \<and> mi < 60 \<and> sec < 60 then
          Some (unix_days y mo d * 86400 + int ((h * 60 + mi) * 60 + sec) - off, int ns)
        else None))))))))"

text \<open>\<open>t.Unix()\<close> and \<open>t.UnixMilli()\<close> of a parsed time.\<close>

definition unix_seconds :: "string \<Rightarrow> int option" where
  "unix_seconds s = map_option fst (parse_rfc3339 s)"

definition unix_millis :: "string \<Rightarrow> int option" where
  "unix_millis s = map_option (\<lambda>(t, ns). t * 1000 + ns div 1000000) (parse_rfc3339 s)"

text \<open>Every time that parses lies well inside the 64-bit milliseconds.\<close>

lemma digits_n_less: "digits_n n s = Some (v, r) \<Longrightarrow> v < 10 ^ n"
  using digits_val_less [of "take n s"] by (auto simp: digits_n_def split: if_splits)

lemma fraction_less:
  assumes "fraction s = (ns, r)"
  shows "ns < 10 ^ 9"
proof -
  have "digits_val (take 9 ds) * 10 ^ (9 - min 9 (length ds)) < 10 ^ 9" if "list_all is_digit ds" for ds
  proof -
    have "list_all is_digit (take 9 ds)" using that by (auto simp: list_all_iff dest: in_set_takeD)
    then have "digits_val (take 9 ds) < 10 ^ min 9 (length ds)"
      using digits_val_less [of "take 9 ds"] by (simp add: min.commute)
    then have "digits_val (take 9 ds) * 10 ^ (9 - min 9 (length ds)) < 10 ^ min 9 (length ds) * 10 ^ (9 - min 9 (length ds))"
      by simp
    then show ?thesis by (simp flip: power_add)
  qed
  moreover have "list_all is_digit (takeWhile is_digit u)" for u
    by (auto simp: list_all_iff dest: set_takeWhileD)
  ultimately show ?thesis
    using assms by (auto simp: fraction_def Let_def split: list.splits if_splits simp del: takeWhile.simps)
qed

lemma zone_bounds: "zone s = Some off \<Longrightarrow> \<bar>off\<bar> \<le> 90000"
  by (auto simp: zone_def split: if_splits option.splits)

lemma unix_days_bounds:
  assumes "y < 10000" "m \<le> 12" "d \<le> 31"
  shows "- 719529 \<le> unix_days y m d \<and> unix_days y m d \<le> 3000000"
proof -
  have "days_in y k \<le> 31" for k by (simp add: days_in_def)
  then have "sum_list (map (days_in y) xs) \<le> 31 * length xs" for xs
    by (induction xs) (auto intro: add_mono)
  from this [of "[1..<m]"] have "sum_list (map (days_in y) [1..<m]) \<le> 341" using assms(2) by simp
  moreover have "0 \<le> days_before_year y \<and> days_before_year y \<le> 3652500"
    using assms(1) unfolding days_before_year_def by linarith
  ultimately show ?thesis using assms(3) by (simp add: unix_days_def)
qed

lemma parse_rfc3339_range:
  assumes "parse_rfc3339 s = Some (t, ns)"
  shows "\<bar>t\<bar> < 2 ^ 39 \<and> 0 \<le> ns \<and> ns < 10 ^ 9"
proof -
  obtain y mo d h mi sec off n u v w where p: "digits_n 4 s = Some (y, u)" "fraction v = (n, w)" "zone w = Some off"
      "mo \<le> 12" "d \<le> days_in y mo" "h < 24" "mi < 60" "sec < 60"
      "t = unix_days y mo d * 86400 + int ((h * 60 + mi) * 60 + sec) - off" "ns = int n"
    using assms by (auto simp: parse_rfc3339_def split: option.splits prod.splits if_splits)
  have d: "d \<le> 31" using p(5) by (auto simp: days_in_def split: if_splits)
  have "(h * 60 + mi) * 60 + sec < 86400" using p(6-8) by simp
  then show ?thesis
    using unix_days_bounds [of y mo d] digits_n_less [OF p(1)] p(4) d zone_bounds [OF p(3)] fraction_less [OF p(2)] p(9,10)
    by auto
qed

lemma unix_millis_range: "unix_millis s = Some t \<Longrightarrow> \<bar>t\<bar> < 2 ^ 50"
  using parse_rfc3339_range [of s] by (fastforce simp: unix_millis_def)

end
