(* ===== verification/Webhook_Input.thy ===== *)
theory Webhook_Input
  imports Signing Go_Json_Encode Go_Time
begin

text \<open>
  Reading events of any type: \<open>helpers.go\<close> from \<open>normalizeJSONValue\<close> to \<open>getBool\<close>, and the
  functions of \<open>webhook.go\<close> that look into an event: how long its download lasts, whether
  its raw message is there, and the raw message itself with its hash checked. A map that an
  event holds is followed as it is, any other value through its JSON form. \<open>sprint\<close> is
  \<open>fmt.Sprint\<close>, which only fills in error messages.
\<close>

section \<open>Values through JSON\<close>

definition json_error :: werr where
  "json_error = OtherError (Sprintf ''%v'' [FErr ''encoding/json''])"

text \<open>
  \<open>json.Marshal\<close> sets no limit on nesting and \<open>json.Unmarshal\<close> does: past it, nothing is
  decoded.
\<close>

definition reads_back :: "json \<Rightarrow> bool" where
  "reads_back j \<longleftrightarrow> json_depth j \<le> max_nesting"

definition normalizeJSONValue :: "gval \<Rightarrow> werr + gval \<times> json" where
  "normalizeJSONValue input = (case of_any input of None \<Rightarrow> Inl json_error
     | Some data \<Rightarrow> Inr (if reads_back data then to_any False data else GNil, data))"

definition decodeInto :: "'a dec \<Rightarrow> 'a \<Rightarrow> gval \<Rightarrow> werr + 'a" where
  "decodeInto dec zero input = (case normalizeJSONValue input of Inl e \<Rightarrow> Inl e
     | Inr (_, data) \<Rightarrow>
         if reads_back data then (case dec data zero of None \<Rightarrow> Inl json_error | Some x \<Rightarrow> Inr x)
         else Inl json_error)"

definition mapFromInput :: "gval \<Rightarrow> werr + (string \<times> gval) list" where
  "mapFromInput input = (case normalizeJSONValue input of Inl e \<Rightarrow> Inl e
     | Inr (normalized, _) \<Rightarrow> (case normalized of GMap obj \<Rightarrow> Inr obj | _ \<Rightarrow> Inl (wrong_type input)))"

definition mapFromInputPreservingNumbers :: "gval \<Rightarrow> werr + (string \<times> gval) list" where
  "mapFromInputPreservingNumbers input = (case of_any input of None \<Rightarrow> Inl json_error
     | Some data \<Rightarrow> if reads_back data
         then (case to_any True data of GMap obj \<Rightarrow> Inr obj | _ \<Rightarrow> Inl (wrong_type input))
         else Inl json_error)"

text \<open>One key of a path.\<close>

definition entries_of :: "gval \<Rightarrow> (string \<times> gval) list option" where
  "entries_of current = (case current of GMap typed \<Rightarrow> Some typed
     | typed \<Rightarrow> (case mapFromInput typed of Inl _ \<Rightarrow> None | Inr mapped \<Rightarrow> Some mapped))"

fun getMapValue :: "gval \<Rightarrow> string list \<Rightarrow> gval option" where
  "getMapValue current [] = Some current"
| "getMapValue current (key # path) = (case entries_of current of None \<Rightarrow> None
     | Some entries \<Rightarrow> (case obj_get entries key of None \<Rightarrow> None | Some v \<Rightarrow> getMapValue v path))"

definition getString :: "gval \<Rightarrow> string list \<Rightarrow> string option" where
  "getString input path = (case getMapValue input path of Some (GString text) \<Rightarrow> Some text | _ \<Rightarrow> None)"

definition getBool :: "gval \<Rightarrow> string list \<Rightarrow> bool option" where
  "getBool input path = (case getMapValue input path of Some (GBool flag) \<Rightarrow> Some flag | _ \<Rightarrow> None)"

section \<open>Downloads\<close>

definition missingPayloadFieldError :: "string \<Rightarrow> werr" where
  "missingPayloadFieldError path = NewWebhookPayloadError ''PAYLOAD_WRONG_TYPE''
     (Sprintf ''Missing required field %q in webhook payload'' [FStr path])
     (Sprintf ''Check that %q is present in the webhook payload.'' [FStr path]) None"

definition invalidPayloadFieldError :: "string \<Rightarrow> gomsg \<Rightarrow> gomsg \<Rightarrow> gomsg \<Rightarrow> werr" where
  "invalidPayloadFieldError path message suggestion cause =
     NewWebhookPayloadError ''PAYLOAD_WRONG_TYPE'' message suggestion (Some cause)"

definition download_path :: "string list" where
  "download_path = [''email'', ''content'', ''download'']"

text \<open>\<open>UnixMilli\<close> of the expiry, which both functions read the same way.\<close>

definition download_expiry :: "gval \<Rightarrow> werr + int" where
  "download_expiry event = (case getString event (download_path @ [''expires_at'']) of
     None \<Rightarrow> Inl (missingPayloadFieldError ''email.content.download.expires_at'')
   | Some expiresAt \<Rightarrow> (case unix_millis expiresAt of
       None \<Rightarrow> Inl (invalidPayloadFieldError ''email.content.download.expires_at''
         (Sprintf ''Invalid value for email.content.download.expires_at: %q is not a valid RFC 3339 timestamp'' [FStr expiresAt])
         (Sprintf ''Check that %q is a valid RFC 3339 timestamp.'' [FStr ''email.content.download.expires_at''])
         (Sprintf ''%v'' [FErr ''time'']))
     | Some expires \<Rightarrow> Inr expires))"

definition now_millis :: "int \<Rightarrow> int list \<Rightarrow> int" where
  "now_millis clock nowMillis = (case nowMillis of [] \<Rightarrow> clock | now # _ \<Rightarrow> now)"

definition IsDownloadExpired :: "int \<Rightarrow> gval \<Rightarrow> int list \<Rightarrow> werr + bool" where
  "IsDownloadExpired clock event nowMillis =
     (if getMapValue event download_path = Some GNil then Inr True
      else (case download_expiry event of Inl e \<Rightarrow> Inl e
        | Inr expires \<Rightarrow> Inr (expires \<le> now_millis clock nowMillis)))"

definition GetDownloadTimeRemaining :: "int \<Rightarrow> gval \<Rightarrow> int list \<Rightarrow> werr + int" where
  "GetDownloadTimeRemaining clock event nowMillis =
     (if getMapValue event download_path = Some GNil then Inr 0
      else (case download_expiry event of Inl e \<Rightarrow> Inl e
        | Inr expires \<Rightarrow> (let remaining = wrap64 (expires - now_millis clock nowMillis)
            in Inr (if remaining < 0 then 0 else remaining))))"

section \<open>The raw message\<close>

definition raw_path :: "string list" where
  "raw_path = [''email'', ''content'', ''raw'']"

definition raw_unavailable :: werr where
  "raw_unavailable = NewRawEmailDecodeError ''UNAVAILABLE''
     (Lit ''Raw email is unavailable for address-scoped events. Use email.parsed.'')"

definition IsRawIncluded :: "gval \<Rightarrow> werr + bool" where
  "IsRawIncluded event =
     (if getMapValue event raw_path = Some GNil then Inr False
      else (case getBool event (raw_path @ [''included'']) of
          None \<Rightarrow> Inl (missingPayloadFieldError ''email.content.raw.included'')
        | Some included \<Rightarrow> Inr included))"

definition or_nil :: "gval option \<Rightarrow> gval" where
  "or_nil v = (case v of None \<Rightarrow> GNil | Some x \<Rightarrow> x)"

definition not_included :: "(gval \<Rightarrow> string) \<Rightarrow> gval \<Rightarrow> werr" where
  "not_included sprint event =
     (let url = (case getString event (download_path @ [''url'']) of None \<Rightarrow> [] | Some u \<Rightarrow> u);
          size = or_nil (getMapValue event (raw_path @ [''size_bytes'']));
          threshold = or_nil (getMapValue event (raw_path @ [''max_inline_bytes'']))
      in NewRawEmailDecodeError ''NOT_INCLUDED''
        (Sprintf ''Raw email not included inline (size: %v bytes, threshold: %v bytes). Download from: %s''
          [FStr (sprint size), FStr (sprint threshold), FStr url]))"

text \<open>The hash check both functions make, with the last sentence of its error.\<close>

definition check_sha256 :: "gval \<Rightarrow> gobytes \<Rightarrow> string \<Rightarrow> werr + gobytes" where
  "check_sha256 event content what = (case getString event (raw_path @ [''sha256'']) of
     None \<Rightarrow> Inl (missingPayloadFieldError ''email.content.raw.sha256'')
   | Some expected \<Rightarrow>
       if expected = [] then Inl (missingPayloadFieldError ''email.content.raw.sha256'')
       else (let actual = hex_encode (sha256 content)
         in if fold_equal actual expected then Inr content
            else Inl (NewRawEmailDecodeError ''HASH_MISMATCH''
              (Sprintf (''SHA-256 hash mismatch. Expected: %s, got: %s. '' @ what @ '' may be corrupted.'')
                [FStr expected, FStr actual]))))"

definition DecodeRawEmail :: "(gval \<Rightarrow> string) \<Rightarrow> gval \<Rightarrow> bool list \<Rightarrow> werr + gobytes" where
  "DecodeRawEmail sprint event verify =
     (if getMapValue event raw_path = Some GNil then Inl raw_unavailable
      else (case getBool event (raw_path @ [''included'']) of
          None \<Rightarrow> Inl (missingPayloadFieldError ''email.content.raw.included'')
        | Some included \<Rightarrow>
            if \<not> included then Inl (not_included sprint event)
            else (case getString event (raw_path @ [''data'']) of
                None \<Rightarrow> Inl (missingPayloadFieldError ''email.content.raw.data'')
              | Some data \<Rightarrow> (case b64_strict_decode data of
                  None \<Rightarrow> Inl (NewRawEmailDecodeError ''INVALID_BASE64''
                    (Sprintf ''Raw email data is not valid base64: %v'' [FErr ''encoding/base64'']))
                | Some decoded \<Rightarrow>
                    let shouldVerify = (case verify of [] \<Rightarrow> True | v # _ \<Rightarrow> v)
                    in if shouldVerify then check_sha256 event decoded ''The raw email data''
                       else Inr decoded))))"

definition VerifyRawEmailDownload :: "gobytes \<Rightarrow> gval \<Rightarrow> werr + gobytes" where
  "VerifyRawEmailDownload downloaded event =
     (if getMapValue event raw_path = Some GNil then Inl raw_unavailable
      else check_sha256 event downloaded ''The downloaded content'')"

section \<open>The hash as text\<close>

lemma fold_rune_hex: "fold_rune r = of_char c \<Longrightarrow> is_lower_hex c \<Longrightarrow> r < 128"
  by (auto simp: fold_rune_def is_lower_hex_def split: if_splits)

lemma fold_rune_ascii: "fold_rune (of_char c) = of_char (ascii_lower c)"
  using ord_less_256 [of c] by (auto simp: fold_rune_def ord_ascii_lower simp del: ord_less_256)

lemma runes_low_ascii:
  assumes "\<forall>r \<in> set (runes s). r < 128"
  shows "ascii s"
proof -
  have "ascii (concat (map encode_rune rs))" if "\<forall>r \<in> set rs. r < 128" for rs
    using that by (induction rs) (simp_all add: encode_rune_ascii)
  then have "ascii (sanitize s)" using assms by (simp add: sanitize_def)
  then show ?thesis using ascii_sanitize [of s] by simp
qed

lemma fold_runes_ascii: "ascii s \<Longrightarrow> map fold_rune (runes s) = map of_char (map ascii_lower s)"
  by (simp add: runes_ascii fold_rune_ascii)

lemma lower_hex_id: "is_lower_hex c \<Longrightarrow> ascii_lower c = c"
  by (auto simp: is_lower_hex_def ascii_lower_def)

text \<open>A text names a digest, in either case of the letters, exactly when it decodes to it.\<close>

lemma fold_equal_hex: "fold_equal (hex_encode m) h \<longleftrightarrow> hex_decode h = Some m"
proof -
  have hex: "\<forall>c \<in> set (hex_encode m). is_lower_hex c" using hex_encode_chars by blast
  then have "ascii (hex_encode m)" "map ascii_lower (hex_encode m) = hex_encode m"
    by (auto simp: ascii_def lower_hex_ascii lower_hex_id intro: map_idI)
  then have m: "map fold_rune (runes (hex_encode m)) = map of_char (hex_encode m)"
    by (simp add: fold_runes_ascii)
  show ?thesis
  proof
    assume "fold_equal (hex_encode m) h"
    then have h: "map fold_rune (runes h) = map of_char (hex_encode m)" using m by (simp add: fold_equal_def)
    have "\<forall>r \<in> set (runes h). r < 128"
    proof
      fix r assume "r \<in> set (runes h)"
      then have "fold_rune r \<in> set (map of_char (hex_encode m))" by (metis h image_eqI list.set_map)
      then show "r < 128" using hex by (auto intro: fold_rune_hex)
    qed
    then have "map ord (map ascii_lower h) = map ord (hex_encode m)"
      using h by (simp add: fold_runes_ascii runes_low_ascii del: map_map)
    moreover have "inj (of_char :: char \<Rightarrow> nat)" by (simp add: inj_def)
    ultimately have "map ascii_lower h = hex_encode m" by (simp add: inj_map_eq_map del: map_map)
    then show "hex_decode h = Some m" by (metis hex_decode_encode hex_decode_lower)
  next
    assume dec: "hex_decode h = Some m"
    then have val: "\<forall>c \<in> set h. hex_val c \<noteq> None" using hex_decode_Some_iff by blast
    then have "hex_encode m = map ascii_lower h"
      using dec by (intro hex_encode_decode) (auto simp: hex_decode_lower lower_hex_of_hex)
    moreover have "ascii h" using val hex_cls_ascii by (simp add: hex_cls_hex_val)
    ultimately show "fold_equal (hex_encode m) h" using m by (simp add: fold_equal_def fold_runes_ascii del: map_map)
  qed
qed

lemma check_sha256_Inr:
  "check_sha256 event content what = Inr r \<longleftrightarrow> r = content \<and>
     (\<exists>h. getString event (raw_path @ [''sha256'']) = Some h \<and> hex_decode h = Some (sha256 content))"
proof -
  have "hex_decode [] \<noteq> Some (sha256 content)"
    using length_sha256 [of content] by (auto simp del: length_sha256)
  then show ?thesis
    by (auto simp: check_sha256_def fold_equal_hex Let_def split: option.splits)
qed

lemma DecodeRawEmail_Inr:
  "DecodeRawEmail sprint event verify = Inr raw \<longleftrightarrow>
     getMapValue event raw_path \<noteq> Some GNil \<and> getBool event (raw_path @ [''included'']) = Some True \<and>
     (\<exists>data. getString event (raw_path @ [''data'']) = Some data \<and> b64_strict_decode data = Some raw) \<and>
     (verify = [] \<or> hd verify \<longrightarrow> (\<exists>h. getString event (raw_path @ [''sha256'']) = Some h \<and> hex_decode h = Some (sha256 raw)))"
  by (cases verify) (auto simp: DecodeRawEmail_def Let_def check_sha256_Inr split: option.splits if_splits)

section \<open>Properties\<close>

text \<open>
  C20. With its check on, which is the default, \<open>DecodeRawEmail\<close> returns bytes exactly when
  the event holds an inline message in base64 whose SHA-256 digest is the one the event
  names, and returns that message; and \<open>VerifyRawEmailDownload\<close> returns a download exactly
  when it has that digest, unchanged. So both give the bytes whose digest the (signed) event
  holds or an error.
\<close>

theorem raw_email_integrity:
  "(DecodeRawEmail sprint event [] = Inr raw) =
     (IsRawIncluded event = Inr True \<and>
      (\<exists>data. getString event (raw_path @ [''data'']) = Some data \<and> b64_strict_decode data = Some raw) \<and>
      VerifyRawEmailDownload raw event = Inr raw) \<and>
   (VerifyRawEmailDownload downloaded event = Inr raw) =
     (raw = downloaded \<and> getMapValue event raw_path \<noteq> Some GNil \<and>
      (\<exists>h. getString event (raw_path @ [''sha256'']) = Some h \<and> hex_decode h = Some (sha256 downloaded)))"
  by (auto simp: DecodeRawEmail_Inr VerifyRawEmailDownload_def IsRawIncluded_def check_sha256_Inr split: option.splits)

text \<open>
  The two download functions agree: the same events are errors for both, with the same
  error; a time remaining is never negative and is zero exactly when the download is expired;
  and a download with \<open>r\<close> milliseconds remaining is live until \<open>r\<close> milliseconds later. This
  holds for every clock reading that is not within 2 to the 50 of the end of the 64-bit
  range, so for every date Go prints.
\<close>

theorem download_time_agrees:
  assumes "- (2 ^ 62) \<le> now" and "now < 2 ^ 62"
  shows "(IsDownloadExpired clock event [now] = Inl e) = (GetDownloadTimeRemaining clock event [now] = Inl e) \<and>
     (IsDownloadExpired clock event [now] = Inr True) = (GetDownloadTimeRemaining clock event [now] = Inr 0) \<and>
     (\<forall>r. GetDownloadTimeRemaining clock event [now] = Inr r \<longrightarrow> 0 \<le> r \<and>
        (0 < r \<longrightarrow> IsDownloadExpired clock event [now + r - 1] = Inr False \<and>
                  IsDownloadExpired clock event [now + r] = Inr True))"
proof (cases "getMapValue event download_path = Some GNil")
  case True
  then show ?thesis by (simp add: IsDownloadExpired_def GetDownloadTimeRemaining_def)
next
  case live: False
  show ?thesis
  proof (cases "download_expiry event")
    case (Inl x)
    then show ?thesis using live by (simp add: IsDownloadExpired_def GetDownloadTimeRemaining_def)
  next
    case (Inr expires)
    then have "\<bar>expires\<bar> < 2 ^ 50"
      by (auto simp: download_expiry_def split: option.splits dest: unix_millis_range)
    then have "wrap64 (expires - now) = expires - now"
      using assms by (intro wrap64_id) (auto simp: is_int64_def)
    then show ?thesis
      using live Inr by (auto simp: IsDownloadExpired_def GetDownloadTimeRemaining_def now_millis_def Let_def)
  qed
qed

definition example_download :: gval where
  "example_download = GMap [(''email'', GMap [(''content'', GMap [(''download'',
     GMap [(''url'', GString ''https://x''), (''expires_at'', GString ''2030-01-01T00:00:00Z'')])])])]"

theorem download_time_agrees_witness:
  "GetDownloadTimeRemaining 0 example_download [1893455998500] = Inr 1500 \<and>
   IsDownloadExpired 0 example_download [1893455999999] = Inr False \<and>
   IsDownloadExpired 0 example_download [1893456000000] = Inr True"
proof -
  have "parse_rfc3339 ''2030-01-01T00:00:00Z'' = Some (1893456000, 0)" by code_simp
  then have t: "unix_millis ''2030-01-01T00:00:00Z'' = Some 1893456000000" by (simp add: unix_millis_def)
  have p: "getMapValue example_download download_path \<noteq> Some GNil"
      "getString example_download (download_path @ [''expires_at'']) = Some ''2030-01-01T00:00:00Z''"
    by (simp_all add: example_download_def download_path_def getString_def entries_of_def obj_get_def)
  have "GetDownloadTimeRemaining 0 example_download [1893455998500] = Inr 1500"
    using t p by (simp add: GetDownloadTimeRemaining_def download_expiry_def now_millis_def wrap64_id is_int64_def)
  then show ?thesis
    using download_time_agrees [of 1893455998500 0 example_download] by simp
qed

end
