(* ===== verification/Email_Auth.thy ===== *)
theory Email_Auth
  imports Email_Types Errors
begin

text \<open>
  \<open>ValidateEmailAuth\<close> of \<open>webhook.go\<close>: the verdict, its confidence and its reasons, computed
  from the SPF, DKIM and DMARC results of an event.
\<close>

record ValidateEmailAuthResult =
  Verdict :: string
  Confidence :: string
  Reasons :: "gomsg list"

abbreviation reason :: "string \<Rightarrow> gomsg" where "reason \<equiv> Lit"

abbreviation auth_result :: "string \<Rightarrow> string \<Rightarrow> gomsg list \<Rightarrow> ValidateEmailAuthResult" where
  "auth_result v c rs \<equiv> \<lparr>Verdict = v, Confidence = c, Reasons = rs\<rparr>"

text \<open>The weak-key signatures of the first loop, and the reason each adds.\<close>

definition weak_key :: "DKIMSignature \<Rightarrow> bool" where
  "weak_key sig \<longleftrightarrow> (case dkim_KeyBits sig of None \<Rightarrow> False | Some n \<Rightarrow> n < 1024)"

definition weak_key_reason :: "DKIMSignature \<Rightarrow> gomsg" where
  "weak_key_reason sig = Sprintf ''Weak DKIM key (%d bits) for %s - minimum 1024 bits recommended''
     [FInt (case dkim_KeyBits sig of None \<Rightarrow> 0 | Some n \<Rightarrow> n), FStr (dkim_Domain sig)]"

definition aligned_domains :: "DKIMSignature list \<Rightarrow> string list" where
  "aligned_domains sigs = map dkim_Domain (filter (\<lambda>s. dkim_Result s = ''pass'' \<and> dkim_Aligned s) sigs)"

definition passing_domains :: "DKIMSignature list \<Rightarrow> string list" where
  "passing_domains sigs = map dkim_Domain (filter (\<lambda>s. dkim_Result s = ''pass'') sigs)"

definition dmarc_passed :: "EmailAuth \<Rightarrow> gomsg list \<Rightarrow> ValidateEmailAuthResult" where
  "dmarc_passed auth reasons =
     (let aligned = aligned_domains (auth_DKIMSignatures auth);
          weak = filter weak_key (auth_DKIMSignatures auth)
      in if auth_DMARCDkimAligned auth = Some True \<and> aligned \<noteq> [] then
           auth_result ''legit'' (if weak \<noteq> [] then ''medium'' else ''high'')
             (Sprintf ''DMARC passed with DKIM alignment (%s)'' [FStr (join '', '' aligned)] # reasons)
         else if auth_DMARCSpfAligned auth = Some True \<and> auth_SPF auth = ''pass'' then
           auth_result ''legit'' ''medium''
             (reason ''DMARC passed with SPF alignment'' # reasons @
              [reason ''No aligned DKIM signature (SPF can break through forwarding)''])
         else auth_result ''legit'' ''medium'' (reason ''DMARC passed'' # reasons))"

definition dmarc_failed :: "EmailAuth \<Rightarrow> gomsg list \<Rightarrow> ValidateEmailAuthResult" where
  "dmarc_failed auth reasons =
     (let policy = (case auth_DMARCPolicy auth of None \<Rightarrow> [] | Some p \<Rightarrow> p)
      in if policy = ''reject'' then
           auth_result ''suspicious'' ''high''
             (reason ''DMARC failed and domain has reject policy'' # reasons @
              [reason ''The sender's domain explicitly rejects emails that fail authentication''])
         else if policy = ''quarantine'' then
           auth_result ''suspicious'' ''high''
             (reason ''DMARC failed and domain has quarantine policy'' # reasons @
              [reason ''The sender's domain marks failing emails as suspicious''])
         else (let rs = reason ''DMARC failed (domain is in monitoring mode)'' # reasons
           in if auth_SPF auth = ''fail'' then
                auth_result ''suspicious'' ''medium'' (rs @ [reason ''SPF failed - sending IP not authorized''])
              else auth_result ''suspicious'' ''low'' rs))"

definition dmarc_absent :: "EmailAuth \<Rightarrow> gomsg list \<Rightarrow> ValidateEmailAuthResult" where
  "dmarc_absent auth reasons =
     (let rs = reasons @ [reason ''No DMARC record for sender domain''];
          passing = passing_domains (auth_DKIMSignatures auth)
      in if auth_SPF auth = ''fail'' then
           auth_result ''suspicious'' ''medium'' (rs @ [reason ''SPF failed - sending IP not authorized''])
         else if passing \<noteq> [] then
           auth_result ''unknown'' ''low''
             (rs @ [Sprintf ''DKIM verified for: %s'' [FStr (join '', '' passing)]] @
              (if auth_SPF auth = ''pass'' then [reason ''SPF passed''] else []))
         else if auth_SPF auth = ''pass'' then
           auth_result ''unknown'' ''low''
             (rs @ [reason ''No DKIM signatures present'', reason ''SPF passed (but SPF alone is weak authentication)''])
         else auth_result ''unknown'' ''low'' (rs @ [reason ''No valid authentication found'']))"

text \<open>The function after its input is decoded.\<close>

definition auth_verdict :: "EmailAuth \<Rightarrow> ValidateEmailAuthResult" where
  "auth_verdict auth =
     (let weak = map weak_key_reason (filter weak_key (auth_DKIMSignatures auth))
      in if auth_DMARC auth \<in> {''temperror'', ''permerror''} then
           auth_result ''unknown'' ''low''
             [Sprintf ''DMARC verification error (%s)'' [FStr (auth_DMARC auth)],
              reason ''Cannot determine email authenticity due to DNS or policy errors'']
         else (let reasons = (if auth_SPF auth \<in> {''temperror'', ''permerror''}
                    then weak @ [Sprintf ''SPF verification error (%s)'' [FStr (auth_SPF auth)]] else weak)
           in if auth_DMARC auth = ''pass'' then dmarc_passed auth reasons
              else if auth_DMARC auth = ''fail'' then dmarc_failed auth reasons
              else if auth_DMARC auth = ''none'' then dmarc_absent auth reasons
              else auth_result ''unknown'' ''low'' [reason ''Unable to determine email authenticity'']))"

text \<open>\<open>invalidAuthInputError\<close>; the texts of the errors of \<open>encoding/json\<close> are left unrendered.\<close>

definition invalidAuthInputError :: werr where
  "invalidAuthInputError = NewWebhookValidationError (Lit ''auth'')
     (Sprintf ''Validation failed for auth: %s'' [FErr ''encoding/json''])
     (Lit ''Check the structure of the auth object.'') []"

text \<open>
  The input is what \<open>json.Marshal\<close> makes of the argument, nothing when that fails. The
  argument may be a map or any other value (\<open>of_any\<close>) or a typed \<open>EmailAuth\<close>
  (\<open>enc_EmailAuth\<close>).
\<close>

definition ValidateEmailAuth :: "json option \<Rightarrow> werr + ValidateEmailAuthResult" where
  "ValidateEmailAuth input = (case input of None \<Rightarrow> Inl invalidAuthInputError
     | Some j \<Rightarrow> (case dec_EmailAuth j EmailAuth_zero of
          None \<Rightarrow> Inl invalidAuthInputError | Some auth \<Rightarrow> Inr (auth_verdict auth)))"

section \<open>Marshalling and decoding the authentication results\<close>

definition sanitize_dkim :: "DKIMSignature \<Rightarrow> DKIMSignature" where
  "sanitize_dkim s = \<lparr>dkim_Domain = sanitize (dkim_Domain s), dkim_Selector = map_option sanitize (dkim_Selector s),
     dkim_Result = sanitize (dkim_Result s), dkim_Aligned = dkim_Aligned s, dkim_KeyBits = dkim_KeyBits s,
     dkim_Algo = map_option sanitize (dkim_Algo s)\<rparr>"

definition sanitize_auth :: "EmailAuth \<Rightarrow> EmailAuth" where
  "sanitize_auth a = \<lparr>auth_SPF = sanitize (auth_SPF a), auth_DMARC = sanitize (auth_DMARC a),
     auth_DMARCPolicy = map_option sanitize (auth_DMARCPolicy a),
     auth_DMARCFromDomain = map_option sanitize (auth_DMARCFromDomain a),
     auth_DMARCSpfAligned = auth_DMARCSpfAligned a, auth_DMARCDkimAligned = auth_DMARCDkimAligned a,
     auth_DMARCSpfStrict = auth_DMARCSpfStrict a, auth_DMARCDkimStrict = auth_DMARCDkimStrict a,
     auth_DKIMSignatures = map sanitize_dkim (auth_DKIMSignatures a)\<rparr>"

definition key_bits_ok :: "EmailAuth \<Rightarrow> bool" where
  "key_bits_ok a \<longleftrightarrow> (\<forall>s \<in> set (auth_DKIMSignatures a). \<forall>n. dkim_KeyBits s = Some n \<longrightarrow> is_int64 n)"

lemma dec_enc_dkim:
  assumes "\<forall>n. dkim_KeyBits s = Some n \<longrightarrow> is_int64 n"
  shows "dec_DKIMSignature (enc_DKIMSignature s) DKIMSignature_zero = Some (sanitize_dkim s)"
  using assms
  by (cases "dkim_Selector s"; cases "dkim_KeyBits s"; cases "dkim_Algo s")
    (simp_all add: dec_DKIMSignature_def enc_DKIMSignature_def dec_struct_def member_step_exact fld_def
      DKIMSignature_zero_def sanitize_dkim_def omit_nil_def)

lemma auth_field:
  "map_of auth_fields ''spf'' = Some (snd (fld [] dec_string auth_SPF auth_SPF_update))"
  "map_of auth_fields ''dmarc'' = Some (snd (fld [] dec_string auth_DMARC auth_DMARC_update))"
  "map_of auth_fields ''dmarcPolicy'' = Some (snd (fld [] opt_string auth_DMARCPolicy auth_DMARCPolicy_update))"
  "map_of auth_fields ''dmarcFromDomain'' = Some (snd (fld [] opt_string auth_DMARCFromDomain auth_DMARCFromDomain_update))"
  "map_of auth_fields ''dmarcSpfAligned'' = Some (snd (fld [] opt_bool auth_DMARCSpfAligned auth_DMARCSpfAligned_update))"
  "map_of auth_fields ''dmarcDkimAligned'' = Some (snd (fld [] opt_bool auth_DMARCDkimAligned auth_DMARCDkimAligned_update))"
  "map_of auth_fields ''dmarcSpfStrict'' = Some (snd (fld [] opt_bool auth_DMARCSpfStrict auth_DMARCSpfStrict_update))"
  "map_of auth_fields ''dmarcDkimStrict'' = Some (snd (fld [] opt_bool auth_DMARCDkimStrict auth_DMARCDkimStrict_update))"
  "map_of auth_fields ''dkimSignatures'' =
     Some (snd (fld [] (dec_list dec_DKIMSignature DKIMSignature_zero) auth_DKIMSignatures auth_DKIMSignatures_update))"
  by (simp_all add: auth_fields_def fld_def)

lemma dec_enc_auth:
  assumes "key_bits_ok a"
  shows "dec_EmailAuth (enc_EmailAuth a) EmailAuth_zero = Some (sanitize_auth a)"
proof -
  have "dec_list dec_DKIMSignature DKIMSignature_zero (JArr (map enc_DKIMSignature (auth_DKIMSignatures a))) [] =
      Some (map sanitize_dkim (auth_DKIMSignatures a))"
    by (rule dec_list_fresh) (use assms in \<open>auto simp: key_bits_ok_def intro!: dec_enc_dkim\<close>)
  then show ?thesis
    by (cases "auth_DMARCSpfAligned a"; cases "auth_DMARCDkimAligned a")
      (simp_all add: dec_EmailAuth_def enc_EmailAuth_def dec_struct_def member_step_exact [OF auth_field(1)]
        member_step_exact [OF auth_field(2)] member_step_exact [OF auth_field(3)] member_step_exact [OF auth_field(4)]
        member_step_exact [OF auth_field(5)] member_step_exact [OF auth_field(6)] member_step_exact [OF auth_field(7)]
        member_step_exact [OF auth_field(8)] member_step_exact [OF auth_field(9)] fld_def
        EmailAuth_zero_def sanitize_auth_def omit_nil_def)
qed


lemma printable_dkim: "printable (Suc n) (enc_DKIMSignature s)"
  unfolding enc_DKIMSignature_def
  by (rule printable_obj) (auto simp: omit_nil_def split: option.splits)

lemma printable_auth: "printable (Suc (Suc (Suc n))) (enc_EmailAuth a)"
  unfolding enc_EmailAuth_def
  by (rule printable_obj) (auto simp: omit_nil_def intro!: printable_opt printable_arr printable_dkim split: option.splits)

section \<open>Verdicts\<close>

lemma verdict_legit: "Verdict (auth_verdict a) = ''legit'' \<longleftrightarrow> auth_DMARC a = ''pass''"
  by (auto simp: auth_verdict_def dmarc_passed_def dmarc_failed_def dmarc_absent_def Let_def)

lemma verdict_suspicious:
  "Verdict (auth_verdict a) = ''suspicious'' \<longleftrightarrow>
     auth_DMARC a = ''fail'' \<or> auth_DMARC a = ''none'' \<and> auth_SPF a = ''fail''"
  by (auto simp: auth_verdict_def dmarc_passed_def dmarc_failed_def dmarc_absent_def Let_def)

lemma verdict_known: "Verdict (auth_verdict a) \<in> {''legit'', ''suspicious'', ''unknown''}"
  by (auto simp: auth_verdict_def dmarc_passed_def dmarc_failed_def dmarc_absent_def Let_def)

lemma confidence_high:
  "Confidence (auth_verdict a) = ''high'' \<longleftrightarrow>
     auth_DMARC a = ''fail'' \<and> auth_DMARCPolicy a \<in> {Some ''reject'', Some ''quarantine''} \<or>
     auth_DMARC a = ''pass'' \<and> auth_DMARCDkimAligned a = Some True \<and>
       aligned_domains (auth_DKIMSignatures a) \<noteq> [] \<and> filter weak_key (auth_DKIMSignatures a) = []"
  by (auto simp: auth_verdict_def dmarc_passed_def dmarc_failed_def dmarc_absent_def Let_def
      split: option.splits)

lemma validate_typed:
  "key_bits_ok a \<Longrightarrow> ValidateEmailAuth (Some (enc_EmailAuth a)) = Inr (auth_verdict (sanitize_auth a))"
  by (simp add: ValidateEmailAuth_def dec_enc_auth)


section \<open>Properties\<close>

text \<open>
  C6. The verdict of \<open>ValidateEmailAuth\<close> is \<open>legit\<close> exactly when DMARC passed, \<open>suspicious\<close>
  exactly when DMARC failed or there is no DMARC record and SPF failed, and \<open>unknown\<close> in
  every other case, errors of the DNS among them. Confidence is \<open>high\<close> exactly for a DMARC
  failure under an enforced policy, or for a pass with DKIM alignment, a passing aligned
  signature and no weak key anywhere.
\<close>

theorem email_auth_verdict:
  assumes "ValidateEmailAuth input = Inr r"
  shows "\<exists>j a. input = Some j \<and> dec_EmailAuth j EmailAuth_zero = Some a \<and>
    (Verdict r = ''legit'' \<longleftrightarrow> auth_DMARC a = ''pass'') \<and>
    (Verdict r = ''suspicious'' \<longleftrightarrow>
       auth_DMARC a = ''fail'' \<or> auth_DMARC a = ''none'' \<and> auth_SPF a = ''fail'') \<and>
    (Verdict r = ''unknown'' \<longleftrightarrow> Verdict r \<notin> {''legit'', ''suspicious''}) \<and>
    (Confidence r = ''high'' \<longleftrightarrow>
       auth_DMARC a = ''fail'' \<and> auth_DMARCPolicy a \<in> {Some ''reject'', Some ''quarantine''} \<or>
       auth_DMARC a = ''pass'' \<and> auth_DMARCDkimAligned a = Some True \<and>
         (\<exists>s \<in> set (auth_DKIMSignatures a). dkim_Result s = ''pass'' \<and> dkim_Aligned s) \<and>
         (\<forall>s \<in> set (auth_DKIMSignatures a). \<forall>n. dkim_KeyBits s = Some n \<longrightarrow> 1024 \<le> n))"
proof -
  from assms obtain j a where j: "input = Some j" "dec_EmailAuth j EmailAuth_zero = Some a" "r = auth_verdict a"
    by (auto simp: ValidateEmailAuth_def split: option.splits)
  have sigs: "aligned_domains ss \<noteq> [] \<longleftrightarrow> (\<exists>s \<in> set ss. dkim_Result s = ''pass'' \<and> dkim_Aligned s)" for ss
    by (auto simp: aligned_domains_def filter_empty_conv)
  have weak: "filter weak_key ss = [] \<longleftrightarrow> (\<forall>s \<in> set ss. \<forall>n. dkim_KeyBits s = Some n \<longrightarrow> 1024 \<le> n)" for ss
    by (auto simp: weak_key_def filter_empty_conv split: option.splits)
  have "Verdict r = ''unknown'' \<longleftrightarrow> Verdict r \<notin> {''legit'', ''suspicious''}"
    using verdict_known [of a] by (auto simp: j(3))
  then show ?thesis
    using j(1,2) verdict_legit [of a] verdict_suspicious [of a] confidence_high [of a]
    unfolding j(3) sigs weak by blast
qed

definition example_auth :: EmailAuth where
  "example_auth = EmailAuth_zero \<lparr>auth_SPF := ''fail'', auth_DMARC := ''pass'', auth_DMARCFromDomain := Some ''example.com'',
     auth_DMARCDkimAligned := Some True,
     auth_DKIMSignatures := [DKIMSignature_zero \<lparr>dkim_Domain := ''example.com'', dkim_Result := ''pass'',
       dkim_Aligned := True, dkim_KeyBits := Some 2048, dkim_Algo := Some ''rsa-sha256''\<rparr>]\<rparr>"

lemma example_key_bits: "key_bits_ok example_auth"
  by (simp add: key_bits_ok_def example_auth_def EmailAuth_zero_def DKIMSignature_zero_def is_int64_def)

theorem email_auth_verdict_witness:
  "\<exists>r. ValidateEmailAuth (Some (enc_EmailAuth example_auth)) = Inr r \<and> Verdict r = ''legit''"
proof -
  have v: "ValidateEmailAuth (Some (enc_EmailAuth example_auth)) = Inr (auth_verdict (sanitize_auth example_auth))"
    by (rule validate_typed [OF example_key_bits])
  have d: "auth_DMARC a = ''pass''" if "dec_EmailAuth (enc_EmailAuth example_auth) EmailAuth_zero = Some a" for a
  proof -
    have "a = sanitize_auth example_auth" using that by (simp add: dec_enc_auth [OF example_key_bits])
    then show ?thesis by (simp add: sanitize_auth_def example_auth_def EmailAuth_zero_def)
  qed
  show ?thesis using email_auth_verdict [OF v] d v by auto
qed

text \<open>
  Typed authentication results survive the trip through JSON that \<open>ValidateEmailAuth\<close>
  sends them on: their text is a valid document, and decoding it gives back the same
  record, with invalid UTF-8 in its strings replaced and nothing else changed.
\<close>

theorem email_auth_roundtrip:
  assumes "key_bits_ok a"
  shows "\<exists>j. json_parse (json_text (enc_EmailAuth a)) = Some j \<and>
    dec_EmailAuth j EmailAuth_zero = Some (sanitize_auth a) \<and>
    ValidateEmailAuth (Some j) = Inr (auth_verdict (sanitize_auth a))"
proof -
  have p: "printable 3 (enc_EmailAuth a)" using printable_auth [of 0 a] by (simp add: numeral_3_eq_3)
  then have "json_parse (json_text (enc_EmailAuth a)) = Some (enc_EmailAuth a)"
    using json_parse_text [of "enc_EmailAuth a"] by (simp add: printable_def max_nesting_def)
  then show ?thesis using dec_enc_auth [OF assms] validate_typed [OF assms] by blast
qed

theorem email_auth_roundtrip_witness:
  "\<exists>j. json_parse (json_text (enc_EmailAuth example_auth)) = Some j \<and>
    dec_EmailAuth j EmailAuth_zero = Some example_auth"
  using email_auth_roundtrip [OF example_key_bits]
  by (auto simp: sanitize_auth_def example_auth_def EmailAuth_zero_def DKIMSignature_zero_def sanitize_dkim_def)

end
