(* ===== verification/Sent_Email.thy ===== *)
theory Sent_Email
  imports Webhook_Input Email_Auth
begin

text \<open>
  \<open>sent_email_events.go\<close>: the body of a \<open>sent_email.*\<close> event as one record per struct, with
  its decoding and its marshalling, and \<open>validation.go\<close>: the validation of both event
  families against their schemas. A slice is an option here, \<^term>\<open>None\<close> for \<open>nil\<close>, since the
  wire shape tells \<open>null\<close> and an empty array apart. \<open>gojsonschema\<close> is an argument: a compiled
  schema answers an error or the issues it found, and \<open>Valid()\<close> means that there are none.
\<close>

section \<open>Slices\<close>

definition dec_slice :: "'a dec \<Rightarrow> 'a \<Rightarrow> 'a list option dec" where
  "dec_slice d zero j old = (case j of JNull \<Rightarrow> Some None
     | _ \<Rightarrow> map_option Some (dec_list d zero j (case old of None \<Rightarrow> [] | Some xs \<Rightarrow> xs)))"

definition enc_slice :: "('a \<Rightarrow> json) \<Rightarrow> 'a list option \<Rightarrow> json" where
  "enc_slice f x = enc_opt (\<lambda>vs. JArr (map f vs)) x"

definition omit_empty :: "string \<Rightarrow> ('a \<Rightarrow> json) \<Rightarrow> 'a list option \<Rightarrow> (string \<times> json) list" where
  "omit_empty name f x = (case x of None \<Rightarrow> [] | Some [] \<Rightarrow> [] | Some vs \<Rightarrow> [(name, JArr (map f vs))])"

section \<open>The event and its parts\<close>

record SentEmailEventDelivery =
  sdel_EndpointID :: string
  sdel_Attempt :: int
  sdel_AttemptedAt :: string

definition SentEmailEventDelivery_zero :: SentEmailEventDelivery where
  "SentEmailEventDelivery_zero = \<lparr>
    sdel_EndpointID = [], sdel_Attempt = 0, sdel_AttemptedAt = []\<rparr>"

definition dec_SentEmailEventDelivery :: "SentEmailEventDelivery dec" where
  "dec_SentEmailEventDelivery = dec_struct [
    fld ''endpoint_id'' dec_string sdel_EndpointID sdel_EndpointID_update,
    fld ''attempt'' dec_int64 sdel_Attempt sdel_Attempt_update,
    fld ''attempted_at'' dec_string sdel_AttemptedAt sdel_AttemptedAt_update]"

definition enc_SentEmailEventDelivery :: "SentEmailEventDelivery \<Rightarrow> json" where
  "enc_SentEmailEventDelivery e = JObj (
     [(''endpoint_id'', enc_string (sdel_EndpointID e)),
      (''attempt'', enc_int (sdel_Attempt e)),
      (''attempted_at'', enc_string (sdel_AttemptedAt e))])"

record SentEmailTag =
  tag_Name :: string
  tag_Value :: string

definition SentEmailTag_zero :: SentEmailTag where
  "SentEmailTag_zero = \<lparr>
    tag_Name = [], tag_Value = []\<rparr>"

definition dec_SentEmailTag :: "SentEmailTag dec" where
  "dec_SentEmailTag = dec_struct [
    fld ''name'' dec_string tag_Name tag_Name_update,
    fld ''value'' dec_string tag_Value tag_Value_update]"

definition enc_SentEmailTag :: "SentEmailTag \<Rightarrow> json" where
  "enc_SentEmailTag e = JObj (
     [(''name'', enc_string (tag_Name e)),
      (''value'', enc_string (tag_Value e))])"

record SentEmailRelay =
  srelay_Hostname :: string
  srelay_Via :: string

definition SentEmailRelay_zero :: SentEmailRelay where
  "SentEmailRelay_zero = \<lparr>
    srelay_Hostname = [], srelay_Via = []\<rparr>"

definition dec_SentEmailRelay :: "SentEmailRelay dec" where
  "dec_SentEmailRelay = dec_struct [
    fld ''hostname'' dec_string srelay_Hostname srelay_Hostname_update,
    fld ''via'' dec_string srelay_Via srelay_Via_update]"

definition enc_SentEmailRelay :: "SentEmailRelay \<Rightarrow> json" where
  "enc_SentEmailRelay e = JObj (
     [(''hostname'', enc_string (srelay_Hostname e)),
      (''via'', enc_string (srelay_Via e))])"

record SentEmailRecord =
  rec_ID :: string
  rec_Status :: string
  rec_StatusChangedAt :: string
  rec_CreatedAt :: string
  rec_Source :: string
  rec_FromAddress :: string
  rec_ToAddresses :: "string list option"
  rec_Cc :: "string list option"
  rec_Bcc :: "string list option"
  rec_RecipientCount :: "int option"
  rec_Subject :: "string option"
  rec_MessageID :: "string option"
  rec_ThreadID :: "string option"
  rec_Tags :: "SentEmailTag list option"
  rec_Relay :: "SentEmailRelay option"

definition SentEmailRecord_zero :: SentEmailRecord where
  "SentEmailRecord_zero = \<lparr>
    rec_ID = [], rec_Status = [], rec_StatusChangedAt = [], rec_CreatedAt = [],
    rec_Source = [], rec_FromAddress = [], rec_ToAddresses = None, rec_Cc = None,
    rec_Bcc = None, rec_RecipientCount = None, rec_Subject = None, rec_MessageID = None,
    rec_ThreadID = None, rec_Tags = None, rec_Relay = None\<rparr>"

definition dec_SentEmailRecord :: "SentEmailRecord dec" where
  "dec_SentEmailRecord = dec_struct [
    fld ''id'' dec_string rec_ID rec_ID_update,
    fld ''status'' dec_string rec_Status rec_Status_update,
    fld ''status_changed_at'' dec_string rec_StatusChangedAt rec_StatusChangedAt_update,
    fld ''created_at'' dec_string rec_CreatedAt rec_CreatedAt_update,
    fld ''source'' dec_string rec_Source rec_Source_update,
    fld ''from_address'' dec_string rec_FromAddress rec_FromAddress_update,
    fld ''to_addresses'' (dec_slice dec_string []) rec_ToAddresses rec_ToAddresses_update,
    fld ''cc'' (dec_slice dec_string []) rec_Cc rec_Cc_update,
    fld ''bcc'' (dec_slice dec_string []) rec_Bcc rec_Bcc_update,
    fld ''recipient_count'' opt_int rec_RecipientCount rec_RecipientCount_update,
    fld ''subject'' opt_string rec_Subject rec_Subject_update,
    fld ''message_id'' opt_string rec_MessageID rec_MessageID_update,
    fld ''thread_id'' opt_string rec_ThreadID rec_ThreadID_update,
    fld ''tags'' (dec_slice dec_SentEmailTag SentEmailTag_zero) rec_Tags rec_Tags_update,
    fld ''relay'' (dec_ptr dec_SentEmailRelay SentEmailRelay_zero) rec_Relay rec_Relay_update]"

definition enc_SentEmailRecord :: "SentEmailRecord \<Rightarrow> json" where
  "enc_SentEmailRecord e = JObj (
     [(''id'', enc_string (rec_ID e)),
      (''status'', enc_string (rec_Status e)),
      (''status_changed_at'', enc_string (rec_StatusChangedAt e)),
      (''created_at'', enc_string (rec_CreatedAt e)),
      (''source'', enc_string (rec_Source e)),
      (''from_address'', enc_string (rec_FromAddress e)),
      (''to_addresses'', enc_slice enc_string (rec_ToAddresses e)),
      (''cc'', enc_slice enc_string (rec_Cc e)),
      (''bcc'', enc_slice enc_string (rec_Bcc e)),
      (''recipient_count'', enc_opt enc_int (rec_RecipientCount e)),
      (''subject'', enc_opt enc_string (rec_Subject e)),
      (''message_id'', enc_opt enc_string (rec_MessageID e)),
      (''thread_id'', enc_opt enc_string (rec_ThreadID e)),
      (''tags'', enc_slice enc_SentEmailTag (rec_Tags e)),
      (''relay'', enc_opt enc_SentEmailRelay (rec_Relay e))])"

record SentEmailRecipient =
  rcpt_Address :: string
  rcpt_Type :: string

definition SentEmailRecipient_zero :: SentEmailRecipient where
  "SentEmailRecipient_zero = \<lparr>
    rcpt_Address = [], rcpt_Type = []\<rparr>"

definition dec_SentEmailRecipient :: "SentEmailRecipient dec" where
  "dec_SentEmailRecipient = dec_struct [
    fld ''address'' dec_string rcpt_Address rcpt_Address_update,
    fld ''type'' dec_string rcpt_Type rcpt_Type_update]"

definition enc_SentEmailRecipient :: "SentEmailRecipient \<Rightarrow> json" where
  "enc_SentEmailRecipient e = JObj (
     [(''address'', enc_string (rcpt_Address e)),
      (''type'', enc_string (rcpt_Type e))])"

record SentEmailOutcome =
  outc_Result :: string
  outc_FailureKind :: "string option"
  outc_SMTPResponseCode :: "int option"
  outc_SMTPEnhancedStatusCode :: "string option"
  outc_SMTPResponseText :: "string option"
  outc_At :: "string option"

definition SentEmailOutcome_zero :: SentEmailOutcome where
  "SentEmailOutcome_zero = \<lparr>
    outc_Result = [], outc_FailureKind = None, outc_SMTPResponseCode = None,
    outc_SMTPEnhancedStatusCode = None, outc_SMTPResponseText = None, outc_At = None\<rparr>"

definition dec_SentEmailOutcome :: "SentEmailOutcome dec" where
  "dec_SentEmailOutcome = dec_struct [
    fld ''result'' dec_string outc_Result outc_Result_update,
    fld ''failure_kind'' opt_string outc_FailureKind outc_FailureKind_update,
    fld ''smtp_response_code'' opt_int outc_SMTPResponseCode outc_SMTPResponseCode_update,
    fld ''smtp_enhanced_status_code'' opt_string outc_SMTPEnhancedStatusCode outc_SMTPEnhancedStatusCode_update,
    fld ''smtp_response_text'' opt_string outc_SMTPResponseText outc_SMTPResponseText_update,
    fld ''at'' opt_string outc_At outc_At_update]"

definition enc_SentEmailOutcome :: "SentEmailOutcome \<Rightarrow> json" where
  "enc_SentEmailOutcome e = JObj (
     [(''result'', enc_string (outc_Result e)),
      (''failure_kind'', enc_opt enc_string (outc_FailureKind e)),
      (''smtp_response_code'', enc_opt enc_int (outc_SMTPResponseCode e)),
      (''smtp_enhanced_status_code'', enc_opt enc_string (outc_SMTPEnhancedStatusCode e)),
      (''smtp_response_text'', enc_opt enc_string (outc_SMTPResponseText e)),
      (''at'', enc_opt enc_string (outc_At e))])"

record SentEmailRolledUpFailure =
  fail_Address :: string
  fail_Type :: string
  fail_SMTPResponseCode :: "int option"
  fail_SMTPEnhancedStatusCode :: "string option"
  fail_SMTPResponseText :: "string option"
  fail_At :: "string option"

definition SentEmailRolledUpFailure_zero :: SentEmailRolledUpFailure where
  "SentEmailRolledUpFailure_zero = \<lparr>
    fail_Address = [], fail_Type = [], fail_SMTPResponseCode = None,
    fail_SMTPEnhancedStatusCode = None, fail_SMTPResponseText = None, fail_At = None\<rparr>"

definition dec_SentEmailRolledUpFailure :: "SentEmailRolledUpFailure dec" where
  "dec_SentEmailRolledUpFailure = dec_struct [
    fld ''address'' dec_string fail_Address fail_Address_update,
    fld ''type'' dec_string fail_Type fail_Type_update,
    fld ''smtp_response_code'' opt_int fail_SMTPResponseCode fail_SMTPResponseCode_update,
    fld ''smtp_enhanced_status_code'' opt_string fail_SMTPEnhancedStatusCode fail_SMTPEnhancedStatusCode_update,
    fld ''smtp_response_text'' opt_string fail_SMTPResponseText fail_SMTPResponseText_update,
    fld ''at'' opt_string fail_At fail_At_update]"

definition enc_SentEmailRolledUpFailure :: "SentEmailRolledUpFailure \<Rightarrow> json" where
  "enc_SentEmailRolledUpFailure e = JObj (
     [(''address'', enc_string (fail_Address e)),
      (''type'', enc_string (fail_Type e)),
      (''smtp_response_code'', enc_opt enc_int (fail_SMTPResponseCode e)),
      (''smtp_enhanced_status_code'', enc_opt enc_string (fail_SMTPEnhancedStatusCode e)),
      (''smtp_response_text'', enc_opt enc_string (fail_SMTPResponseText e)),
      (''at'', enc_opt enc_string (fail_At e))])"

record SentEmailFailedByKind =
  kinds_Rejected :: int
  kinds_Expired :: int

definition SentEmailFailedByKind_zero :: SentEmailFailedByKind where
  "SentEmailFailedByKind_zero = \<lparr>
    kinds_Rejected = 0, kinds_Expired = 0\<rparr>"

definition dec_SentEmailFailedByKind :: "SentEmailFailedByKind dec" where
  "dec_SentEmailFailedByKind = dec_struct [
    fld ''rejected'' dec_int64 kinds_Rejected kinds_Rejected_update,
    fld ''expired'' dec_int64 kinds_Expired kinds_Expired_update]"

definition enc_SentEmailFailedByKind :: "SentEmailFailedByKind \<Rightarrow> json" where
  "enc_SentEmailFailedByKind e = JObj (
     [(''rejected'', enc_int (kinds_Rejected e)),
      (''expired'', enc_int (kinds_Expired e))])"

record SentEmailCompletedSummary =
  summ_RecipientCount :: int
  summ_Delivered :: int
  summ_Failed :: int
  summ_FailedByKind :: SentEmailFailedByKind
  summ_NotRelayed :: "int option"
  summ_NotRelayedRecipients :: "SentEmailRecipient list option"

definition SentEmailCompletedSummary_zero :: SentEmailCompletedSummary where
  "SentEmailCompletedSummary_zero = \<lparr>
    summ_RecipientCount = 0, summ_Delivered = 0, summ_Failed = 0,
    summ_FailedByKind = SentEmailFailedByKind_zero, summ_NotRelayed = None,
    summ_NotRelayedRecipients = None\<rparr>"

definition dec_SentEmailCompletedSummary :: "SentEmailCompletedSummary dec" where
  "dec_SentEmailCompletedSummary = dec_struct [
    fld ''recipient_count'' dec_int64 summ_RecipientCount summ_RecipientCount_update,
    fld ''delivered'' dec_int64 summ_Delivered summ_Delivered_update,
    fld ''failed'' dec_int64 summ_Failed summ_Failed_update,
    fld ''failed_by_kind'' dec_SentEmailFailedByKind summ_FailedByKind summ_FailedByKind_update,
    fld ''not_relayed'' opt_int summ_NotRelayed summ_NotRelayed_update,
    fld ''not_relayed_recipients'' (dec_slice dec_SentEmailRecipient SentEmailRecipient_zero) summ_NotRelayedRecipients summ_NotRelayedRecipients_update]"

definition enc_SentEmailCompletedSummary :: "SentEmailCompletedSummary \<Rightarrow> json" where
  "enc_SentEmailCompletedSummary e = JObj (
     [(''recipient_count'', enc_int (summ_RecipientCount e)),
      (''delivered'', enc_int (summ_Delivered e)),
      (''failed'', enc_int (summ_Failed e)),
      (''failed_by_kind'', enc_SentEmailFailedByKind (summ_FailedByKind e)),
      (''not_relayed'', enc_opt enc_int (summ_NotRelayed e)),
      (''not_relayed_recipients'', enc_slice enc_SentEmailRecipient (summ_NotRelayedRecipients e))])"

record SentEmailEvent =
  sent_ID :: string
  sent_Event :: string
  sent_Version :: string
  sent_CreatedAt :: string
  sent_Delivery :: SentEmailEventDelivery
  sent_SentEmail :: SentEmailRecord
  sent_Scope :: "string option"
  sent_Recipient :: "SentEmailRecipient option"
  sent_RecipientCount :: "int option"
  sent_Reason :: "string option"
  sent_Outcome :: "SentEmailOutcome option"
  sent_Recipients :: "SentEmailRolledUpFailure list option"
  sent_Summary :: "SentEmailCompletedSummary option"

definition SentEmailEvent_zero :: SentEmailEvent where
  "SentEmailEvent_zero = \<lparr>
    sent_ID = [], sent_Event = [], sent_Version = [], sent_CreatedAt = [],
    sent_Delivery = SentEmailEventDelivery_zero, sent_SentEmail = SentEmailRecord_zero,
    sent_Scope = None, sent_Recipient = None, sent_RecipientCount = None, sent_Reason = None,
    sent_Outcome = None, sent_Recipients = None, sent_Summary = None\<rparr>"

definition dec_SentEmailEvent :: "SentEmailEvent dec" where
  "dec_SentEmailEvent = dec_struct [
    fld ''id'' dec_string sent_ID sent_ID_update,
    fld ''event'' dec_string sent_Event sent_Event_update,
    fld ''version'' dec_string sent_Version sent_Version_update,
    fld ''created_at'' dec_string sent_CreatedAt sent_CreatedAt_update,
    fld ''delivery'' dec_SentEmailEventDelivery sent_Delivery sent_Delivery_update,
    fld ''sent_email'' dec_SentEmailRecord sent_SentEmail sent_SentEmail_update,
    fld ''scope'' opt_string sent_Scope sent_Scope_update,
    fld ''recipient'' (dec_ptr dec_SentEmailRecipient SentEmailRecipient_zero) sent_Recipient sent_Recipient_update,
    fld ''recipient_count'' opt_int sent_RecipientCount sent_RecipientCount_update,
    fld ''reason'' opt_string sent_Reason sent_Reason_update,
    fld ''outcome'' (dec_ptr dec_SentEmailOutcome SentEmailOutcome_zero) sent_Outcome sent_Outcome_update,
    fld ''recipients'' (dec_slice dec_SentEmailRolledUpFailure SentEmailRolledUpFailure_zero) sent_Recipients sent_Recipients_update,
    fld ''summary'' (dec_ptr dec_SentEmailCompletedSummary SentEmailCompletedSummary_zero) sent_Summary sent_Summary_update]"

definition wire_members :: "SentEmailEvent \<Rightarrow> (string \<times> json) list" where
  "wire_members e =
     [(''id'', enc_string (sent_ID e)),
      (''event'', enc_string (sent_Event e)),
      (''version'', enc_string (sent_Version e)),
      (''created_at'', enc_string (sent_CreatedAt e)),
      (''delivery'', enc_SentEmailEventDelivery (sent_Delivery e)),
      (''sent_email'', enc_SentEmailRecord (sent_SentEmail e))] @
     omit_nil ''scope'' enc_string (sent_Scope e) @
     omit_nil ''recipient'' enc_SentEmailRecipient (sent_Recipient e) @
     omit_nil ''recipient_count'' enc_int (sent_RecipientCount e) @
     omit_nil ''reason'' enc_string (sent_Reason e) @
     omit_nil ''outcome'' enc_SentEmailOutcome (sent_Outcome e) @
     omit_empty ''recipients'' enc_SentEmailRolledUpFailure (sent_Recipients e) @
     omit_nil ''summary'' enc_SentEmailCompletedSummary (sent_Summary e)"

text \<open>
  \<open>MarshalJSON\<close>: a message-scoped event without a recipient carries \<open>"recipient": null\<close>, and
  its members are then those of a map, in the order of their names.
\<close>

definition enc_SentEmailEvent :: "SentEmailEvent \<Rightarrow> json" where
  "enc_SentEmailEvent e =
     (if sent_Recipient e \<noteq> None \<or> sent_Scope e \<noteq> Some ''message'' then JObj (wire_members e)
      else JObj (sort_key fst (wire_members e @ [(''recipient'', JNull)])))"

definition SentEmailEventTypes :: "string list" where
  "SentEmailEventTypes = [''sent_email.accepted'', ''sent_email.delivered'', ''sent_email.failed'', ''sent_email.completed'']"

definition IsSentEmailEventType :: "string \<Rightarrow> bool" where
  "IsSentEmailEventType eventType \<longleftrightarrow>
     eventType = ''sent_email.accepted'' \<or> eventType = ''sent_email.delivered'' \<or>
     eventType = ''sent_email.failed'' \<or> eventType = ''sent_email.completed''"

definition IsRecipientResult :: "SentEmailEvent \<Rightarrow> bool" where
  "IsRecipientResult e \<longleftrightarrow>
     (sent_Event e = ''sent_email.delivered'' \<or> sent_Event e = ''sent_email.failed'') \<and>
     sent_Scope e = Some ''recipient''"

definition IsRollup :: "SentEmailEvent \<Rightarrow> bool" where
  "IsRollup e \<longleftrightarrow> sent_Scope e = Some ''message'' \<and> sent_Reason e = Some ''rollup''"

section \<open>Validation\<close>

abbreviation quoted_s :: string where
  "quoted_s \<equiv> CHR 0x22 # ''%s'' @ [CHR 0x22]"


text \<open>An issue of \<open>gojsonschema\<close>; \<open>result_Property\<close> is its detail \<open>property\<close>, printed.\<close>

record ResultError =
  result_Field :: string
  result_Type :: string
  result_Description :: string
  result_Property :: string

type_synonym schema = "gval \<Rightarrow> gomsg + ResultError list"

text \<open>
  The two embedded schemas as they compile: that of received emails, and that of sent
  emails rooted at a definition.
\<close>

record schemas =
  compiledSchema :: "gomsg + schema"
  compiledSentEmailSchema :: "string \<Rightarrow> gomsg + schema"

definition toFieldPath :: "string \<Rightarrow> string" where
  "toFieldPath field0 =
     (if field0 = [] \<or> field0 = ''(root)'' then ''payload''
      else (let field = trim_prefix (trim_prefix field0 ''(root)'') ''.''
        in if field = [] then ''payload'' else field))"

definition validationIssuePath :: "ResultError \<Rightarrow> string" where
  "validationIssuePath i =
     (let field = toFieldPath (result_Field i); missing = result_Property i
      in if result_Type i \<noteq> ''required'' then field
         else if field = ''payload'' then missing else field @ ''.'' @ missing)"

definition formatValidationIssue :: "ResultError \<Rightarrow> gomsg \<times> gomsg \<times> gomsg" where
  "formatValidationIssue i =
     (let field = validationIssuePath i; missing = result_Property i;
          check = Sprintf (''Check the value of '' @ quoted_s @ '' in the webhook payload.'') [FStr field]
      in if result_Type i = ''required'' then
           (Lit field, Sprintf ''Missing required field: %s'' [FStr missing],
            Sprintf (''Add the required field '' @ quoted_s @ '' to the webhook payload.'') [FStr missing])
         else if result_Type i = ''const'' then
           (Lit field, Sprintf ''Invalid value for %s: %s'' [FStr field, FStr (result_Description i)], check)
         else if result_Type i = ''invalid_type'' then
           (Lit field, Sprintf ''Invalid type for %s: %s'' [FStr field, FStr (result_Description i)], check)
         else (Lit field, Sprintf ''Validation failed for %s: %s'' [FStr field, FStr (result_Description i)], check))"

definition createSchemaValidationError :: "ResultError list \<Rightarrow> string \<Rightarrow> werr" where
  "createSchemaValidationError issues schemaName =
     (let validationIssues = map (\<lambda>i. \<lparr>issue_path = validationIssuePath i,
            issue_message = result_Description i, issue_validator = result_Type i\<rparr>) issues
      in (case issues of
            [] \<Rightarrow> NewWebhookValidationError (Lit ''payload'') (Lit ''Webhook payload failed schema validation'')
              (Sprintf (''Check the structure of the webhook payload against '' @ quoted_s @ ''.'') [FStr schemaName]) validationIssues
          | i # _ \<Rightarrow> (case formatValidationIssue i of (field, message, suggestion) \<Rightarrow>
              NewWebhookValidationError field message suggestion validationIssues)))"

definition createValidationError :: "ResultError list \<Rightarrow> werr" where
  "createValidationError issues = createSchemaValidationError issues ''EmailReceivedEventJSONSchema''"

definition ValidateEmailReceivedEvent :: "schemas \<Rightarrow> gval \<Rightarrow> werr + EmailReceivedEvent" where
  "ValidateEmailReceivedEvent S input = (case compiledSchema S of Inl e \<Rightarrow> Inl (OtherError e)
     | Inr validate \<Rightarrow> (case validate input of Inl e \<Rightarrow> Inl (OtherError e)
         | Inr issues \<Rightarrow> if issues \<noteq> [] then Inl (createValidationError issues)
             else decodeInto dec_EmailReceivedEvent EmailReceivedEvent_zero input))"

text \<open>The shape a body claims to be.\<close>

definition sentEmailDefinition :: "(string \<times> gval) list \<Rightarrow> string" where
  "sentEmailDefinition obj =
     (let event = obj_string obj ''event''
      in if event = Some ''sent_email.accepted'' then ''SentEmailAcceptedEvent''
         else if event = Some ''sent_email.completed'' then ''SentEmailCompletedEvent''
         else if event = Some ''sent_email.delivered'' \<or> event = Some ''sent_email.failed'' then
           (if obj_string obj ''scope'' = Some ''message'' then
              (if obj_string obj ''reason'' = Some ''legacy_message_result''
               then ''SentEmailLegacyMessageResultEvent'' else ''SentEmailRollupResultEvent'')
            else ''SentEmailRecipientResultEvent'')
         else [])"

definition ValidateSentEmailEvent :: "schemas \<Rightarrow> gval \<Rightarrow> werr + SentEmailEvent" where
  "ValidateSentEmailEvent S input = (case normalizeJSONValue input of Inl e \<Rightarrow> Inl e
     | Inr (normalized, _) \<Rightarrow>
       (let shape = (case normalized of GMap obj \<Rightarrow> sentEmailDefinition obj | _ \<Rightarrow> [])
        in (case compiledSentEmailSchema S shape of Inl e \<Rightarrow> Inl (OtherError e)
          | Inr validate \<Rightarrow> (case validate normalized of Inl e \<Rightarrow> Inl (OtherError e)
              | Inr issues \<Rightarrow> if issues \<noteq> [] then Inl (createSchemaValidationError issues ''SentEmailEventJSONSchema'')
                  else decodeInto dec_SentEmailEvent SentEmailEvent_zero normalized))))"

text \<open>The functions that answer a result instead of an error. A \<open>ValidationResult\<close> with its
  \<open>Success\<close> flag is a sum.\<close>

definition safe_result :: "werr + 'a \<Rightarrow> werr + 'a" where
  "safe_result r = (case r of Inr event \<Rightarrow> Inr event
     | Inl e \<Rightarrow> (case e of ValidationError p field issues n \<Rightarrow> Inl e
         | OtherError m \<Rightarrow> Inl (NewWebhookValidationError (Lit ''payload'') m (Lit ''Check the webhook payload structure.'') [])
         | _ \<Rightarrow> Inl (NewWebhookValidationError (Lit ''payload'') (Sprintf ''%v'' [FErr (err_code e)])
             (Lit ''Check the webhook payload structure.'') [])))"

definition SafeValidateEmailReceivedEvent :: "schemas \<Rightarrow> gval \<Rightarrow> werr + EmailReceivedEvent" where
  "SafeValidateEmailReceivedEvent S input = safe_result (ValidateEmailReceivedEvent S input)"

definition SafeValidateSentEmailEvent :: "schemas \<Rightarrow> gval \<Rightarrow> werr + SentEmailEvent" where
  "SafeValidateSentEmailEvent S input = safe_result (ValidateSentEmailEvent S input)"

section \<open>The wire shape of an event\<close>

lemma map_of_snoc: "map_of m k = None \<Longrightarrow> map_of (m @ [(k, v)]) = (map_of m)(k \<mapsto> v)"
  by (auto simp: fun_eq_iff map_add_def split: option.split)

lemma omitted_names:
  "fst ` set (omit_nil name f x) = (if x = None then {} else {name})"
  "fst ` set (omit_empty name f y) = (if y = None \<or> y = Some [] then {} else {name})"
  "distinct (map fst (omit_nil name f x))" "distinct (map fst (omit_empty name f y))"
  by (cases x; cases y; cases "the y"; simp add: omit_nil_def omit_empty_def)+

lemma omitted_name:
  "k \<in> fst ` set (omit_nil name f x) \<longleftrightarrow> x \<noteq> None \<and> k = name"
  "k \<in> fst ` set (omit_empty name f y) \<longleftrightarrow> y \<noteq> None \<and> y \<noteq> Some [] \<and> k = name"
  by (simp_all add: omitted_names)

lemma distinct_omit:
  "distinct (map fst (omit_nil name f x) @ ks) \<longleftrightarrow> distinct ks \<and> (x \<noteq> None \<longrightarrow> name \<notin> set ks)"
  "distinct (map fst (omit_empty name f y) @ ks) \<longleftrightarrow> distinct ks \<and> (y \<noteq> None \<and> y \<noteq> Some [] \<longrightarrow> name \<notin> set ks)"
  by (auto simp: omitted_names)

lemma wire_members_names: "distinct (map fst (wire_members e))"
  unfolding wire_members_def map_append append_Cons append_Nil list.map fst_conv
  by (simp only: distinct_omit distinct.simps append_assoc list.set set_append set_map omitted_name Un_iff insert_iff)
    (simp add: omitted_names)

lemma map_of_omit:
  "map_of (omit_nil name f x) k = (if name = k then map_option f x else None)"
  "name \<noteq> k \<Longrightarrow> map_of (omit_empty name g y) k = None"
  by (auto simp: omit_nil_def omit_empty_def split: option.split list.split)

lemma wire_recipient: "map_of (wire_members e) ''recipient'' = map_option enc_SentEmailRecipient (sent_Recipient e)"
  by (simp add: wire_members_def map_add_def map_of_omit split: option.split)

text \<open>
  The wire shape of a sent-email event, whatever its fields hold: its members have
  distinct names; \<open>recipient\<close> is the recipient if there is one, \<open>null\<close> on a message-scoped
  event without one, and left out of every other event; and every other member is the one
  the struct has.
\<close>

theorem sent_email_wire_shape:
  "\<exists>ms. enc_SentEmailEvent e = JObj ms \<and> distinct (map fst ms) \<and>
     map_of ms ''recipient'' = (case sent_Recipient e of Some r \<Rightarrow> Some (enc_SentEmailRecipient r)
       | None \<Rightarrow> (if sent_Scope e = Some ''message'' then Some JNull else None)) \<and>
     map_of ms |` (- {''recipient''}) = map_of (wire_members e) |` (- {''recipient''})"
proof (cases "sent_Recipient e \<noteq> None \<or> sent_Scope e \<noteq> Some ''message''")
  case True
  then show ?thesis
    using wire_members_names [of e] wire_recipient [of e]
    by (intro exI [of _ "wire_members e"]) (cases "sent_Recipient e"; simp add: enc_SentEmailEvent_def)
next
  case False
  let ?ms = "wire_members e @ [(''recipient'', JNull)]"
  have new: "map_of (wire_members e) ''recipient'' = None"
    using False wire_recipient [of e] by simp
  then have d: "distinct (map fst ?ms)" using wire_members_names [of e] by (simp add: map_of_eq_None_iff)
  then have "distinct (map fst (sort_key fst ?ms))"
    by (rule distinct_sort_key [THEN iffD2])
  moreover have "map_of (sort_key fst ?ms) = (map_of (wire_members e)) (''recipient'' \<mapsto> JNull)"
    using map_of_sort_key [OF d] map_of_snoc [OF new] by simp
  ultimately show ?thesis
    using False by (intro exI [of _ "sort_key fst ?ms"]) (simp add: enc_SentEmailEvent_def del: map_of_append)
qed

end
