(* ===== verification/Standard_Webhooks.thy ===== *)
theory Standard_Webhooks
  imports Signing
begin

text \<open>
  \<open>standard_webhooks.go\<close>: the base64 secret, the space-separated signature list, signing,
  verification and the detection of the three headers.
\<close>

section \<open>Secret and signature list\<close>

definition PrepareStandardWebhooksSecret :: "gval \<Rightarrow> werr + gobytes" where
  "PrepareStandardWebhooksSecret secret = (case secret of
     GString keyStr0 \<Rightarrow>
       if keyStr0 = [] then Inl missing_secret
       else let keyStr = (if has_prefix keyStr0 whsecPrefix then drop (length whsecPrefix) keyStr0 else keyStr0);
                decoded = (case b64_std_decode keyStr of Some d \<Rightarrow> Some d | None \<Rightarrow> b64_raw_decode keyStr)
            in (case decoded of
                  None \<Rightarrow> Inl (NewWebhookVerificationError ''MISSING_SECRET''
                    (Lit ''Standard Webhooks secret must be base64-encoded (optionally with whsec_ prefix)'') (Lit []))
                | Some d \<Rightarrow> if d = [] then Inl missing_secret else Inr d)
   | GBytes v \<Rightarrow> if v = [] then Inl missing_secret else Inr v
   | GNil \<Rightarrow> Inl missing_secret
   | v \<Rightarrow> Inl (NewWebhookVerificationError ''MISSING_SECRET''
       (Sprintf ''Unsupported secret type: %T'' [FType (type_name v)]) (Lit [])))"

definition std_entry :: "string \<Rightarrow> string list" where
  "std_entry entry0 = (let entry = trim_space entry0 in
     if entry = [] then [] else (case index_of (CHR '','') entry of
       None \<Rightarrow> []
     | Some idx \<Rightarrow> if take idx entry = ''v1'' \<and> drop (Suc idx) entry \<noteq> [] then [drop (Suc idx) entry] else []))"

definition parseStandardWebhooksSignatures :: "string \<Rightarrow> string list" where
  "parseStandardWebhooksSignatures header =
     (if header = [] then [] else concat (map std_entry (split_on (CHR '' '') header)))"

section \<open>Signing and verifying\<close>

record StandardWebhooksSignResult =
  StdSignature :: string
  StdSignedMsgID :: string
  StdSignedTimestamp :: int

text \<open>\<open>fmt.Sprintf("%s.%d.%s", msgID, timestamp, body)\<close>\<close>

definition std_content :: "string \<Rightarrow> int \<Rightarrow> string \<Rightarrow> string" where
  "std_content msgID timestamp body = msgID @ CHR ''.'' # signed_content timestamp body"

definition SignStandardWebhooksPayload ::
    "int \<Rightarrow> gval \<Rightarrow> gval \<Rightarrow> string \<Rightarrow> int list \<Rightarrow> werr + StandardWebhooksSignResult" where
  "SignStandardWebhooksPayload clock rawBody secret msgID timestamps =
     (case bodyToString rawBody ''raw body'' of Inl e \<Rightarrow> Inl e | Inr body \<Rightarrow>
      (case PrepareStandardWebhooksSecret secret of Inl e \<Rightarrow> Inl e | Inr key \<Rightarrow>
         let timestamp = (case timestamps of [] \<Rightarrow> clock | t # _ \<Rightarrow> t);
             sig = b64_encode (hmac_sha256 key (std_content msgID timestamp body))
         in Inr \<lparr>StdSignature = ''v1,'' @ sig, StdSignedMsgID = msgID, StdSignedTimestamp = timestamp\<rparr>))"

record StandardWebhooksVerifyOptions =
  StdRawBody :: gval
  StdMsgID :: string
  StdTimestamp :: string
  StdSignatureHeader :: string
  StdSecret :: gval
  StdToleranceSeconds :: "int option"
  StdNowSeconds :: "int option"

definition std_provided_ok :: "gobytes \<Rightarrow> string \<Rightarrow> bool" where
  "std_provided_ok expectedBytes sig = (case b64_std_decode sig of
     None \<Rightarrow> False
   | Some sigBytes \<Rightarrow> length sigBytes = length expectedBytes \<and> sigBytes = expectedBytes)"

abbreviation quoted_v1 :: string where
  "quoted_v1 \<equiv> CHR 0x22 # ''v1,<base64>'' @ [CHR 0x22]"

definition VerifyStandardWebhooksSignature :: "int \<Rightarrow> StandardWebhooksVerifyOptions \<Rightarrow> werr + bool" where
  "VerifyStandardWebhooksSignature clock options =
     (case PrepareStandardWebhooksSecret (StdSecret options) of Inl e \<Rightarrow> Inl e | Inr key \<Rightarrow>
      if key = [] then Inl missing_secret else
     (case bodyToString (StdRawBody options) ''request body'' of Inl e \<Rightarrow> Inl e | Inr body \<Rightarrow>
     (let bad_timestamp = NewWebhookVerificationError ''INVALID_SIGNATURE_HEADER''
            (Sprintf ''Invalid webhook-timestamp header: %q. Expected a unix timestamp in seconds'' [FStr (StdTimestamp options)]) (Lit [])
      in case parse_int64 (StdTimestamp options) of
        None \<Rightarrow> Inl bad_timestamp
      | Some timestamp \<Rightarrow> if timestamp < 0 then Inl bad_timestamp else
     (case timestamp_error (or_else (StdNowSeconds options) clock)
             (or_else (StdToleranceSeconds options) defaultToleranceSeconds) timestamp of
        Some e \<Rightarrow> Inl e
      | None \<Rightarrow>
       let expectedSig = b64_encode (hmac_sha256 key (std_content (StdMsgID options) timestamp body));
           signatures = parseStandardWebhooksSignatures (StdSignatureHeader options)
       in if signatures = [] then Inl (NewWebhookVerificationError ''INVALID_SIGNATURE_HEADER''
              (Lit (''Invalid webhook-signature header format. Expected: '' @ quoted_v1)) (Lit []))
          else let expectedBytes = (case b64_std_decode expectedSig of Some b \<Rightarrow> b | None \<Rightarrow> [])
               in if list_ex (std_provided_ok expectedBytes) signatures then Inr True
                  else Inl (NewWebhookVerificationError ''SIGNATURE_MISMATCH''
                    (Lit ''No valid signature found. Verify the webhook secret matches and you're using the raw request body (not re-serialized JSON).'')
                    (Lit []))))))"

text \<open>The three values and whether Standard Webhooks headers are present.\<close>

definition detectStandardWebhooksHeaders ::
    "(gval \<Rightarrow> string) \<Rightarrow> headers \<Rightarrow> werr + (string \<times> string \<times> string \<times> bool)" where
  "detectStandardWebhooksHeaders sprint h =
     (let signature = getHeaderValue sprint h StandardWebhookSignatureHeader in
      if \<not> hasHeaderKey h StandardWebhookSignatureHeader then Inr ([], [], [], False)
      else if signature = [] then Inl (NewWebhookVerificationError ''INVALID_SIGNATURE_HEADER''
        (Lit (''Empty webhook-signature header. Expected: '' @ quoted_v1)) (Lit []))
      else let msgID = getHeaderValue sprint h StandardWebhookIDHeader;
               timestamp = getHeaderValue sprint h StandardWebhookTimestampHeader
           in if msgID = [] \<or> timestamp = [] then
                Inl (NewWebhookVerificationError ''INVALID_SIGNATURE_HEADER''
                  (Sprintf ''Found webhook-signature header but missing %s header. Standard Webhooks requires all three headers: webhook-id, webhook-timestamp, webhook-signature.''
                    [FStr (if msgID \<noteq> [] then ''webhook-timestamp'' else ''webhook-id'')]) (Lit []))
              else Inr (msgID, timestamp, signature, True))"

section \<open>The base64 tag\<close>

definition b64_tag :: "string \<Rightarrow> string \<Rightarrow> string" where
  "b64_tag k c = b64_encode (hmac_sha256 k c)"

definition b64_tag_ok :: "string \<Rightarrow> string \<Rightarrow> string \<Rightarrow> bool" where
  "b64_tag_ok k c = std_provided_ok (case b64_std_decode (b64_tag k c) of Some b \<Rightarrow> b | None \<Rightarrow> [])"

interpretation b64: tag_scheme b64_tag b64_tag_ok b64_std_decode
  by unfold_locales
    (auto simp: b64_tag_def b64_tag_ok_def std_provided_ok_def b64_std_decode_encode split: option.splits)

lemma secret_nonempty: "PrepareStandardWebhooksSecret s = Inr k \<Longrightarrow> k \<noteq> []"
  by (auto simp: PrepareStandardWebhooksSecret_def Let_def split: gval.splits option.splits if_splits)

lemma secret_error: "PrepareStandardWebhooksSecret s = Inl e \<Longrightarrow> err_code e = ''MISSING_SECRET''"
  by (auto simp: PrepareStandardWebhooksSecret_def missing_secret_def Let_def
      split: gval.splits option.splits if_splits)

lemma b64_solid: "is_b64 c \<Longrightarrow> ord c < 128 \<and> \<not> is_space (ord c) \<and> c \<noteq> CHR '' '' \<and> c \<noteq> CHR '',''"
  by (auto simp: is_b64_def b64_val_def is_space_def Let_def split: if_splits)

lemma std_entry_v1:
  assumes "\<forall>c \<in> set s. is_b64 c" and "s \<noteq> []"
  shows "std_entry (''v1,'' @ s) = [s]"
proof -
  have "is_b64 (last s)" using assms by simp
  moreover have "\<not> is_space 118" by (simp add: is_space_def)
  ultimately have "solid_ends (''v1,'' @ s)"
    using assms(2) b64_solid by (simp add: solid_ends_def)
  then have "trim_space (''v1,'' @ s) = ''v1,'' @ s" by (rule trim_space_solid)
  then show ?thesis
    using assms(2) by (simp add: std_entry_def index_of_def Let_def numeral_2_eq_2)
qed

lemma parseStandardWebhooksSignatures_signed:
  assumes "\<forall>c \<in> set s. is_b64 c" and "s \<noteq> []"
  shows "parseStandardWebhooksSignatures (''v1,'' @ s) = [s]"
proof -
  have "CHR '' '' \<notin> set (''v1,'' @ s)" using assms(1) b64_solid by auto
  then have "split_on (CHR '' '') (''v1,'' @ s) = [''v1,'' @ s]" by (rule split_on_absent)
  then show ?thesis
    using std_entry_v1 [OF assms] by (simp add: parseStandardWebhooksSignatures_def del: split_on.simps)
qed

lemma std_verify_iff:
  "VerifyStandardWebhooksSignature clock opts = Inr v \<longleftrightarrow> v \<and>
     (\<exists>key body t. PrepareStandardWebhooksSecret (StdSecret opts) = Inr key \<and>
        bodyToString (StdRawBody opts) ''request body'' = Inr body \<and>
        parse_int64 (StdTimestamp opts) = Some t \<and> 0 \<le> t \<and>
        timestamp_error (or_else (StdNowSeconds opts) clock)
          (or_else (StdToleranceSeconds opts) defaultToleranceSeconds) t = None \<and>
        list_ex (b64_tag_ok key (std_content (StdMsgID opts) t body))
          (parseStandardWebhooksSignatures (StdSignatureHeader opts)))"
  unfolding VerifyStandardWebhooksSignature_def b64_tag_ok_def b64_tag_def Let_def
  by (auto simp: secret_nonempty split: sum.splits option.splits if_splits)

lemma std_content_inject:
  assumes "CHR ''.'' \<notin> set i" and "CHR ''.'' \<notin> set i'"
  shows "std_content i t b = std_content i' t' b' \<longleftrightarrow> i = i' \<and> t = t' \<and> b = b'"
proof
  assume "std_content i t b = std_content i' t' b'"
  then have "cut (CHR ''.'') (i @ CHR ''.'' # signed_content t b) = cut (CHR ''.'') (i' @ CHR ''.'' # signed_content t' b')"
    by (simp add: std_content_def)
  then show "i = i' \<and> t = t' \<and> b = b'"
    using assms by (simp add: cut_append signed_content_inject)
qed simp

lemma whsec_prefix_free: "has_prefix (whsecPrefix @ s) whsecPrefix" "drop (length whsecPrefix) (whsecPrefix @ s) = s"
  by simp_all

section \<open>Properties\<close>

text \<open>
  A payload signed with \<open>SignStandardWebhooksPayload\<close> is accepted by
  \<open>VerifyStandardWebhooksSignature\<close> for the same body, secret and message id at every
  clock reading inside the window, when the timestamp is sent in decimal.
\<close>

theorem std_verify_accepts_signed:
  assumes sign: "SignStandardWebhooksPayload clock rawBody secret msgID timestamps = Inr r"
    and ts: "is_int64 (StdSignedTimestamp r)" "0 \<le> StdSignedTimestamp r"
    and now: "- 60 \<le> wrap64 (now - StdSignedTimestamp r)"
      "wrap64 (now - StdSignedTimestamp r) \<le> or_else tol defaultToleranceSeconds"
  shows "VerifyStandardWebhooksSignature clock' \<lparr>StdRawBody = rawBody, StdMsgID = StdSignedMsgID r,
           StdTimestamp = itoa (StdSignedTimestamp r), StdSignatureHeader = StdSignature r, StdSecret = secret,
           StdToleranceSeconds = tol, StdNowSeconds = Some now\<rparr> = Inr True"
proof -
  from sign obtain key body t where key: "PrepareStandardWebhooksSecret secret = Inr key"
      and body: "bodyToString rawBody ''raw body'' = Inr body"
      and r: "StdSignedTimestamp r = t" "StdSignedMsgID r = msgID"
        "StdSignature r = ''v1,'' @ b64_tag key (std_content msgID t body)"
    by (auto simp: SignStandardWebhooksPayload_def b64_tag_def Let_def split: sum.splits)
  have "parseStandardWebhooksSignatures (StdSignature r) = [b64_tag key (std_content msgID t body)]"
    unfolding r(3) b64_tag_def
    by (rule parseStandardWebhooksSignatures_signed) (auto simp: b64_encode_chars b64_encode_nonempty)
  moreover have "list_ex (b64_tag_ok key (std_content msgID t body)) [b64_tag key (std_content msgID t body)]"
    by (rule b64.any_ok_own) simp
  ultimately show ?thesis
    using key bodyToString_label [OF body] now r(1,2) ts
    by (simp add: std_verify_iff timestamp_error_None or_else_def parse_int64_itoa)
qed

theorem std_verify_accepts_signed_witness:
  "\<exists>r. SignStandardWebhooksPayload 0 (GString ''{}'') (GString ''whsec_c2VjcmV0'') ''msg_1'' [1700000000] = Inr r \<and>
     VerifyStandardWebhooksSignature 0 \<lparr>StdRawBody = GString ''{}'', StdMsgID = StdSignedMsgID r,
       StdTimestamp = itoa (StdSignedTimestamp r), StdSignatureHeader = StdSignature r,
       StdSecret = GString ''whsec_c2VjcmV0'', StdToleranceSeconds = None,
       StdNowSeconds = Some 1699999940\<rparr> = Inr True"
proof -
  have dec: "b64_std_decode ''c2VjcmV0'' = Some ''secret''"
    using b64_std_decode_encode [of "''secret''"] by code_simp
  have "PrepareStandardWebhooksSecret (GString ''whsec_c2VjcmV0'') = Inr ''secret''"
    using dec by (simp add: PrepareStandardWebhooksSecret_def has_prefix_def whsecPrefix_def)
  then obtain r where r: "SignStandardWebhooksPayload 0 (GString ''{}'') (GString ''whsec_c2VjcmV0'') ''msg_1'' [1700000000] = Inr r"
      "StdSignedTimestamp r = 1700000000"
    by (simp add: SignStandardWebhooksPayload_def bodyToString_def Let_def)
  have "VerifyStandardWebhooksSignature 0 \<lparr>StdRawBody = GString ''{}'', StdMsgID = StdSignedMsgID r,
       StdTimestamp = itoa (StdSignedTimestamp r), StdSignatureHeader = StdSignature r,
       StdSecret = GString ''whsec_c2VjcmV0'', StdToleranceSeconds = None,
       StdNowSeconds = Some 1699999940\<rparr> = Inr True"
    by (rule std_verify_accepts_signed [OF r(1)])
      (simp_all add: r(2) is_int64_def wrap64_def or_else_def defaultToleranceSeconds_def)
  with r(1) show ?thesis by blast
qed

text \<open>
  C5. \<open>VerifyStandardWebhooksSignature\<close> returns no error exactly when the secret and the
  body are usable, the timestamp header is a non-negative decimal inside the window, and
  a \<open>v1\<close> entry of the signature header is the base64 form of the HMAC-SHA256 of message
  id, timestamp and body.
\<close>

theorem std_verify_exact:
  "VerifyStandardWebhooksSignature clock opts = Inr v \<longleftrightarrow> v \<and>
     (\<exists>key body t. PrepareStandardWebhooksSecret (StdSecret opts) = Inr key \<and>
        bodyToString (StdRawBody opts) ''request body'' = Inr body \<and>
        parse_int64 (StdTimestamp opts) = Some t \<and> 0 \<le> t \<and>
        - 60 \<le> wrap64 (or_else (StdNowSeconds opts) clock - t) \<and>
        wrap64 (or_else (StdNowSeconds opts) clock - t) \<le> or_else (StdToleranceSeconds opts) 300 \<and>
        (\<exists>sig \<in> set (parseStandardWebhooksSignatures (StdSignatureHeader opts)).
           b64_std_decode sig = Some (hmac_sha256 key (StdMsgID opts @ ''.'' @ itoa t @ ''.'' @ body))))"
  unfolding std_verify_iff timestamp_error_None b64.any_ok_iff
  by (simp add: std_content_def signed_content_def defaultToleranceSeconds_def)

text \<open>
  A secret with the \<open>whsec_\<close> prefix and the same secret without it prepare the same
  key, namely exactly the bytes that the base64 text encodes, for every nonempty key.
\<close>

theorem whsec_secret_bytes:
  assumes "key \<noteq> []"
  shows "PrepareStandardWebhooksSecret (GString (whsecPrefix @ b64_encode key)) = Inr key \<and>
    PrepareStandardWebhooksSecret (GString (b64_encode key)) = Inr key"
proof -
  have "CHR ''_'' \<notin> set (b64_encode key)"
    by (auto simp: is_b64_def b64_val_def dest!: b64_encode_chars)
  then have "\<not> has_prefix (b64_encode key) whsecPrefix"
    by (auto simp: whsecPrefix_def dest!: has_prefixE)
  then show ?thesis
    using assms b64_encode_nonempty [OF assms]
    by (simp add: PrepareStandardWebhooksSecret_def b64_std_decode_encode whsec_prefix_free(1))
qed

theorem whsec_secret_bytes_witness:
  "''secret'' \<noteq> [] \<and> PrepareStandardWebhooksSecret (GString (whsecPrefix @ b64_encode ''secret'')) = Inr ''secret''"
  using whsec_secret_bytes [of "''secret''"] by simp

text \<open>
  The scheme a request is checked under: the Primitive scheme exactly when the
  signature header is absent; Standard Webhooks, with the three header values, exactly
  when the signature header is present and none of the three values is empty; and an
  error with the code for an invalid signature header in every other case.
\<close>

theorem scheme_detection:
  "(detectStandardWebhooksHeaders sprint h = Inr (mid, ts, sig, False) \<longleftrightarrow>
      \<not> hasHeaderKey h StandardWebhookSignatureHeader \<and> mid = [] \<and> ts = [] \<and> sig = []) \<and>
   (detectStandardWebhooksHeaders sprint h = Inr (mid, ts, sig, True) \<longleftrightarrow>
      hasHeaderKey h StandardWebhookSignatureHeader \<and> mid \<noteq> [] \<and> ts \<noteq> [] \<and> sig \<noteq> [] \<and>
      mid = getHeaderValue sprint h StandardWebhookIDHeader \<and>
      ts = getHeaderValue sprint h StandardWebhookTimestampHeader \<and>
      sig = getHeaderValue sprint h StandardWebhookSignatureHeader) \<and>
   ((\<exists>e. detectStandardWebhooksHeaders sprint h = Inl e \<and> err_code e = ''INVALID_SIGNATURE_HEADER'') \<longleftrightarrow>
      hasHeaderKey h StandardWebhookSignatureHeader \<and>
      (\<exists>name \<in> {StandardWebhookSignatureHeader, StandardWebhookIDHeader, StandardWebhookTimestampHeader}.
         getHeaderValue sprint h name = []))"
  by (auto simp: detectStandardWebhooksHeaders_def Let_def)

end
