(* ===== verification/Webhook_Events.thy ===== *)
theory Webhook_Events
  imports Sent_Email Standard_Webhooks
begin

text \<open>
  Webhook events from a request to a typed value: \<open>ParseJSONBody\<close>, \<open>ParseWebhookEvent\<close>,
  \<open>HandleWebhookEvent\<close> and \<open>HandleWebhook\<close> of \<open>webhook.go\<close>, the event catalog and the
  predicates of \<open>events.go\<close> and \<open>sent_email_events.go\<close>, and \<open>UnknownEvent\<close> of \<open>types.go\<close>. The
  Go interface \<open>WebhookEvent\<close> is the datatype of the five structs that implement it. The
  compiled schemas and \<open>fmt.Sprint\<close> are arguments.
\<close>

section \<open>Bodies\<close>

definition parse_failed :: "gomsg \<Rightarrow> gomsg option \<Rightarrow> werr" where
  "parse_failed text cause = NewWebhookPayloadError ''JSON_PARSE_FAILED''
     (Lit ''Failed to parse webhook body as JSON'') text cause"

abbreviation byte_order_mark :: string where
  "byte_order_mark \<equiv> encode_rune 65279"

text \<open>
  The first value of the stream, which must be followed by nothing but white space. What
  comes after it is the text of the second error when that is a value of its own.
\<close>

definition ParseJSONBody :: "gval \<Rightarrow> werr + gval" where
  "ParseJSONBody rawBody = (case bodyToString rawBody ''request body'' of Inl e \<Rightarrow> Inl e
     | Inr body0 \<Rightarrow>
       if trim_space body0 = [] then Inl (NewWebhookPayloadError ''PAYLOAD_EMPTY_BODY''
         (Lit ''Received empty request body'')
         (Lit ''The request body is empty. Check your web framework is correctly passing the request body.'') None)
       else (let body = trim_prefix body0 byte_order_mark in
         (case json_lex body of (ts, clean) \<Rightarrow>
         (case parse_value [] ts of
            None \<Rightarrow> Inl (parse_failed
              (Sprintf ''Invalid JSON: %s. Check the raw request body is valid JSON.'' [FErr ''encoding/json''])
              (Some (Sprintf ''%v'' [FErr ''encoding/json''])))
          | Some (parsed, rest) \<Rightarrow>
              if rest = [] \<and> clean then Inr (to_any True parsed)
              else Inl (parse_failed (Sprintf ''Invalid JSON: %s. Check the raw request body is valid JSON.''
                [if parse_value [] rest = None then FErr ''encoding/json''
                 else FStr ''unexpected trailing content after JSON value'']) None)))))"

section \<open>Events\<close>

record UnknownEvent =
  unknown_Event :: string
  unknown_ID :: "string option"
  unknown_Version :: "string option"
  unknown_Payload :: "(string \<times> gval) list"

record PaymentEvent =
  pay_Event :: string
  pay_Type :: string
  pay_ChallengeID :: string
  pay_Network :: string
  pay_Amount :: string
  pay_Asset :: string
  pay_PayerOrg :: "string option"
  pay_SettleTx :: string
  pay_FailureReason :: string
  pay_Payload :: "(string \<times> gval) list"

record InteractionEvent =
  inter_Event :: string
  inter_Payload :: "(string \<times> gval) list"

datatype WebhookEvent =
    EvReceived EmailReceivedEvent
  | EvSent SentEmailEvent
  | EvPayment PaymentEvent
  | EvInteraction InteractionEvent
  | EvUnknown UnknownEvent

fun GetEvent :: "WebhookEvent \<Rightarrow> string" where
  "GetEvent (EvReceived e) = received_Event e"
| "GetEvent (EvSent e) = sent_Event e"
| "GetEvent (EvPayment e) = pay_Event e"
| "GetEvent (EvInteraction e) = inter_Event e"
| "GetEvent (EvUnknown e) = unknown_Event e"

definition obj_text :: "(string \<times> gval) list \<Rightarrow> string \<Rightarrow> string" where
  "obj_text m k = (case obj_string m k of None \<Rightarrow> [] | Some s \<Rightarrow> s)"

text \<open>\<open>UnknownEvent.MarshalJSON\<close> and \<open>UnmarshalJSON\<close>.\<close>

definition enc_UnknownEvent :: "UnknownEvent \<Rightarrow> gval" where
  "enc_UnknownEvent e =
     (let p = upsert ''event'' (GString (unknown_Event e)) (unknown_Payload e);
          p = (case unknown_ID e of None \<Rightarrow> p | Some i \<Rightarrow> upsert ''id'' (GString i) p);
          p = (case unknown_Version e of None \<Rightarrow> p | Some v \<Rightarrow> upsert ''version'' (GString v) p)
      in GMap p)"

definition dec_UnknownEvent :: "UnknownEvent dec" where
  "dec_UnknownEvent j old =
     (let fill = (\<lambda>payload. \<lparr>unknown_Event = obj_text payload ''event'', unknown_ID = obj_string payload ''id'',
            unknown_Version = obj_string payload ''version'', unknown_Payload = payload\<rparr>)
      in (case to_any True j of GNil \<Rightarrow> Some (fill []) | GMap payload \<Rightarrow> Some (fill payload) | _ \<Rightarrow> None))"

text \<open>\<open>json.Marshal\<close> of the other events, each \<open>omitempty\<close> text left out when empty.\<close>

definition omit_text :: "string \<Rightarrow> string \<Rightarrow> (string \<times> gval) list" where
  "omit_text k s = (if s = [] then [] else [(k, GString s)])"

definition enc_PaymentEvent :: "PaymentEvent \<Rightarrow> gval" where
  "enc_PaymentEvent e = GMap ([(''event'', GString (pay_Event e))] @ omit_text ''type'' (pay_Type e) @
     omit_text ''challenge_id'' (pay_ChallengeID e) @ omit_text ''network'' (pay_Network e) @
     omit_text ''amount'' (pay_Amount e) @ omit_text ''asset'' (pay_Asset e) @
     (case pay_PayerOrg e of None \<Rightarrow> [] | Some s \<Rightarrow> [(''payer_org'', GString s)]) @
     omit_text ''settle_tx'' (pay_SettleTx e) @ omit_text ''failure_reason'' (pay_FailureReason e))"

definition enc_InteractionEvent :: "InteractionEvent \<Rightarrow> gval" where
  "enc_InteractionEvent e = GMap [(''event'', GString (inter_Event e))]"

section \<open>The catalog\<close>

definition EmailEventTypes :: "string list" where
  "EmailEventTypes = [''email.received'', ''email.bounced'', ''email.tls_report'', ''email.dmarc_report'', ''email.dmarc_failure'']"

definition PaymentEventTypes :: "string list" where
  "PaymentEventTypes = [''payment.settled'', ''payment.failed'']"

definition InteractionEventTypes :: "string list" where
  "InteractionEventTypes = [''interaction.ack.acked'', ''interaction.ack.canceled'', ''interaction.ack.expired'',
     ''interaction.ack.received'', ''interaction.ack.requested'', ''interaction.x402.challenge'',
     ''interaction.x402.declined'', ''interaction.x402.expired'', ''interaction.x402.payment'',
     ''interaction.x402.rejected'', ''interaction.x402.settled'', ''interaction.x402.verify_timeout'']"

definition WebhookEventTypes :: "string list" where
  "WebhookEventTypes = EmailEventTypes @ SentEmailEventTypes @ PaymentEventTypes @ InteractionEventTypes"

definition IsKnownWebhookEventType :: "string \<Rightarrow> bool" where
  "IsKnownWebhookEventType eventType \<longleftrightarrow> eventType \<in> set WebhookEventTypes"

section \<open>Parsing an event\<close>

definition payload_null :: werr where
  "payload_null = NewWebhookPayloadError ''PAYLOAD_NULL'' (Lit ''Received null instead of webhook payload'')
     (Lit ''Check that your request body variable is defined.'') None"

text \<open>The \<open>reflect\<close> kind of a value is a slice or an array; no other type of the model has a
  name that starts with a bracket.\<close>

definition is_sequence :: "gval \<Rightarrow> bool" where
  "is_sequence input = (case input of GList _ \<Rightarrow> True | GStrs _ \<Rightarrow> True | GOther t _ \<Rightarrow> has_prefix t ''['' | _ \<Rightarrow> False)"

text \<open>The input after a body in bytes is parsed, and its map form.\<close>

definition event_input :: "gval \<Rightarrow> werr + gval" where
  "event_input input = (case input of GNil \<Rightarrow> Inl payload_null | GBytes _ \<Rightarrow> ParseJSONBody input
     | GRaw _ \<Rightarrow> ParseJSONBody input | _ \<Rightarrow> Inr input)"

definition event_object :: "gval \<Rightarrow> werr + (string \<times> gval) list" where
  "event_object input =
     (if input = GNil then Inl payload_null
      else if is_sequence input then Inl (NewWebhookPayloadError ''PAYLOAD_IS_ARRAY''
        (Lit ''Received array instead of webhook payload object'')
        (Lit ''Webhook payloads must be objects, not arrays.'') None)
      else mapFromInput input)"

definition resolve_event :: "string list \<Rightarrow> (string \<times> gval) list \<Rightarrow> string" where
  "resolve_event eventType obj = (case eventType of [] \<Rightarrow> obj_text obj ''event''
     | t # _ \<Rightarrow> if t \<noteq> [] then t else obj_text obj ''event'')"

definition payment_of :: "string \<Rightarrow> (string \<times> gval) list \<Rightarrow> PaymentEvent" where
  "payment_of name p = \<lparr>pay_Event = name, pay_Type = obj_text p ''type'',
     pay_ChallengeID = obj_text p ''challenge_id'', pay_Network = obj_text p ''network'',
     pay_Amount = obj_text p ''amount'', pay_Asset = obj_text p ''asset'',
     pay_PayerOrg = obj_string p ''payer_org'',
     pay_SettleTx = (if name = ''payment.settled'' then obj_text p ''settle_tx'' else []),
     pay_FailureReason = (if name = ''payment.settled'' then [] else obj_text p ''failure_reason''),
     pay_Payload = p\<rparr>"

text \<open>The event of a given name that a decoded object is.\<close>

definition typed_event :: "schemas \<Rightarrow> gval \<Rightarrow> (string \<times> gval) list \<Rightarrow> string \<Rightarrow> werr + WebhookEvent" where
  "typed_event S input obj name =
     (if name = ''email.received'' then
        (case ValidateEmailReceivedEvent S (GMap obj) of Inl e \<Rightarrow> Inl e | Inr event \<Rightarrow> Inr (EvReceived event))
      else if IsSentEmailEventType name then
        (case ValidateSentEmailEvent S (GMap obj) of Inl e \<Rightarrow> Inl e | Inr event \<Rightarrow> Inr (EvSent event))
      else (case mapFromInputPreservingNumbers input of Inl e \<Rightarrow> Inl e
        | Inr preserved \<Rightarrow>
            if name = ''payment.settled'' \<or> name = ''payment.failed'' then Inr (EvPayment (payment_of name preserved))
            else if has_prefix name ''interaction.'' then
              Inr (EvInteraction \<lparr>inter_Event = name, inter_Payload = preserved\<rparr>)
            else Inr (EvUnknown \<lparr>unknown_Event = name, unknown_ID = obj_string preserved ''id'',
              unknown_Version = obj_string preserved ''version'', unknown_Payload = preserved\<rparr>)))"

definition ParseWebhookEvent :: "schemas \<Rightarrow> gval \<Rightarrow> string list \<Rightarrow> werr + WebhookEvent" where
  "ParseWebhookEvent S input0 eventType = (case event_input input0 of Inl e \<Rightarrow> Inl e
     | Inr input \<Rightarrow> (case event_object input of Inl e \<Rightarrow> Inl e
         | Inr obj \<Rightarrow> (let name = resolve_event eventType obj in
             if name = [] then Inl (NewWebhookPayloadError ''PAYLOAD_MISSING_EVENT''
               (Lit ''Missing event discriminator: no X-Webhook-Event header and no 'event' field in payload'')
               (Lit ''Pass the X-Webhook-Event header (the canonical discriminator) or call HandleWebhookEvent, which reads it for you.'') None)
             else typed_event S input obj name)))"

section \<open>Handling a request\<close>

record HandleWebhookOptions =
  handle_Body :: gval
  handle_Headers :: headers
  handle_Secret :: gval
  handle_ToleranceSeconds :: "int option"

definition getSignatureHeaderValue :: "(gval \<Rightarrow> string) \<Rightarrow> headers \<Rightarrow> string" where
  "getSignatureHeaderValue sprint h =
     (let v = getHeaderValue sprint h PrimitiveSignatureHeader
      in if v \<noteq> [] then v else getHeaderValue sprint h LegacySignatureHeader)"

text \<open>The verification a request is put through, by the scheme its headers name.\<close>

definition verify_request :: "(gval \<Rightarrow> string) \<Rightarrow> int \<Rightarrow> HandleWebhookOptions \<Rightarrow> werr + bool" where
  "verify_request sprint clock options =
     (case detectStandardWebhooksHeaders sprint (handle_Headers options) of Inl e \<Rightarrow> Inl e
      | Inr (msgID, ts, sig, isStdWH) \<Rightarrow>
          if isStdWH then VerifyStandardWebhooksSignature clock
            \<lparr>StdRawBody = handle_Body options, StdMsgID = msgID, StdTimestamp = ts, StdSignatureHeader = sig,
             StdSecret = handle_Secret options, StdToleranceSeconds = handle_ToleranceSeconds options,
             StdNowSeconds = None\<rparr>
          else VerifyWebhookSignature clock
            \<lparr>RawBody = handle_Body options,
             SignatureHeader = getSignatureHeaderValue sprint (handle_Headers options),
             Secret = handle_Secret options, ToleranceSeconds = handle_ToleranceSeconds options,
             NowSeconds = None\<rparr>)"

definition HandleWebhookEvent ::
    "schemas \<Rightarrow> (gval \<Rightarrow> string) \<Rightarrow> int \<Rightarrow> HandleWebhookOptions \<Rightarrow> werr + WebhookEvent" where
  "HandleWebhookEvent S sprint clock options = (case verify_request sprint clock options of Inl e \<Rightarrow> Inl e
     | Inr _ \<Rightarrow> (case ParseJSONBody (handle_Body options) of Inl e \<Rightarrow> Inl e
         | Inr parsed \<Rightarrow> ParseWebhookEvent S parsed [getHeaderValue sprint (handle_Headers options) WebhookEventHeader]))"

definition HandleWebhook ::
    "schemas \<Rightarrow> (gval \<Rightarrow> string) \<Rightarrow> int \<Rightarrow> HandleWebhookOptions \<Rightarrow> werr + EmailReceivedEvent" where
  "HandleWebhook S sprint clock options = (case HandleWebhookEvent S sprint clock options of Inl e \<Rightarrow> Inl e
     | Inr event \<Rightarrow> (case event of EvReceived typed \<Rightarrow> Inr typed
         | _ \<Rightarrow> Inl (NewWebhookPayloadError ''PAYLOAD_UNKNOWN_EVENT''
             (Sprintf ''HandleWebhook only supports email.received events, got %q'' [FStr (GetEvent event)])
             (Lit ''Use HandleWebhookEvent or ParseWebhookEvent to handle unknown events gracefully.'') None)))"

definition ConfirmedHeaders :: "(string \<times> string) list" where
  "ConfirmedHeaders = [(PrimitiveConfirmedHeader, ''true''), (LegacyConfirmedHeader, ''true'')]"

section \<open>Predicates on events of any form\<close>

text \<open>
  An argument of type \<open>any\<close>: an event struct, a pointer to one, a nil pointer to one, or
  any other value.
\<close>

datatype event_arg = EVal WebhookEvent | EPtr WebhookEvent | ENil | EAny gval

text \<open>
  What the default cases read of a struct, its JSON form; they are never reached with an
  \<open>EmailReceivedEvent\<close>.
\<close>

fun event_any :: "WebhookEvent \<Rightarrow> gval" where
  "event_any (EvSent e) = GOther ''primitive.SentEmailEvent'' (Some (to_any True (enc_SentEmailEvent e)))"
| "event_any (EvPayment e) = GOther ''primitive.PaymentEvent'' (Some (enc_PaymentEvent e))"
| "event_any (EvInteraction e) = GOther ''primitive.InteractionEvent'' (Some (enc_InteractionEvent e))"
| "event_any (EvUnknown e) = GOther ''primitive.UnknownEvent'' (Some (enc_UnknownEvent e))"

definition received_form :: "schemas \<Rightarrow> gval \<Rightarrow> bool" where
  "received_form S typed \<longleftrightarrow> getString typed [''event''] = Some ''email.received'' \<and>
     (case ValidateEmailReceivedEvent S typed of Inl _ \<Rightarrow> False | Inr _ \<Rightarrow> True)"

fun IsEmailReceivedEvent :: "schemas \<Rightarrow> event_arg \<Rightarrow> bool" where
  "IsEmailReceivedEvent S (EVal (EvReceived e)) = (received_Event e = ''email.received'')"
| "IsEmailReceivedEvent S (EPtr (EvReceived e)) = (received_Event e = ''email.received'')"
| "IsEmailReceivedEvent S (EVal (EvUnknown e)) = False"
| "IsEmailReceivedEvent S (EVal e) = received_form S (event_any e)"
| "IsEmailReceivedEvent S (EPtr e) = received_form S (event_any e)"
| "IsEmailReceivedEvent S ENil = False"
| "IsEmailReceivedEvent S (EAny typed) = received_form S typed"

fun IsSentEmailEvent :: "schemas \<Rightarrow> event_arg \<Rightarrow> bool" where
  "IsSentEmailEvent S (EVal (EvSent e)) = IsSentEmailEventType (sent_Event e)"
| "IsSentEmailEvent S (EPtr (EvSent e)) = IsSentEmailEventType (sent_Event e)"
| "IsSentEmailEvent S (EAny (GMap typed)) =
     (case obj_string typed ''event'' of None \<Rightarrow> False
      | Some name \<Rightarrow> IsSentEmailEventType name \<and>
          (case ValidateSentEmailEvent S (GMap typed) of Inl _ \<Rightarrow> False | Inr _ \<Rightarrow> True))"
| "IsSentEmailEvent S _ = False"

text \<open>\<open>eventName\<close>; a nil pointer has the method \<open>GetEvent\<close> and panics on it, which is
  \<^term>\<open>None\<close>.\<close>

fun eventName :: "event_arg \<Rightarrow> string option" where
  "eventName (EVal e) = Some (GetEvent e)"
| "eventName (EPtr e) = Some (GetEvent e)"
| "eventName ENil = None"
| "eventName (EAny event) = Some (case getString event [''event''] of None \<Rightarrow> [] | Some name \<Rightarrow> name)"

definition IsEmailReceivedEventType :: "event_arg \<Rightarrow> bool option" where
  "IsEmailReceivedEventType event = map_option (\<lambda>name. name = ''email.received'') (eventName event)"

definition IsPaymentEvent :: "event_arg \<Rightarrow> bool option" where
  "IsPaymentEvent event = map_option (\<lambda>name. name = ''payment.settled'' \<or> name = ''payment.failed'') (eventName event)"

definition IsPaymentSettledEvent :: "event_arg \<Rightarrow> bool option" where
  "IsPaymentSettledEvent event = map_option (\<lambda>name. name = ''payment.settled'') (eventName event)"

definition IsPaymentFailedEvent :: "event_arg \<Rightarrow> bool option" where
  "IsPaymentFailedEvent event = map_option (\<lambda>name. name = ''payment.failed'') (eventName event)"

definition IsInteractionX402Event :: "event_arg \<Rightarrow> bool option" where
  "IsInteractionX402Event event = map_option (\<lambda>name. has_prefix name ''interaction.x402.'') (eventName event)"

definition IsSentEmailAcceptedEvent :: "schemas \<Rightarrow> event_arg \<Rightarrow> bool" where
  "IsSentEmailAcceptedEvent S event \<longleftrightarrow> IsSentEmailEvent S event \<and> eventName event = Some ''sent_email.accepted''"

definition IsSentEmailDeliveredEvent :: "schemas \<Rightarrow> event_arg \<Rightarrow> bool" where
  "IsSentEmailDeliveredEvent S event \<longleftrightarrow> IsSentEmailEvent S event \<and> eventName event = Some ''sent_email.delivered''"

definition IsSentEmailFailedEvent :: "schemas \<Rightarrow> event_arg \<Rightarrow> bool" where
  "IsSentEmailFailedEvent S event \<longleftrightarrow> IsSentEmailEvent S event \<and> eventName event = Some ''sent_email.failed''"

definition IsSentEmailCompletedEvent :: "schemas \<Rightarrow> event_arg \<Rightarrow> bool" where
  "IsSentEmailCompletedEvent S event \<longleftrightarrow> IsSentEmailEvent S event \<and> eventName event = Some ''sent_email.completed''"

definition IsSentEmailRecipientResultEvent :: "schemas \<Rightarrow> event_arg \<Rightarrow> bool" where
  "IsSentEmailRecipientResultEvent S event \<longleftrightarrow> IsSentEmailEvent S event \<and>
     (case event of EVal (EvSent e) \<Rightarrow> IsRecipientResult e
      | EPtr (EvSent e) \<Rightarrow> IsRecipientResult e
      | EAny (GMap typed) \<Rightarrow> (eventName event = Some ''sent_email.delivered'' \<or> eventName event = Some ''sent_email.failed'') \<and>
          obj_string typed ''scope'' = Some ''recipient''
      | _ \<Rightarrow> False)"

section \<open>Properties\<close>

datatype event_class = CReceived | CSent | CPayment | CInteraction | CUnknown

fun class_of :: "WebhookEvent \<Rightarrow> event_class" where
  "class_of (EvReceived _) = CReceived"
| "class_of (EvSent _) = CSent"
| "class_of (EvPayment _) = CPayment"
| "class_of (EvInteraction _) = CInteraction"
| "class_of (EvUnknown _) = CUnknown"

definition class_named :: "string \<Rightarrow> event_class" where
  "class_named name =
     (if name = ''email.received'' then CReceived else if name \<in> set SentEmailEventTypes then CSent
      else if name \<in> set PaymentEventTypes then CPayment
      else if take 12 name = ''interaction.'' then CInteraction else CUnknown)"

lemma sent_types: "IsSentEmailEventType name \<longleftrightarrow> name \<in> set SentEmailEventTypes"
  by (auto simp: IsSentEmailEventType_def SentEmailEventTypes_def)

lemma typed_event_class:
  assumes "typed_event S input obj name = Inr ev"
  shows "class_of ev = class_named name \<and>
     (case ev of EvReceived e \<Rightarrow> ValidateEmailReceivedEvent S (GMap obj) = Inr e
      | EvSent e \<Rightarrow> ValidateSentEmailEvent S (GMap obj) = Inr e
      | EvPayment e \<Rightarrow> pay_Event e = name \<and> mapFromInputPreservingNumbers input = Inr (pay_Payload e)
      | EvInteraction e \<Rightarrow> inter_Event e = name \<and> mapFromInputPreservingNumbers input = Inr (inter_Payload e)
      | EvUnknown e \<Rightarrow> unknown_Event e = name \<and> mapFromInputPreservingNumbers input = Inr (unknown_Payload e))"
proof -
  have "has_prefix name ''interaction.'' \<longleftrightarrow> take 12 name = ''interaction.''"
    by (simp add: has_prefix_def numeral_eq_Suc)
  moreover have "''email.received'' \<notin> set SentEmailEventTypes" by (simp add: SentEmailEventTypes_def)
  ultimately show ?thesis
    using assms by (auto simp: typed_event_def class_named_def sent_types PaymentEventTypes_def payment_of_def
        split: if_splits sum.splits)
qed

text \<open>
  C19. The type of a parsed event is the one its name demands. Whenever \<open>ParseWebhookEvent\<close>
  answers, the input is an object whose name, the one passed or else its own \<open>event\<close>, is not
  empty; the answer is the struct of that name's family; an \<open>email.received\<close> or \<open>sent_email\<close>
  event is the one its schema validates; and every other event is called by that name and
  holds the object with its numbers as they were written.
\<close>

theorem parsed_event_type:
  assumes "ParseWebhookEvent S input0 names = Inr ev"
  shows "\<exists>input obj. event_input input0 = Inr input \<and> event_object input = Inr obj \<and>
     resolve_event names obj \<noteq> [] \<and> class_of ev = class_named (resolve_event names obj) \<and>
     (case ev of EvReceived e \<Rightarrow> ValidateEmailReceivedEvent S (GMap obj) = Inr e
      | EvSent e \<Rightarrow> ValidateSentEmailEvent S (GMap obj) = Inr e
      | EvPayment e \<Rightarrow> pay_Event e = resolve_event names obj \<and> mapFromInputPreservingNumbers input = Inr (pay_Payload e)
      | EvInteraction e \<Rightarrow> inter_Event e = resolve_event names obj \<and> mapFromInputPreservingNumbers input = Inr (inter_Payload e)
      | EvUnknown e \<Rightarrow> unknown_Event e = resolve_event names obj \<and> mapFromInputPreservingNumbers input = Inr (unknown_Payload e))"
  using assms typed_event_class
  by (simp add: ParseWebhookEvent_def Let_def split: sum.splits if_splits)

lemma ParseJSONBody_text:
  "bodyToString rawBody ''request body'' = Inr body \<Longrightarrow> ParseJSONBody rawBody = ParseJSONBody (GString body)"
  by (simp add: ParseJSONBody_def bodyToString_def [of "GString body"])

lemma verify_request_Inr:
  assumes "verify_request sprint clock options = Inr v"
  shows "\<exists>body t. bodyToString (handle_Body options) ''request body'' = Inr body \<and>
     timestamp_error clock (or_else (handle_ToleranceSeconds options) defaultToleranceSeconds) t = None \<and>
     ((\<exists>key tag. PrepareStandardWebhooksSecret (handle_Secret options) = Inr key \<and>
        tag \<in> set (parseStandardWebhooksSignatures (getHeaderValue sprint (handle_Headers options) StandardWebhookSignatureHeader)) \<and>
        b64_std_decode tag = Some (hmac_sha256 key
          (std_content (getHeaderValue sprint (handle_Headers options) StandardWebhookIDHeader) t body))) \<or>
      (\<exists>key tag tags. secretToBytes (handle_Secret options) = Inr key \<and>
        parseSignatureHeader (getSignatureHeaderValue sprint (handle_Headers options)) = Some (t, tags) \<and> tag \<in> set tags \<and>
        hex_decode tag = Some (hmac_sha256 key (signed_content t body))))"
proof (cases "detectStandardWebhooksHeaders sprint (handle_Headers options)")
  case (Inr r)
  obtain msgID ts sig std where r: "r = (msgID, ts, sig, std)" by (cases r) auto
  show ?thesis
  proof (cases std)
    case True
    then have "msgID = getHeaderValue sprint (handle_Headers options) StandardWebhookIDHeader"
        "sig = getHeaderValue sprint (handle_Headers options) StandardWebhookSignatureHeader"
      using Inr r by (auto simp: detectStandardWebhooksHeaders_def Let_def split: if_splits)
    then show ?thesis
      using assms Inr r True
      by (auto simp: verify_request_def std_verify_iff b64.any_ok_iff or_else_def)
  next
    case False
    then obtain key body t tags where "secretToBytes (handle_Secret options) = Inr key"
        "bodyToString (handle_Body options) ''request body'' = Inr body"
        "parseSignatureHeader (getSignatureHeaderValue sprint (handle_Headers options)) = Some (t, tags)"
        "timestamp_error clock (or_else (handle_ToleranceSeconds options) defaultToleranceSeconds) t = None"
        "list_ex (hex_tag_ok key (signed_content t body)) tags"
      using assms Inr r by (auto simp: verify_request_def verify_iff or_else_def [of None])
    then show ?thesis unfolding hex.any_ok_iff by blast
  qed
qed (use assms in \<open>simp add: verify_request_def\<close>)

text \<open>
  C17. No unauthenticated event. Whenever \<open>HandleWebhookEvent\<close> answers an event, one of the
  tags in the headers of the request is the HMAC-SHA256, under the caller's secret, of a
  content that ends in exactly the body the event is parsed from and holds a timestamp inside
  the replay window (in Standard Webhooks also the message id of the headers); the event is
  what \<open>ParseWebhookEvent\<close> makes of that body under the \<open>X-Webhook-Event\<close> header.
\<close>

theorem handled_event_authentic:
  assumes "HandleWebhookEvent S sprint clock options = Inr ev"
  shows "\<exists>body t parsed. bodyToString (handle_Body options) ''request body'' = Inr body \<and>
     timestamp_error clock (or_else (handle_ToleranceSeconds options) defaultToleranceSeconds) t = None \<and>
     ((\<exists>key tag. PrepareStandardWebhooksSecret (handle_Secret options) = Inr key \<and>
        tag \<in> set (parseStandardWebhooksSignatures (getHeaderValue sprint (handle_Headers options) StandardWebhookSignatureHeader)) \<and>
        b64_std_decode tag = Some (hmac_sha256 key
          (std_content (getHeaderValue sprint (handle_Headers options) StandardWebhookIDHeader) t body))) \<or>
      (\<exists>key tag tags. secretToBytes (handle_Secret options) = Inr key \<and>
        parseSignatureHeader (getSignatureHeaderValue sprint (handle_Headers options)) = Some (t, tags) \<and> tag \<in> set tags \<and>
        hex_decode tag = Some (hmac_sha256 key (signed_content t body)))) \<and>
     ParseJSONBody (GString body) = Inr parsed \<and>
     ParseWebhookEvent S parsed [getHeaderValue sprint (handle_Headers options) WebhookEventHeader] = Inr ev"
proof -
  obtain v where v: "verify_request sprint clock options = Inr v"
    using assms by (auto simp: HandleWebhookEvent_def split: sum.splits)
  then obtain parsed where p: "ParseJSONBody (handle_Body options) = Inr parsed"
      "ParseWebhookEvent S parsed [getHeaderValue sprint (handle_Headers options) WebhookEventHeader] = Inr ev"
    using assms by (auto simp: HandleWebhookEvent_def split: sum.splits)
  then show ?thesis
    using verify_request_Inr [OF v] ParseJSONBody_text [of "handle_Body options"] by metis
qed

text \<open>A request as the sender makes it, with the body of an event.\<close>

definition signed_headers :: "string \<Rightarrow> int \<Rightarrow> string \<Rightarrow> string \<Rightarrow> headers" where
  "signed_headers key t body name = HStrMap [
     (''Primitive-Signature'', ''t='' @ itoa t @ '',v1='' @ hex_encode (hmac_sha256 key (signed_content t body))),
     (''X-Webhook-Event'', name)]"

lemma signed_headers_values:
  "getHeaderValue sprint (signed_headers key t body name) WebhookEventHeader = name"
  "getSignatureHeaderValue sprint (signed_headers key t body name) =
     ''t='' @ itoa t @ '',v1='' @ hex_encode (hmac_sha256 key (signed_content t body))"
  "\<not> hasHeaderKey (signed_headers key t body name) StandardWebhookSignatureHeader"
  by (simp_all add: signed_headers_def getSignatureHeaderValue_def getHeaderValue_def hasHeaderKey_def has_key_ci_def
      WebhookEventHeader_def PrimitiveSignatureHeader_def StandardWebhookSignatureHeader_def to_lower_ascii
      ascii_lower_def)

lemma signed_request_verified:
  assumes "key \<noteq> []" and "is_int64 t" and "- 60 \<le> wrap64 (clock - t)" and "wrap64 (clock - t) \<le> 300"
  shows "verify_request sprint clock \<lparr>handle_Body = GString body, handle_Headers = signed_headers key t body name,
     handle_Secret = GString key, handle_ToleranceSeconds = None\<rparr> = Inr True"
proof -
  have "parseSignatureHeader (getSignatureHeaderValue sprint (signed_headers key t body name)) =
      Some (t, [hex_tag key (signed_content t body)])"
    using assms(2) by (simp only: signed_headers_values parseSignatureHeader_signed hmac_nonempty not_False_eq_True hex_tag_def)
  moreover have "list_ex (hex_tag_ok key (signed_content t body)) [hex_tag key (signed_content t body)]"
    by (rule hex.any_ok_own) simp
  ultimately show ?thesis
    using assms signed_headers_values(3)
    by (simp add: verify_request_def detectStandardWebhooksHeaders_def verify_iff timestamp_error_None or_else_def
        defaultToleranceSeconds_def secretToBytes_def bodyToString_def)
qed

lemma ParseJSONBody_parsed:
  assumes "json_parse body = Some j" and "trim_space body \<noteq> []" and "\<not> has_prefix body byte_order_mark"
  shows "ParseJSONBody (GString body) = Inr (to_any True j)"
  using assms by (auto simp: ParseJSONBody_def bodyToString_def json_parse_def trim_prefix_def Let_def
      split: prod.splits option.splits list.splits if_splits)

lemma ParseJSONBody_printed:
  assumes "printable max_nesting (JObj ms)"
  shows "ParseJSONBody (GString (json_text (JObj ms))) = Inr (to_any True (JObj ms))"
proof (rule ParseJSONBody_parsed)
  show "json_parse (json_text (JObj ms)) = Some (JObj ms)"
    using assms json_parse_text [of "JObj ms"] by (simp only: printable_def)
  show "trim_space (json_text (JObj ms)) \<noteq> []"
    by (simp only: json_text_obj_trim) simp
  have "hd byte_order_mark \<noteq> CHR 0x7B \<and> byte_order_mark \<noteq> []"
    by (auto simp: encode_rune_def simp flip: of_char_eq_iff [where 'a = nat])
  then show "\<not> has_prefix (json_text (JObj ms)) byte_order_mark"
    by (auto simp: has_prefix_def neq_Nil_conv)
qed


definition example_members :: "(string \<times> json) list" where
  "example_members = [(''event'', JStr ''ping'')]"

definition no_schemas :: schemas where
  "no_schemas = \<lparr>compiledSchema = Inl (Lit []), compiledSentEmailSchema = (\<lambda>_. Inl (Lit []))\<rparr>"

definition example_event :: UnknownEvent where
  "example_event = \<lparr>unknown_Event = ''ping'', unknown_ID = None, unknown_Version = None,
     unknown_Payload = [(''event'', GString ''ping'')]\<rparr>"

definition example_request :: HandleWebhookOptions where
  "example_request = \<lparr>handle_Body = GString (json_text (JObj example_members)),
     handle_Headers = signed_headers ''s3cret'' 1700000000 (json_text (JObj example_members)) [],
     handle_Secret = GString ''s3cret'', handle_ToleranceSeconds = None\<rparr>"

lemma example_any: "to_any n (JObj example_members) = GMap [(''event'', GString ''ping'')]"
  by (simp add: example_members_def)

lemma example_document: "of_any (GMap [(''event'', GString ''ping'')]) = Some (JObj example_members)"
  by (simp add: example_members_def all_some_def)

lemma example_printable: "printable max_nesting (JObj example_members)"
  by (simp add: printable_def example_members_def max_nesting_def)

lemma example_parses: "ParseWebhookEvent no_schemas (to_any True (JObj example_members)) [[]] = Inr (EvUnknown example_event)"
proof -
  have "reads_back (JObj example_members)" using example_printable by (simp add: reads_back_def printable_def)
  then show ?thesis
    unfolding example_any
    by (simp add: ParseWebhookEvent_def event_input_def event_object_def is_sequence_def mapFromInput_def
        normalizeJSONValue_def mapFromInputPreservingNumbers_def typed_event_def resolve_event_def obj_text_def
        obj_string_def obj_get_def example_document example_any IsSentEmailEventType_def example_event_def
        has_prefix_def Let_def del: of_any.simps to_any.simps)
qed

theorem parsed_event_type_witness:
  "\<exists>obj. resolve_event [[]] obj = ''ping'' \<and> class_named ''ping'' = CUnknown"
  using parsed_event_type [OF example_parses] by (auto simp: example_event_def)


lemma example_handled:
  "HandleWebhookEvent no_schemas sprint 1700000060 example_request = Inr (EvUnknown example_event)"
proof -
  have "verify_request sprint 1700000060 example_request = Inr True"
    unfolding example_request_def by (rule signed_request_verified) (simp_all add: is_int64_def wrap64_def)
  moreover have "getHeaderValue sprint (handle_Headers example_request) WebhookEventHeader = []"
      "handle_Body example_request = GString (json_text (JObj example_members))"
    by (simp_all only: example_request_def HandleWebhookOptions.simps signed_headers_values)
  ultimately show ?thesis
    by (simp only: HandleWebhookEvent_def sum.case ParseJSONBody_printed [OF example_printable] example_parses)
qed

theorem handled_event_authentic_witness:
  "\<exists>body t. bodyToString (handle_Body example_request) ''request body'' = Inr body \<and> timestamp_error 1700000060 300 t = None"
  using handled_event_authentic [OF example_handled]
  by (auto simp: or_else_def example_request_def defaultToleranceSeconds_def simp del: text_of.simps)

end
