(* ===== verification/Trust.thy ===== *)
theory Trust
  imports Email_Auth
begin

text \<open>
  \<open>trust.go\<close>: deciding whether an inbound email is authenticated as an expected domain and
  sender. The address-list parser of \<open>net/mail\<close> is an argument: it maps a header to the
  addresses it lists, or to nothing for an error, and every theorem holds whatever it does.
\<close>

type_synonym address_parser = "string \<Rightarrow> string list option"

definition maxHeaderBytes :: nat where "maxHeaderBytes = 998"

text \<open>\<open>headerAddressRe\<close>\<close>

definition address_stop :: "(char \<times> char) list" where
  "address_stop = space_cls @ [(CHR ''<'', CHR ''<''), (CHR ''>'', CHR ''>''), (CHR ''@'', CHR ''@'')]"

definition headerAddressRe :: re where
  "headerAddressRe = rseqs [rplus (RNeg address_stop), rchr (CHR ''@''), rplus (RNeg address_stop),
     rchr (CHR ''.''), rplus (RNeg address_stop)]"

record TrustedSenderOptions =
  TrustDomain :: string
  TrustSender :: string

record TrustedSenderResult =
  Trusted :: bool
  Retryable :: bool
  TrustReason :: string
  TrustAuth :: ValidateEmailAuthResult

definition untrustedSender :: "string \<Rightarrow> ValidateEmailAuthResult \<Rightarrow> bool \<Rightarrow> TrustedSenderResult" where
  "untrustedSender why auth retryable =
     \<lparr>Trusted = False, Retryable = retryable, TrustReason = why, TrustAuth = auth\<rparr>"

section \<open>Group syntax\<close>

record group_scan =
  inQuotes :: bool
  parenDepth :: nat
  escaped :: bool

text \<open>One rune of the scan: nothing when a group delimiter is found.\<close>

definition group_step :: "group_scan \<Rightarrow> nat \<Rightarrow> group_scan option" where
  "group_step st r =
     (if escaped st then Some (st\<lparr>escaped := False\<rparr>)
      else if r = 92 \<and> (inQuotes st \<or> 0 < parenDepth st) then Some (st\<lparr>escaped := True\<rparr>)
      else if r = 34 \<and> parenDepth st = 0 then Some (st\<lparr>inQuotes := \<not> inQuotes st\<rparr>)
      else if r = 40 \<and> \<not> inQuotes st then Some (st\<lparr>parenDepth := parenDepth st + 1\<rparr>)
      else if r = 41 \<and> \<not> inQuotes st \<and> 0 < parenDepth st then Some (st\<lparr>parenDepth := parenDepth st - 1\<rparr>)
      else if r = 58 \<and> \<not> inQuotes st \<and> parenDepth st = 0 then None
      else Some st)"

fun group_scan_runes :: "group_scan \<Rightarrow> nat list \<Rightarrow> bool" where
  "group_scan_runes st [] = False"
| "group_scan_runes st (r # rs) = (case group_step st r of None \<Rightarrow> True | Some st' \<Rightarrow> group_scan_runes st' rs)"

definition containsGroupDelimiter :: "string \<Rightarrow> bool" where
  "containsGroupDelimiter v =
     group_scan_runes \<lparr>inQuotes = False, parenDepth = 0, escaped = False\<rparr> (runes v)"

section \<open>The From header\<close>

text \<open>The address, or the reason there is none.\<close>

definition parseFromHeaderStrict :: "address_parser \<Rightarrow> string \<Rightarrow> string + string" where
  "parseFromHeaderStrict parse v =
     (let trimmed = trim_space v
      in if trimmed = [] \<or> maxHeaderBytes < length trimmed then Inl ''from-header-invalid''
         else if containsGroupDelimiter trimmed then Inl ''from-header-invalid''
         else (case parse trimmed of
             None \<Rightarrow> Inl ''from-header-invalid''
           | Some [] \<Rightarrow> Inl ''from-header-invalid''
           | Some (a # b # _) \<Rightarrow> Inl ''from-header-multiple-addresses''
           | Some [a] \<Rightarrow>
               let candidate = trim_space a
               in if re_match headerAddressRe candidate then Inr (to_lower candidate)
                  else Inl ''from-header-invalid''))"

section \<open>Subdomains\<close>

text \<open>\<open>managedInboxTrustDomain\<close>\<close>

definition label_cls :: "(char \<times> char) list" where
  "label_cls = [(CHR ''a'', CHR ''z''), (CHR ''0'', CHR ''9'')]"

definition managedInboxTrustDomain :: re where
  "managedInboxTrustDomain = rseqs [RCls label_cls,
     ropt (RSeq (RStar (RCls (label_cls @ [(CHR ''-'', CHR ''-'')]))) (RCls label_cls)),
     rchr (CHR ''.''), RAlt (rlit ''primitive'') (rlit ''primitive-staging''), rlit ''.email'']"

definition strong_key :: "DKIMSignature \<Rightarrow> bool" where
  "strong_key sig \<longleftrightarrow> dkim_Algo sig = Some ''ed25519-sha256'' \<or>
     dkim_Algo sig = Some ''rsa-sha256'' \<and> (case dkim_KeyBits sig of None \<Rightarrow> False | Some n \<Rightarrow> 1024 \<le> n)"

definition managed_root :: "string \<Rightarrow> bool" where
  "managed_root d \<longleftrightarrow> d = ''primitive.email'' \<or> d = ''primitive-staging.email''"

definition qualifying_signature :: "string \<Rightarrow> string \<Rightarrow> DKIMSignature \<Rightarrow> bool" where
  "qualifying_signature domain dmarcDomain sig =
     (let signer = to_lower (trim_space (dkim_Domain sig))
      in dkim_Result sig = ''pass'' \<and> dkim_Aligned sig \<and> strong_key sig \<and>
         (signer = domain \<or>
          re_match managedInboxTrustDomain domain \<and> managed_root dmarcDomain \<and> signer = dmarcDomain))"

definition hasSubdomainIdentity :: "EmailAuth \<Rightarrow> string \<Rightarrow> string \<Rightarrow> bool" where
  "hasSubdomainIdentity auth domain dmarcDomain =
     (if auth_DMARC auth \<noteq> ''pass'' \<or> auth_DMARCDkimAligned auth \<noteq> Some True \<or>
         \<not> has_suffix domain (CHR ''.'' # dmarcDomain) then False
      else list_ex (qualifying_signature domain dmarcDomain) (auth_DKIMSignatures auth))"

section \<open>The decision\<close>

definition reported_domain :: "EmailAuth \<Rightarrow> string" where
  "reported_domain auth = (case auth_DMARCFromDomain auth of None \<Rightarrow> [] | Some d \<Rightarrow> to_lower (trim_space d))"

text \<open>The checks after the verdict, for a prepared domain and sender.\<close>

definition identity_decision ::
    "address_parser \<Rightarrow> EmailReceivedEvent \<Rightarrow> string \<Rightarrow> string \<Rightarrow> ValidateEmailAuthResult \<Rightarrow> TrustedSenderResult" where
  "identity_decision parse event domain sender res =
     (let auth = email_Auth (received_Email event); dmarcFromDomain = reported_domain auth
      in if dmarcFromDomain = [] \<or>
            (dmarcFromDomain \<noteq> domain \<and> \<not> hasSubdomainIdentity auth domain dmarcFromDomain) then
           untrustedSender ''dmarc-domain-mismatch'' res False
         else (case parseFromHeaderStrict parse (hdr_From (email_Headers (received_Email event))) of
             Inl why \<Rightarrow> untrustedSender why res False
           | Inr fromAddress \<Rightarrow>
               if after_last (CHR ''@'') fromAddress \<noteq> domain then untrustedSender ''from-domain-mismatch'' res False
               else if sender \<noteq> [] \<and> fromAddress \<noteq> sender then untrustedSender ''sender-mismatch'' res False
               else \<lparr>Trusted = True, Retryable = False, TrustReason = ''trusted'', TrustAuth = res\<rparr>))"

definition IsTrustedSender ::
    "address_parser \<Rightarrow> EmailReceivedEvent \<Rightarrow> TrustedSenderOptions \<Rightarrow> werr + TrustedSenderResult" where
  "IsTrustedSender parse event opts =
     (let domain = to_lower (trim_space (TrustDomain opts));
          sender = to_lower (trim_space (TrustSender opts));
          auth = email_Auth (received_Email event)
      in if domain = [] then Inl (OtherError (Lit ''opts.Domain must be a non-empty domain name''))
         else if CHR ''@'' \<in> set domain \<or> list_ex is_space (runes domain) then
           Inl (OtherError (Lit ''opts.Domain must be a bare domain name without @ or whitespace''))
         else if sender \<noteq> [] \<and> \<not> re_match headerAddressRe sender then
           Inl (OtherError (Lit ''opts.Sender must be a single bare email address (user@example.com)''))
         else (case ValidateEmailAuth (Some (enc_EmailAuth auth)) of
             Inl _ \<Rightarrow> Inr (untrustedSender ''auth-missing''
               (auth_result ''unknown'' ''low'' [reason ''Missing or malformed email.auth on event'']) False)
           | Inr res \<Rightarrow>
               if Verdict res = ''suspicious'' then Inr (untrustedSender ''auth-suspicious'' res False)
               else if Verdict res = ''unknown'' then
                 (if auth_DMARC auth = ''temperror'' then Inr (untrustedSender ''dmarc-temperror'' res True)
                  else Inr (untrustedSender ''auth-unknown'' res False))
               else Inr (identity_decision parse event domain sender res)))"

section \<open>Facts\<close>

definition options_ok :: "TrustedSenderOptions \<Rightarrow> bool" where
  "options_ok opts \<longleftrightarrow>
     (let domain = to_lower (trim_space (TrustDomain opts)); sender = to_lower (trim_space (TrustSender opts))
      in domain \<noteq> [] \<and> CHR ''@'' \<notin> set domain \<and> \<not> list_ex is_space (runes domain) \<and>
         (sender = [] \<or> re_match headerAddressRe sender))"

lemma trusted_error_iff: "(\<exists>e. IsTrustedSender parse event opts = Inl e) \<longleftrightarrow> \<not> options_ok opts"
  by (auto simp: IsTrustedSender_def options_ok_def Let_def split: sum.splits)

lemma sanitize_dmarc: "ascii w \<Longrightarrow> auth_DMARC (sanitize_auth a) = w \<longleftrightarrow> auth_DMARC a = w"
  by (simp add: sanitize_auth_def sanitize_eq_ascii)

lemma sanitize_spf: "ascii w \<Longrightarrow> auth_SPF (sanitize_auth a) = w \<longleftrightarrow> auth_SPF a = w"
  by (simp add: sanitize_auth_def sanitize_eq_ascii)

lemma parseFromHeaderStrict_Inr:
  "parseFromHeaderStrict parse v = Inr addr \<longleftrightarrow>
     (let trimmed = trim_space v
      in trimmed \<noteq> [] \<and> length trimmed \<le> 998 \<and> \<not> containsGroupDelimiter trimmed \<and>
         (\<exists>a. parse trimmed = Some [a] \<and> re_match headerAddressRe (trim_space a) \<and> addr = to_lower (trim_space a)))"
  by (auto simp: parseFromHeaderStrict_def maxHeaderBytes_def Let_def split: option.splits list.splits)


lemma untrusted_simps [simp]:
  "Trusted (untrustedSender w a b) = False" "Retryable (untrustedSender w a b) = b"
  "TrustReason (untrustedSender w a b) = w"
  by (simp_all add: untrustedSender_def)

lemma identity_trusted:
  "Trusted (identity_decision parse event domain sender res) \<longleftrightarrow>
    (let a = email_Auth (received_Email event)
     in reported_domain a \<noteq> [] \<and> (reported_domain a = domain \<or> hasSubdomainIdentity a domain (reported_domain a)) \<and>
        (\<exists>addr. parseFromHeaderStrict parse (hdr_From (email_Headers (received_Email event))) = Inr addr \<and>
           after_last (CHR ''@'') addr = domain \<and> (sender = [] \<or> addr = sender)))"
  by (auto simp: identity_decision_def Let_def split: sum.splits)

lemma strict_reason: "parseFromHeaderStrict parse v = Inl why \<Longrightarrow> why \<noteq> ''trusted'' \<and> why \<noteq> ''dmarc-temperror''"
  by (auto simp: parseFromHeaderStrict_def Let_def split: if_splits option.splits list.splits)

lemma identity_reason:
  "Trusted (identity_decision parse event domain sender res) \<longleftrightarrow>
     TrustReason (identity_decision parse event domain sender res) = ''trusted''"
  "\<not> Retryable (identity_decision parse event domain sender res)"
  "TrustReason (identity_decision parse event domain sender res) \<noteq> ''dmarc-temperror''"
  using strict_reason by (auto simp: identity_decision_def Let_def split: sum.splits)

text \<open>The decision for usable options, by the verdict on the event.\<close>

lemma decision_cases:
  assumes "key_bits_ok (email_Auth (received_Email event))"
  shows "IsTrustedSender parse event opts = Inr r \<longleftrightarrow> options_ok opts \<and>
    (let a = email_Auth (received_Email event); res = auth_verdict (sanitize_auth a)
     in r = (if auth_DMARC a = ''pass'' then
               identity_decision parse event (to_lower (trim_space (TrustDomain opts)))
                 (to_lower (trim_space (TrustSender opts))) res
             else if Verdict res = ''suspicious'' then untrustedSender ''auth-suspicious'' res False
             else if auth_DMARC a = ''temperror'' then untrustedSender ''dmarc-temperror'' res True
             else untrustedSender ''auth-unknown'' res False))"
proof -
  let ?a = "email_Auth (received_Email event)"
  let ?res = "auth_verdict (sanitize_auth ?a)"
  have v: "ValidateEmailAuth (Some (enc_EmailAuth ?a)) = Inr ?res" by (rule validate_typed [OF assms])
  have legit: "Verdict ?res = ''legit'' \<longleftrightarrow> auth_DMARC ?a = ''pass''"
    using verdict_legit [of "sanitize_auth ?a"] sanitize_dmarc [of "''pass''" ?a] by simp
  consider "Verdict ?res = ''legit''" | "Verdict ?res = ''suspicious''" | "Verdict ?res = ''unknown''"
    using verdict_known [of "sanitize_auth ?a"] by auto
  then show ?thesis
    unfolding IsTrustedSender_def options_ok_def Let_def v sum.case legit [symmetric]
    by cases auto
qed

section \<open>Examples\<close>

definition example_event :: "EmailAuth \<Rightarrow> string \<Rightarrow> EmailReceivedEvent" where
  "example_event auth from = EmailReceivedEvent_zero \<lparr>received_Email := Email_zero
     \<lparr>email_Headers := EmailHeaders_zero \<lparr>hdr_From := from\<rparr>, email_Auth := auth\<rparr>\<rparr>"

lemma example_event_simps [simp]:
  "email_Auth (received_Email (example_event auth from)) = auth"
  "hdr_From (email_Headers (received_Email (example_event auth from))) = from"
  by (simp_all add: example_event_def)

definition subdomain_auth :: EmailAuth where
  "subdomain_auth = example_auth \<lparr>auth_DKIMSignatures := [DKIMSignature_zero \<lparr>dkim_Domain := ''mail.example.com'',
     dkim_Result := ''pass'', dkim_Aligned := True, dkim_Algo := Some ''ed25519-sha256''\<rparr>]\<rparr>"

lemma not_space: "\<not> is_space 97" "\<not> is_space 101" "\<not> is_space 109" "\<not> is_space 117"
  by (simp_all add: is_space_def)

lemma trims:
  "trim_space ''example.com'' = ''example.com''" "trim_space ''mail.example.com'' = ''mail.example.com''"
  "trim_space ''alice@example.com'' = ''alice@example.com''" "trim_space ''alice@mail.example.com'' = ''alice@mail.example.com''"
  by (rule trim_space_solid; simp add: solid_ends_def not_space)+

lemma lowers:
  "to_lower ''example.com'' = ''example.com''" "to_lower ''mail.example.com'' = ''mail.example.com''"
  "to_lower ''alice@example.com'' = ''alice@example.com''" "to_lower ''alice@mail.example.com'' = ''alice@mail.example.com''"
  "to_lower [] = []"
  by (simp_all add: to_lower_ascii ascii_lower_def)

lemma matches:
  "re_match headerAddressRe ''alice@example.com''" "re_match headerAddressRe ''alice@mail.example.com''"
  "after_last (CHR ''@'') ''alice@example.com'' = ''example.com''"
  "after_last (CHR ''@'') ''alice@mail.example.com'' = ''mail.example.com''"
  by code_simp+

lemma no_groups: "\<not> containsGroupDelimiter ''alice@example.com''" "\<not> containsGroupDelimiter ''alice@mail.example.com''"
  by (simp_all add: containsGroupDelimiter_def group_step_def)

lemma domains_ok:
  "options_ok \<lparr>TrustDomain = ''example.com'', TrustSender = []\<rparr>"
  "options_ok \<lparr>TrustDomain = ''mail.example.com'', TrustSender = []\<rparr>"
  by (simp_all add: options_ok_def trims lowers is_space_def)

lemma examples_key_bits: "key_bits_ok subdomain_auth" "key_bits_ok (EmailAuth_zero \<lparr>auth_DMARC := ''temperror''\<rparr>)"
  by (simp_all add: key_bits_ok_def subdomain_auth_def example_auth_def EmailAuth_zero_def DKIMSignature_zero_def)

lemmas example_facts = trims lowers matches no_groups domains_ok example_auth_def subdomain_auth_def
  EmailAuth_zero_def DKIMSignature_zero_def reported_domain_def


section \<open>Properties\<close>

text \<open>
  C7. An email is trusted exactly when the options name a bare domain (and a bare sender
  address, if any), DMARC passed, the domain DMARC reported is the expected one or its
  parent with a qualifying signature, the From header strictly parses to one address in
  the expected domain, and that address is the expected sender if one is given. Nothing
  else of the event is consulted.
\<close>

theorem trusted_sender_exact:
  assumes "key_bits_ok (email_Auth (received_Email event))"
  shows "(\<exists>r. IsTrustedSender parse event opts = Inr r \<and> Trusted r) \<longleftrightarrow>
    (let a = email_Auth (received_Email event); domain = to_lower (trim_space (TrustDomain opts));
         sender = to_lower (trim_space (TrustSender opts)); from = trim_space (hdr_From (email_Headers (received_Email event)))
     in options_ok opts \<and> auth_DMARC a = ''pass'' \<and> reported_domain a \<noteq> [] \<and>
        (reported_domain a = domain \<or> hasSubdomainIdentity a domain (reported_domain a)) \<and>
        from \<noteq> [] \<and> length from \<le> 998 \<and> \<not> containsGroupDelimiter from \<and>
        (\<exists>addr. parse from = Some [addr] \<and> re_match headerAddressRe (trim_space addr) \<and>
           after_last (CHR ''@'') (to_lower (trim_space addr)) = domain \<and>
           (sender = [] \<or> to_lower (trim_space addr) = sender)))"
proof -
  have "(\<exists>r. IsTrustedSender parse event opts = Inr r \<and> Trusted r) \<longleftrightarrow> options_ok opts \<and>
      auth_DMARC (email_Auth (received_Email event)) = ''pass'' \<and>
      Trusted (identity_decision parse event (to_lower (trim_space (TrustDomain opts)))
        (to_lower (trim_space (TrustSender opts))) (auth_verdict (sanitize_auth (email_Auth (received_Email event)))))"
    by (auto simp: decision_cases [OF assms] Let_def)
  then show ?thesis unfolding identity_trusted parseFromHeaderStrict_Inr Let_def by blast
qed

theorem trusted_sender_exact_witness:
  "\<exists>r. IsTrustedSender (\<lambda>_. Some [''alice@example.com'']) (example_event example_auth ''alice@example.com'')
     \<lparr>TrustDomain = ''example.com'', TrustSender = []\<rparr> = Inr r \<and> Trusted r"
proof -
  have "key_bits_ok (email_Auth (received_Email (example_event example_auth ''alice@example.com'')))"
    using example_key_bits by simp
  from trusted_sender_exact [OF this] show ?thesis by (simp add: example_facts del: re_match.simps)
qed

text \<open>
  C8. A subdomain is trusted under its parent's DMARC result only with cryptographic proof:
  when the reported domain is not the expected one and the email is trusted, the expected
  domain is a subdomain of it, DKIM alignment was reported, and some passing, aligned
  signature with a strong key was made by the expected domain itself, or by the managed
  root when the expected domain is a managed inbox directly under it.
\<close>

theorem subdomain_needs_signature:
  assumes "IsTrustedSender parse event opts = Inr r" and "Trusted r"
    and "reported_domain (email_Auth (received_Email event)) \<noteq> to_lower (trim_space (TrustDomain opts))"
  shows "let a = email_Auth (received_Email event); domain = to_lower (trim_space (TrustDomain opts));
             parent = reported_domain a
    in (\<exists>sub. domain = sub @ ''.'' @ parent) \<and> auth_DMARC a = ''pass'' \<and> auth_DMARCDkimAligned a = Some True \<and>
       (\<exists>sig \<in> set (auth_DKIMSignatures a). dkim_Result sig = ''pass'' \<and> dkim_Aligned sig \<and>
          (dkim_Algo sig = Some ''ed25519-sha256'' \<or>
           dkim_Algo sig = Some ''rsa-sha256'' \<and> (\<exists>n. dkim_KeyBits sig = Some n \<and> 1024 \<le> n)) \<and>
          (to_lower (trim_space (dkim_Domain sig)) = domain \<or>
           parent \<in> {''primitive.email'', ''primitive-staging.email''} \<and>
           re_match managedInboxTrustDomain domain \<and> to_lower (trim_space (dkim_Domain sig)) = parent))"
proof -
  let ?a = "email_Auth (received_Email event)" and ?d = "to_lower (trim_space (TrustDomain opts))"
  have "\<exists>res. Trusted (identity_decision parse event ?d (to_lower (trim_space (TrustSender opts))) res)"
    using assms(1,2) unfolding IsTrustedSender_def Let_def by (auto split: sum.splits if_splits)
  then have "hasSubdomainIdentity ?a ?d (reported_domain ?a)"
    using assms(3) by (auto simp: identity_trusted Let_def)
  then show ?thesis
    by (auto simp: hasSubdomainIdentity_def Let_def has_suffix_iff list_ex_iff qualifying_signature_def
        strong_key_def managed_root_def split: if_splits option.splits)
qed

theorem subdomain_needs_signature_witness:
  "\<exists>r. IsTrustedSender (\<lambda>_. Some [''alice@mail.example.com'']) (example_event subdomain_auth ''alice@mail.example.com'')
     \<lparr>TrustDomain = ''mail.example.com'', TrustSender = []\<rparr> = Inr r \<and> Trusted r \<and>
   (\<exists>sig \<in> set (auth_DKIMSignatures subdomain_auth). dkim_Result sig = ''pass'' \<and> dkim_Aligned sig)"
proof -
  let ?e = "example_event subdomain_auth ''alice@mail.example.com''" and ?p = "\<lambda>_ :: string. Some [''alice@mail.example.com'']"
  let ?o = "\<lparr>TrustDomain = ''mail.example.com'', TrustSender = []\<rparr>"
  have k: "key_bits_ok (email_Auth (received_Email ?e))" using examples_key_bits by simp
  have id: "Trusted (identity_decision ?p ?e ''mail.example.com'' [] res)" for res
    by (simp add: identity_trusted parseFromHeaderStrict_Inr example_facts hasSubdomainIdentity_def has_suffix_def
        qualifying_signature_def strong_key_def del: re_match.simps)
  have p: "auth_DMARC subdomain_auth = ''pass''" by (simp add: example_facts)
  obtain r where r: "IsTrustedSender ?p ?e ?o = Inr r" "Trusted r"
    using id p by (simp add: decision_cases [OF k] domains_ok trims lowers)
  have d: "reported_domain (email_Auth (received_Email ?e)) \<noteq> to_lower (trim_space (TrustDomain ?o))"
    by (simp add: example_facts)
  show ?thesis using subdomain_needs_signature [OF r d] r by (auto simp: Let_def)
qed

text \<open>
  Only a temporary DNS error asks for a retry: a decision is retryable exactly when
  DMARC ended in \<open>temperror\<close>, it then carries the reason \<open>dmarc-temperror\<close> and is not
  trusted, and a trusted decision is the one whose reason is \<open>trusted\<close>.
\<close>

theorem retryable_only_temperror:
  assumes "IsTrustedSender parse event opts = Inr r"
    and "key_bits_ok (email_Auth (received_Email event))"
  shows "(Retryable r \<longleftrightarrow> auth_DMARC (email_Auth (received_Email event)) = ''temperror'') \<and>
    (Retryable r \<longleftrightarrow> TrustReason r = ''dmarc-temperror'') \<and> (Trusted r \<longleftrightarrow> TrustReason r = ''trusted'') \<and>
    \<not> (Trusted r \<and> Retryable r)"
proof -
  let ?a = "email_Auth (received_Email event)"
  have temp: "auth_DMARC ?a = ''temperror'' \<Longrightarrow> Verdict (auth_verdict (sanitize_auth ?a)) \<noteq> ''suspicious''"
    using sanitize_dmarc [of "''temperror''" ?a] by (simp add: auth_verdict_def)
  show ?thesis
    using assms(1) temp identity_reason by (auto simp: decision_cases [OF assms(2)] Let_def)
qed

theorem retryable_only_temperror_witness:
  "\<exists>r. IsTrustedSender (\<lambda>_. None) (example_event (EmailAuth_zero \<lparr>auth_DMARC := ''temperror''\<rparr>) [])
     \<lparr>TrustDomain = ''example.com'', TrustSender = []\<rparr> = Inr r \<and> Retryable r"
proof -
  let ?e = "example_event (EmailAuth_zero \<lparr>auth_DMARC := ''temperror''\<rparr>) []"
  have k: "key_bits_ok (email_Auth (received_Email ?e))" using examples_key_bits by simp
  obtain r where "IsTrustedSender (\<lambda>_. None) ?e \<lparr>TrustDomain = ''example.com'', TrustSender = []\<rparr> = Inr r"
    by (simp add: decision_cases [OF k] domains_ok Let_def)
  then show ?thesis using retryable_only_temperror [OF _ k] by auto
qed

end
