(* ===== verification/Go_Trim.thy ===== *)
theory Go_Trim
  imports Go_Utf8
begin

text \<open>
  More of \<open>strings.TrimSpace\<close>: it looks at the first and the last rune only, so trimming twice
  is trimming once, and an ASCII word in front of a trimmed text stays trimmed. All of this
  holds for texts that are not valid UTF-8 as well.
\<close>

section \<open>What TrimSpace leaves\<close>

text \<open>A text is trimmed when it is empty or neither its first nor its last rune is a space.\<close>

definition trimmed :: "string \<Rightarrow> bool" where
  "trimmed s \<longleftrightarrow> s = [] \<or> \<not> is_space (fst (decode_rune s)) \<and> \<not> is_space (fst (decode_last_rune s))"

lemma trimmed_fixed: "trimmed s \<Longrightarrow> trim_space s = s"
  unfolding trim_space_def trimmed_def
  by (subst trim_left_space.simps, subst trim_right_space.simps) auto

lemma trim_left_first: "trim_left_space s \<noteq> [] \<Longrightarrow> \<not> is_space (fst (decode_rune (trim_left_space s)))"
proof (induction s rule: trim_left_space.induct)
  case (1 s)
  then show ?case using trim_left_space.simps [of s] by (cases "s = []") (auto split: if_splits)
qed

lemma trim_right_last: "trim_right_space s \<noteq> [] \<Longrightarrow> \<not> is_space (fst (decode_last_rune (trim_right_space s)))"
proof (induction s rule: trim_right_space.induct)
  case (1 s)
  then show ?case using trim_right_space.simps [of s] by (cases "s = []") (auto split: if_splits)
qed

lemma trim_right_prefix: "\<exists>u. s = trim_right_space s @ u"
proof (induction s rule: trim_right_space.induct)
  case (1 s)
  show ?case
  proof (cases "s \<noteq> [] \<and> is_space (fst (decode_last_rune s))")
    case True
    let ?n = "length s - snd (decode_last_rune s)"
    obtain u where "take ?n s = trim_right_space (take ?n s) @ u" using 1 True by blast
    moreover have "trim_right_space s = trim_right_space (take ?n s)"
      using True by (subst trim_right_space.simps) simp
    ultimately have "s = trim_right_space s @ (u @ drop ?n s)" by (metis append_assoc append_take_drop_id)
    then show ?thesis by blast
  qed (subst trim_right_space.simps, auto)
qed

lemma space_not_error: "\<not> is_space rune_error"
  by (simp add: is_space_def rune_error_def)

lemma first_of_prefix:
  assumes "\<not> is_space (fst (decode_rune (p @ u)))" and "p \<noteq> []"
  shows "\<not> is_space (fst (decode_rune p))"
proof -
  obtain r n where d: "decode_rune p = (r, n)" by fastforce
  show ?thesis
  proof (cases "(r, n) = (rune_error, 1)")
    case False
    then have "decode_rune (take n p @ drop n p @ u) = (r, n)" by (rule decode_rune_prefix [OF d _ assms(2)])
    then show ?thesis using assms(1) d by (simp flip: append_assoc)
  qed (simp add: d space_not_error)
qed

lemma trim_space_trimmed: "trimmed (trim_space s)"
proof (cases "trim_space s = []")
  case False
  obtain u where "trim_left_space s = trim_space s @ u" using trim_right_prefix unfolding trim_space_def by blast
  moreover from this have "\<not> is_space (fst (decode_rune (trim_left_space s)))"
    using False by (intro trim_left_first) auto
  ultimately have "\<not> is_space (fst (decode_rune (trim_space s)))" using first_of_prefix False by metis
  then show ?thesis using False trim_right_last [of "trim_left_space s"] by (simp add: trimmed_def trim_space_def)
qed (simp add: trimmed_def)

lemma trim_space_idem [simp]: "trim_space (trim_space s) = trim_space s"
  by (rule trimmed_fixed) (rule trim_space_trimmed)

text \<open>Nor does a word before a trimmed text make it less so.\<close>

definition last_start :: "string \<Rightarrow> nat \<Rightarrow> bool" where
  "last_start s k \<longleftrightarrow> k \<le> length s \<and> rune_start (s ! (length s - k))"

definition last_rune :: "string \<Rightarrow> nat \<Rightarrow> nat" where
  "last_rune s k = (case decode_rune (drop (length s - k) s) of (r, n) \<Rightarrow> if n = k then r else rune_error)"

lemma decode_last_rune_alt: "s \<noteq> [] \<Longrightarrow> \<not> ord (last s) < 128 \<Longrightarrow> fst (decode_last_rune s) =
    (if last_start s 2 then last_rune s 2 else if last_start s 3 then last_rune s 3
     else if last_start s 4 then last_rune s 4 else rune_error)"
  by (simp add: decode_last_rune_def last_start_def last_rune_def split: prod.split)

lemma last_rune_within: "last_start t k \<Longrightarrow> 0 < k \<Longrightarrow> last_start (p @ t) k \<and> last_rune (p @ t) k = last_rune t k"
  by (auto simp: last_start_def last_rune_def nth_append)

lemma last_rune_before:
  assumes "\<not> last_start t k" "last_start (p @ t) k" "2 \<le> k" "ascii p"
  shows "last_rune (p @ t) k = rune_error"
proof -
  have "k \<le> length t \<Longrightarrow> (p @ t) ! (length (p @ t) - k) = t ! (length t - k)"
    using nth_append_length_plus [of p t "length t - k"] by simp
  then have k: "\<not> k \<le> length t" using assms(1,2) unfolding last_start_def by metis
  then obtain c q where q: "drop (length p + length t - k) p = c # q"
    using assms(2) by (cases "drop (length p + length t - k) p") (auto simp: last_start_def)
  then have "ord c < 128" using assms(4) by (metis ascii_def in_set_dropD list.set_intros(1))
  then show ?thesis using k q assms(3) by (simp add: last_rune_def)
qed

lemma last_rune_append:
  assumes "ascii p" and "t \<noteq> []"
  shows "fst (decode_last_rune (p @ t)) = fst (decode_last_rune t) \<or> fst (decode_last_rune (p @ t)) = rune_error"
proof (cases "ord (last t) < 128")
  case False
  have "last_start t k \<and> last_start (p @ t) k \<and> last_rune (p @ t) k = last_rune t k \<or>
      \<not> last_start t k \<and> (last_start (p @ t) k \<longrightarrow> last_rune (p @ t) k = rune_error)" if "2 \<le> k" for k
    using last_rune_within [of t k p] last_rune_before [of t k p] assms(1) that by auto
  from this [of 2] this [of 3] this [of 4] show ?thesis
    using False assms(2) by (auto simp: decode_last_rune_alt)
qed (use assms(2) in \<open>simp add: decode_last_rune_def\<close>)

lemma trimmed_word:
  assumes "trimmed t" and "t \<noteq> []" and "ascii (c # p)" and "\<not> is_space (ord c)"
  shows "trimmed (c # p @ t)"
proof -
  have "\<not> is_space (fst (decode_last_rune ((c # p) @ t)))"
    using last_rune_append [OF assms(3,2)] assms(1,2) by (metis space_not_error trimmed_def)
  then show ?thesis using assms(3,4) by (simp add: trimmed_def)
qed

end
