(* ===== verification/Received_Email.thy ===== *)
theory Received_Email
  imports Webhook_Events Trust Go_Trim
begin

text \<open>
  \<open>received_email.go\<close>: from a request to a \<open>ReceivedEmail\<close>, with the subjects for a reply and
  a forward and the lenient parsing of a header address. The address-list parser of
  \<open>net/mail\<close> is an argument: it gives the names and addresses a header lists, or nothing
  for an error. The body of an HTTP request is what \<open>io.ReadAll\<close> answers for it.
\<close>

section \<open>Subjects\<close>

definition any_text_re :: re where
  "any_text_re = RStar (RNeg [])"

definition ci :: "char \<Rightarrow> char \<Rightarrow> re" where
  "ci lower upper = RCls [(lower, lower), (upper, upper)]"

definition replyPrefixRe :: re where
  "replyPrefixRe = rseqs [ci (CHR ''r'') (CHR ''R''), ci (CHR ''e'') (CHR ''E''),
     RStar (RCls space_cls), rchr (CHR '':''), any_text_re]"

definition forwardPrefixRe :: re where
  "forwardPrefixRe = rseqs [
     RAlt (rseqs [ci (CHR ''f'') (CHR ''F''), ci (CHR ''w'') (CHR ''W''), ropt (ci (CHR ''d'') (CHR ''D''))])
       (rseqs [ci (CHR ''f'') (CHR ''F''), ci (CHR ''w'') (CHR ''W'')]),
     RStar (RCls space_cls), rchr (CHR '':''), any_text_re]"

definition BuildReplySubject :: "string \<Rightarrow> string" where
  "BuildReplySubject subject = (let trimmed = trim_space subject
     in if trimmed = [] then ''Re:'' else if re_match replyPrefixRe trimmed then trimmed else ''Re: '' @ trimmed)"

definition BuildForwardSubject :: "string \<Rightarrow> string" where
  "BuildForwardSubject subject = (let trimmed = trim_space subject
     in if trimmed = [] then ''Fwd:'' else if re_match forwardPrefixRe trimmed then trimmed else ''Fwd: '' @ trimmed)"

section \<open>Addresses\<close>

record ReceivedEmailAddress =
  from_Address :: string
  from_Name :: string

definition FormatAddress :: "ReceivedEmailAddress \<Rightarrow> string" where
  "FormatAddress a = (if from_Name a = [] then from_Address a else from_Name a @ '' <'' @ from_Address a @ ''>'')"

text \<open>The address list a header holds, as name and address.\<close>

type_synonym list_parser = "string \<Rightarrow> (string \<times> string) list option"

definition bare_stop :: "(char \<times> char) list" where
  "bare_stop = address_stop @ [(CHR '','', CHR '',''), (CHR '';'', CHR '';'')]"

definition bareAddressRe :: re where
  "bareAddressRe = rseqs [rplus (RNeg bare_stop), rchr (CHR ''@''), rplus (RNeg bare_stop),
     rchr (CHR ''.''), rplus (RNeg bare_stop)]"

text \<open>
  The capture of \<open>angleAddressRe\<close> when it matches right after a given \<open><\<close>: no character of
  the group is an angle bracket or a space, so the group is the longest run without them,
  and only an optional bracket and spaces may follow it.
\<close>

definition address_char :: "char \<Rightarrow> bool" where
  "address_char c \<longleftrightarrow> c \<noteq> CHR ''<'' \<and> c \<noteq> CHR ''>'' \<and> \<not> in_cls space_cls c"

definition angle_at :: "string \<Rightarrow> string option" where
  "angle_at s = (let g = takeWhile address_char s; rest = trim_prefix (dropWhile address_char s) ''>''
     in if re_match headerAddressRe g \<and> list_all (in_cls space_cls) rest then Some g else None)"

fun angleAddress :: "string \<Rightarrow> string option" where
  "angleAddress [] = None"
| "angleAddress (c # s) = (if c = CHR ''<'' then (case angle_at s of Some a \<Rightarrow> Some a | None \<Rightarrow> angleAddress s)
     else angleAddress s)"

text \<open>What must follow the display name, which is the shortest text of one line that it follows.\<close>

definition display_tail :: re where
  "display_tail = rseqs [RStar (RCls space_cls), rchr (CHR ''<''), RStar (RNeg [(CHR ''>'', CHR ''>'')]),
     ropt (rchr (CHR ''>'')), RStar (RCls space_cls)]"

definition displayNamePrefix :: "string \<Rightarrow> string option" where
  "displayNamePrefix s = map_option (\<lambda>k. take k s)
     (find (\<lambda>k. CHR 0x0A \<notin> set (take k s) \<and> re_match display_tail (drop k s)) [1..<Suc (length s)])"

definition extractDisplayNamePrefix :: "string \<Rightarrow> string" where
  "extractDisplayNamePrefix v = (case displayNamePrefix v of None \<Rightarrow> []
     | Some m \<Rightarrow> trim_chars [CHR 0x22] (trim_space m))"

definition listed_address :: "(string \<times> string) list \<Rightarrow> ReceivedEmailAddress option" where
  "listed_address addrs = (case find (\<lambda>(_, a). re_match headerAddressRe (trim_space a)) addrs of None \<Rightarrow> None
     | Some (name, a) \<Rightarrow> Some \<lparr>from_Address = to_lower (trim_space a), from_Name = trim_space name\<rparr>)"

definition ParseHeaderAddress :: "list_parser \<Rightarrow> string \<Rightarrow> ReceivedEmailAddress option" where
  "ParseHeaderAddress parse v =
     (let trimmed = trim_space v
      in if trimmed = [] \<or> maxHeaderBytes < length trimmed then None
         else (case Option.bind (parse trimmed) listed_address of Some a \<Rightarrow> Some a
           | None \<Rightarrow> (case angleAddress trimmed of
               Some candidate \<Rightarrow>
                 Some \<lparr>from_Address = to_lower candidate, from_Name = extractDisplayNamePrefix trimmed\<rparr>
             | None \<Rightarrow> if re_match bareAddressRe trimmed
                 then Some \<lparr>from_Address = to_lower trimmed, from_Name = []\<rparr> else None)))"

section \<open>Received emails\<close>

record ReceivedEmailThread =
  thread_MessageID :: string
  thread_InReplyTo :: "string list"
  thread_References :: "string list"

record ReceivedEmail =
  mail_ID :: string
  mail_EventID :: string
  mail_ReceivedAt :: string
  mail_Sender :: ReceivedEmailAddress
  mail_ReplyTarget :: ReceivedEmailAddress
  mail_ReceivedBy :: string
  mail_ReceivedByAll :: "string list"
  mail_Subject :: string
  mail_ReplySubject :: string
  mail_ForwardSubject :: string
  mail_Text :: string
  mail_Thread :: ReceivedEmailThread
  mail_Attachments :: "WebhookAttachment list"
  mail_Auth :: EmailAuth
  mail_Analysis :: EmailAnalysis
  mail_Raw :: EmailReceivedEvent

definition deref :: "string option \<Rightarrow> string" where
  "deref v = (case v of None \<Rightarrow> [] | Some s \<Rightarrow> s)"

definition header_sender :: "list_parser \<Rightarrow> Email \<Rightarrow> ReceivedEmailAddress" where
  "header_sender parse email = (case ParseHeaderAddress parse (hdr_From (email_Headers email)) of Some a \<Rightarrow> a
     | None \<Rightarrow> \<lparr>from_Address = to_lower (trim_space (smtp_MailFrom (email_SMTP email))), from_Name = []\<rparr>)"

definition reply_target :: "list_parser \<Rightarrow> Email \<Rightarrow> ReceivedEmailAddress" where
  "reply_target parse email = (case parsed_ReplyTo (email_Parsed email) of [] \<Rightarrow> header_sender parse email
     | a # _ \<Rightarrow> \<lparr>from_Address = to_lower (trim_space (addr_Address a)), from_Name = deref (addr_Name a)\<rparr>)"

definition NormalizeReceivedEmail :: "list_parser \<Rightarrow> EmailReceivedEvent \<Rightarrow> werr + ReceivedEmail" where
  "NormalizeReceivedEmail parse event =
     (let email = received_Email event; headers = email_Headers email; parsed = email_Parsed email
      in (case smtp_RcptTo (email_SMTP email) of
            [] \<Rightarrow> Inl (OtherError (Lit ''email.smtp.rcpt_to must contain at least one recipient''))
          | rcpt # rcpts \<Rightarrow> Inr \<lparr>
              mail_ID = email_ID email, mail_EventID = received_ID event, mail_ReceivedAt = email_ReceivedAt email,
              mail_Sender = header_sender parse email, mail_ReplyTarget = reply_target parse email,
              mail_ReceivedBy = rcpt, mail_ReceivedByAll = rcpt # rcpts,
              mail_Subject = deref (hdr_Subject headers),
              mail_ReplySubject = BuildReplySubject (deref (hdr_Subject headers)),
              mail_ForwardSubject = BuildForwardSubject (deref (hdr_Subject headers)),
              mail_Text = deref (parsed_BodyText parsed),
              mail_Thread = \<lparr>thread_MessageID = deref (hdr_MessageID headers),
                thread_InReplyTo = parsed_InReplyTo parsed, thread_References = parsed_References parsed\<rparr>,
              mail_Attachments = parsed_Attachments parsed, mail_Auth = email_Auth email,
              mail_Analysis = email_Analysis email, mail_Raw = event\<rparr>))"

definition Receive ::
    "list_parser \<Rightarrow> schemas \<Rightarrow> (gval \<Rightarrow> string) \<Rightarrow> int \<Rightarrow> HandleWebhookOptions \<Rightarrow> werr + ReceivedEmail" where
  "Receive parse S sprint clock options = (case HandleWebhook S sprint clock options of Inl e \<Rightarrow> Inl e
     | Inr event \<Rightarrow> NormalizeReceivedEmail parse event)"

text \<open>\<open>http.Header.Get\<close>: a key that is a token is looked up with its words capitalized.\<close>

definition token_char :: "char \<Rightarrow> bool" where
  "token_char c \<longleftrightarrow> is_digit c \<or> in_cls [(CHR ''a'', CHR ''z''), (CHR ''A'', CHR ''Z'')] c \<or>
     c \<in> set ''!#$%&'*+-.^_|~'' \<or> ord c = 96"

definition ascii_upper :: "char \<Rightarrow> char" where
  "ascii_upper c = (if 97 \<le> ord c \<and> ord c \<le> 122 then chr (ord c - 32) else c)"

fun capitalize :: "bool \<Rightarrow> string \<Rightarrow> string" where
  "capitalize up [] = []"
| "capitalize up (c # s) = (if up then ascii_upper c else ascii_lower c) # capitalize (c = CHR ''-'') s"

definition CanonicalMIMEHeaderKey :: "string \<Rightarrow> string" where
  "CanonicalMIMEHeaderKey s = (if list_all token_char s then capitalize True s else s)"

definition header_get :: "(string \<times> string list) list \<Rightarrow> string \<Rightarrow> string" where
  "header_get h key = (case map_of h (CanonicalMIMEHeaderKey key) of Some (v # _) \<Rightarrow> v | _ \<Rightarrow> [])"

record http_req =
  req_body :: "gomsg + gobytes"
  req_header :: "(string \<times> string list) list"

definition ReceiveFromHTTPRequest ::
    "list_parser \<Rightarrow> schemas \<Rightarrow> (gval \<Rightarrow> string) \<Rightarrow> int \<Rightarrow> http_req option \<Rightarrow> string \<Rightarrow> int option \<Rightarrow> werr + ReceivedEmail" where
  "ReceiveFromHTTPRequest parse S sprint clock request secret tolerance = (case request of
     None \<Rightarrow> Inl (OtherError (Lit ''request is required''))
   | Some r \<Rightarrow> if secret = [] then Inl missing_secret
       else (case req_body r of Inl e \<Rightarrow> Inl (OtherError e)
         | Inr body \<Rightarrow> Receive parse S sprint clock \<lparr>handle_Body = GBytes body,
             handle_Headers = HGet (header_get (req_header r)), handle_Secret = GString secret,
             handle_ToleranceSeconds = tolerance\<rparr>))"

section \<open>Properties\<close>

lemma lang_any: "s \<in> lang any_text_re"
  using lang_star_neg [of s "[]"] by (simp add: any_text_re_def in_cls_simps del: lang.simps)

lemma lang_star_nil: "[] \<in> lang (RStar r)"
  using nullable_iff [of "RStar r"] by simp

lemma lang_ci: "s \<in> lang (ci l u) \<longleftrightarrow> s = [l] \<or> s = [u]"
  by (auto simp: ci_def in_cls_def)

lemma lang_alt1: "s \<in> lang r \<Longrightarrow> s \<in> lang (RAlt r q)"
  by simp

lemma lang_seq_one: "lang (RSeq r ROne) = lang r"
  by simp

lemmas prefix_intros = lang_seqI lang_alt1 lang_star_nil lang_any

lemma reply_prefixed: "re_match replyPrefixRe (''Re:'' @ t)"
proof -
  have "[CHR ''R''] @ [CHR ''e''] @ [] @ [CHR '':''] @ t \<in> lang replyPrefixRe"
    unfolding replyPrefixRe_def rseqs.simps
    by (intro prefix_intros) (simp_all add: lang_ci lang_rchr lang_any lang_seq_one lang_alt del: lang.simps)
  then show ?thesis by (simp add: re_match_lang)
qed

lemma forward_prefixed: "re_match forwardPrefixRe (''Fwd:'' @ t)"
proof -
  have "([CHR ''F''] @ [CHR ''w''] @ [CHR ''d'']) @ [] @ [CHR '':''] @ t \<in> lang forwardPrefixRe"
    unfolding forwardPrefixRe_def rseqs.simps ropt_def
    by (intro prefix_intros) (simp_all add: lang_ci lang_rchr lang_any lang_seq_one lang_alt del: lang.simps)
  then show ?thesis by (simp add: re_match_lang)
qed

lemma replyPrefix_nonempty: "\<not> re_match replyPrefixRe []"
  by code_simp

lemma forwardPrefix_nonempty: "\<not> re_match forwardPrefixRe []"
  by code_simp

lemma trimmed_subjects:
  "trim_space (BuildReplySubject s) = BuildReplySubject s" "trim_space (BuildForwardSubject s) = BuildForwardSubject s"
proof -
  have word: "trim_space (''Re: '' @ trim_space s) = ''Re: '' @ trim_space s"
      "trim_space (''Fwd: '' @ trim_space s) = ''Fwd: '' @ trim_space s" if "trim_space s \<noteq> []"
    using trimmed_word [OF trim_space_trimmed that, of "CHR ''R''" "''e: ''"]
      trimmed_word [OF trim_space_trimmed that, of "CHR ''F''" "''wd: ''"]
    by (simp_all add: trimmed_fixed is_space_def)
  have "trim_space ''Re:'' = ''Re:''" "trim_space ''Fwd:'' = ''Fwd:''"
    by (rule trim_space_solid, simp add: solid_ends_def is_space_def)+
  then show "trim_space (BuildReplySubject s) = BuildReplySubject s" "trim_space (BuildForwardSubject s) = BuildForwardSubject s"
    using word by (simp_all add: BuildReplySubject_def BuildForwardSubject_def Let_def del: re_match.simps)
qed

lemma prefixed_subjects:
  "re_match replyPrefixRe (BuildReplySubject s)" "re_match forwardPrefixRe (BuildForwardSubject s)"
  using reply_prefixed [of "[]"] reply_prefixed [of "CHR '' '' # trim_space s"]
    forward_prefixed [of "[]"] forward_prefixed [of "CHR '' '' # trim_space s"]
  by (simp_all add: BuildReplySubject_def BuildForwardSubject_def Let_def del: re_match.simps)

lemma nonempty_subject: "BuildForwardSubject s \<noteq> []"
  by (auto simp: BuildForwardSubject_def Let_def simp del: re_match.simps)

text \<open>
  C21. The subjects of a reply and of a forward are well formed and stable, for every subject,
  in any encoding: each is trimmed and starts with the prefix its pattern asks for; and
  building it again from itself changes nothing, so a thread never collects prefixes.
\<close>

theorem subjects_stable:
  "re_match replyPrefixRe (BuildReplySubject s) \<and> trim_space (BuildReplySubject s) = BuildReplySubject s \<and>
     BuildReplySubject (BuildReplySubject s) = BuildReplySubject s \<and>
   re_match forwardPrefixRe (BuildForwardSubject s) \<and> trim_space (BuildForwardSubject s) = BuildForwardSubject s \<and>
     BuildForwardSubject (BuildForwardSubject s) = BuildForwardSubject s"
proof -
  have "BuildReplySubject t = t" if "trim_space t = t" "re_match replyPrefixRe t" for t
    using that replyPrefix_nonempty by (auto simp: BuildReplySubject_def Let_def simp del: re_match.simps)
  moreover have "BuildForwardSubject t = t" if "trim_space t = t" "re_match forwardPrefixRe t" for t
    using that forwardPrefix_nonempty by (auto simp: BuildForwardSubject_def Let_def simp del: re_match.simps)
  ultimately show ?thesis
    by (simp add: trimmed_subjects prefixed_subjects del: re_match.simps)
qed

lemma bare_is_header_address: "re_match bareAddressRe s \<Longrightarrow> re_match headerAddressRe s"
proof -
  have "lang (rplus (RNeg bare_stop)) \<subseteq> lang (rplus (RNeg address_stop))"
    by (auto simp: lang_plus_neg bare_stop_def in_cls_def simp del: lang.simps)
  then have "lang bareAddressRe \<subseteq> lang headerAddressRe"
    unfolding bareAddressRe_def headerAddressRe_def rseqs.simps by (intro lang_seq_mono subset_refl)
  then show "re_match bareAddressRe s \<Longrightarrow> re_match headerAddressRe s" by (auto simp: re_match_lang)
qed

lemma listed_address_shape:
  "listed_address addrs = Some a \<Longrightarrow> \<exists>c. re_match headerAddressRe c \<and> from_Address a = to_lower c"
  by (auto simp: listed_address_def simp del: re_match.simps split: option.splits dest!: find_SomeD)

lemma angleAddress_shape: "angleAddress s = Some g \<Longrightarrow> re_match headerAddressRe g"
  by (induction s) (auto simp: angle_at_def Let_def simp del: re_match.simps split: if_splits option.splits)

text \<open>
  An address that was read from a header has the shape of one, up to the case of its
  letters, whatever the address-list parser answers.
\<close>

lemma header_address_shape:
  "ParseHeaderAddress parse v = Some a \<Longrightarrow> \<exists>c. re_match headerAddressRe c \<and> from_Address a = to_lower c"
  by (auto simp: ParseHeaderAddress_def bind_eq_Some_conv Let_def simp del: re_match.simps split: if_splits option.splits
      dest: listed_address_shape angleAddress_shape bare_is_header_address)

end
