(* ===== verification/Mail_Client.thy ===== *)
theory Mail_Client
  imports Received_Email
begin

text \<open>
  \<open>client.go\<close>: sending, replying, forwarding and searching. The generated API client is an
  argument: it answers a call with an error or with one of the responses the generated types
  distinguish, and every operation returns the calls it made with its result, \<^term>\<open>None\<close>
  standing for a panic. The generated optional types are options, a zero \<open>time.Time\<close> is
  \<^term>\<open>None\<close>, and \<open>uuid.Parse\<close> is an argument. Rows of a search, gates and details are
  passed through unread and are kept as JSON values.
\<close>

section \<open>The generated types the client reads\<close>

record SendMailInput =
  in_From :: string
  in_To :: string
  in_Subject :: string
  in_BodyText :: "string option"
  in_BodyHTML :: "string option"
  in_InReplyTo :: "string option"
  in_References :: "string list"
  in_Wait :: "bool option"
  in_WaitTimeoutMs :: "int option"
  in_ScheduledAt :: "(int \<times> int) option"

record ReplyInput =
  reply_BodyText :: "string option"
  reply_BodyHTML :: "string option"
  reply_From :: "string option"
  reply_Attachments :: "gval list"
  reply_Wait :: "bool option"

datatype api_call =
    SendEmail SendMailInput "string option"
  | ReplyToEmail ReplyInput string
  | SemanticSearchCall gval

record ErrorResponse =
  er_Code :: string
  er_Message :: string
  er_Gates :: "gval list"
  er_RequestID :: "string option"
  er_Details :: "gval option"

record RateLimitedHeaders =
  rl_RetryAfter :: "int option"
  rl_Limit :: "int option"
  rl_Remaining :: "int option"
  rl_Reset :: "int option"
  rl_Policy :: "string option"
  rl_Response :: ErrorResponse

record IdempotencyReplay =
  replay_Replayed :: bool
  replay_KeySource :: string
  replay_OriginalSentEmailID :: string
  replay_OriginalCreatedAt :: "(int \<times> int) option"
  replay_WindowSeconds :: "int option"

record SendMailResult =
  res_ID :: string
  res_Status :: string
  res_QueueID :: "string option"
  res_Accepted :: "string list"
  res_Rejected :: "string list"
  res_ClientIdempotencyKey :: string
  res_RequestID :: string
  res_ContentHash :: string
  res_IdempotentReplay :: bool
  res_Idempotency :: "IdempotencyReplay option"
  res_DedupReason :: "string option"
  res_DeliveryStatus :: "string option"
  res_SMTPResponseCode :: "int option"
  res_SMTPResponseText :: "string option"
  res_ScheduledAt :: "(int \<times> int) option"

datatype refusal = Gone | BadGateway | BadRequest | Forbidden | InternalServerError | NotFound
  | ServiceUnavailable | Unauthorized | UnprocessableEntity

text \<open>A response of an operation; \<open>ResOther\<close> is one of a type its error mapping does not name.\<close>

datatype api_res =
    ResSent SendMailResult
  | ResFound "gval list" gval
  | ResRefused refusal ErrorResponse
  | ResRateLimited RateLimitedHeaders
  | ResOther string

section \<open>Errors of the API\<close>

record RateLimit =
  limit_Limit :: "int option"
  limit_Remaining :: "int option"
  limit_Reset :: "int option"
  limit_Policy :: "string option"

datatype payload = PResponse ErrorResponse | PRes api_res

record APIError =
  err_StatusCode :: int
  err_Code :: string
  err_Message :: gomsg
  err_RetryAfter :: "int option"
  err_RateLimit :: "RateLimit option"
  err_Gates :: "gval list"
  err_RequestID :: string
  err_Details :: "gval option"
  err_Payload :: payload

datatype client_err = CErr gomsg | CApi APIError

definition apiErrorFromErrorResponse :: "int \<Rightarrow> ErrorResponse \<Rightarrow> APIError" where
  "apiErrorFromErrorResponse status response = \<lparr>err_StatusCode = status, err_Code = er_Code response,
     err_Message = Lit (er_Message response), err_RetryAfter = None, err_RateLimit = None,
     err_Gates = er_Gates response, err_RequestID = deref (er_RequestID response),
     err_Details = er_Details response, err_Payload = PResponse response\<rparr>"

definition rateLimitedError :: "RateLimitedHeaders \<Rightarrow> APIError" where
  "rateLimitedError v =
     (let rateLimit = \<lparr>limit_Limit = rl_Limit v, limit_Remaining = rl_Remaining v, limit_Reset = rl_Reset v,
            limit_Policy = (case rl_Policy v of None \<Rightarrow> None | Some policy \<Rightarrow> if policy \<noteq> [] then Some policy else None)\<rparr>;
          zero = \<lparr>limit_Limit = None, limit_Remaining = None, limit_Reset = None, limit_Policy = None\<rparr>
      in (apiErrorFromErrorResponse 429 (rl_Response v))
        \<lparr>err_RetryAfter := rl_RetryAfter v, err_RateLimit := (if rateLimit \<noteq> zero then Some rateLimit else None)\<rparr>)"

definition unmapped_error :: "string \<Rightarrow> api_res \<Rightarrow> APIError" where
  "unmapped_error message res = \<lparr>err_StatusCode = 0, err_Code = [],
     err_Message = Sprintf message [FType (case res of ResOther t \<Rightarrow> t | _ \<Rightarrow> [])], err_RetryAfter = None,
     err_RateLimit = None, err_Gates = [], err_RequestID = [], err_Details = None, err_Payload = PRes res\<rparr>"

text \<open>The statuses each operation maps a refusal to.\<close>

definition reply_status :: "refusal \<Rightarrow> int option" where
  "reply_status r = (case r of Gone \<Rightarrow> Some 410 | BadGateway \<Rightarrow> Some 502 | BadRequest \<Rightarrow> Some 400
     | Forbidden \<Rightarrow> Some 403 | InternalServerError \<Rightarrow> Some 500 | NotFound \<Rightarrow> Some 404
     | ServiceUnavailable \<Rightarrow> Some 503 | Unauthorized \<Rightarrow> Some 401 | UnprocessableEntity \<Rightarrow> Some 422)"

definition send_status :: "refusal \<Rightarrow> int option" where
  "send_status r = (case r of Gone \<Rightarrow> Some 410 | BadGateway \<Rightarrow> Some 502 | BadRequest \<Rightarrow> Some 400
     | Forbidden \<Rightarrow> Some 403 | InternalServerError \<Rightarrow> Some 500 | ServiceUnavailable \<Rightarrow> Some 503
     | Unauthorized \<Rightarrow> Some 401 | _ \<Rightarrow> None)"

definition search_status :: "refusal \<Rightarrow> int option" where
  "search_status r = (case r of BadRequest \<Rightarrow> Some 400 | Unauthorized \<Rightarrow> Some 401 | Forbidden \<Rightarrow> Some 403
     | InternalServerError \<Rightarrow> Some 500 | ServiceUnavailable \<Rightarrow> Some 503 | _ \<Rightarrow> None)"

definition map_error :: "(refusal \<Rightarrow> int option) \<Rightarrow> string \<Rightarrow> api_res \<Rightarrow> APIError" where
  "map_error status message res = (case res of
     ResRefused r v \<Rightarrow> (case status r of Some n \<Rightarrow> apiErrorFromErrorResponse n v | None \<Rightarrow> unmapped_error message res)
   | ResRateLimited v \<Rightarrow> rateLimitedError v
   | _ \<Rightarrow> unmapped_error message res)"

definition mapReplyError :: "api_res \<Rightarrow> APIError" where
  "mapReplyError res = map_error reply_status ''primitive API reply failed: %T'' res"

definition mapSendError :: "api_res \<Rightarrow> APIError" where
  "mapSendError res = map_error send_status ''primitive API send failed: %T'' res"

definition mapSemanticSearchError :: "api_res \<Rightarrow> APIError" where
  "mapSemanticSearchError res = map_error search_status ''primitive API semantic-search failed: %T'' res"

section \<open>Parameters and their checks\<close>

record SendThread =
  st_InReplyTo :: string
  st_References :: "string list"

record SendParams =
  sp_From :: string
  sp_To :: string
  sp_Subject :: string
  sp_BodyText :: string
  sp_BodyHTML :: string
  sp_Thread :: "SendThread option"
  sp_Wait :: "bool option"
  sp_WaitTimeoutMs :: int
  sp_IdempotencyKey :: string
  sp_ScheduledAt :: "(int \<times> int) option"

record ReplyParams =
  rp_BodyText :: string
  rp_BodyHTML :: string
  rp_From :: string
  rp_Attachments :: "gval list"
  rp_Wait :: "bool option"

record ForwardParams =
  fp_To :: string
  fp_BodyText :: string
  fp_Subject :: string
  fp_From :: string
  fp_IdempotencyKey :: string
  fp_ScheduledAt :: "(int \<times> int) option"

definition addr_cls :: "(char \<times> char) list" where
  "addr_cls = space_cls @ [(CHR ''@'', CHR ''@'')]"

definition emailRegex :: re where
  "emailRegex = rseqs [rplus (RNeg addr_cls), rchr (CHR ''@''), rplus (RNeg addr_cls), rchr (CHR ''.''), rplus (RNeg addr_cls)]"

definition displayEmailRegex :: re where
  "displayEmailRegex = rseqs [rplus (RNeg [(CHR 0x0A, CHR 0x0A)]), rchr (CHR ''<''), rplus (RNeg addr_cls), rchr (CHR ''@''),
     rplus (RNeg addr_cls), rchr (CHR ''.''), rplus (RNeg addr_cls), rchr (CHR ''>'')]"

definition maxFromHeaderLength :: int where "maxFromHeaderLength = 998"
definition maxToHeaderLength :: int where "maxToHeaderLength = 320"

text \<open>Each check answers its error, or nothing.\<close>

definition validateAddressHeader :: "string \<Rightarrow> string \<Rightarrow> gomsg option" where
  "validateAddressHeader field v =
     (let valueLength = int (length (trim_space v));
          maxLength = (if field = ''from'' then maxFromHeaderLength else maxToHeaderLength)
      in if valueLength < 3 then Some (Sprintf ''%s must be at least 3 characters'' [FStr field])
         else if valueLength > maxLength then Some (Sprintf ''%s must be at most %d characters'' [FStr field, FInt maxLength])
         else None)"

definition validateEmailAddress :: "string \<Rightarrow> string \<Rightarrow> gomsg option" where
  "validateEmailAddress field v =
     (if \<not> re_match emailRegex v \<and> \<not> re_match displayEmailRegex v
      then Some (Sprintf ''%s must be a valid email address'' [FStr field]) else None)"

definition first_error :: "gomsg option list \<Rightarrow> gomsg option" where
  "first_error es = Option.bind (find (\<lambda>e. e \<noteq> None) es) id"

definition validateSendParams :: "SendParams \<Rightarrow> gomsg option" where
  "validateSendParams p = first_error [
     validateAddressHeader ''from'' (sp_From p),
     validateAddressHeader ''to'' (sp_To p),
     validateEmailAddress ''to'' (sp_To p),
     (if trim_space (sp_Subject p) = [] then Some (Lit ''subject must be a non-empty string'') else None),
     (if sp_BodyText p = [] \<and> sp_BodyHTML p = [] then Some (Lit ''one of body text or body html is required'') else None),
     (if sp_WaitTimeoutMs p \<noteq> 0 \<and> (sp_WaitTimeoutMs p < 1000 \<or> sp_WaitTimeoutMs p > 30000)
      then Some (Lit ''wait timeout ms must be between 1000 and 30000'') else None),
     (if sp_ScheduledAt p \<noteq> None \<and> sp_Wait p = Some True
      then Some (Lit ''wait cannot be combined with scheduled at (a scheduled send resolves after this request completes)'') else None)]"

definition validateForwardParams :: "ForwardParams \<Rightarrow> gomsg option" where
  "validateForwardParams p = first_error [
     validateEmailAddress ''to'' (fp_To p),
     (if fp_From p \<noteq> [] then validateEmailAddress ''from'' (fp_From p) else None),
     (if fp_Subject p \<noteq> [] \<and> trim_space (fp_Subject p) = [] then Some (Lit ''subject must be a non-empty string'') else None)]"

section \<open>Results\<close>

record SendIdempotency =
  idem_Replayed :: bool
  idem_KeySource :: string
  idem_OriginalSentEmailID :: string
  idem_OriginalCreatedAt :: "(int \<times> int) option"
  idem_WindowSeconds :: "int option"

record SendResult =
  sr_ID :: string
  sr_Status :: string
  sr_QueueID :: "string option"
  sr_Accepted :: "string list"
  sr_Rejected :: "string list"
  sr_ClientIdempotencyKey :: string
  sr_RequestID :: string
  sr_ContentHash :: string
  sr_IdempotentReplay :: bool
  sr_Idempotency :: "SendIdempotency option"
  sr_DedupReason :: string
  sr_DeliveryStatus :: "string option"
  sr_SMTPResponseCode :: "int option"
  sr_SMTPResponseText :: "string option"
  sr_ScheduledAt :: "(int \<times> int) option"

definition mapSendMailResult :: "SendMailResult \<Rightarrow> SendResult" where
  "mapSendMailResult d = \<lparr>sr_ID = res_ID d, sr_Status = res_Status d, sr_QueueID = res_QueueID d,
     sr_Accepted = res_Accepted d, sr_Rejected = res_Rejected d,
     sr_ClientIdempotencyKey = res_ClientIdempotencyKey d, sr_RequestID = res_RequestID d,
     sr_ContentHash = res_ContentHash d, sr_IdempotentReplay = res_IdempotentReplay d,
     sr_Idempotency = (case res_Idempotency d of None \<Rightarrow> None
       | Some replay \<Rightarrow> Some \<lparr>idem_Replayed = replay_Replayed replay, idem_KeySource = replay_KeySource replay,
           idem_OriginalSentEmailID = replay_OriginalSentEmailID replay,
           idem_OriginalCreatedAt = replay_OriginalCreatedAt replay,
           idem_WindowSeconds = replay_WindowSeconds replay\<rparr>),
     sr_DedupReason = deref (res_DedupReason d), sr_DeliveryStatus = res_DeliveryStatus d,
     sr_SMTPResponseCode = res_SMTPResponseCode d, sr_SMTPResponseText = res_SMTPResponseText d,
     sr_ScheduledAt = res_ScheduledAt d\<rparr>"

section \<open>The client\<close>

type_synonym api = "api_call \<Rightarrow> gomsg + api_res"

text \<open>The two generated clients, \<^term>\<open>None\<close> for a nil interface; an operation answers nothing
  when it panics.\<close>

record Client =
  cl_api :: "api option"
  cl_apiSend :: "api option"

type_synonym 'a outcome = "(api_call list \<times> (client_err + 'a)) option"

definition refuse :: "gomsg \<Rightarrow> 'a outcome" where
  "refuse m = Some ([], Inl (CErr m))"

definition call_api :: "api option \<Rightarrow> api_call \<Rightarrow> (api_res \<Rightarrow> client_err + 'a) \<Rightarrow> 'a outcome" where
  "call_api api call k = (case api of None \<Rightarrow> None
     | Some f \<Rightarrow> (case f call of Inl e \<Rightarrow> Some ([call], Inl (CErr e)) | Inr res \<Rightarrow> Some ([call], k res)))"

definition NewClientFromAPI :: "api \<Rightarrow> Client" where
  "NewClientFromAPI apiClient = \<lparr>cl_api = Some apiClient, cl_apiSend = Some apiClient\<rparr>"

definition if_text :: "string \<Rightarrow> string option" where
  "if_text s = (if s \<noteq> [] then Some s else None)"

definition send_request :: "SendParams \<Rightarrow> SendMailInput" where
  "send_request p = \<lparr>in_From = sp_From p, in_To = sp_To p, in_Subject = sp_Subject p,
     in_BodyText = if_text (sp_BodyText p), in_BodyHTML = if_text (sp_BodyHTML p),
     in_InReplyTo = (case sp_Thread p of None \<Rightarrow> None | Some t \<Rightarrow> if_text (st_InReplyTo t)),
     in_References = (case sp_Thread p of None \<Rightarrow> [] | Some t \<Rightarrow> st_References t),
     in_Wait = sp_Wait p, in_WaitTimeoutMs = (if sp_WaitTimeoutMs p \<noteq> 0 then Some (sp_WaitTimeoutMs p) else None),
     in_ScheduledAt = sp_ScheduledAt p\<rparr>"

definition send_reply :: "api_res \<Rightarrow> client_err + SendResult" where
  "send_reply res = (case res of ResSent data \<Rightarrow> Inr (mapSendMailResult data) | _ \<Rightarrow> Inl (CApi (mapSendError res)))"

definition Send :: "Client option \<Rightarrow> SendParams \<Rightarrow> SendResult outcome" where
  "Send c params = (case c of None \<Rightarrow> refuse (Lit ''client is not configured'')
     | Some client \<Rightarrow>
       if cl_api client = None then refuse (Lit ''client is not configured'')
       else (case validateSendParams params of Some e \<Rightarrow> refuse e
         | None \<Rightarrow> call_api (cl_apiSend client) (SendEmail (send_request params) (if_text (sp_IdempotencyKey params))) send_reply))"

definition reply_body :: "ReplyParams \<Rightarrow> ReplyInput" where
  "reply_body input = \<lparr>reply_BodyText = if_text (rp_BodyText input), reply_BodyHTML = if_text (rp_BodyHTML input),
     reply_From = if_text (rp_From input), reply_Attachments = rp_Attachments input, reply_Wait = rp_Wait input\<rparr>"

definition Reply :: "(string \<Rightarrow> string option) \<Rightarrow> Client option \<Rightarrow> ReceivedEmail option \<Rightarrow> ReplyParams \<Rightarrow> SendResult outcome" where
  "Reply uuid_parse c email input = (case Option.bind c cl_apiSend of None \<Rightarrow> refuse (Lit ''client is not configured'')
     | Some apiSend \<Rightarrow> (case email of None \<Rightarrow> refuse (Lit ''email is required'')
         | Some mail \<Rightarrow>
           if trim_space (rp_BodyText input) = [] \<and> trim_space (rp_BodyHTML input) = []
           then refuse (Lit ''reply requires BodyText or BodyHTML'')
           else (case uuid_parse (mail_ID mail) of
               None \<Rightarrow> refuse (Sprintf ''invalid email id %q: %w'' [FStr (mail_ID mail), FErr ''uuid''])
             | Some emailID \<Rightarrow> call_api (Some apiSend) (ReplyToEmail (reply_body input) emailID)
                 (\<lambda>res. case res of ResSent data \<Rightarrow> Inr (mapSendMailResult data) | _ \<Rightarrow> Inl (CApi (mapReplyError res))))))"

definition firstNonEmpty :: "string list \<Rightarrow> string" where
  "firstNonEmpty candidates = deref (find (\<lambda>s. trim_space s \<noteq> []) candidates)"

definition buildForwardText :: "ReceivedEmail \<Rightarrow> string \<Rightarrow> string" where
  "buildForwardText email intro =
     (let headers = email_Headers (received_Email (mail_Raw email));
          parts = (if trim_space intro \<noteq> [] then [trim_space intro, []] else []) @
            [''---------- Forwarded message ----------'',
             ''From: '' @ FormatAddress (mail_Sender email),
             ''To: '' @ hdr_To headers,
             ''Subject: '' @ mail_Subject email] @
            (case hdr_Date headers of None \<Rightarrow> [] | Some d \<Rightarrow> [''Date: '' @ d]) @
            (if thread_MessageID (mail_Thread email) \<noteq> [] then [''Message-ID: '' @ thread_MessageID (mail_Thread email)] else []) @
            [[], mail_Text email]
      in trim_right_chars [CHR 0x0A] (join [CHR 0x0A] parts))"

definition forward_params :: "ReceivedEmail \<Rightarrow> ForwardParams \<Rightarrow> SendParams" where
  "forward_params email input = \<lparr>sp_From = firstNonEmpty [fp_From input, mail_ReceivedBy email], sp_To = fp_To input,
     sp_Subject = firstNonEmpty [fp_Subject input, mail_ForwardSubject email],
     sp_BodyText = buildForwardText email (fp_BodyText input), sp_BodyHTML = [], sp_Thread = None, sp_Wait = None,
     sp_WaitTimeoutMs = 0, sp_IdempotencyKey = fp_IdempotencyKey input, sp_ScheduledAt = fp_ScheduledAt input\<rparr>"

definition Forward :: "Client option \<Rightarrow> ReceivedEmail option \<Rightarrow> ForwardParams \<Rightarrow> SendResult outcome" where
  "Forward c email input = (case email of None \<Rightarrow> refuse (Lit ''email is required'')
     | Some mail \<Rightarrow> (case validateForwardParams input of Some e \<Rightarrow> refuse e
         | None \<Rightarrow> Send c (forward_params mail input)))"

definition SemanticSearch :: "Client option \<Rightarrow> gval option \<Rightarrow> (gval list \<times> gval) outcome" where
  "SemanticSearch c request = (case Option.bind c cl_apiSend of None \<Rightarrow> refuse (Lit ''client is not configured'')
     | Some apiSend \<Rightarrow> (case request of None \<Rightarrow> refuse (Lit ''request is required'')
         | Some r \<Rightarrow> call_api (Some apiSend) (SemanticSearchCall r)
             (\<lambda>res. case res of ResFound data meta \<Rightarrow> Inr (data, meta) | _ \<Rightarrow> Inl (CApi (mapSemanticSearchError res)))))"

section \<open>Properties\<close>

lemma first_error_None: "first_error es = None \<longleftrightarrow> (\<forall>e \<in> set es. e = None)"
  by (induction es) (auto simp: first_error_def)

lemma call_api_calls:
  "call_api (Some f) call k = Some (calls, r) \<longleftrightarrow> calls = [call] \<and> r = (case f call of Inl e \<Rightarrow> Inl (CErr e) | Inr res \<Rightarrow> k res)"
  by (auto simp: call_api_def split: sum.splits)

lemma set_join: "x \<in> set xs \<Longrightarrow> set x \<subseteq> set (join sep xs)"
  by (induction sep xs rule: join.induct) auto

lemma trim_right_keeps: "c \<in> set s \<Longrightarrow> c \<notin> set cs \<Longrightarrow> trim_right_chars cs s \<noteq> []"
  by (auto simp: trim_right_chars_def)

lemma forward_text_nonempty: "buildForwardText email intro \<noteq> []"
proof -
  have "CHR ''F'' \<in> set (join sep parts)" if "''---------- Forwarded message ----------'' \<in> set parts" for sep parts
    by (rule subsetD [OF set_join [OF that]]) simp
  then show ?thesis
    unfolding buildForwardText_def Let_def by (intro trim_right_keeps [where c = "CHR ''F''"]) simp_all
qed

lemma firstNonEmpty_blank: "trim_space b \<noteq> [] \<Longrightarrow> trim_space (firstNonEmpty [a, b]) \<noteq> []"
  by (simp add: firstNonEmpty_def deref_def)

text \<open>
  C22. What \<open>Forward\<close> does with an email that came from a request: it either refuses and
  calls nothing, or makes exactly one \<open>SendEmail\<close> call with the recipient asked for, a sender
  and a subject that are not blank where one of the two candidates is not, and a text, under
  the idempotency key asked for. It refuses exactly when the recipient, or a sender asked for,
  is no address, a subject asked for is blank, or the sender or the recipient is too short
  or too long: the subject and the text it builds always pass the checks of \<open>Send\<close>.
\<close>

theorem forward_sends_once:
  assumes "NormalizeReceivedEmail parse event = Inr mail"
  shows "Forward (Some (NewClientFromAPI api)) (Some mail) input =
     (case first_error [validateForwardParams input,
        validateAddressHeader ''from'' (firstNonEmpty [fp_From input, mail_ReceivedBy mail]),
        validateAddressHeader ''to'' (fp_To input)] of
        Some e \<Rightarrow> refuse e
      | None \<Rightarrow> call_api (Some api) (SendEmail (send_request (forward_params mail input)) (if_text (fp_IdempotencyKey input))) send_reply) \<and>
     trim_space (in_Subject (send_request (forward_params mail input))) \<noteq> [] \<and>
     in_BodyText (send_request (forward_params mail input)) = Some (buildForwardText mail (fp_BodyText input))"
proof -
  have "mail_ForwardSubject mail = BuildForwardSubject (mail_Subject mail)"
    using assms by (auto simp: NormalizeReceivedEmail_def Let_def split: list.splits)
  then have "trim_space (mail_ForwardSubject mail) \<noteq> []" by (simp add: trimmed_subjects nonempty_subject)
  then have subj: "trim_space (sp_Subject (forward_params mail input)) \<noteq> []"
    by (simp add: forward_params_def firstNonEmpty_blank)
  then have filled: "trim_space (in_Subject (send_request (forward_params mail input))) \<noteq> [] \<and>
     in_BodyText (send_request (forward_params mail input)) = Some (buildForwardText mail (fp_BodyText input))"
    by (simp add: send_request_def if_text_def forward_params_def forward_text_nonempty)
  have to: "validateForwardParams input = None \<Longrightarrow> validateEmailAddress ''to'' (fp_To input) = None"
    by (simp add: validateForwardParams_def first_error_None)
  have fields: "sp_From (forward_params mail input) = firstNonEmpty [fp_From input, mail_ReceivedBy mail]"
      "sp_To (forward_params mail input) = fp_To input" "sp_BodyText (forward_params mail input) \<noteq> []"
      "sp_Wait (forward_params mail input) = None" "sp_WaitTimeoutMs (forward_params mail input) = 0"
      "sp_IdempotencyKey (forward_params mail input) = fp_IdempotencyKey input"
    by (simp_all add: forward_params_def forward_text_nonempty)
  have checks: "validateForwardParams input = None \<Longrightarrow> validateSendParams (forward_params mail input) =
      first_error [validateAddressHeader ''from'' (firstNonEmpty [fp_From input, mail_ReceivedBy mail]),
        validateAddressHeader ''to'' (fp_To input)]"
    using subj to fields by (simp add: validateSendParams_def first_error_def)
  have "Forward (Some (NewClientFromAPI api)) (Some mail) input =
     (case first_error [validateForwardParams input,
        validateAddressHeader ''from'' (firstNonEmpty [fp_From input, mail_ReceivedBy mail]),
        validateAddressHeader ''to'' (fp_To input)] of
        Some e \<Rightarrow> refuse e
      | None \<Rightarrow> call_api (Some api) (SendEmail (send_request (forward_params mail input)) (if_text (fp_IdempotencyKey input))) send_reply)"
    using checks by (cases "validateForwardParams input")
      (simp_all add: Forward_def Send_def NewClientFromAPI_def fields first_error_def split: option.split)
  then show ?thesis using filled by blast
qed

definition example_received :: EmailReceivedEvent where
  "example_received = EmailReceivedEvent_zero\<lparr>received_Email := Email_zero\<lparr>email_SMTP :=
     SMTPEnvelope_zero\<lparr>smtp_RcptTo := [''me@example.com'']\<rparr>\<rparr>\<rparr>"

theorem forward_sends_once_witness:
  "\<exists>mail. NormalizeReceivedEmail (\<lambda>_. None) example_received = Inr mail \<and>
     trim_space (in_Subject (send_request (forward_params mail
       \<lparr>fp_To = ''you@example.com'', fp_BodyText = [], fp_Subject = [], fp_From = [], fp_IdempotencyKey = [], fp_ScheduledAt = None\<rparr>))) \<noteq> []"
proof -
  obtain mail where m: "NormalizeReceivedEmail (\<lambda>_. None) example_received = Inr mail"
    by (simp add: NormalizeReceivedEmail_def example_received_def EmailReceivedEvent_zero_def Email_zero_def
        SMTPEnvelope_zero_def Let_def)
  then show ?thesis using forward_sends_once [OF m] by blast
qed

end
