(* ===== verification/Event_Table.thy ===== *)
theory Event_Table
  imports Email_Types
begin

text \<open>
  Who may receive on a subscription (\<open>EventsResource\<close> of \<open>event_receiver.go\<close>): the options a
  caller passes, the check of them, and the table of active subscriptions with the
  function that gives an entry back. Both sides run under the resource's mutex, so each is
  one step on its state.
\<close>

section \<open>Errors and options\<close>

datatype ctx_err = Canceled | DeadlineExceeded

text \<open>An \<open>EventReceiverError\<close> with code, status and delay in nanoseconds; an error of the context;
  an error of another package; an error made by \<open>errors.New\<close>.\<close>

datatype evt_error =
    Recv (evt_Code: string) (evt_Status: int) (evt_RetryAfter: int)
  | CtxErr ctx_err
  | NetErr string
  | Plain string

definition AgentConnectionRequired :: string where
  "AgentConnectionRequired = ''pull_subscription_requires_agent_connection''"

definition agentConnectionRequiredMessage :: string where
  "agentConnectionRequiredMessage = ''event subscriptions require a connected agent credential (an API key starting with pconn_), which limits them to one address; with an account API key, receive mail with GET /emails?since=<cursor>&wait=30 or an HTTP webhook endpoint instead''"

definition EventReceiverError_Error :: "string \<Rightarrow> int \<Rightarrow> string" where
  "EventReceiverError_Error code status =
     (if code = AgentConnectionRequired then agentConnectionRequiredMessage
      else ''event receiver failed ('' @ code @ '', HTTP '' @ itoa status @ '')'')"

definition recv :: "string \<Rightarrow> evt_error" where
  "recv code = Recv code 0 0"

definition ErrDeliveryExpired :: evt_error where
  "ErrDeliveryExpired = Recv ''delivery_expired'' 409 0"

record EventOptions =
  eo_Subscription :: string
  eo_Events :: "string list option"
  eo_Transport :: string
  eo_HasOnStatus :: bool
  eo_OnGapError :: bool

definition word_cls :: "(char \<times> char) list" where
  "word_cls = [(CHR ''a'', CHR ''z''), (CHR ''A'', CHR ''Z''), (CHR ''0'', CHR ''9'')]"

definition subscriptionPattern :: re where
  "subscriptionPattern = RSeq (RCls word_cls) (rupto 63 (RCls ([(CHR ''_'', CHR ''_''), (CHR ''-'', CHR ''-'')] @ word_cls)))"

definition options_error :: "EventOptions \<Rightarrow> evt_error option" where
  "options_error options =
     (if \<not> re_match subscriptionPattern (eo_Subscription options) then
        Some (Plain ''subscription must be 1-64 letters, digits, underscores or hyphens, starting with a letter or digit'')
      else if (case eo_Events options of None \<Rightarrow> False | Some es \<Rightarrow> es = [] \<or> 50 < length es) then
        Some (Plain ''events must contain 1-50 nonempty names'')
      else if (case eo_Events options of None \<Rightarrow> False | Some es \<Rightarrow> list_ex (\<lambda>e. trim_space e = []) es) then
        Some (Plain ''events must contain nonempty names'')
      else if eo_Transport options \<notin> {[], ''websocket'', ''poll''} then
        Some (Plain ''transport must be websocket or poll'')
      else None)"

section \<open>The table\<close>

text \<open>
  \<open>res_given\<close> lists the release functions handed out, each with its subscription and whether
  its \<open>sync.Once\<close> has run; a release function is named by its position.
\<close>

record EventsResource =
  res_hasAPI :: bool
  res_active :: "string set"
  res_given :: "(string \<times> bool) list"

definition newEventsResource :: "bool \<Rightarrow> EventsResource" where
  "newEventsResource isReceiver = \<lparr>res_hasAPI = isReceiver, res_active = {}, res_given = []\<rparr>"

text \<open>The part of \<open>reserve\<close> under the mutex.\<close>

definition take_entry :: "string \<Rightarrow> EventsResource \<Rightarrow> (nat \<times> EventsResource) option" where
  "take_entry sub r = (if sub \<in> res_active r then None
     else Some (length (res_given r),
       r\<lparr>res_active := insert sub (res_active r), res_given := res_given r @ [(sub, False)]\<rparr>))"

definition reserve :: "EventOptions \<Rightarrow> EventsResource \<Rightarrow> (evt_error + nat) \<times> EventsResource" where
  "reserve options r =
     (case options_error options of
        Some e \<Rightarrow> (Inl e, r)
      | None \<Rightarrow>
          if \<not> res_hasAPI r then (Inl (recv ''unsupported''), r)
          else (case take_entry (eo_Subscription options) r of
              None \<Rightarrow> (Inl (Recv ''busy'' 409 0), r)
            | Some (h, r') \<Rightarrow> (Inr h, r')))"

definition release :: "nat \<Rightarrow> EventsResource \<Rightarrow> EventsResource" where
  "release h r =
     (if h < length (res_given r) then
        (case res_given r ! h of (sub, spent) \<Rightarrow>
           if spent then r
           else r\<lparr>res_active := res_active r - {sub}, res_given := (res_given r)[h := (sub, True)]\<rparr>)
      else r)"

section \<open>Exclusive leases\<close>

text \<open>
  What the callers of \<open>reserve\<close> rely on: a key is leased to at most one handle, and a handle
  gives back only what it still holds.
\<close>

locale lease_table =
  fixes acquire :: "'k \<Rightarrow> 's \<Rightarrow> ('h \<times> 's) option"
    and giveback :: "'h \<Rightarrow> 's \<Rightarrow> 's"
    and holder :: "'s \<Rightarrow> 'h \<Rightarrow> 'k option"
    and ok :: "'s \<Rightarrow> bool"
  assumes acquire_iff: "ok s \<Longrightarrow> acquire k s = None \<longleftrightarrow> k \<in> ran (holder s)"
    and acquire_ok: "ok s \<Longrightarrow> acquire k s = Some (h, s') \<Longrightarrow> ok s'"
    and acquire_holder: "ok s \<Longrightarrow> acquire k s = Some (h, s') \<Longrightarrow> holder s h = None \<and> holder s' = (holder s)(h \<mapsto> k)"
    and giveback_ok: "ok s \<Longrightarrow> ok (giveback h s)"
    and giveback_holder: "ok s \<Longrightarrow> holder (giveback h s) = (holder s)(h := None)"
begin

inductive reach :: "'s \<Rightarrow> 's \<Rightarrow> bool" for s0 where
  start: "reach s0 s0"
| taken: "reach s0 s \<Longrightarrow> acquire k s = Some (h, s') \<Longrightarrow> reach s0 s'"
| given: "reach s0 s \<Longrightarrow> reach s0 (giveback h s)"

lemma reach_ok: "reach s0 s \<Longrightarrow> ok s0 \<Longrightarrow> ok s"
  by (induction rule: reach.induct) (auto intro: acquire_ok giveback_ok)

lemma exclusive:
  assumes "reach s0 s" "ok s0" "inj_on (holder s0) (dom (holder s0))"
  shows "inj_on (holder s) (dom (holder s))"
  using assms(1)
proof induction
  case (taken s k h s')
  have ok: "ok s" using taken.hyps(1) assms(2) reach_ok by blast
  then have "k \<notin> ran (holder s)" using acquire_iff [OF ok, of k] taken.hyps(2) by auto
  then show ?case using taken.IH acquire_holder [OF ok taken.hyps(2)]
    by (auto simp: inj_on_def dom_def ran_def)
next
  case (given s h)
  have "ok s" using given.hyps(1) assms(2) reach_ok by blast
  then show ?case using given.IH by (auto simp: giveback_holder inj_on_def dom_def)
qed (rule assms(3))

lemma stale_giveback: "ok s \<Longrightarrow> holder s h = None \<Longrightarrow> holder (giveback h s) = holder s"
  by (auto simp: giveback_holder)

lemma reacquire:
  assumes "ok s" "inj_on (holder s) (dom (holder s))" "holder s h = Some k"
  shows "\<exists>h' s'. acquire k (giveback h s) = Some (h', s')"
proof -
  have "k \<notin> ran (holder (giveback h s))"
    using assms by (auto simp: giveback_holder ran_def inj_on_def dom_def)
  then have "acquire k (giveback h s) \<noteq> None" using acquire_iff [OF giveback_ok [OF assms(1)]] by blast
  then show ?thesis by auto
qed

end

definition res_holder :: "EventsResource \<Rightarrow> nat \<Rightarrow> string option" where
  "res_holder r h = (if h < length (res_given r) \<and> \<not> snd (res_given r ! h) then Some (fst (res_given r ! h)) else None)"

text \<open>Active are exactly the subscriptions with an unspent release function.\<close>

definition res_ok :: "EventsResource \<Rightarrow> bool" where
  "res_ok r \<longleftrightarrow> res_active r = ran (res_holder r) \<and> inj_on (res_holder r) (dom (res_holder r))"

lemma take_entry_holder:
  "take_entry k r = Some (h, r') \<Longrightarrow> res_holder r h = None \<and> res_holder r' = (res_holder r)(h \<mapsto> k)"
  by (auto simp: take_entry_def res_holder_def nth_append fun_eq_iff split: if_splits)

lemma release_holder: "res_holder (release h r) = (res_holder r)(h := None)"
  by (auto simp: release_def res_holder_def fun_eq_iff nth_list_update split: prod.splits)

lemma release_unheld: "res_holder r h = None \<Longrightarrow> release h r = r"
  by (cases "res_given r ! h") (auto simp: release_def res_holder_def split: if_splits)

lemma release_held: "res_holder r h = Some sub \<Longrightarrow> res_active (release h r) = res_active r - {sub}"
  by (cases "res_given r ! h") (auto simp: release_def res_holder_def split: if_splits)

lemma inj_drop: "inj_on m (dom m) \<Longrightarrow> inj_on (m(h := None)) (dom (m(h := None)))"
  by (auto simp: inj_on_def)

lemma inj_add: "inj_on m (dom m) \<Longrightarrow> k \<notin> ran m \<Longrightarrow> inj_on (m(h \<mapsto> k)) (dom (m(h \<mapsto> k)))"
  by (auto simp: inj_on_def ran_def dom_def)

lemma ran_drop: "inj_on m (dom m) \<Longrightarrow> m h = Some k \<Longrightarrow> ran (m(h := None)) = ran m - {k}"
  by (fastforce simp: ran_def inj_on_def dom_def split: if_splits)

lemma take_entry_active:
  "take_entry k r = Some (h, r') \<Longrightarrow> k \<notin> res_active r \<and> res_active r' = insert k (res_active r)"
  by (auto simp: take_entry_def split: if_splits)

interpretation events: lease_table take_entry release res_holder res_ok
proof
  fix s k h s'
  assume ok: "res_ok s"
  show "take_entry k s = None \<longleftrightarrow> k \<in> ran (res_holder s)"
    using ok by (simp add: take_entry_def res_ok_def)
  show "res_holder (release h s) = (res_holder s)(h := None)" by (rule release_holder)
  have "res_active (release h s) = ran (res_holder (release h s))"
  proof (cases "res_holder s h")
    case None
    then show ?thesis using ok by (simp add: release_unheld release_holder res_ok_def fun_upd_idem)
  next
    case (Some sub)
    then show ?thesis using ok ran_drop [of "res_holder s" h sub] by (simp add: release_held release_holder res_ok_def)
  qed
  then show "res_ok (release h s)"
    using ok inj_drop [of "res_holder s" h] by (simp add: res_ok_def release_holder)
  assume t: "take_entry k s = Some (h, s')"
  show h: "res_holder s h = None \<and> res_holder s' = (res_holder s)(h \<mapsto> k)" by (rule take_entry_holder [OF t])
  have "k \<notin> ran (res_holder s)" "res_active s' = insert k (res_active s)"
    using take_entry_active [OF t] ok unfolding res_ok_def by simp_all
  moreover have "inj_on (res_holder s') (dom (res_holder s'))"
    using inj_add [of "res_holder s" k h] ok h calculation(1) by (simp add: res_ok_def)
  ultimately show "res_ok s'" using ok h by (simp add: res_ok_def)
qed

section \<open>Calls in sequence\<close>

datatype table_call = Reserve EventOptions | Release nat

fun table_step :: "table_call \<Rightarrow> EventsResource \<Rightarrow> EventsResource" where
  "table_step (Reserve options) r = snd (reserve options r)"
| "table_step (Release h) r = release h r"

lemma reserve_cases:
  obtains (refused) e where "reserve options r = (Inl e, r)"
  | (taken) h r' where "reserve options r = (Inr h, r')" "take_entry (eo_Subscription options) r = Some (h, r')"
      "options_error options = None" "res_hasAPI r"
proof (cases "options_error options = None \<and> res_hasAPI r \<and> take_entry (eo_Subscription options) r \<noteq> None")
  case True
  then show ?thesis using taken by (auto simp: reserve_def)
next
  case False
  then have "\<exists>e. reserve options r = (Inl e, r)" by (auto simp: reserve_def split: option.splits)
  then show ?thesis using refused by blast
qed

lemma new_ok: "res_ok (newEventsResource b)"
proof -
  have "res_holder (newEventsResource b) = Map.empty" by (auto simp: newEventsResource_def res_holder_def)
  then show ?thesis by (simp add: res_ok_def newEventsResource_def)
qed

lemma calls_reach: "events.reach r (fold table_step calls r)"
proof (induction calls rule: rev_induct)
  case (snoc c calls)
  then show ?case
  proof (cases c)
    case (Reserve options)
    then show ?thesis using snoc
      by (cases rule: reserve_cases [of options "fold table_step calls r"]) (auto intro: events.reach.intros)
  qed (auto intro: events.reach.intros)
qed (simp add: events.reach.start)

lemma calls_ok: "res_ok (fold table_step calls (newEventsResource b))"
  using events.reach_ok [OF calls_reach new_ok] .

lemma calls_api: "res_hasAPI (fold table_step calls r) = res_hasAPI r"
proof (induction calls rule: rev_induct)
  case (snoc c calls)
  then show ?case
    by (cases c) (auto simp: release_def reserve_def take_entry_def split: prod.splits option.splits if_splits)
qed simp

section \<open>Properties\<close>

text \<open>
  C30. At most one receiver holds a subscription: after any sequence of reservations and
  releases, whatever was called twice, the active subscriptions are those of the release
  functions that have not run, no two of these share one, a reservation succeeds exactly
  for valid options whose subscription is free, and a release frees what its caller holds
  and nothing else.
\<close>

theorem reservations_exclusive:
  "let r = fold table_step calls (newEventsResource b) in
     res_active r = ran (res_holder r) \<and> inj_on (res_holder r) (dom (res_holder r)) \<and>
     ((\<exists>h. fst (reserve options r) = Inr h) \<longleftrightarrow>
        options_error options = None \<and> b \<and> eo_Subscription options \<notin> ran (res_holder r)) \<and>
     res_holder (release h r) = (res_holder r)(h := None)"
proof -
  let ?r = "fold table_step calls (newEventsResource b)"
  have ok: "res_ok ?r" by (rule calls_ok)
  have "res_hasAPI ?r = b" unfolding calls_api by (simp add: newEventsResource_def)
  then have "(\<exists>h. fst (reserve options ?r) = Inr h) \<longleftrightarrow>
      options_error options = None \<and> b \<and> take_entry (eo_Subscription options) ?r \<noteq> None"
    by (auto simp: reserve_def split: option.splits)
  then have "(\<exists>h. fst (reserve options ?r) = Inr h) \<longleftrightarrow>
      options_error options = None \<and> b \<and> eo_Subscription options \<notin> ran (res_holder ?r)"
    unfolding events.acquire_iff [OF ok] .
  then show ?thesis using ok events.giveback_holder [OF ok, of h] unfolding Let_def res_ok_def by simp
qed

end
