(* ===== verification/Client_Setup.thy ===== *)
theory Client_Setup
  imports Mail_Client Event_Table
begin

text \<open>
  How a client is put together: the token source of \<open>api/helpers.go\<close>, the constructors of
  \<open>client.go\<close> and what \<open>api/event_transport.go\<close> tells the event receiver about a connection. The
  constructor of the generated client is an argument: from a base URL, a token source and its
  options it makes a client or fails.
\<close>

section \<open>Credentials\<close>

definition DefaultAPIBaseURL1 :: string where "DefaultAPIBaseURL1 = ''https://www.primitive.dev/api/v1''"
definition DefaultAPIBaseURL2 :: string where "DefaultAPIBaseURL2 = ''https://api.primitive.dev/v1''"
definition DefaultBaseURL :: string where "DefaultBaseURL = DefaultAPIBaseURL1"

record StaticTokenSource =
  ts_APIKey :: string
  ts_DownloadTokenValue :: string

definition NewStaticTokenSource :: "string \<Rightarrow> string \<Rightarrow> StaticTokenSource" where
  "NewStaticTokenSource apiKey downloadToken = \<lparr>ts_APIKey = apiKey, ts_DownloadTokenValue = downloadToken\<rparr>"

text \<open>The error that makes the generated client leave a security scheme out.\<close>

datatype security_error = ErrSkipClientSecurity

definition BearerAuth :: "StaticTokenSource \<Rightarrow> security_error + string" where
  "BearerAuth s = (if ts_APIKey s = [] then Inl ErrSkipClientSecurity else Inr (ts_APIKey s))"

definition DownloadToken :: "StaticTokenSource \<Rightarrow> security_error + string" where
  "DownloadToken s = (if ts_DownloadTokenValue s = [] then Inl ErrSkipClientSecurity else Inr (ts_DownloadTokenValue s))"

text \<open>The origin, the token, empty where there is none, and the error.\<close>

definition ReceiverConnection :: "string \<Rightarrow> StaticTokenSource \<Rightarrow> string \<times> string \<times> security_error option" where
  "ReceiverConnection requestURL s =
     (case BearerAuth s of Inl e \<Rightarrow> (requestURL, [], Some e) | Inr token \<Rightarrow> (requestURL, token, None))"

section \<open>Constructors\<close>

type_synonym ('o, 'c) new_api = "string \<Rightarrow> StaticTokenSource \<Rightarrow> 'o list \<Rightarrow> gomsg + 'c"

definition NewAPIClient :: "('o, 'c) new_api \<Rightarrow> string \<Rightarrow> 'o list \<Rightarrow> gomsg + 'c" where
  "NewAPIClient newAPI apiKey opts = newAPI DefaultBaseURL (NewStaticTokenSource apiKey []) opts"

record 'o ClientOptions =
  co_APIBaseURL1 :: string
  co_APIBaseURL2 :: string
  co_Extra :: "'o list"

record SDKClient = Client +
  cl_Events :: EventsResource

definition base_url :: "string \<Rightarrow> string \<Rightarrow> string" where
  "base_url asked default_url = (if asked = [] then default_url else asked)"

text \<open>A generated client has the methods of a receiver.\<close>

definition NewClientWithOptions :: "('o, api) new_api \<Rightarrow> string \<Rightarrow> 'o ClientOptions \<Rightarrow> gomsg + SDKClient" where
  "NewClientWithOptions newAPI apiKey options =
     (let tokenSource = NewStaticTokenSource apiKey []
      in case newAPI (base_url (co_APIBaseURL1 options) DefaultAPIBaseURL1) tokenSource (co_Extra options) of
           Inl e \<Rightarrow> Inl e
         | Inr apiClient \<Rightarrow>
             (case newAPI (base_url (co_APIBaseURL2 options) DefaultAPIBaseURL2) tokenSource (co_Extra options) of
                Inl e \<Rightarrow> Inl e
              | Inr apiSendClient \<Rightarrow> Inr \<lparr>cl_api = Some apiClient, cl_apiSend = Some apiSendClient,
                  cl_Events = newEventsResource True\<rparr>))"

definition NewClient :: "('o, api) new_api \<Rightarrow> string \<Rightarrow> 'o list \<Rightarrow> gomsg + SDKClient" where
  "NewClient newAPI apiKey opts =
     NewClientWithOptions newAPI apiKey \<lparr>co_APIBaseURL1 = [], co_APIBaseURL2 = [], co_Extra = opts\<rparr>"

section \<open>Properties\<close>

lemma same_host:
  assumes "cl_api c \<noteq> None" "cl_apiSend c = Some f"
  shows "Send (Some c) p = Send (Some (NewClientFromAPI f)) p"
    and "Reply uuid (Some c) email r = Reply uuid (Some (NewClientFromAPI f)) email r"
    and "Forward (Some c) email w = Forward (Some (NewClientFromAPI f)) email w"
    and "SemanticSearch (Some c) q = SemanticSearch (Some (NewClientFromAPI f)) q"
proof -
  show s: "Send (Some c) p = Send (Some (NewClientFromAPI f)) p" for p
    using assms by (auto simp: Send_def NewClientFromAPI_def split: option.split)
  show "Reply uuid (Some c) email r = Reply uuid (Some (NewClientFromAPI f)) email r"
    using assms by (simp add: Reply_def NewClientFromAPI_def)
  show "Forward (Some c) email w = Forward (Some (NewClientFromAPI f)) email w"
    by (simp add: Forward_def s split: option.split)
  show "SemanticSearch (Some c) q = SemanticSearch (Some (NewClientFromAPI f)) q"
    using assms by (simp add: SemanticSearch_def NewClientFromAPI_def)
qed

text \<open>
  A client built from a key talks to two hosts with one credential. Both generated clients
  get the key as their bearer token, none when it is empty, and no download token; each host is the
  one asked for or the default; and sending, replying, forwarding and searching all behave as on
  a client of the second host alone, while no subscription is active yet.
\<close>

theorem client_hosts:
  assumes "NewClientWithOptions newAPI key options = Inr c"
  shows "\<exists>api1 api2 tokens. newAPI (base_url (co_APIBaseURL1 options) DefaultAPIBaseURL1) tokens (co_Extra options) = Inr api1 \<and>
    newAPI (base_url (co_APIBaseURL2 options) DefaultAPIBaseURL2) tokens (co_Extra options) = Inr api2 \<and>
    BearerAuth tokens = (if key = [] then Inl ErrSkipClientSecurity else Inr key) \<and> DownloadToken tokens = Inl ErrSkipClientSecurity \<and>
    Send (Some (Client.truncate c)) p = Send (Some (NewClientFromAPI api2)) p \<and>
    Reply uuid (Some (Client.truncate c)) email r = Reply uuid (Some (NewClientFromAPI api2)) email r \<and>
    Forward (Some (Client.truncate c)) email w = Forward (Some (NewClientFromAPI api2)) email w \<and>
    SemanticSearch (Some (Client.truncate c)) q = SemanticSearch (Some (NewClientFromAPI api2)) q \<and>
    res_active (cl_Events c) = {}"
proof -
  let ?t = "NewStaticTokenSource key []"
  obtain api1 api2 where n: "newAPI (base_url (co_APIBaseURL1 options) DefaultAPIBaseURL1) ?t (co_Extra options) = Inr api1"
      "newAPI (base_url (co_APIBaseURL2 options) DefaultAPIBaseURL2) ?t (co_Extra options) = Inr api2"
      "c = \<lparr>cl_api = Some api1, cl_apiSend = Some api2, cl_Events = newEventsResource True\<rparr>"
    using assms by (auto simp: NewClientWithOptions_def Let_def split: sum.splits)
  have "cl_api (Client.truncate c) \<noteq> None" "cl_apiSend (Client.truncate c) = Some api2" by (simp_all add: n(3) Client.truncate_def)
  note h = same_host [OF this]
  show ?thesis
    by (intro exI [of _ api1] exI [of _ api2] exI [of _ ?t] conjI n(1,2) h)
      (simp_all add: n(3) BearerAuth_def DownloadToken_def NewStaticTokenSource_def newEventsResource_def)
qed

definition example_api :: "(unit, api) new_api" where
  "example_api url tokens opts = Inr (\<lambda>call. Inl (Lit url))"

theorem client_hosts_witness:
  "\<exists>c. NewClientWithOptions example_api ''k'' \<lparr>co_APIBaseURL1 = [], co_APIBaseURL2 = [], co_Extra = []\<rparr> = Inr c \<and>
     SemanticSearch (Some (Client.truncate c)) (Some q) =
       Some ([SemanticSearchCall q], Inl (CErr (Lit DefaultAPIBaseURL2)))"
proof -
  let ?o = "\<lparr>co_APIBaseURL1 = [], co_APIBaseURL2 = [], co_Extra = []\<rparr>"
  obtain c where c: "NewClientWithOptions example_api ''k'' ?o = Inr c"
    by (simp add: NewClientWithOptions_def example_api_def Let_def)
  obtain api2 where a: "example_api (base_url (co_APIBaseURL2 ?o) DefaultAPIBaseURL2) (NewStaticTokenSource x y) [] = Inr api2"
      "SemanticSearch (Some (Client.truncate c)) (Some q) = SemanticSearch (Some (NewClientFromAPI api2)) (Some q)" for x y
    using client_hosts [OF c, of undefined undefined undefined undefined undefined "Some q"] by (auto simp: example_api_def)
  have "api2 = (\<lambda>call. Inl (Lit DefaultAPIBaseURL2))" using a(1) by (simp add: example_api_def base_url_def)
  then show ?thesis using c a(2) by (simp add: SemanticSearch_def NewClientFromAPI_def call_api_def)
qed

end
