(* ===== verification/X402_Sign.thy ===== *)
theory X402_Sign
  imports Go_Time Go_Crypto Go_Json_Encode
begin

text \<open>
  The signing primitives of \<open>x402.go\<close>: amounts, the interaction-bound nonce, the validity
  window, the typed data and the payment payload and envelope. Keccak-256, a third-party
  function, is an argument.
\<close>

section \<open>Patterns\<close>

definition x402ChallengeNonceRe :: re where
  "x402ChallengeNonceRe = rrep 64 (RCls lower_hex_cls)"

definition x402AddressRe :: re where
  "x402AddressRe = RSeq (rlit ''0x'') (rrep 40 (RCls hex_cls))"

definition x402AmountRe :: re where
  "x402AmountRe = RSeq (RCls [(CHR ''1'', CHR ''9'')]) (rupto 38 (RCls digit_cls))"

definition x402UsdcRe :: re where
  "x402UsdcRe = RSeq (rplus (RCls digit_cls)) (ropt (RSeq (rchr (CHR ''.'')) (rplus (RCls digit_cls))))"

definition x402UUIDRe :: re where "x402UUIDRe = uuid_re hex_cls"

definition x402WireIDRe :: re where
  "x402WireIDRe = rseqs [uuid_re hex_cls, rchr (CHR ''@''), rplus (RNeg (space_cls @ [(CHR ''@'', CHR ''@'')]))]"

definition x402SignatureRe :: re where
  "x402SignatureRe = RSeq (rlit ''0x'') (rrep 130 (RCls hex_cls))"

definition x402NonceRe :: re where
  "x402NonceRe = RSeq (rlit ''0x'') (rrep 64 (RCls hex_cls))"

definition x402ChainIDs :: "string \<rightharpoonup> int" where
  "x402ChainIDs = map_of [(''base-sepolia'', 84532), (''base'', 8453)]"

section \<open>Amounts\<close>

definition usdcToBaseUnits :: "string \<Rightarrow> gomsg + string" where
  "usdcToBaseUnits human =
     (let trimmed = trim_space human
      in if \<not> re_match x402UsdcRe trimmed then
           Inl (Lit (''amountUsdc must be a positive decimal USDC amount, e.g. '' @ [CHR 0x22] @ ''0.01'' @ [CHR 0x22]))
         else (case cut (CHR ''.'') trimmed of (whole, frac, _) \<Rightarrow>
           if 6 < length frac then
             Inl (Lit ''amountUsdc has more than 6 decimal places; USDC supports at most 6'')
           else (case big_set_string whole of
               None \<Rightarrow> Inl (Lit ''amountUsdc has an invalid whole part'')
             | Some wholeInt \<Rightarrow> (case big_set_string (frac @ replicate (6 - length frac) (CHR ''0'')) of
                 None \<Rightarrow> Inl (Lit ''amountUsdc has an invalid fractional part'')
               | Some fracInt \<Rightarrow>
                   let base = wholeInt * 1000000 + fracInt
                   in if base \<le> 0 then Inl (Lit ''amountUsdc must be greater than zero'')
                      else Inr (itoa base)))))"

section \<open>The nonce\<close>

record NonceBinding =
  nb_InteractionID :: string
  nb_ChallengeStepID :: string
  nb_ChallengeNonce :: string

definition nonce_preimage :: "NonceBinding \<Rightarrow> gobytes \<Rightarrow> gobytes" where
  "nonce_preimage b rawNonce = to_lower (nb_InteractionID b) @ CHR 0x00 # to_lower (nb_ChallengeStepID b) @
     CHR 0x00 # rawNonce"

definition DeriveEIP3009Nonce :: "(gobytes \<Rightarrow> gobytes) \<Rightarrow> NonceBinding \<Rightarrow> gomsg + string" where
  "DeriveEIP3009Nonce keccak b =
     (if \<not> re_match x402ChallengeNonceRe (nb_ChallengeNonce b) then
        Inl (Lit ''challengeNonce must be exactly 64 lowercase hex chars (32 bytes), no 0x prefix'')
      else (case hex_decode (nb_ChallengeNonce b) of
          None \<Rightarrow> Inl (Sprintf ''challengeNonce is not valid hex: %w'' [FErr ''encoding/hex''])
        | Some rawNonce \<Rightarrow> Inr (''0x'' @ hex_encode (keccak (nonce_preimage b rawNonce)))))"

section \<open>Typed data\<close>

record TokenDomain =
  td_Name :: string
  td_Version :: string
  td_ChainID :: int
  td_VerifyingContract :: string

record TransferAuthorization =
  ta_From :: string
  ta_To :: string
  ta_Value :: int
  ta_ValidAfter :: int
  ta_ValidBefore :: int
  ta_Nonce :: string

text \<open>\<open>apitypes.TypedData\<close>, with its types as name and type pairs and its message as text fields.\<close>

record TypedData =
  typed_Types :: "(string \<times> (string \<times> string) list) list"
  typed_PrimaryType :: string
  typed_Domain :: TokenDomain
  typed_Message :: "(string \<times> string) list"

definition transferWithAuthorizationTypedData :: "TokenDomain \<Rightarrow> TransferAuthorization \<Rightarrow> TypedData" where
  "transferWithAuthorizationTypedData tdomain auth = \<lparr>
     typed_Types = [
       (''EIP712Domain'', [(''name'', ''string''), (''version'', ''string''), (''chainId'', ''uint256''),
          (''verifyingContract'', ''address'')]),
       (''TransferWithAuthorization'', [(''from'', ''address''), (''to'', ''address''), (''value'', ''uint256''),
          (''validAfter'', ''uint256''), (''validBefore'', ''uint256''), (''nonce'', ''bytes32'')])],
     typed_PrimaryType = ''TransferWithAuthorization'',
     typed_Domain = tdomain,
     typed_Message = [(''from'', ta_From auth), (''to'', ta_To auth), (''value'', itoa (ta_Value auth)),
       (''validAfter'', itoa (ta_ValidAfter auth)), (''validBefore'', itoa (ta_ValidBefore auth)),
       (''nonce'', ta_Nonce auth)]\<rparr>"

definition BuildPayoutRegistrationMessage :: "string \<Rightarrow> string \<Rightarrow> string \<Rightarrow> string \<Rightarrow> string" where
  "BuildPayoutRegistrationMessage org address network issuedAt = join [CHR 0x0A] [
     ''Primitive x402 payout address authorization'', [],
     ''I authorize this address as a payout destination for my Primitive organization.'', [],
     ''org: '' @ org, ''address: '' @ to_lower address, ''network: '' @ network, ''issued: '' @ issuedAt]"

section \<open>The wire payload and the envelope\<close>

record X402PaymentPayload =
  pp_X402Version :: int
  pp_Scheme :: string
  pp_Network :: string
  pp_Signature :: string
  pp_From :: string
  pp_To :: string
  pp_Value :: string
  pp_ValidAfter :: string
  pp_ValidBefore :: string
  pp_Nonce :: string

definition toPaymentPayload :: "string \<Rightarrow> TransferAuthorization \<Rightarrow> string \<Rightarrow> X402PaymentPayload" where
  "toPaymentPayload network auth signature = \<lparr>pp_X402Version = 1, pp_Scheme = ''exact'', pp_Network = network,
     pp_Signature = signature, pp_From = ta_From auth, pp_To = ta_To auth, pp_Value = itoa (ta_Value auth),
     pp_ValidAfter = itoa (ta_ValidAfter auth), pp_ValidBefore = itoa (ta_ValidBefore auth), pp_Nonce = ta_Nonce auth\<rparr>"

definition enc_X402PaymentPayload :: "X402PaymentPayload \<Rightarrow> json" where
  "enc_X402PaymentPayload p = JObj [(''x402Version'', enc_int (pp_X402Version p)), (''scheme'', enc_string (pp_Scheme p)),
     (''network'', enc_string (pp_Network p)),
     (''payload'', JObj [(''signature'', enc_string (pp_Signature p)),
       (''authorization'', JObj [(''from'', enc_string (pp_From p)), (''to'', enc_string (pp_To p)),
         (''value'', enc_string (pp_Value p)), (''validAfter'', enc_string (pp_ValidAfter p)),
         (''validBefore'', enc_string (pp_ValidBefore p)), (''nonce'', enc_string (pp_Nonce p))])])]"

definition BuildExactEvmPaymentPayload :: "string \<Rightarrow> TransferAuthorization \<Rightarrow> string \<Rightarrow> gomsg + X402PaymentPayload" where
  "BuildExactEvmPaymentPayload network auth signature =
     (if network \<noteq> ''base'' \<and> network \<noteq> ''base-sepolia'' then
        Inl (Sprintf ''BuildExactEvmPaymentPayload: unsupported network %s'' [FStr network])
      else if \<not> re_match x402SignatureRe signature then
        Inl (Lit ''BuildExactEvmPaymentPayload: signature must be a 0x-prefixed 65-byte (130 hex char) EIP signature'')
      else if \<not> re_match x402NonceRe (ta_Nonce auth) then
        Inl (Lit ''BuildExactEvmPaymentPayload: authorization nonce must be a 0x-prefixed 32-byte (64 hex char) value'')
      else Inr (toPaymentPayload network auth signature))"

definition X402InteractionProtocol :: string where "X402InteractionProtocol = ''x402.payment''"
definition X402InteractionProtocolVersion :: int where "X402InteractionProtocolVersion = 1"

record InteractionEnvelope =
  env_InteractionVersion :: int
  env_InteractionID :: string
  env_Protocol :: string
  env_ProtocolVersion :: int
  env_Step :: string
  env_StepID :: string
  env_PrevStepID :: "string option"
  env_ExpiresAt :: "string option"
  env_Payment :: X402PaymentPayload

definition enc_InteractionEnvelope :: "InteractionEnvelope \<Rightarrow> json" where
  "enc_InteractionEnvelope e = JObj [(''interaction_version'', enc_int (env_InteractionVersion e)),
     (''interaction_id'', enc_string (env_InteractionID e)), (''protocol'', enc_string (env_Protocol e)),
     (''protocol_version'', enc_int (env_ProtocolVersion e)), (''step'', enc_string (env_Step e)),
     (''step_id'', enc_string (env_StepID e)), (''prev_step_id'', enc_opt enc_string (env_PrevStepID e)),
     (''expires_at'', enc_opt enc_string (env_ExpiresAt e)),
     (''payload'', JObj [(''payment'', enc_X402PaymentPayload (env_Payment e))])]"

record BuiltPaymentStep =
  BuiltEnvelope :: InteractionEnvelope
  BuiltJSON :: string

record BuildPaymentStepEnvelopeInput =
  step_InteractionID :: string
  step_StepID :: string
  step_PrevStepID :: string
  step_Payment :: X402PaymentPayload
  step_ExpiresAt :: string

text \<open>Encoding this envelope cannot fail: it holds nothing but strings and integers.\<close>

definition BuildPaymentStepEnvelope :: "BuildPaymentStepEnvelopeInput \<Rightarrow> gomsg + BuiltPaymentStep" where
  "BuildPaymentStepEnvelope input =
     (if \<not> re_match x402WireIDRe (step_InteractionID input) then
        Inl (Lit ''BuildPaymentStepEnvelope: InteractionID must be uuid@domain'')
      else if \<not> re_match x402UUIDRe (step_StepID input) then
        Inl (Lit ''BuildPaymentStepEnvelope: StepID must be a uuid'')
      else if \<not> re_match x402UUIDRe (step_PrevStepID input) then
        Inl (Lit ''BuildPaymentStepEnvelope: PrevStepID must be a uuid'')
      else let envelope = \<lparr>env_InteractionVersion = 1, env_InteractionID = step_InteractionID input,
                 env_Protocol = X402InteractionProtocol, env_ProtocolVersion = X402InteractionProtocolVersion,
                 env_Step = ''payment'', env_StepID = step_StepID input, env_PrevStepID = Some (step_PrevStepID input),
                 env_ExpiresAt = (if step_ExpiresAt input = [] then None else Some (step_ExpiresAt input)),
                 env_Payment = step_Payment input\<rparr>
           in Inr \<lparr>BuiltEnvelope = envelope, BuiltJSON = json_text (enc_InteractionEnvelope envelope)\<rparr>)"

section \<open>The validity window\<close>

definition x402ClockSkewSec :: int where "x402ClockSkewSec = 5 * 60"
definition x402SettlementMarginSec :: int where "x402SettlementMarginSec = 5 * 60"
definition DefaultMaxWindowSec :: int where "DefaultMaxWindowSec = 24 * 60 * 60"
definition DefaultMinSettlementHeadroomSec :: int where "DefaultMinSettlementHeadroomSec = 60"

record ValidityWindowInput =
  vw_ChallengeExpiresAtSec :: int
  vw_NowSec :: int
  vw_SettlementMarginSec :: int
  vw_ClockSkewSec :: int
  vw_MaxWindowSec :: int
  vw_MinHeadroomSec :: int
  vw_ValidBeforeSec :: "int option"
  vw_ValidAfterSec :: "int option"
  vw_Clamp :: "bool option"

definition unless_zero :: "int \<Rightarrow> int \<Rightarrow> int" where
  "unless_zero n d = (if n = 0 then d else n)"

definition ComputePaymentValidityWindow :: "ValidityWindowInput \<Rightarrow> gomsg + (int \<times> int)" where
  "ComputePaymentValidityWindow input =
     (let margin = unless_zero (vw_SettlementMarginSec input) x402SettlementMarginSec;
          skew = unless_zero (vw_ClockSkewSec input) x402ClockSkewSec;
          maxWindow = unless_zero (vw_MaxWindowSec input) DefaultMaxWindowSec;
          minHeadroom = unless_zero (vw_MinHeadroomSec input) DefaultMinSettlementHeadroomSec;
          clamp = (vw_Clamp input = None \<or> vw_Clamp input = Some True)
      in if maxWindow < minHeadroom then
           Inl (Sprintf ''invalid validity window config: maxWindowSec (%d) is smaller than minHeadroomSec (%d)''
             [FInt maxWindow, FInt minHeadroom])
         else
     (let va = (case vw_ValidAfterSec input of None \<Rightarrow> wrap64 (vw_NowSec input - skew) | Some v \<Rightarrow> v);
          rawVB = (case vw_ValidBeforeSec input of None \<Rightarrow> wrap64 (vw_ChallengeExpiresAtSec input + margin) | Some v \<Rightarrow> v);
          floor = wrap64 (vw_NowSec input + minHeadroom);
          ceiling = wrap64 (va + maxWindow);
          tooTight = rawVB < floor;
          tooWide = ceiling < rawVB
      in if \<not> clamp \<and> vw_ValidBeforeSec input \<noteq> None \<and> tooTight then
           Inl (Sprintf ''invalid validity window: validBefore (%d) is below the minimum settlement headroom (must be >= now + %ds = %d); the authorization would be rejected as about to expire''
             [FInt rawVB, FInt minHeadroom, FInt floor])
         else if \<not> clamp \<and> vw_ValidBeforeSec input \<noteq> None \<and> tooWide then
           Inl (Sprintf ''invalid validity window: validBefore (%d) exceeds the %ds window cap (must be <= validAfter + %ds = %d); the authorization window is too wide''
             [FInt rawVB, FInt maxWindow, FInt maxWindow, FInt ceiling])
         else (let bandedVB = (if tooTight then floor else if tooWide then ceiling else rawVB)
           in if bandedVB \<le> va then
                Inl (Lit ''invalid validity window: validBefore must be after validAfter (challenge already expired or validAfter pinned too late?)'')
              else Inr (va, bandedVB))))"


section \<open>Amounts, nonces and windows\<close>

lemma digit_cls_digit: "in_cls digit_cls c \<longleftrightarrow> is_digit c"
  by (simp add: in_digit_cls is_digit_def)

lemma usdc_pattern:
  "re_match x402UsdcRe s \<longleftrightarrow> (\<exists>w f. w \<noteq> [] \<and> list_all is_digit w \<and> list_all is_digit f \<and>
     (f = [] \<and> s = w \<or> f \<noteq> [] \<and> s = w @ CHR ''.'' # f))"
proof
  assume "re_match x402UsdcRe s"
  then obtain u v where s: "s = u @ v" "u \<in> lang (rplus (RCls digit_cls))"
      "v \<in> lang (ropt (RSeq (rchr (CHR ''.'')) (rplus (RCls digit_cls))))"
    unfolding re_match_lang x402UsdcRe_def lang.simps(5) by blast
  have u: "u \<noteq> []" "list_all is_digit u" using s(2) by (auto simp: lang_plus_cls digit_cls_digit list_all_iff)
  have "v = [] \<or> (\<exists>f. v = CHR ''.'' # f \<and> f \<in> lang (rplus (RCls digit_cls)))"
    using s(3) by (auto simp: ropt_def lang_rchr)
  then show "\<exists>w f. w \<noteq> [] \<and> list_all is_digit w \<and> list_all is_digit f \<and>
     (f = [] \<and> s = w \<or> f \<noteq> [] \<and> s = w @ CHR ''.'' # f)"
    using u s(1) by (auto simp: lang_plus_cls digit_cls_digit list_all_iff)
next
  assume "\<exists>w f. w \<noteq> [] \<and> list_all is_digit w \<and> list_all is_digit f \<and>
     (f = [] \<and> s = w \<or> f \<noteq> [] \<and> s = w @ CHR ''.'' # f)"
  then obtain w f where w: "w \<in> lang (rplus (RCls digit_cls))" and f: "list_all is_digit f"
      "f = [] \<and> s = w @ [] \<or> f \<noteq> [] \<and> s = w @ [CHR ''.''] @ f"
    by (auto simp: lang_plus_cls digit_cls_digit list_all_iff)
  have "[] \<in> lang (ropt r)" for r by (simp add: ropt_def)
  moreover have "[CHR ''.''] @ f \<in> lang (ropt (RSeq (rchr (CHR ''.'')) (rplus (RCls digit_cls))))" if "f \<noteq> []"
    unfolding ropt_def lang.simps(6)
    by (intro UnI1 lang_seqI) (use f that in \<open>simp_all add: lang_rchr lang_plus_cls digit_cls_digit list_all_iff\<close>)
  ultimately show "re_match x402UsdcRe s"
    unfolding re_match_lang x402UsdcRe_def using w f(2) lang_seqI by blast
qed

lemma dot_not_digit: "list_all is_digit w \<Longrightarrow> CHR ''.'' \<notin> set w"
  by (auto simp: list_all_iff is_digit_def)

lemma usdc_cut:
  assumes "w \<noteq> []" "list_all is_digit w" "list_all is_digit f" "f = [] \<and> s = w \<or> f \<noteq> [] \<and> s = w @ CHR ''.'' # f"
  shows "\<exists>b. cut (CHR ''.'') s = (w, f, b)"
  using assms by (auto simp: cut_append cut_absent dot_not_digit)

lemma usdc_value:
  assumes "re_match x402UsdcRe s" "cut (CHR ''.'') s = (w, f, b)"
  shows "w \<noteq> [] \<and> list_all is_digit w \<and> list_all is_digit f \<and> (f = [] \<and> s = w \<or> f \<noteq> [] \<and> s = w @ CHR ''.'' # f)"
proof -
  obtain w' f' where v: "w' \<noteq> []" "list_all is_digit w'" "list_all is_digit f'"
      "f' = [] \<and> s = w' \<or> f' \<noteq> [] \<and> s = w' @ CHR ''.'' # f'"
    using assms(1) unfolding usdc_pattern by blast
  with usdc_cut [OF v] assms(2) show ?thesis by auto
qed

lemma pad_digits: "list_all is_digit f \<Longrightarrow> list_all is_digit (f @ replicate n (CHR ''0''))"
  by (auto simp: list_all_iff is_digit_def)

lemma big_padded:
  assumes "list_all is_digit f" "length f \<le> 6"
  shows "big_set_string (f @ replicate (6 - length f) (CHR ''0'')) = Some (int (digits_val f * 10 ^ (6 - length f)))"
proof -
  have "f @ replicate (6 - length f) (CHR ''0'') \<noteq> []" using assms(2) by (cases f) auto
  from big_set_string_digits [OF this pad_digits [OF assms(1)]] show ?thesis
    by (simp add: digits_val_append)
qed

lemma usdc_core:
  assumes v: "w \<noteq> []" "list_all is_digit w" "list_all is_digit f"
      "f = [] \<and> trim_space human = w \<or> f \<noteq> [] \<and> trim_space human = w @ CHR ''.'' # f"
    and len: "length f \<le> 6" and n: "n = digits_val w * 10 ^ 6 + digits_val f * 10 ^ (6 - length f)"
  shows "usdcToBaseUnits human =
    (if n = 0 then Inl (Lit ''amountUsdc must be greater than zero'') else Inr (nat_str n))"
proof -
  obtain b where c: "cut (CHR ''.'') (trim_space human) = (w, f, b)" using usdc_cut [OF v] by blast
  have m: "re_match x402UsdcRe (trim_space human)" unfolding usdc_pattern using v by blast
  have base: "int (digits_val w) * 1000000 + int (digits_val f * 10 ^ (6 - length f)) = int n" by (simp add: n)
  have "\<not> 6 < length f" using len by simp
  then show ?thesis
    unfolding usdcToBaseUnits_def Let_def c big_padded [OF v(3) len] big_set_string_digits [OF v(1,2)]
      prod.case option.case base
    using m by (simp add: itoa_def)
qed

lemma uuid_no_nul:
  assumes "re_match x402UUIDRe s"
  shows "CHR 0x00 \<notin> set (to_lower s)"
proof -
  have c: "in_cls hex_cls c \<or> c = CHR ''-''" if "c \<in> set s" for c
    using uuid_re_chars [OF assms [unfolded x402UUIDRe_def] that] .
  then have "ascii s" by (fastforce simp: ascii_def in_hex_cls)
  moreover have "ascii_lower c \<noteq> CHR 0x00" if "c \<in> set s" for c
  proof -
    have "ord c \<noteq> 0" using c [OF that] by (auto simp: in_hex_cls)
    then have "ord (ascii_lower c) \<noteq> ord (CHR 0x00)" by (simp add: ord_ascii_lower)
    then show ?thesis by metis
  qed
  ultimately show ?thesis by (metis imageE list.set_map to_lower_ascii)
qed

lemma last_separator:
  fixes x :: char
  assumes "x \<notin> set s" "x \<notin> set s'"
  shows "a @ x # s = a' @ x # s' \<longleftrightarrow> a = a' \<and> s = s'"
proof
  assume "a @ x # s = a' @ x # s'"
  then have "rev s @ x # rev a = rev s' @ x # rev a'"
    by (metis append.assoc append_Cons append_Nil rev.simps(2) rev_append)
  then have "cut x (rev s @ x # rev a) = cut x (rev s' @ x # rev a')" by simp
  then show "a = a' \<and> s = s'" using assms by (simp add: cut_append)
qed simp

lemma preimage_inject:
  assumes "re_match x402UUIDRe (nb_ChallengeStepID b)" "re_match x402UUIDRe (nb_ChallengeStepID b')"
    and "length r = 32" "length r' = 32"
  shows "nonce_preimage b r = nonce_preimage b' r' \<longleftrightarrow>
    to_lower (nb_InteractionID b) = to_lower (nb_InteractionID b') \<and>
    to_lower (nb_ChallengeStepID b) = to_lower (nb_ChallengeStepID b') \<and> r = r'"
proof -
  let ?i = "to_lower (nb_InteractionID b)" and ?i' = "to_lower (nb_InteractionID b')"
  let ?s = "to_lower (nb_ChallengeStepID b)" and ?s' = "to_lower (nb_ChallengeStepID b')"
  have "nonce_preimage b r = nonce_preimage b' r' \<longleftrightarrow>
      (?i @ CHR 0x00 # ?s @ [CHR 0x00]) @ r = (?i' @ CHR 0x00 # ?s' @ [CHR 0x00]) @ r'"
    by (simp add: nonce_preimage_def)
  also have "\<dots> \<longleftrightarrow> ?i @ CHR 0x00 # ?s = ?i' @ CHR 0x00 # ?s' \<and> r = r'"
    using assms(3,4) by (subst append_eq_append_conv) auto
  finally show ?thesis using last_separator uuid_no_nul assms(1,2) by metis
qed

lemma lower_hex_cls: "in_cls lower_hex_cls c \<longleftrightarrow> is_lower_hex c"
  by (simp add: in_lower_hex_cls is_lower_hex_def)

lemma nonce_hex_decodes:
  assumes "re_match x402ChallengeNonceRe s"
  shows "\<exists>r. hex_decode s = Some r \<and> length r = 32 \<and> hex_encode r = s"
proof -
  have l: "length s = 64" "\<forall>c \<in> set s. is_lower_hex c"
    using assms by (auto simp: re_match_lang x402ChallengeNonceRe_def lang_rep_cls lower_hex_cls simp del: rrep.simps)
  have v: "hex_val c \<noteq> None" if "is_lower_hex c" for c
    using that by (auto simp: is_lower_hex_def hex_val_def Let_def)
  obtain r where r: "hex_decode s = Some r" using hex_decode_Some_iff [of s] l v by auto
  then show ?thesis using length_hex_decode [OF r] hex_encode_decode [OF r l(2)] l(1) by simp
qed

text \<open>The numbers of an input are small enough for no sum to overflow.\<close>

definition window_in_range :: "ValidityWindowInput \<Rightarrow> bool" where
  "window_in_range i \<longleftrightarrow> (\<forall>n \<in> {vw_ChallengeExpiresAtSec i, vw_NowSec i, vw_SettlementMarginSec i, vw_ClockSkewSec i,
     vw_MaxWindowSec i, vw_MinHeadroomSec i}. \<bar>n\<bar> < 2 ^ 60) \<and>
     (\<forall>n. vw_ValidAfterSec i = Some n \<longrightarrow> \<bar>n\<bar> < 2 ^ 60) \<and> (\<forall>n. vw_ValidBeforeSec i = Some n \<longrightarrow> \<bar>n\<bar> < 2 ^ 60)"

definition window_start :: "ValidityWindowInput \<Rightarrow> int" where
  "window_start i = (case vw_ValidAfterSec i of
     None \<Rightarrow> vw_NowSec i - unless_zero (vw_ClockSkewSec i) x402ClockSkewSec | Some v \<Rightarrow> v)"

definition window_wish :: "ValidityWindowInput \<Rightarrow> int" where
  "window_wish i = (case vw_ValidBeforeSec i of
     None \<Rightarrow> vw_ChallengeExpiresAtSec i + unless_zero (vw_SettlementMarginSec i) x402SettlementMarginSec | Some v \<Rightarrow> v)"

definition window_floor :: "ValidityWindowInput \<Rightarrow> int" where
  "window_floor i = vw_NowSec i + unless_zero (vw_MinHeadroomSec i) DefaultMinSettlementHeadroomSec"

definition window_ceiling :: "ValidityWindowInput \<Rightarrow> int" where
  "window_ceiling i = window_start i + unless_zero (vw_MaxWindowSec i) DefaultMaxWindowSec"

lemma small_int64: "\<bar>n\<bar> < 2 ^ 62 \<Longrightarrow> wrap64 n = n"
  by (rule wrap64_id) (auto simp: is_int64_def)

lemma small_unless_zero: "\<bar>n\<bar> < 2 ^ 60 \<Longrightarrow> \<bar>d\<bar> < 2 ^ 60 \<Longrightarrow> \<bar>unless_zero n d\<bar> < 2 ^ 60"
  by (simp add: unless_zero_def)

lemma small_defaults: "\<bar>x402ClockSkewSec\<bar> < 2 ^ 60" "\<bar>x402SettlementMarginSec\<bar> < 2 ^ 60"
  "\<bar>DefaultMaxWindowSec\<bar> < 2 ^ 60" "\<bar>DefaultMinSettlementHeadroomSec\<bar> < 2 ^ 60"
  by (simp_all add: x402ClockSkewSec_def x402SettlementMarginSec_def DefaultMaxWindowSec_def
      DefaultMinSettlementHeadroomSec_def)

lemma small_sums:
  assumes "\<bar>a\<bar> < 2 ^ 60" "\<bar>b\<bar> < 2 ^ 60" "\<bar>c\<bar> < 2 ^ 60"
  shows "wrap64 (a + b) = a + b" "wrap64 (a - b) = a - b" "wrap64 (a - b + c) = a - b + c"
  using assms by (auto intro!: small_int64)

lemma window_unwrapped:
  assumes "window_in_range i"
  shows "wrap64 (vw_NowSec i - unless_zero (vw_ClockSkewSec i) x402ClockSkewSec) =
      vw_NowSec i - unless_zero (vw_ClockSkewSec i) x402ClockSkewSec"
    "wrap64 (vw_ChallengeExpiresAtSec i + unless_zero (vw_SettlementMarginSec i) x402SettlementMarginSec) =
      vw_ChallengeExpiresAtSec i + unless_zero (vw_SettlementMarginSec i) x402SettlementMarginSec"
    "wrap64 (window_floor i) = window_floor i" "wrap64 (window_ceiling i) = window_ceiling i"
proof -
  have r: "\<bar>vw_NowSec i\<bar> < 2 ^ 60" "\<bar>vw_ChallengeExpiresAtSec i\<bar> < 2 ^ 60" "\<bar>vw_ClockSkewSec i\<bar> < 2 ^ 60"
    "\<bar>vw_SettlementMarginSec i\<bar> < 2 ^ 60" "\<bar>vw_MinHeadroomSec i\<bar> < 2 ^ 60" "\<bar>vw_MaxWindowSec i\<bar> < 2 ^ 60"
    using assms unfolding window_in_range_def by blast+
  note s = r(1,2) small_unless_zero [OF r(3) small_defaults(1)] small_unless_zero [OF r(4) small_defaults(2)]
    small_unless_zero [OF r(5) small_defaults(4)] small_unless_zero [OF r(6) small_defaults(3)]
  show "wrap64 (vw_NowSec i - unless_zero (vw_ClockSkewSec i) x402ClockSkewSec) =
      vw_NowSec i - unless_zero (vw_ClockSkewSec i) x402ClockSkewSec"
    by (rule small_sums(2) [OF s(1,3,3)])
  show "wrap64 (vw_ChallengeExpiresAtSec i + unless_zero (vw_SettlementMarginSec i) x402SettlementMarginSec) =
      vw_ChallengeExpiresAtSec i + unless_zero (vw_SettlementMarginSec i) x402SettlementMarginSec"
    by (rule small_sums(1) [OF s(2,4,4)])
  show "wrap64 (window_floor i) = window_floor i"
    unfolding window_floor_def by (rule small_sums(1) [OF s(1,5,5)])
  show "wrap64 (window_ceiling i) = window_ceiling i"
  proof (cases "vw_ValidAfterSec i")
    case None
    then show ?thesis using small_sums(3) [OF s(1,3,6)] by (simp add: window_ceiling_def window_start_def)
  next
    case (Some v)
    then have "\<bar>v\<bar> < 2 ^ 60" using assms unfolding window_in_range_def by blast
    from small_sums(1) [OF this s(6,6)] show ?thesis by (simp add: window_ceiling_def window_start_def Some)
  qed
qed

lemma window_result:
  assumes "window_in_range i"
  shows "ComputePaymentValidityWindow i = Inr (va, vb) \<longleftrightarrow>
    unless_zero (vw_MinHeadroomSec i) DefaultMinSettlementHeadroomSec \<le> unless_zero (vw_MaxWindowSec i) DefaultMaxWindowSec \<and>
    (vw_Clamp i = Some False \<and> vw_ValidBeforeSec i \<noteq> None \<longrightarrow>
       window_floor i \<le> window_wish i \<and> window_wish i \<le> window_ceiling i) \<and>
    va = window_start i \<and> va < vb \<and>
    vb = (if window_wish i < window_floor i then window_floor i
          else if window_ceiling i < window_wish i then window_ceiling i else window_wish i)"
proof -
  have s: "(case vw_ValidAfterSec i of None \<Rightarrow> wrap64 (vw_NowSec i - unless_zero (vw_ClockSkewSec i) x402ClockSkewSec)
      | Some v \<Rightarrow> v) = window_start i"
    by (simp add: window_start_def window_unwrapped [OF assms] split: option.split)
  have w: "(case vw_ValidBeforeSec i of None \<Rightarrow>
      wrap64 (vw_ChallengeExpiresAtSec i + unless_zero (vw_SettlementMarginSec i) x402SettlementMarginSec)
      | Some v \<Rightarrow> v) = window_wish i"
    by (simp add: window_wish_def window_unwrapped [OF assms] split: option.split)
  have c: "vw_Clamp i = None \<or> vw_Clamp i = Some True \<longleftrightarrow> vw_Clamp i \<noteq> Some False"
    by (cases "vw_Clamp i") auto
  show ?thesis
    unfolding ComputePaymentValidityWindow_def Let_def s w c window_floor_def [symmetric]
      window_ceiling_def [symmetric] window_unwrapped(3,4) [OF assms]
    by auto
qed


section \<open>Reading the envelope back\<close>

lemma printable_payment: "printable (Suc (Suc (Suc n))) (enc_X402PaymentPayload p)"
  unfolding enc_X402PaymentPayload_def
  by (rule printable_obj, auto intro!: printable_scalar, (rule printable_obj, auto intro!: printable_scalar)+)

lemma printable_envelope: "printable 5 (enc_InteractionEnvelope e)"
proof -
  have "printable (Suc 4) (enc_InteractionEnvelope e)"
    unfolding enc_InteractionEnvelope_def
    using printable_payment [of 0]
    by (intro printable_obj) (auto intro!: printable_opt printable_obj simp: eval_nat_numeral)
  then show ?thesis by simp
qed


definition default_window :: "int \<Rightarrow> int \<Rightarrow> ValidityWindowInput" where
  "default_window expires now = \<lparr>vw_ChallengeExpiresAtSec = expires, vw_NowSec = now, vw_SettlementMarginSec = 0,
     vw_ClockSkewSec = 0, vw_MaxWindowSec = 0, vw_MinHeadroomSec = 0, vw_ValidBeforeSec = None,
     vw_ValidAfterSec = None, vw_Clamp = None\<rparr>"

lemma default_window_simps:
  "window_start (default_window e n) = n - 300" "window_wish (default_window e n) = e + 300"
  "window_floor (default_window e n) = n + 60" "window_ceiling (default_window e n) = n + 86100"
  by (simp_all add: default_window_def window_start_def window_wish_def window_floor_def window_ceiling_def
      unless_zero_def x402ClockSkewSec_def x402SettlementMarginSec_def DefaultMaxWindowSec_def
      DefaultMinSettlementHeadroomSec_def)

lemma default_window_in_range: "\<bar>e\<bar> < 2 ^ 60 \<Longrightarrow> \<bar>n\<bar> < 2 ^ 60 \<Longrightarrow> window_in_range (default_window e n)"
  by (simp add: default_window_def window_in_range_def)

lemma default_window_result:
  assumes "\<bar>e\<bar> < 2 ^ 60" "\<bar>n\<bar> < 2 ^ 60"
  shows "ComputePaymentValidityWindow (default_window e n) =
    Inr (n - 300, if e + 300 < n + 60 then n + 60 else if n + 86100 < e + 300 then n + 86100 else e + 300)"
  using window_result [OF default_window_in_range [OF assms]]
  by (simp add: default_window_simps)
    (simp add: default_window_def unless_zero_def DefaultMaxWindowSec_def DefaultMinSettlementHeadroomSec_def)

section \<open>Properties\<close>

text \<open>
  C23. \<open>usdcToBaseUnits\<close> is exact: it answers precisely for a decimal number of at most six
  fractional digits that is greater than zero, and its answer is that number times a
  million, in decimal without leading zeros.
\<close>

theorem usdc_amount_exact:
  "usdcToBaseUnits human = Inr s \<longleftrightarrow> (\<exists>w f. w \<noteq> [] \<and> list_all is_digit w \<and> list_all is_digit f \<and>
     length f \<le> 6 \<and> (f = [] \<and> trim_space human = w \<or> f \<noteq> [] \<and> trim_space human = w @ CHR ''.'' # f) \<and>
     (let n = digits_val w * 10 ^ 6 + digits_val f * 10 ^ (6 - length f) in 0 < n \<and> s = nat_str n))"
  (is "?l \<longleftrightarrow> ?r")
proof
  assume l: ?l
  obtain w f b where c: "cut (CHR ''.'') (trim_space human) = (w, f, b)" by (metis prod_cases3)
  have m: "re_match x402UsdcRe (trim_space human)" and len: "length f \<le> 6"
    using l c by (auto simp: usdcToBaseUnits_def Let_def split: if_splits)
  from usdc_value [OF m c] have v: "w \<noteq> []" "list_all is_digit w" "list_all is_digit f"
      "f = [] \<and> trim_space human = w \<or> f \<noteq> [] \<and> trim_space human = w @ CHR ''.'' # f"
    by blast+
  from usdc_core [OF v len refl] l show ?r
    using v len unfolding Let_def by (metis Inl_Inr_False gr0I sum.inject(2))
next
  assume ?r
  then obtain w f where v: "w \<noteq> []" "list_all is_digit w" "list_all is_digit f"
     "f = [] \<and> trim_space human = w \<or> f \<noteq> [] \<and> trim_space human = w @ CHR ''.'' # f"
    and len: "length f \<le> 6"
    and n: "0 < digits_val w * 10 ^ 6 + digits_val f * 10 ^ (6 - length f)"
      "s = nat_str (digits_val w * 10 ^ 6 + digits_val f * 10 ^ (6 - length f))"
    by (auto simp: Let_def)
  from usdc_core [OF v len refl] n show ?l by simp
qed


definition example_binding :: "string \<Rightarrow> NonceBinding" where
  "example_binding i = \<lparr>nb_InteractionID = i, nb_ChallengeStepID = ''00000000-0000-4000-8000-00000000000A'',
     nb_ChallengeNonce = replicate 64 (CHR ''a'')\<rparr>"

lemma example_binding_step: "re_match x402UUIDRe (nb_ChallengeStepID (example_binding i))"
  unfolding example_binding_def by code_simp

lemma example_binding_derives: "\<exists>n. DeriveEIP3009Nonce keccak (example_binding i) = Inr n"
proof -
  have m: "re_match x402ChallengeNonceRe (nb_ChallengeNonce (example_binding i))"
    by (simp add: example_binding_def re_match_lang x402ChallengeNonceRe_def lang_rep_cls in_lower_hex_cls del: rrep.simps)
  with nonce_hex_decodes [OF m] show ?thesis by (auto simp: DeriveEIP3009Nonce_def)
qed


text \<open>
  C25. A signed window lies in the accepted band whenever the band is not empty: for inputs
  whose sums fit 64 bits and whose floor is not above their ceiling, \<open>validBefore\<close> leaves
  the minimum headroom, the window does not exceed its cap and is not empty, and a wish
  inside the band is granted unchanged.
\<close>

theorem payment_window_in_band:
  assumes "window_in_range i" and "window_floor i \<le> window_ceiling i"
    and "ComputePaymentValidityWindow i = Inr (va, vb)"
  shows "va = window_start i \<and> va < vb \<and> window_floor i \<le> vb \<and> vb \<le> window_ceiling i \<and>
    vb - va \<le> unless_zero (vw_MaxWindowSec i) DefaultMaxWindowSec \<and>
    unless_zero (vw_MinHeadroomSec i) DefaultMinSettlementHeadroomSec \<le> vb - vw_NowSec i \<and>
    (window_floor i \<le> window_wish i \<and> window_wish i \<le> window_ceiling i \<longrightarrow> vb = window_wish i)"
  using assms(2,3) unfolding window_result [OF assms(1)] window_floor_def window_ceiling_def by auto

theorem payment_window_in_band_witness:
  "ComputePaymentValidityWindow (default_window 2000 1000) = Inr (700, 2300) \<and> (2300 :: int) - 700 \<le> 86400"
proof -
  have r: "ComputePaymentValidityWindow (default_window 2000 1000) = Inr (700, 2300)"
    by (simp add: default_window_result)
  have s: "window_in_range (default_window 2000 1000)" by (rule default_window_in_range) simp_all
  have "window_floor (default_window 2000 1000) \<le> window_ceiling (default_window 2000 1000)"
    by (simp add: default_window_simps)
  from payment_window_in_band [OF s this r] r show ?thesis
    by (simp add: default_window_def unless_zero_def DefaultMaxWindowSec_def)
qed

text \<open>
  A caller who overrides nothing always gets a signable window, even for a challenge
  that has expired or lies far in the future: it starts five minutes before now, ends at
  least a minute after now, and is at most a day long.
\<close>

theorem default_window_signable:
  assumes "\<bar>expires\<bar> < 2 ^ 60" and "\<bar>now\<bar> < 2 ^ 60"
  shows "\<exists>vb. ComputePaymentValidityWindow (default_window expires now) = Inr (now - 300, vb) \<and>
    now + 60 \<le> vb \<and> vb - (now - 300) \<le> 86400 \<and>
    (now - 240 \<le> expires \<and> expires \<le> now + 85800 \<longrightarrow> vb = expires + 300)"
  by (simp add: default_window_result [OF assms])

theorem default_window_signable_witness:
  "\<exists>vb. ComputePaymentValidityWindow (default_window 0 1700000000) = Inr (1699999700, vb) \<and> 1700000060 \<le> vb"
  using default_window_signable [of 0 1700000000] by auto



text \<open>
  The bytes of a built payment step are a valid document that reads back as exactly the
  envelope that was built, and a step is built exactly when interaction id, step id and
  challenge step id have their required forms.
\<close>

theorem payment_step_bytes:
  "(\<exists>b. BuildPaymentStepEnvelope input = Inr b) = (re_match x402WireIDRe (step_InteractionID input) \<and>
     re_match x402UUIDRe (step_StepID input) \<and> re_match x402UUIDRe (step_PrevStepID input)) \<and>
   (BuildPaymentStepEnvelope input = Inr b \<longrightarrow>
     json_parse (BuiltJSON b) = Some (enc_InteractionEnvelope (BuiltEnvelope b)) \<and>
     env_InteractionID (BuiltEnvelope b) = step_InteractionID input \<and>
     env_StepID (BuiltEnvelope b) = step_StepID input \<and>
     env_PrevStepID (BuiltEnvelope b) = Some (step_PrevStepID input) \<and>
     env_Payment (BuiltEnvelope b) = step_Payment input)"
proof -
  have "json_parse (json_text (enc_InteractionEnvelope e)) = Some (enc_InteractionEnvelope e)" for e
    using printable_envelope [of e] json_parse_text [of "enc_InteractionEnvelope e"]
    by (simp add: printable_def max_nesting_def)
  then show ?thesis by (auto simp: BuildPaymentStepEnvelope_def Let_def)
qed

definition example_step :: BuildPaymentStepEnvelopeInput where
  "example_step = \<lparr>step_InteractionID = ''00000000-0000-4000-8000-000000000001@example.com'',
     step_StepID = ''00000000-0000-4000-8000-000000000002'', step_PrevStepID = ''00000000-0000-4000-8000-000000000003'',
     step_Payment = toPaymentPayload ''base'' \<lparr>ta_From = ''0x1'', ta_To = ''0x2'', ta_Value = 10000, ta_ValidAfter = 0,
       ta_ValidBefore = 60, ta_Nonce = ''0x3''\<rparr> ''0x4'', step_ExpiresAt = []\<rparr>"

theorem payment_step_bytes_witness:
  "\<exists>b. BuildPaymentStepEnvelope example_step = Inr b \<and>
     json_parse (BuiltJSON b) = Some (enc_InteractionEnvelope (BuiltEnvelope b))"
proof -
  have "re_match x402WireIDRe ''00000000-0000-4000-8000-000000000001@example.com''"
    "re_match x402UUIDRe ''00000000-0000-4000-8000-000000000002''"
    "re_match x402UUIDRe ''00000000-0000-4000-8000-000000000003''"
    by code_simp+
  then have "re_match x402WireIDRe (step_InteractionID example_step)" "re_match x402UUIDRe (step_StepID example_step)"
    "re_match x402UUIDRe (step_PrevStepID example_step)"
    by (simp_all only: example_step_def BuildPaymentStepEnvelopeInput.select_convs)
  with payment_step_bytes [of example_step] show ?thesis by blast
qed

end
