(* ===== verification/X402_Wire.thy ===== *)
theory X402_Wire
  imports X402_Sign
begin

text \<open>
  The wire types of \<open>x402.go\<close> with their decoding, the error every client method returns, the
  checks a challenge passes before anything is signed, and the reading of a challenge from
  an \<open>interaction.json\<close> part.
\<close>

section \<open>Response types\<close>

record RequirementsExtra =
  extra_Name :: string
  extra_Version :: string

definition RequirementsExtra_zero :: RequirementsExtra where
  "RequirementsExtra_zero = \<lparr>extra_Name = [], extra_Version = []\<rparr>"

definition dec_RequirementsExtra :: "RequirementsExtra dec" where
  "dec_RequirementsExtra = dec_struct [
    fld ''name'' dec_string extra_Name extra_Name_update,
    fld ''version'' dec_string extra_Version extra_Version_update]"

record X402PaymentRequirements =
  pr_Scheme :: string
  pr_Network :: string
  pr_MaxAmountRequired :: string
  pr_PayTo :: string
  pr_Asset :: string
  pr_Extra :: RequirementsExtra

definition X402PaymentRequirements_zero :: X402PaymentRequirements where
  "X402PaymentRequirements_zero = \<lparr>pr_Scheme = [], pr_Network = [], pr_MaxAmountRequired = [], pr_PayTo = [],
    pr_Asset = [], pr_Extra = RequirementsExtra_zero\<rparr>"

definition dec_X402PaymentRequirements :: "X402PaymentRequirements dec" where
  "dec_X402PaymentRequirements = dec_struct [
    fld ''scheme'' dec_string pr_Scheme pr_Scheme_update,
    fld ''network'' dec_string pr_Network pr_Network_update,
    fld ''maxAmountRequired'' dec_string pr_MaxAmountRequired pr_MaxAmountRequired_update,
    fld ''payTo'' dec_string pr_PayTo pr_PayTo_update,
    fld ''asset'' dec_string pr_Asset pr_Asset_update,
    fld ''extra'' dec_RequirementsExtra pr_Extra pr_Extra_update]"

record X402NonceBinding =
  xnb_InteractionID :: string
  xnb_ChallengeStepID :: string
  xnb_ChallengeNonce :: string

definition X402NonceBinding_zero :: X402NonceBinding where
  "X402NonceBinding_zero = \<lparr>xnb_InteractionID = [], xnb_ChallengeStepID = [], xnb_ChallengeNonce = []\<rparr>"

definition dec_X402NonceBinding :: "X402NonceBinding dec" where
  "dec_X402NonceBinding = dec_struct [
    fld ''interaction_id'' dec_string xnb_InteractionID xnb_InteractionID_update,
    fld ''challenge_step_id'' dec_string xnb_ChallengeStepID xnb_ChallengeStepID_update,
    fld ''challenge_nonce'' dec_string xnb_ChallengeNonce xnb_ChallengeNonce_update]"

record X402Challenge =
  ch_ID :: string
  ch_Network :: string
  ch_Amount :: string
  ch_PayTo :: string
  ch_NonceBinding :: X402NonceBinding
  ch_PaymentRequirements :: X402PaymentRequirements
  ch_ExpiresAt :: string

definition X402Challenge_zero :: X402Challenge where
  "X402Challenge_zero = \<lparr>ch_ID = [], ch_Network = [], ch_Amount = [], ch_PayTo = [],
    ch_NonceBinding = X402NonceBinding_zero, ch_PaymentRequirements = X402PaymentRequirements_zero, ch_ExpiresAt = []\<rparr>"

definition dec_X402Challenge :: "X402Challenge dec" where
  "dec_X402Challenge = dec_struct [
    fld ''id'' dec_string ch_ID ch_ID_update,
    fld ''network'' dec_string ch_Network ch_Network_update,
    fld ''amount'' dec_string ch_Amount ch_Amount_update,
    fld ''pay_to'' dec_string ch_PayTo ch_PayTo_update,
    fld ''nonce_binding'' dec_X402NonceBinding ch_NonceBinding ch_NonceBinding_update,
    fld ''payment_requirements'' dec_X402PaymentRequirements ch_PaymentRequirements ch_PaymentRequirements_update,
    fld ''expires_at'' dec_string ch_ExpiresAt ch_ExpiresAt_update]"

record X402EmailChallengeDetails =
  ecd_PaymentRequirements :: X402PaymentRequirements
  ecd_NonceBinding :: X402NonceBinding
  ecd_ExpiresAt :: string

definition X402EmailChallengeDetails_zero :: X402EmailChallengeDetails where
  "X402EmailChallengeDetails_zero = \<lparr>ecd_PaymentRequirements = X402PaymentRequirements_zero,
    ecd_NonceBinding = X402NonceBinding_zero, ecd_ExpiresAt = []\<rparr>"

definition dec_X402EmailChallengeDetails :: "X402EmailChallengeDetails dec" where
  "dec_X402EmailChallengeDetails = dec_struct [
    fld ''payment_requirements'' dec_X402PaymentRequirements ecd_PaymentRequirements ecd_PaymentRequirements_update,
    fld ''nonce_binding'' dec_X402NonceBinding ecd_NonceBinding ecd_NonceBinding_update,
    fld ''expires_at'' dec_string ecd_ExpiresAt ecd_ExpiresAt_update]"

record X402EmailChallenge =
  ec_InteractionID :: string
  ec_ChallengeID :: string
  ec_Challenge :: X402EmailChallengeDetails

definition X402EmailChallenge_zero :: X402EmailChallenge where
  "X402EmailChallenge_zero = \<lparr>ec_InteractionID = [], ec_ChallengeID = [], ec_Challenge = X402EmailChallengeDetails_zero\<rparr>"

definition dec_X402EmailChallenge :: "X402EmailChallenge dec" where
  "dec_X402EmailChallenge = dec_struct [
    fld ''interaction_id'' dec_string ec_InteractionID ec_InteractionID_update,
    fld ''challenge_id'' dec_string ec_ChallengeID ec_ChallengeID_update,
    fld ''challenge'' dec_X402EmailChallengeDetails ec_Challenge ec_Challenge_update]"

record X402Receipt =
  rc_ID :: string
  rc_Status :: string
  rc_SettleTx :: "string option"

definition X402Receipt_zero :: X402Receipt where
  "X402Receipt_zero = \<lparr>rc_ID = [], rc_Status = [], rc_SettleTx = None\<rparr>"

definition dec_X402Receipt :: "X402Receipt dec" where
  "dec_X402Receipt = dec_struct [
    fld ''id'' dec_string rc_ID rc_ID_update,
    fld ''status'' dec_string rc_Status rc_Status_update,
    fld ''settle_tx'' opt_string rc_SettleTx rc_SettleTx_update]"

record X402PayoutAddress =
  pa_ID :: string
  pa_Address :: string
  pa_Network :: string
  pa_Label :: "string option"
  pa_IsDefault :: bool
  pa_VerifiedAt :: "string option"

definition X402PayoutAddress_zero :: X402PayoutAddress where
  "X402PayoutAddress_zero = \<lparr>pa_ID = [], pa_Address = [], pa_Network = [], pa_Label = None, pa_IsDefault = False,
    pa_VerifiedAt = None\<rparr>"

definition dec_X402PayoutAddress :: "X402PayoutAddress dec" where
  "dec_X402PayoutAddress = dec_struct [
    fld ''id'' dec_string pa_ID pa_ID_update,
    fld ''address'' dec_string pa_Address pa_Address_update,
    fld ''network'' dec_string pa_Network pa_Network_update,
    fld ''label'' opt_string pa_Label pa_Label_update,
    fld ''is_default'' dec_bool pa_IsDefault pa_IsDefault_update,
    fld ''verified_at'' opt_string pa_VerifiedAt pa_VerifiedAt_update]"

text \<open>The allowlist keeps \<open>nil\<close> (any payee) apart from empty (no payee).\<close>

record X402SpendPolicy =
  sp_Paused :: bool
  sp_MaxPerPayment :: "string option"
  sp_MaxPerDay :: "string option"
  sp_Allowlist :: "string list option"

definition X402SpendPolicy_zero :: X402SpendPolicy where
  "X402SpendPolicy_zero = \<lparr>sp_Paused = False, sp_MaxPerPayment = None, sp_MaxPerDay = None, sp_Allowlist = None\<rparr>"

definition dec_X402SpendPolicy :: "X402SpendPolicy dec" where
  "dec_X402SpendPolicy = dec_struct [
    fld ''paused'' dec_bool sp_Paused sp_Paused_update,
    fld ''max_per_payment'' opt_string sp_MaxPerPayment sp_MaxPerPayment_update,
    fld ''max_per_day'' opt_string sp_MaxPerDay sp_MaxPerDay_update,
    fld ''allowlist'' (dec_ptr dec_strings []) sp_Allowlist sp_Allowlist_update]"

record X402DeclinedPayment =
  dp_ID :: string
  dp_ChallengeID :: "string option"
  dp_CounterpartyOrg :: "string option"
  dp_Network :: string
  dp_Amount :: string
  dp_Reason :: string
  dp_DeclinedAt :: string

definition X402DeclinedPayment_zero :: X402DeclinedPayment where
  "X402DeclinedPayment_zero = \<lparr>dp_ID = [], dp_ChallengeID = None, dp_CounterpartyOrg = None, dp_Network = [],
    dp_Amount = [], dp_Reason = [], dp_DeclinedAt = []\<rparr>"

definition dec_X402DeclinedPayment :: "X402DeclinedPayment dec" where
  "dec_X402DeclinedPayment = dec_struct [
    fld ''id'' dec_string dp_ID dp_ID_update,
    fld ''challenge_id'' opt_string dp_ChallengeID dp_ChallengeID_update,
    fld ''counterparty_org'' opt_string dp_CounterpartyOrg dp_CounterpartyOrg_update,
    fld ''network'' dec_string dp_Network dp_Network_update,
    fld ''amount'' dec_string dp_Amount dp_Amount_update,
    fld ''reason'' dec_string dp_Reason dp_Reason_update,
    fld ''declined_at'' dec_string dp_DeclinedAt dp_DeclinedAt_update]"

section \<open>Errors\<close>

datatype x402_body = NoBody | TextBody string | JsonBody string

record X402Error =
  XMessage :: gomsg
  XStatus :: int
  XBody :: x402_body
  XRetryAfter :: string
  XCause :: bool

definition newX402Error :: "gomsg \<Rightarrow> int \<Rightarrow> X402Error" where
  "newX402Error message status = \<lparr>XMessage = message, XStatus = status, XBody = NoBody, XRetryAfter = [], XCause = False\<rparr>"

text \<open>\<open>prefix + err.Error()\<close>, for a prefix without format verbs.\<close>

definition msg_prefix :: "string \<Rightarrow> gomsg \<Rightarrow> gomsg" where
  "msg_prefix p m = (case m of Lit s \<Rightarrow> Lit (p @ s) | Sprintf f args \<Rightarrow> Sprintf (p @ f) args)"

section \<open>Checks before signing\<close>

text \<open>A check answers the error it finds.\<close>

definition validatePaymentRequirements ::
    "X402PaymentRequirements \<Rightarrow> (string \<Rightarrow> X402Error) \<Rightarrow> X402Error option" where
  "validatePaymentRequirements pr bad =
     (if pr_MaxAmountRequired pr = [] then Some (bad ''payment_requirements.maxAmountRequired'')
      else if \<not> re_match x402AmountRe (pr_MaxAmountRequired pr) then
        Some (bad ''payment_requirements.maxAmountRequired (expected a positive integer string in token base units)'')
      else if \<not> re_match x402AddressRe (pr_PayTo pr) then
        Some (bad ''payment_requirements.payTo (expected a 0x address)'')
      else if \<not> re_match x402AddressRe (pr_Asset pr) then
        Some (bad ''payment_requirements.asset (expected a 0x address)'')
      else if extra_Name (pr_Extra pr) = [] \<or> extra_Version (pr_Extra pr) = [] then
        Some (bad ''payment_requirements.extra (name/version)'')
      else None)"

definition binding_incomplete :: "X402NonceBinding \<Rightarrow> bool" where
  "binding_incomplete nb \<longleftrightarrow> xnb_InteractionID nb = [] \<or> xnb_ChallengeStepID nb = [] \<or> xnb_ChallengeNonce nb = []"

definition validateChallenge :: "X402Challenge option \<Rightarrow> X402Error option" where
  "validateChallenge ch =
     (let bad = (\<lambda>f. newX402Error (Lit (''challenge is missing or malformed: '' @ f)) 0)
      in case ch of None \<Rightarrow> Some (bad ''challenge'')
       | Some c \<Rightarrow>
           if ch_ID c = [] then Some (bad ''id'')
           else if ch_Network c = [] then Some (bad ''network'')
           else if ch_ExpiresAt c = [] then Some (bad ''expires_at'')
           else if binding_incomplete (ch_NonceBinding c) then Some (bad ''nonce_binding'')
           else validatePaymentRequirements (ch_PaymentRequirements c) bad)"

definition validateEmailChallenge :: "X402EmailChallenge option \<Rightarrow> X402Error option" where
  "validateEmailChallenge ch =
     (let bad = (\<lambda>f. newX402Error (Lit (''email challenge is missing or malformed: '' @ f)) 0)
      in case ch of None \<Rightarrow> Some (bad ''email challenge'')
       | Some c \<Rightarrow>
           let d = ec_Challenge c; nb = ecd_NonceBinding d
           in if ec_InteractionID c = [] then Some (bad ''interaction_id'')
              else if ecd_ExpiresAt d = [] then Some (bad ''challenge.expires_at'')
              else if binding_incomplete nb then Some (bad ''challenge.nonce_binding'')
              else if xnb_InteractionID nb \<noteq> ec_InteractionID c then
                Some (bad ''interaction_id (mismatch with challenge.nonce_binding.interaction_id)'')
              else validatePaymentRequirements (ecd_PaymentRequirements d) bad)"

section \<open>Challenges in email\<close>

record ChallengePayload =
  cp_ChallengeNonce :: string
  cp_PaymentRequirements :: X402PaymentRequirements

definition ChallengePayload_zero :: ChallengePayload where
  "ChallengePayload_zero = \<lparr>cp_ChallengeNonce = [], cp_PaymentRequirements = X402PaymentRequirements_zero\<rparr>"

definition dec_ChallengePayload :: "ChallengePayload dec" where
  "dec_ChallengePayload = dec_struct [
    fld ''challenge_nonce'' dec_string cp_ChallengeNonce cp_ChallengeNonce_update,
    fld ''payment_requirements'' dec_X402PaymentRequirements cp_PaymentRequirements cp_PaymentRequirements_update]"

record x402ChallengeEnvelope =
  ce_InteractionVersion :: int
  ce_InteractionID :: string
  ce_Protocol :: string
  ce_ProtocolVersion :: int
  ce_Step :: string
  ce_StepID :: string
  ce_ExpiresAt :: string
  ce_Payload :: ChallengePayload

definition x402ChallengeEnvelope_zero :: x402ChallengeEnvelope where
  "x402ChallengeEnvelope_zero = \<lparr>ce_InteractionVersion = 0, ce_InteractionID = [], ce_Protocol = [],
    ce_ProtocolVersion = 0, ce_Step = [], ce_StepID = [], ce_ExpiresAt = [], ce_Payload = ChallengePayload_zero\<rparr>"

definition envelope_fields :: "(string \<times> x402ChallengeEnvelope dec) list" where
  "envelope_fields = [
    fld ''interaction_version'' dec_int64 ce_InteractionVersion ce_InteractionVersion_update,
    fld ''interaction_id'' dec_string ce_InteractionID ce_InteractionID_update,
    fld ''protocol'' dec_string ce_Protocol ce_Protocol_update,
    fld ''protocol_version'' dec_int64 ce_ProtocolVersion ce_ProtocolVersion_update,
    fld ''step'' dec_string ce_Step ce_Step_update,
    fld ''step_id'' dec_string ce_StepID ce_StepID_update,
    fld ''expires_at'' dec_string ce_ExpiresAt ce_ExpiresAt_update,
    fld ''payload'' dec_ChallengePayload ce_Payload ce_Payload_update]"

definition dec_x402ChallengeEnvelope :: "x402ChallengeEnvelope dec" where
  "dec_x402ChallengeEnvelope = dec_struct envelope_fields"

definition bad_part :: "string \<Rightarrow> X402Error" where
  "bad_part f = newX402Error (Lit (''interaction.json part is not a valid x402 challenge: '' @ f)) 0"

definition not_json :: X402Error where
  "not_json = newX402Error (Sprintf ''interaction.json part is not valid JSON: %s'' [FErr ''encoding/json'']) 0"

definition dq :: string where "dq = [CHR 0x22]"

definition envelope_error :: "x402ChallengeEnvelope \<Rightarrow> X402Error option" where
  "envelope_error env =
     (if ce_InteractionVersion env \<noteq> 1 then Some (bad_part ''interaction_version (expected 1)'')
      else if \<not> re_match x402WireIDRe (ce_InteractionID env) then
        Some (bad_part ''interaction_id (expected uuid@domain)'')
      else if ce_Protocol env \<noteq> X402InteractionProtocol then
        Some (bad_part (''protocol (expected '' @ dq @ X402InteractionProtocol @ dq @ '')''))
      else if ce_ProtocolVersion env \<noteq> X402InteractionProtocolVersion then
        Some (bad_part (''protocol_version (expected '' @ itoa X402InteractionProtocolVersion @ '')''))
      else if ce_Step env \<noteq> ''challenge'' then
        Some (bad_part (''step (expected '' @ dq @ ''challenge'' @ dq @ '', got '' @ dq @ ce_Step env @ dq @ '')''))
      else if \<not> re_match x402UUIDRe (ce_StepID env) then Some (bad_part ''step_id (expected a uuid)'')
      else if ce_ExpiresAt env = [] then
        Some (bad_part ''expires_at (expected an ISO-8601 timestamp on the challenge step)'')
      else if \<not> re_match x402ChallengeNonceRe (cp_ChallengeNonce (ce_Payload env)) then
        Some (bad_part ''payload.challenge_nonce (expected 64 lowercase hex chars)'')
      else None)"

definition envelope_challenge :: "x402ChallengeEnvelope \<Rightarrow> X402EmailChallenge" where
  "envelope_challenge env = \<lparr>ec_InteractionID = ce_InteractionID env, ec_ChallengeID = [],
     ec_Challenge = \<lparr>ecd_PaymentRequirements = cp_PaymentRequirements (ce_Payload env),
       ecd_NonceBinding = \<lparr>xnb_InteractionID = ce_InteractionID env, xnb_ChallengeStepID = ce_StepID env,
         xnb_ChallengeNonce = cp_ChallengeNonce (ce_Payload env)\<rparr>,
       ecd_ExpiresAt = ce_ExpiresAt env\<rparr>\<rparr>"

definition ExtractEmailChallenge :: "gobytes \<Rightarrow> X402Error + X402EmailChallenge" where
  "ExtractEmailChallenge part =
     (if trim_space part = [] then Inl (bad_part ''empty part'')
      else (case json_parse part of None \<Rightarrow> Inl not_json | Some j \<Rightarrow>
        (case dec_x402ChallengeEnvelope j x402ChallengeEnvelope_zero of None \<Rightarrow> Inl not_json | Some env \<Rightarrow>
          (case envelope_error env of Some e \<Rightarrow> Inl e | None \<Rightarrow>
            (case validateEmailChallenge (Some (envelope_challenge env)) of
               Some e \<Rightarrow> Inl e | None \<Rightarrow> Inr (envelope_challenge env))))))"

end
