(* ===== verification/X402_Client.thy ===== *)
theory X402_Client
  imports X402_Wire
begin

text \<open>
  The client of \<open>x402.go\<close>. A method is a function of what its surroundings answer: the clock,
  a fresh UUID, the server's reply to a request, the customer's signer and Keccak-256. It
  returns the list of what it did outside the process, every signature asked for and every
  request sent in order, with its result.
\<close>

section \<open>Surroundings\<close>

record X402Signer =
  signer_Address :: string
  signer_SignTypedData :: "TypedData \<Rightarrow> gomsg + string"
  signer_SignMessage :: "string \<Rightarrow> gomsg + string"

record http_request =
  req_Method :: string
  req_URL :: string
  req_Headers :: "(string \<times> string) list"
  req_Body :: "string option"

text \<open>
  go-ethereum as the signer uses it: reading a key, the address of a key, the EIP-712 hash,
  Keccak-256, and a signature over a digest, whose last byte is the recovery id.
\<close>

record 'k ethereum =
  eth_key :: "string \<Rightarrow> 'k option"
  eth_address :: "'k \<Rightarrow> string"
  eth_typed_hash :: "TypedData \<Rightarrow> gobytes option"
  eth_keccak :: "gobytes \<Rightarrow> gobytes"
  eth_sign :: "gobytes \<Rightarrow> 'k \<Rightarrow> gobytes option"

record 'k PrivateKeySigner =
  pks_key :: 'k
  pks_addr :: string

definition NewPrivateKeySigner :: "'k ethereum \<Rightarrow> string \<Rightarrow> gomsg + 'k PrivateKeySigner" where
  "NewPrivateKeySigner eth hexKey = (case eth_key eth (trim_prefix (trim_space hexKey) ''0x'') of
     None \<Rightarrow> Inl (Sprintf ''invalid private key: %w'' [FErr ''crypto''])
   | Some key \<Rightarrow> Inr \<lparr>pks_key = key, pks_addr = eth_address eth key\<rparr>)"

text \<open>\<open>sig[64] += 27\<close> and the hex encoding.\<close>

definition wire_signature :: "gobytes \<Rightarrow> string" where
  "wire_signature sig = ''0x'' @ hex_encode (sig[64 := chr ((ord (sig ! 64) + 27) mod 256)])"

definition PrivateKeySigner_SignTypedData :: "'k ethereum \<Rightarrow> 'k PrivateKeySigner \<Rightarrow> TypedData \<Rightarrow> gomsg + string" where
  "PrivateKeySigner_SignTypedData eth s typedData =
     (case eth_typed_hash eth typedData of
        None \<Rightarrow> Inl (Sprintf ''failed to hash typed data: %w'' [FErr ''apitypes''])
      | Some digest \<Rightarrow> (case eth_sign eth digest (pks_key s) of
          None \<Rightarrow> Inl (Sprintf ''failed to sign typed data: %w'' [FErr ''crypto''])
        | Some sig \<Rightarrow> Inr (wire_signature sig)))"

definition eip191_text :: "string \<Rightarrow> gobytes" where
  "eip191_text message = CHR 0x19 # ''Ethereum Signed Message:'' @ CHR 0x0A # nat_str (length message) @ message"

definition PrivateKeySigner_SignMessage :: "'k ethereum \<Rightarrow> 'k PrivateKeySigner \<Rightarrow> string \<Rightarrow> gomsg + string" where
  "PrivateKeySigner_SignMessage eth s message =
     (case eth_sign eth (eth_keccak eth (eip191_text message)) (pks_key s) of
        None \<Rightarrow> Inl (Sprintf ''failed to sign message: %w'' [FErr ''crypto''])
      | Some sig \<Rightarrow> Inr (wire_signature sig))"

definition as_signer :: "'k ethereum \<Rightarrow> 'k PrivateKeySigner \<Rightarrow> X402Signer" where
  "as_signer eth s = \<lparr>signer_Address = pks_addr s, signer_SignTypedData = PrivateKeySigner_SignTypedData eth s,
     signer_SignMessage = PrivateKeySigner_SignMessage eth s\<rparr>"

text \<open>\<open>NoRequest\<close>: the request could not be built. \<open>NoReply\<close>: the round trip failed.\<close>

datatype http_reply = NoRequest | NoReply | Reply (reply_status: int) (reply_retry_after: string) (reply_text: string)

datatype x402_effect = Signed TypedData | SignedMessage string | Sent http_request

type_synonym 'a x402_run = "x402_effect list \<times> (X402Error + 'a)"

record x402_env =
  env_http :: "http_request \<Rightarrow> http_reply"
  env_now :: int
  env_now_iso :: string
  env_uuid :: string
  env_keccak :: "gobytes \<Rightarrow> gobytes"

definition fail :: "gomsg \<Rightarrow> 'a x402_run" where
  "fail m = ([], Inl (newX402Error m 0))"

section \<open>The client and its request\<close>

record X402ClientOptions =
  xo_APIKey :: string
  xo_BaseURL :: string
  xo_HasHTTPClient :: bool
  xo_TimeoutMs :: int

record X402Client =
  xc_apiKey :: string
  xc_baseURL :: string
  xc_timeout_ms :: "int option"

definition DefaultX402BaseURL :: string where "DefaultX402BaseURL = ''https://api.primitive.dev''"

definition NewX402Client :: "string \<Rightarrow> X402ClientOptions \<Rightarrow> X402Client" where
  "NewX402Client env_api_key options = \<lparr>
     xc_apiKey = (if xo_APIKey options = [] then env_api_key else xo_APIKey options),
     xc_baseURL = trim_right_chars [CHR ''/'']
       (if xo_BaseURL options = [] then DefaultX402BaseURL else xo_BaseURL options),
     xc_timeout_ms = (if xo_HasHTTPClient options then None
       else if xo_TimeoutMs options = 0 then Some 30000 else Some (xo_TimeoutMs options))\<rparr>"

definition truncate_text :: "string \<Rightarrow> nat \<Rightarrow> string" where
  "truncate_text s n = (if length s \<le> n then s else take n s)"

record x402_error_body =
  xe_Code :: string
  xe_Message :: string

record x402_envelope =
  xv_Success :: "bool option"
  xv_Data :: "json option"
  xv_Error :: "x402_error_body option"

definition dec_x402_error_body :: "x402_error_body dec" where
  "dec_x402_error_body = dec_struct [
    fld ''code'' dec_string xe_Code xe_Code_update, fld ''message'' dec_string xe_Message xe_Message_update]"

definition dec_x402_envelope :: "x402_envelope dec" where
  "dec_x402_envelope = dec_struct [
    fld ''success'' opt_bool xv_Success xv_Success_update,
    fld ''data'' dec_raw xv_Data xv_Data_update,
    fld ''error'' (dec_ptr dec_x402_error_body \<lparr>xe_Code = [], xe_Message = []\<rparr>) xv_Error xv_Error_update]"

definition x402_envelope_zero :: x402_envelope where
  "x402_envelope_zero = \<lparr>xv_Success = None, xv_Data = None, xv_Error = None\<rparr>"

text \<open>What \<open>request\<close> makes of a reply, for a decoder of the data and the value it starts from.\<close>

definition read_reply :: "string \<Rightarrow> 'a dec \<Rightarrow> 'a \<Rightarrow> int \<Rightarrow> string \<Rightarrow> string \<Rightarrow> X402Error + 'a" where
  "read_reply path d zero status retryAfter txt =
     (let hasJSON = (trim_space txt \<noteq> []);
          parsed = (if hasJSON then Option.bind (json_parse txt) (\<lambda>j. dec_x402_envelope j x402_envelope_zero)
                    else Some x402_envelope_zero)
      in case parsed of
           None \<Rightarrow> Inl \<lparr>XMessage = Sprintf ''non-JSON response (%d) from %s: %s''
               [FInt status, FStr path, FStr (truncate_text txt 200)],
             XStatus = status, XBody = TextBody (truncate_text txt 500), XRetryAfter = retryAfter, XCause = False\<rparr>
         | Some envelope \<Rightarrow>
             if status < 200 \<or> 300 \<le> status \<or> xv_Success envelope = Some False then
               Inl \<lparr>XMessage = (case xv_Error envelope of
                     Some e \<Rightarrow> if xe_Message e \<noteq> [] then Lit (xe_Message e)
                       else Sprintf ''request failed with %d'' [FInt status]
                   | None \<Rightarrow> Sprintf ''request failed with %d'' [FInt status]),
                 XStatus = status,
                 XBody = (if hasJSON then JsonBody txt else TextBody (truncate_text txt 500)),
                 XRetryAfter = retryAfter, XCause = False\<rparr>
             else if \<not> hasJSON \<or> xv_Success envelope \<noteq> Some True \<or> xv_Data envelope = None then
               Inl \<lparr>XMessage = Sprintf ''unexpected response shape (%d) from %s: missing success/data envelope''
                   [FInt status, FStr path],
                 XStatus = status, XBody = NoBody, XRetryAfter = retryAfter, XCause = False\<rparr>
             else (case d (the (xv_Data envelope)) zero of
                 None \<Rightarrow> Inl (newX402Error (Sprintf ''failed to decode response data from %s: %v''
                     [FStr path, FErr ''encoding/json'']) status)
               | Some v \<Rightarrow> Inr v))"

definition request ::
    "x402_env \<Rightarrow> X402Client \<Rightarrow> string \<Rightarrow> string \<Rightarrow> json option \<Rightarrow> 'a dec \<Rightarrow> 'a \<Rightarrow> (string \<times> string) list \<Rightarrow> 'a x402_run" where
  "request env c httpMethod path body d zero headers =
     (if xc_apiKey c = [] then fail (Lit ''no API key configured; set PRIMITIVE_API_KEY or pass APIKey to the client'')
      else let req = \<lparr>req_Method = httpMethod, req_URL = xc_baseURL c @ path,
                 req_Headers = [(''authorization'', ''Bearer '' @ xc_apiKey c), (''content-type'', ''application/json'')] @ headers,
                 req_Body = map_option json_text body\<rparr>
           in case env_http env req of
                NoRequest \<Rightarrow> fail (Sprintf ''failed to build request to %s: %v'' [FStr path, FErr ''net/http''])
              | NoReply \<Rightarrow> ([Sent req], Inl \<lparr>XMessage = Sprintf ''request to %s failed: %v'' [FStr path, FErr ''net/http''],
                  XStatus = 0, XBody = NoBody, XRetryAfter = [], XCause = True\<rparr>)
              | Reply status retryAfter txt \<Rightarrow> ([Sent req], read_reply path d zero status retryAfter txt))"

section \<open>Asking for payment\<close>

text \<open>The amount both charge methods send, for a method's name.\<close>

definition base_amount :: "string \<Rightarrow> string \<Rightarrow> string \<Rightarrow> gomsg + string" where
  "base_amount name amount amountUsdc =
     (if amount \<noteq> [] \<and> amountUsdc \<noteq> [] then
        Inl (Lit (name @ '' takes exactly one of Amount (base units) or AmountUsdc (human USDC), not both''))
      else if amount = [] \<and> amountUsdc = [] then
        Inl (Lit (name @ '' requires Amount as a positive integer string in token base units (e.g. '' @ dq @ ''10000'' @ dq @
          ''), or AmountUsdc as a positive USDC amount with at most 6 decimals (e.g. '' @ dq @ ''0.01'' @ dq @ '')''))
      else (case (if amountUsdc \<noteq> [] then usdcToBaseUnits amountUsdc else Inr amount) of
          Inl e \<Rightarrow> Inl (msg_prefix (name @ '': '') e)
        | Inr a \<Rightarrow> if \<not> re_match x402AmountRe a then
              Inl (Lit (name @ '' requires Amount as a positive integer string in token base units, e.g. '' @ dq @ ''10000'' @ dq))
            else Inr a))"

record X402ChargeInput =
  ci_Amount :: string
  ci_AmountUsdc :: string
  ci_Network :: string
  ci_PayerOrg :: string
  ci_Description :: string
  ci_Resource :: string
  ci_ExpiresIn :: "int option"
  ci_IdempotencyKey :: string

definition text_field :: "string \<Rightarrow> string \<Rightarrow> (string \<times> json) list" where
  "text_field name v = (if v = [] then [] else [(name, enc_string v)])"

definition idempotency_header :: "string \<Rightarrow> (string \<times> string) list" where
  "idempotency_header k = (if k = [] then [] else [(''Idempotency-Key'', k)])"

text \<open>\<open>json.Marshal\<close> of a map writes its keys in order.\<close>

definition map_body :: "(string \<times> json) list \<Rightarrow> json" where
  "map_body ms = JObj (sort_key fst ms)"

definition Charge :: "x402_env \<Rightarrow> X402Client \<Rightarrow> X402ChargeInput \<Rightarrow> X402Challenge x402_run" where
  "Charge env c input =
     (case base_amount ''charge'' (ci_Amount input) (ci_AmountUsdc input) of
        Inl m \<Rightarrow> fail m
      | Inr amount \<Rightarrow>
          let network = (if ci_Network input = [] then ''base-sepolia'' else ci_Network input);
              body = map_body ([(''amount'', enc_string amount), (''network'', enc_string network)] @
                text_field ''payer_org'' (ci_PayerOrg input) @ text_field ''description'' (ci_Description input) @
                text_field ''resource'' (ci_Resource input) @ omit_nil ''expires_in'' enc_int (ci_ExpiresIn input))
          in request env c ''POST'' ''/v1/x402/challenges'' (Some body) dec_X402Challenge X402Challenge_zero
               (idempotency_header (ci_IdempotencyKey input)))"

record X402EmailChargeInput =
  ei_From :: string
  ei_To :: string
  ei_Amount :: string
  ei_AmountUsdc :: string
  ei_Network :: string
  ei_Description :: string
  ei_Resource :: string
  ei_ExpiresIn :: "int option"
  ei_IdempotencyKey :: string

definition CreateEmailChallenge :: "x402_env \<Rightarrow> X402Client \<Rightarrow> X402EmailChargeInput \<Rightarrow> X402EmailChallenge x402_run" where
  "CreateEmailChallenge env c input =
     (if ei_From input = [] then fail (Lit ''createEmailChallenge requires From'')
      else if ei_To input = [] then fail (Lit ''createEmailChallenge requires To'')
      else (case base_amount ''createEmailChallenge'' (ei_Amount input) (ei_AmountUsdc input) of
        Inl m \<Rightarrow> fail m
      | Inr amount \<Rightarrow>
          let network = (if ei_Network input = [] then ''base-sepolia'' else ei_Network input);
              body = map_body ([(''from'', enc_string (ei_From input)), (''to'', enc_string (ei_To input)),
                (''amount'', enc_string amount), (''network'', enc_string network)] @
                text_field ''description'' (ei_Description input) @ text_field ''resource'' (ei_Resource input) @
                omit_nil ''expires_in'' enc_int (ei_ExpiresIn input))
          in request env c ''POST'' ''/v1/x402/email-challenges'' (Some body) dec_X402EmailChallenge X402EmailChallenge_zero
               (idempotency_header (ei_IdempotencyKey input))))"

section \<open>Paying\<close>

definition SignInteractionPayment ::
    "(gobytes \<Rightarrow> gobytes) \<Rightarrow> (TypedData \<Rightarrow> gomsg + string) \<Rightarrow> string \<Rightarrow> TokenDomain \<Rightarrow> string \<Rightarrow> int \<Rightarrow> NonceBinding \<Rightarrow>
     int \<Rightarrow> int \<Rightarrow> x402_effect list \<times> (gomsg + TransferAuthorization \<times> string)" where
  "SignInteractionPayment keccak sign payer tdomain payTo amount binding validAfter validBefore =
     (case DeriveEIP3009Nonce keccak binding of
        Inl e \<Rightarrow> ([], Inl e)
      | Inr nonce \<Rightarrow>
          let auth = \<lparr>ta_From = payer, ta_To = payTo, ta_Value = amount, ta_ValidAfter = validAfter,
                ta_ValidBefore = validBefore, ta_Nonce = nonce\<rparr>;
              td = transferWithAuthorizationTypedData tdomain auth
          in ([Signed td], case sign td of Inl e \<Rightarrow> Inl e | Inr signature \<Rightarrow> Inr (auth, signature)))"

definition signing_binding :: "X402NonceBinding \<Rightarrow> NonceBinding" where
  "signing_binding nb = \<lparr>nb_InteractionID = xnb_InteractionID nb, nb_ChallengeStepID = xnb_ChallengeStepID nb,
     nb_ChallengeNonce = xnb_ChallengeNonce nb\<rparr>"

text \<open>The steps \<open>Pay\<close> and \<open>PayEmailChallenge\<close> share once the network and the scheme are settled:
  expiry, value, window, signature and payload.\<close>

definition authorize_payment ::
    "x402_env \<Rightarrow> X402Signer \<Rightarrow> string \<Rightarrow> int \<Rightarrow> X402PaymentRequirements \<Rightarrow> X402NonceBinding \<Rightarrow> string \<Rightarrow>
     X402PaymentPayload x402_run" where
  "authorize_payment env signer network chainID pr nb expires =
     (case unix_seconds expires of
        None \<Rightarrow> fail (Lit (''challenge has an invalid expires_at: '' @ expires))
      | Some expiresAtSec \<Rightarrow>
          if expiresAtSec \<le> env_now env then
            fail (Lit (''challenge has already expired (expires_at '' @ expires @ ''); not signing''))
          else (case big_set_string (pr_MaxAmountRequired pr) of
              None \<Rightarrow> fail (Lit (''payment_requirements.maxAmountRequired is not an integer: '' @ pr_MaxAmountRequired pr))
            | Some amount \<Rightarrow>
                (case ComputePaymentValidityWindow (default_window expiresAtSec (env_now env)) of
                   Inl e \<Rightarrow> fail e
                 | Inr (validAfter, validBefore) \<Rightarrow>
                     (case SignInteractionPayment (env_keccak env) (signer_SignTypedData signer) (signer_Address signer)
                         \<lparr>td_Name = extra_Name (pr_Extra pr), td_Version = extra_Version (pr_Extra pr), td_ChainID = chainID,
                           td_VerifyingContract = pr_Asset pr\<rparr>
                         (pr_PayTo pr) amount (signing_binding nb) validAfter validBefore of
                        (eff, Inl e) \<Rightarrow> (eff, Inl (newX402Error (msg_prefix ''failed to sign authorization: '' e) 0))
                      | (eff, Inr (auth, signature)) \<Rightarrow>
                          (case BuildExactEvmPaymentPayload network auth signature of
                             Inl e \<Rightarrow> (eff, Inl (newX402Error (msg_prefix ''failed to build payment payload: '' e) 0))
                           | Inr payment \<Rightarrow> (eff, Inr payment))))))"

definition no_signer :: "X402Signer option \<Rightarrow> bool" where
  "no_signer signer \<longleftrightarrow> (case signer of None \<Rightarrow> True | Some s \<Rightarrow> signer_Address s = [])"

definition PayEmailChallenge ::
    "x402_env \<Rightarrow> X402EmailChallenge option \<Rightarrow> X402Signer option \<Rightarrow> BuiltPaymentStep x402_run" where
  "PayEmailChallenge env challenge signer =
     (if no_signer signer then
        fail (Lit ''payEmailChallenge requires a signer with a non-empty Address (e.g. a PrivateKeySigner)'')
      else (case validateEmailChallenge challenge of Some e \<Rightarrow> ([], Inl e) | None \<Rightarrow>
        let d = ec_Challenge (the challenge); pr = ecd_PaymentRequirements d
        in case x402ChainIDs (pr_Network pr) of
             None \<Rightarrow> fail (Lit (''unsupported network: '' @ pr_Network pr))
           | Some chainID \<Rightarrow>
               if pr_Scheme pr \<noteq> ''exact'' then fail (Lit (''unsupported payment scheme: '' @ pr_Scheme pr))
               else (case authorize_payment env (the signer) (pr_Network pr) chainID pr (ecd_NonceBinding d) (ecd_ExpiresAt d) of
                   (eff, Inl e) \<Rightarrow> (eff, Inl e)
                 | (eff, Inr payment) \<Rightarrow>
                     (case BuildPaymentStepEnvelope \<lparr>step_InteractionID = ec_InteractionID (the challenge),
                         step_StepID = env_uuid env, step_PrevStepID = xnb_ChallengeStepID (ecd_NonceBinding d),
                         step_Payment = payment, step_ExpiresAt = []\<rparr> of
                        Inl e \<Rightarrow> (eff, Inl (newX402Error (msg_prefix ''failed to build payment step envelope: '' e) 0))
                      | Inr built \<Rightarrow> (eff, Inr built)))))"

text \<open>What \<open>Pay\<close> does with a challenge on a supported network: authorize, then submit.\<close>

definition pay_body :: "x402_env \<Rightarrow> X402Client \<Rightarrow> X402Challenge \<Rightarrow> X402Signer \<Rightarrow> int \<Rightarrow> X402Receipt x402_run" where
  "pay_body env c ch signer chainID =
     (case authorize_payment env signer (ch_Network ch) chainID (ch_PaymentRequirements ch) (ch_NonceBinding ch) (ch_ExpiresAt ch) of
        (eff, Inl e) \<Rightarrow> (eff, Inl e)
      | (eff, Inr payment) \<Rightarrow>
          apfst ((@) eff) (request env c ''POST'' (''/v1/x402/challenges/'' @ ch_ID ch @ ''/pay'')
            (Some (JObj [(''payment'', enc_X402PaymentPayload payment)])) dec_X402Receipt X402Receipt_zero []))"

definition Pay ::
    "x402_env \<Rightarrow> X402Client \<Rightarrow> X402Challenge option \<Rightarrow> X402Signer option \<Rightarrow> X402Receipt x402_run" where
  "Pay env c challenge signer =
     (if no_signer signer then fail (Lit ''pay requires a signer with a non-empty Address (e.g. a PrivateKeySigner)'')
      else (case validateChallenge challenge of Some e \<Rightarrow> ([], Inl e) | None \<Rightarrow>
        let ch = the challenge; pr = ch_PaymentRequirements ch
        in case x402ChainIDs (ch_Network ch) of
             None \<Rightarrow> fail (Lit (''unsupported network: '' @ ch_Network ch))
           | Some chainID \<Rightarrow>
               if pr_Network pr \<noteq> ch_Network ch then
                 fail (Sprintf ''challenge network mismatch: %s vs payment_requirements %s''
                   [FStr (ch_Network ch), FStr (pr_Network pr)])
               else if pr_Scheme pr \<noteq> ''exact'' then fail (Lit (''unsupported payment scheme: '' @ pr_Scheme pr))
               else pay_body env c ch (the signer) chainID))"

section \<open>The other endpoints\<close>

definition upper_hex :: "nat \<Rightarrow> char" where
  "upper_hex n = (if n < 10 then chr (48 + n) else chr (55 + n))"

definition unreserved :: "char \<Rightarrow> bool" where
  "unreserved c \<longleftrightarrow> (65 \<le> ord c \<and> ord c \<le> 90) \<or> (97 \<le> ord c \<and> ord c \<le> 122) \<or> (48 \<le> ord c \<and> ord c \<le> 57) \<or>
     c \<in> {CHR ''-'', CHR ''_'', CHR ''.'', CHR 0x7E}"

definition escapePathSegment :: "string \<Rightarrow> string" where
  "escapePathSegment s = concat (map (\<lambda>c. if unreserved c then [c]
     else [CHR 0x25, upper_hex (ord c div 16), upper_hex (ord c mod 16)]) s)"

definition GetChallenge :: "x402_env \<Rightarrow> X402Client \<Rightarrow> string \<Rightarrow> X402Challenge x402_run" where
  "GetChallenge env c cid =
     (if cid = [] then fail (Lit ''getChallenge requires a challenge id'')
      else request env c ''GET'' (''/v1/x402/challenges/'' @ escapePathSegment cid) None dec_X402Challenge X402Challenge_zero [])"

record account_id = acc_ID :: string

definition dec_account_id :: "account_id dec" where
  "dec_account_id = dec_struct [fld ''id'' dec_string acc_ID acc_ID_update]"

definition resolveOrgID :: "x402_env \<Rightarrow> X402Client \<Rightarrow> string x402_run" where
  "resolveOrgID env c =
     (case request env c ''GET'' ''/v1/account'' None dec_account_id \<lparr>acc_ID = []\<rparr> [] of
        (eff, Inl e) \<Rightarrow> (eff, Inl e)
      | (eff, Inr account) \<Rightarrow>
          (eff, if acc_ID account = [] then
             Inl (newX402Error (Lit ''could not resolve your organization id from /v1/account; pass Org explicitly'') 0)
           else Inr (acc_ID account)))"

record X402PayoutRegistrationInput =
  pri_Org :: string
  pri_Network :: string
  pri_IssuedAt :: string
  pri_Label :: "string option"

definition RegisterPayoutAddress ::
    "x402_env \<Rightarrow> X402Client \<Rightarrow> X402PayoutRegistrationInput \<Rightarrow> X402Signer option \<Rightarrow> X402PayoutAddress x402_run" where
  "RegisterPayoutAddress env c input signer =
     (if no_signer signer then fail (Lit ''registerPayoutAddress requires a signer with a non-empty Address'')
      else (case (if pri_Org input = [] then resolveOrgID env c else ([], Inr (pri_Org input))) of
          (eff, Inl e) \<Rightarrow> (eff, Inl e)
        | (eff, Inr org) \<Rightarrow>
            let network = (if pri_Network input = [] then ''base-sepolia'' else pri_Network input);
                issuedAt = (if pri_IssuedAt input = [] then env_now_iso env else pri_IssuedAt input);
                address = signer_Address (the signer);
                message = BuildPayoutRegistrationMessage org address network issuedAt;
                eff' = eff @ [SignedMessage message]
            in case signer_SignMessage (the signer) message of
                 Inl e \<Rightarrow> (eff', Inl (newX402Error (msg_prefix ''failed to sign payout registration message: '' e) 0))
               | Inr signature \<Rightarrow>
                   apfst ((@) eff') (request env c ''POST'' ''/v1/x402/payout-addresses''
                     (Some (map_body ([(''address'', enc_string address), (''network'', enc_string network),
                       (''signature'', enc_string signature), (''issued_at'', enc_string issuedAt)] @
                       omit_nil ''label'' enc_string (pri_Label input))))
                     dec_X402PayoutAddress X402PayoutAddress_zero [])))"

definition ListPayoutAddresses :: "x402_env \<Rightarrow> X402Client \<Rightarrow> X402PayoutAddress list x402_run" where
  "ListPayoutAddresses env c = request env c ''GET'' ''/v1/x402/payout-addresses'' None
     (dec_list dec_X402PayoutAddress X402PayoutAddress_zero) [] []"

definition ListDeclinedPayments :: "x402_env \<Rightarrow> X402Client \<Rightarrow> X402DeclinedPayment list x402_run" where
  "ListDeclinedPayments env c = request env c ''GET'' ''/v1/x402/declined-payments'' None
     (dec_list dec_X402DeclinedPayment X402DeclinedPayment_zero) [] []"

definition GetSpendPolicy :: "x402_env \<Rightarrow> X402Client \<Rightarrow> X402SpendPolicy x402_run" where
  "GetSpendPolicy env c = request env c ''GET'' ''/v1/x402/spend-policy'' None dec_X402SpendPolicy X402SpendPolicy_zero []"

record X402SpendPolicyUpdate =
  up_Paused :: "bool option"
  up_MaxPerPayment :: "string option"
  up_MaxPerDay :: "string option"
  up_Allowlist :: "string list option"
  up_clearMaxPerPayment :: bool
  up_clearMaxPerDay :: bool

definition SetPaused :: "bool \<Rightarrow> X402SpendPolicyUpdate \<Rightarrow> X402SpendPolicyUpdate" where
  "SetPaused v u = u\<lparr>up_Paused := Some v\<rparr>"
definition SetMaxPerPayment :: "string \<Rightarrow> X402SpendPolicyUpdate \<Rightarrow> X402SpendPolicyUpdate" where
  "SetMaxPerPayment v u = u\<lparr>up_MaxPerPayment := Some v, up_clearMaxPerPayment := False\<rparr>"
definition ClearMaxPerPayment :: "X402SpendPolicyUpdate \<Rightarrow> X402SpendPolicyUpdate" where
  "ClearMaxPerPayment u = u\<lparr>up_MaxPerPayment := None, up_clearMaxPerPayment := True\<rparr>"
definition SetMaxPerDay :: "string \<Rightarrow> X402SpendPolicyUpdate \<Rightarrow> X402SpendPolicyUpdate" where
  "SetMaxPerDay v u = u\<lparr>up_MaxPerDay := Some v, up_clearMaxPerDay := False\<rparr>"
definition ClearMaxPerDay :: "X402SpendPolicyUpdate \<Rightarrow> X402SpendPolicyUpdate" where
  "ClearMaxPerDay u = u\<lparr>up_MaxPerDay := None, up_clearMaxPerDay := True\<rparr>"
definition SetAllowlist :: "string list \<Rightarrow> X402SpendPolicyUpdate \<Rightarrow> X402SpendPolicyUpdate" where
  "SetAllowlist v u = u\<lparr>up_Allowlist := Some v\<rparr>"

definition cap_field :: "string \<Rightarrow> bool \<Rightarrow> string option \<Rightarrow> (string \<times> json) list" where
  "cap_field name clear v = (if clear then [(name, JNull)] else omit_nil name enc_string v)"

definition update_body :: "X402SpendPolicyUpdate \<Rightarrow> json" where
  "update_body u = map_body (omit_nil ''paused'' JBool (up_Paused u) @
     cap_field ''max_per_payment'' (up_clearMaxPerPayment u) (up_MaxPerPayment u) @
     cap_field ''max_per_day'' (up_clearMaxPerDay u) (up_MaxPerDay u) @
     omit_nil ''allowlist'' (\<lambda>vs. JArr (map enc_string vs)) (up_Allowlist u))"

definition SetSpendPolicy :: "x402_env \<Rightarrow> X402Client \<Rightarrow> X402SpendPolicyUpdate \<Rightarrow> X402SpendPolicy x402_run" where
  "SetSpendPolicy env c update = request env c ''PUT'' ''/v1/x402/spend-policy'' (Some (update_body update))
     dec_X402SpendPolicy X402SpendPolicy_zero []"

end
