(* ===== verification/X402_Payment.thy ===== *)
theory X402_Payment
  imports X402_Client
begin

text \<open>
  What the payment methods of the client sign and send.
\<close>

section \<open>Facts\<close>

text \<open>The typed data a payment signs.\<close>

definition payment_data :: "X402Signer \<Rightarrow> int \<Rightarrow> X402PaymentRequirements \<Rightarrow> int \<Rightarrow> int \<Rightarrow> int \<Rightarrow> string \<Rightarrow> TypedData" where
  "payment_data s chainID pr amount va vb nonce = transferWithAuthorizationTypedData
     \<lparr>td_Name = extra_Name (pr_Extra pr), td_Version = extra_Version (pr_Extra pr), td_ChainID = chainID,
       td_VerifyingContract = pr_Asset pr\<rparr>
     \<lparr>ta_From = signer_Address s, ta_To = pr_PayTo pr, ta_Value = amount, ta_ValidAfter = va, ta_ValidBefore = vb,
       ta_Nonce = nonce\<rparr>"

text \<open>All that must hold for a payment of these requirements to be signed, with the data signed.\<close>

definition signs :: "x402_env \<Rightarrow> X402Signer \<Rightarrow> int \<Rightarrow> X402PaymentRequirements \<Rightarrow> X402NonceBinding \<Rightarrow> string \<Rightarrow> TypedData \<Rightarrow> bool" where
  "signs env s chainID pr nb expires td \<longleftrightarrow>
     (\<exists>t amount va vb nonce. unix_seconds expires = Some t \<and> env_now env < t \<and>
        big_set_string (pr_MaxAmountRequired pr) = Some amount \<and>
        ComputePaymentValidityWindow (default_window t (env_now env)) = Inr (va, vb) \<and>
        DeriveEIP3009Nonce (env_keccak env) (signing_binding nb) = Inr nonce \<and>
        td = payment_data s chainID pr amount va vb nonce)"

lemma fail_simps [simp]: "fst (fail m) = []" "snd (fail m) = Inl (newX402Error m 0)"
  by (simp_all add: fail_def)

lemma authorize_cases:
  obtains (quiet) e where "authorize_payment env s network chainID pr nb expires = ([], Inl e)"
  | (signed) td r where "authorize_payment env s network chainID pr nb expires = ([Signed td], r)"
      "signs env s chainID pr nb expires td"
proof (cases "\<exists>td r. authorize_payment env s network chainID pr nb expires = ([Signed td], r) \<and> signs env s chainID pr nb expires td")
  case False
  then have "\<exists>e. authorize_payment env s network chainID pr nb expires = ([], Inl e)"
    unfolding authorize_payment_def SignInteractionPayment_def signs_def payment_data_def
    by (auto simp: fail_def Let_def not_le split: option.splits sum.splits if_splits prod.splits)
  then show ?thesis using that by blast
qed (use that in blast)

lemma authorize_Inr:
  "authorize_payment env s network chainID pr nb expires = (eff, Inr p) \<Longrightarrow>
     \<exists>td. eff = [Signed td] \<and> signs env s chainID pr nb expires td \<and>
       signer_SignTypedData s td = Inr (pp_Signature p) \<and> pp_Network p = network \<and> pp_To p = pr_PayTo pr \<and>
       pp_From p = signer_Address s"
  unfolding authorize_payment_def SignInteractionPayment_def signs_def payment_data_def
  by (fastforce simp: fail_def Let_def BuildExactEvmPaymentPayload_def toPaymentPayload_def not_le
      split: option.splits sum.splits if_splits prod.splits)


lemma request_effects:
  "fst (request env c httpMethod path body d zero headers) = [] \<or>
   (\<exists>req. fst (request env c httpMethod path body d zero headers) = [Sent req] \<and> req_Method req = httpMethod \<and>
      req_URL req = xc_baseURL c @ path \<and> req_Body req = map_option json_text body \<and> env_http env req \<noteq> NoRequest)"
  by (auto simp: request_def fail_def Let_def split: http_reply.splits)

lemma request_Inr:
  "request env c httpMethod path body d zero headers = (eff, Inr v) \<Longrightarrow>
   \<exists>req. eff = [Sent req] \<and> req_Method req = httpMethod \<and> req_URL req = xc_baseURL c @ path \<and>
     req_Body req = map_option json_text body \<and>
     (\<exists>status ra txt. env_http env req = Reply status ra txt \<and> read_reply path d zero status ra txt = Inr v)"
  by (auto simp: request_def fail_def Let_def split: http_reply.splits if_splits)

text \<open>\<open>Pay\<close> stops before it does anything, or everything it checks first is in order.\<close>

definition payable :: "X402Challenge \<Rightarrow> int \<Rightarrow> bool" where
  "payable ch chainID \<longleftrightarrow> validateChallenge (Some ch) = None \<and> x402ChainIDs (ch_Network ch) = Some chainID \<and>
     pr_Network (ch_PaymentRequirements ch) = ch_Network ch \<and> pr_Scheme (ch_PaymentRequirements ch) = ''exact''"

lemma Pay_cases:
  obtains (stops) e where "Pay env c challenge signer = ([], Inl e)"
  | (goes_on) ch s chainID where "challenge = Some ch" "signer = Some s" "signer_Address s \<noteq> []" "payable ch chainID"
      "Pay env c challenge signer = pay_body env c ch s chainID"
proof (cases "no_signer signer \<or> validateChallenge challenge \<noteq> None")
  case True
  then have "\<exists>e. Pay env c challenge signer = ([], Inl e)" by (auto simp: Pay_def fail_def)
  then show ?thesis using stops by blast
next
  case False
  then obtain s ch where s: "signer = Some s" "signer_Address s \<noteq> []" "challenge = Some ch"
      and valid: "validateChallenge (Some ch) = None"
    by (auto simp: no_signer_def validateChallenge_def Let_def split: option.splits)
  then have go: "\<not> no_signer (Some s)" by (simp add: no_signer_def)
  let ?pr = "ch_PaymentRequirements ch"
  consider "x402ChainIDs (ch_Network ch) = None"
    | "\<exists>i. x402ChainIDs (ch_Network ch) = Some i" "pr_Network ?pr \<noteq> ch_Network ch \<or> pr_Scheme ?pr \<noteq> ''exact''"
    | i where "payable ch i"
    using valid by (auto simp: payable_def)
  then show ?thesis
  proof cases
    case 1
    then show ?thesis using s go valid by (intro stops) (simp add: Pay_def fail_def)
  next
    case 2
    then have "\<exists>e. Pay env c challenge signer = ([], Inl e)"
      using s go valid by (cases "pr_Network ?pr = ch_Network ch") (auto simp: Pay_def fail_def Let_def)
    then show ?thesis using stops by blast
  next
    case (3 i)
    then show ?thesis using s go by (intro goes_on [of ch s i]) (simp_all add: Pay_def payable_def Let_def)
  qed
qed

lemma pay_body_Inl:
  assumes "authorize_payment env s (ch_Network ch) chainID (ch_PaymentRequirements ch) (ch_NonceBinding ch) (ch_ExpiresAt ch) = (eff, Inl e)"
  shows "pay_body env c ch s chainID = (eff, Inl e)"
  using assms by (simp add: pay_body_def)

lemma pay_body_Inr:
  assumes "authorize_payment env s (ch_Network ch) chainID (ch_PaymentRequirements ch) (ch_NonceBinding ch) (ch_ExpiresAt ch) = ([Signed td], Inr p)"
  shows "pay_body env c ch s chainID =
    (Signed td # fst (request env c ''POST'' (''/v1/x402/challenges/'' @ ch_ID ch @ ''/pay'')
       (Some (JObj [(''payment'', enc_X402PaymentPayload p)])) dec_X402Receipt X402Receipt_zero []),
     snd (request env c ''POST'' (''/v1/x402/challenges/'' @ ch_ID ch @ ''/pay'')
       (Some (JObj [(''payment'', enc_X402PaymentPayload p)])) dec_X402Receipt X402Receipt_zero []))"
  using assms by (simp add: pay_body_def apfst_def map_prod_def split_beta)

lemma request_quiet:
  "Signed td \<notin> set (fst (request env c httpMethod path body d zero headers))"
  using request_effects [of env c httpMethod path body d zero headers] by auto

lemma pay_body_signs:
  assumes "Signed td \<in> set (fst (pay_body env c ch s chainID))"
  shows "signs env s chainID (ch_PaymentRequirements ch) (ch_NonceBinding ch) (ch_ExpiresAt ch) td"
proof (cases rule: authorize_cases [of env s "ch_Network ch" chainID "ch_PaymentRequirements ch" "ch_NonceBinding ch" "ch_ExpiresAt ch"])
  case (quiet e)
  then show ?thesis using assms by (simp add: pay_body_Inl)
next
  case (signed td' r)
  have "td = td'"
    using assms signed(1) by (cases r) (auto simp: pay_body_Inl pay_body_Inr request_quiet)
  then show ?thesis using signed(2) by simp
qed

lemma pay_body_effects:
  "\<exists>td req. fst (pay_body env c ch s chainID) \<in> {[], [Signed td], [Signed td, Sent req]}"
proof (cases rule: authorize_cases [of env s "ch_Network ch" chainID "ch_PaymentRequirements ch" "ch_NonceBinding ch" "ch_ExpiresAt ch"])
  case (quiet e)
  then show ?thesis by (simp add: pay_body_Inl)
next
  case (signed td r)
  show ?thesis
  proof (cases r)
    case (Inl e)
    then show ?thesis using signed(1) by (simp add: pay_body_Inl)
  next
    case (Inr p)
    then show ?thesis using signed(1) request_effects
      [of env c "''POST''" "''/v1/x402/challenges/'' @ ch_ID ch @ ''/pay''"
        "Some (JObj [(''payment'', enc_X402PaymentPayload p)])" dec_X402Receipt X402Receipt_zero "[]"]
      by (auto simp: pay_body_Inr)
  qed
qed

lemma pay_body_receipt:
  assumes "snd (pay_body env c ch s chainID) = Inr receipt"
  shows "\<exists>td req p status ra txt. fst (pay_body env c ch s chainID) = [Signed td, Sent req] \<and>
     signer_SignTypedData s td = Inr (pp_Signature p) \<and> pp_To p = pr_PayTo (ch_PaymentRequirements ch) \<and>
     req_URL req = xc_baseURL c @ ''/v1/x402/challenges/'' @ ch_ID ch @ ''/pay'' \<and>
     req_Body req = Some (json_text (JObj [(''payment'', enc_X402PaymentPayload p)])) \<and>
     env_http env req = Reply status ra txt \<and>
     read_reply (''/v1/x402/challenges/'' @ ch_ID ch @ ''/pay'') dec_X402Receipt X402Receipt_zero status ra txt = Inr receipt"
proof -
  let ?a = "authorize_payment env s (ch_Network ch) chainID (ch_PaymentRequirements ch) (ch_NonceBinding ch) (ch_ExpiresAt ch)"
  obtain eff p where a: "?a = (eff, Inr p)"
    using assms by (auto simp: pay_body_def split: prod.splits sum.splits)
  from authorize_Inr [OF a] obtain td where td: "eff = [Signed td]"
      "signer_SignTypedData s td = Inr (pp_Signature p)" "pp_To p = pr_PayTo (ch_PaymentRequirements ch)" by blast
  let ?r = "request env c ''POST'' (''/v1/x402/challenges/'' @ ch_ID ch @ ''/pay'')
    (Some (JObj [(''payment'', enc_X402PaymentPayload p)])) dec_X402Receipt X402Receipt_zero []"
  have eq: "pay_body env c ch s chainID = (Signed td # fst ?r, snd ?r)" using a td(1) by (simp add: pay_body_Inr)
  then have "?r = (fst ?r, Inr receipt)" using assms by (simp add: prod_eq_iff)
  from request_Inr [OF this] show ?thesis unfolding eq using td(2,3) by fastforce
qed

section \<open>When a payment succeeds\<close>

lemma amount_parses: "re_match x402AmountRe s \<Longrightarrow> \<exists>n. big_set_string s = Some n"
proof -
  assume "re_match x402AmountRe s"
  then have "s \<noteq> []" "list_all is_digit s"
    by (auto simp: re_match_lang x402AmountRe_def lang_upto_cls list_all_iff in_digit_cls in_cls_simps is_digit_def
        simp del: rupto.simps)
  then show ?thesis using big_set_string_digits by blast
qed

lemma derived_nonce:
  assumes "re_match x402ChallengeNonceRe (xnb_ChallengeNonce nb)" and "\<forall>x. length (keccak x) = 32"
  shows "\<exists>nonce. DeriveEIP3009Nonce keccak (signing_binding nb) = Inr nonce \<and> re_match x402NonceRe nonce"
proof -
  obtain r where "hex_decode (xnb_ChallengeNonce nb) = Some r" using nonce_hex_decodes [OF assms(1)] by blast
  moreover have "re_match x402NonceRe (''0x'' @ hex_encode (keccak x))" for x
    unfolding re_match_lang x402NonceRe_def
    by (rule lang_seqI) (auto simp: lang_rlit lang_rep_cls in_hex_cls assms(2) is_lower_hex_def
        dest!: hex_encode_chars simp del: rrep.simps rlit.simps)
  ultimately show ?thesis using assms(1) by (simp add: DeriveEIP3009Nonce_def signing_binding_def)
qed

lemma unix_seconds_bound: "unix_seconds s = Some t \<Longrightarrow> \<bar>t\<bar> < 2 ^ 40"
  using parse_rfc3339_range [of s] by (fastforce simp: unix_seconds_def)

lemma read_success:
  assumes "printable n v" "n < max_nesting" "200 \<le> status" "status < 300"
  shows "read_reply path d zero status ra (json_text (JObj [(''success'', JBool True), (''data'', v)])) =
    (case d v zero of None \<Rightarrow> Inl (newX402Error (Sprintf ''failed to decode response data from %s: %v''
        [FStr path, FErr ''encoding/json'']) status) | Some x \<Rightarrow> Inr x)"
proof -
  let ?j = "JObj [(''success'', JBool True), (''data'', v)]"
  have "printable (Suc n) ?j"
    using assms(1) by (intro printable_obj) (auto simp: printable_def)
  then have "json_parse (json_text ?j) = Some ?j"
    using json_parse_text [of ?j] assms(2) by (simp add: printable_def)
  moreover have "dec_x402_envelope ?j x402_envelope_zero = Some \<lparr>xv_Success = Some True, xv_Data = Some v, xv_Error = None\<rparr>"
    by (simp add: dec_x402_envelope_def dec_struct_def member_step_def find_field_def fld_def dec_ptr_def dec_bool_def
        dec_raw_def x402_envelope_zero_def)
  moreover have "trim_space (json_text ?j) \<noteq> []" unfolding json_text_obj_trim by simp
  ultimately show ?thesis using assms(3,4) by (simp add: read_reply_def Let_def del: text_of.simps)
qed

lemma chain_networks: "x402ChainIDs n = Some i \<Longrightarrow> n = ''base'' \<or> n = ''base-sepolia''"
  by (simp add: x402ChainIDs_def split: if_splits)

text \<open>A signer that answers every request with a well-formed signature, and a hash of 32 bytes.\<close>

definition signs_well :: "X402Signer \<Rightarrow> bool" where
  "signs_well s \<longleftrightarrow> signer_Address s \<noteq> [] \<and>
     (\<forall>td. \<exists>sig. signer_SignTypedData s td = Inr sig \<and> re_match x402SignatureRe sig)"

text \<open>A private key signs well if go-ethereum hashes and signs what it is given, with 65 bytes.\<close>

lemma private_key_signs_well:
  assumes "NewPrivateKeySigner eth hexKey = Inr s" and "\<forall>k. eth_address eth k \<noteq> []"
    and "\<forall>td. eth_typed_hash eth td \<noteq> None" and "\<forall>d k. \<exists>sig. eth_sign eth d k = Some sig \<and> length sig = 65"
  shows "signs_well (as_signer eth s)"
proof -
  have sig: "re_match x402SignatureRe (wire_signature sig)" if "length sig = 65" for sig
    unfolding re_match_lang x402SignatureRe_def wire_signature_def
    by (rule lang_seqI) (use that in \<open>auto simp: lang_rlit lang_rep_cls in_hex_cls is_lower_hex_def
        dest!: hex_encode_chars simp del: rrep.simps rlit.simps\<close>)
  have "\<exists>sig. PrivateKeySigner_SignTypedData eth s td = Inr sig \<and> re_match x402SignatureRe sig" for td
  proof -
    obtain d where d: "eth_typed_hash eth td = Some d" using assms(3) by blast
    obtain w where "eth_sign eth d (pks_key s) = Some w" "length w = 65" using assms(4) by blast
    then show ?thesis using sig d by (simp add: PrivateKeySigner_SignTypedData_def)
  qed
  moreover have "pks_addr s \<noteq> []" using assms(1,2) by (auto simp: NewPrivateKeySigner_def split: option.splits)
  ultimately show ?thesis by (simp add: signs_well_def as_signer_def)
qed

lemma authorize_answers:
  assumes chain: "x402ChainIDs network = Some chainID" and "unix_seconds expires = Some t" and "env_now env < t"
    and "0 \<le> env_now env" and "re_match x402AmountRe (pr_MaxAmountRequired pr)"
    and "re_match x402ChallengeNonceRe (xnb_ChallengeNonce nb)" and "\<forall>x. length (env_keccak env x) = 32"
    and "signs_well s"
  shows "\<exists>td p. authorize_payment env s network chainID pr nb expires = ([Signed td], Inr p)"
proof -
  obtain amount where a: "big_set_string (pr_MaxAmountRequired pr) = Some amount" using amount_parses assms(5) by blast
  obtain nonce where n: "DeriveEIP3009Nonce (env_keccak env) (signing_binding nb) = Inr nonce" "re_match x402NonceRe nonce"
    using derived_nonce [OF assms(6,7)] by blast
  have "\<bar>t\<bar> < 2 ^ 60" "\<bar>env_now env\<bar> < 2 ^ 60" using unix_seconds_bound [OF assms(2)] assms(3,4) by simp_all
  from default_window_result [OF this] obtain va vb where
    w: "ComputePaymentValidityWindow (default_window t (env_now env)) = Inr (va, vb)" by blast
  obtain sig where sig: "signer_SignTypedData s (payment_data s chainID pr amount va vb nonce) = Inr sig"
      "re_match x402SignatureRe sig" using assms(8) by (auto simp: signs_well_def)
  show ?thesis
    using assms(2,3) chain_networks [OF chain] n sig
    by (simp add: authorize_payment_def SignInteractionPayment_def a w Let_def payment_data_def
        BuildExactEvmPaymentPayload_def)
qed

lemma parse_envelope: "json_parse (json_text (enc_InteractionEnvelope e)) = Some (enc_InteractionEnvelope e)"
  using printable_envelope [of e] json_parse_text [of "enc_InteractionEnvelope e"]
  by (simp add: printable_def max_nesting_def)

lemma built_step:
  assumes "re_match x402WireIDRe (step_InteractionID input)" "re_match x402UUIDRe (step_StepID input)"
    "re_match x402UUIDRe (step_PrevStepID input)"
  shows "\<exists>b. BuildPaymentStepEnvelope input = Inr b \<and> env_InteractionID (BuiltEnvelope b) = step_InteractionID input \<and>
    env_PrevStepID (BuiltEnvelope b) = Some (step_PrevStepID input) \<and>
    json_parse (BuiltJSON b) = Some (enc_InteractionEnvelope (BuiltEnvelope b)) \<and>
    env_Payment (BuiltEnvelope b) = step_Payment input"
  using assms by (simp add: BuildPaymentStepEnvelope_def Let_def parse_envelope)

lemma extracted_challenge:
  assumes "ExtractEmailChallenge part = Inr ch"
  shows "validateEmailChallenge (Some ch) = None" "re_match x402WireIDRe (ec_InteractionID ch)"
    "re_match x402UUIDRe (xnb_ChallengeStepID (ecd_NonceBinding (ec_Challenge ch)))"
    "re_match x402ChallengeNonceRe (xnb_ChallengeNonce (ecd_NonceBinding (ec_Challenge ch)))"
    "re_match x402AmountRe (pr_MaxAmountRequired (ecd_PaymentRequirements (ec_Challenge ch)))"
proof -
  obtain env where ch: "ch = envelope_challenge env" and e: "envelope_error env = None"
      and v: "validateEmailChallenge (Some (envelope_challenge env)) = None"
    using assms by (auto simp: ExtractEmailChallenge_def split: if_splits option.splits)
  show "validateEmailChallenge (Some ch) = None" using v ch by simp
  show "re_match x402WireIDRe (ec_InteractionID ch)"
    "re_match x402UUIDRe (xnb_ChallengeStepID (ecd_NonceBinding (ec_Challenge ch)))"
    "re_match x402ChallengeNonceRe (xnb_ChallengeNonce (ecd_NonceBinding (ec_Challenge ch)))"
    using e unfolding ch envelope_challenge_def envelope_error_def by (auto split: if_splits)
  show "re_match x402AmountRe (pr_MaxAmountRequired (ecd_PaymentRequirements (ec_Challenge ch)))"
    using v unfolding ch validateEmailChallenge_def validatePaymentRequirements_def
    by (auto simp: Let_def split: if_splits)
qed

section \<open>A concrete payment\<close>

definition example_requirements :: X402PaymentRequirements where
  "example_requirements = \<lparr>pr_Scheme = ''exact'', pr_Network = ''base'', pr_MaxAmountRequired = ''10000'',
     pr_PayTo = ''0x'' @ replicate 40 (CHR ''1''), pr_Asset = ''0x'' @ replicate 40 (CHR ''2''),
     pr_Extra = \<lparr>extra_Name = ''USDC'', extra_Version = ''2''\<rparr>\<rparr>"

definition example_challenge :: X402Challenge where
  "example_challenge = \<lparr>ch_ID = ''c1'', ch_Network = ''base'', ch_Amount = ''10000'',
     ch_PayTo = ''0x'' @ replicate 40 (CHR ''1''),
     ch_NonceBinding = \<lparr>xnb_InteractionID = ''00000000-0000-4000-8000-000000000001@example.com'',
       xnb_ChallengeStepID = ''00000000-0000-4000-8000-000000000002'', xnb_ChallengeNonce = replicate 64 (CHR ''a'')\<rparr>,
     ch_PaymentRequirements = example_requirements, ch_ExpiresAt = ''2030-01-01T00:00:00Z''\<rparr>"

definition example_signer :: X402Signer where
  "example_signer = \<lparr>signer_Address = ''0x'' @ replicate 40 (CHR ''3''),
     signer_SignTypedData = (\<lambda>_. Inr (''0x'' @ replicate 130 (CHR ''4''))), signer_SignMessage = (\<lambda>_. Inr [])\<rparr>"

definition example_env :: x402_env where
  "example_env = \<lparr>env_http = (\<lambda>_. Reply 200 [] (json_text (JObj [(''success'', JBool True),
       (''data'', JObj [(''id'', JStr ''p1''), (''status'', JStr ''settled'')])]))),
     env_now = 1800000000, env_now_iso = ''2027-01-15T08:00:00Z'', env_uuid = ''00000000-0000-4000-8000-000000000003'',
     env_keccak = (\<lambda>_. replicate 32 (CHR 0x00))\<rparr>"

definition example_client :: X402Client where
  "example_client = \<lparr>xc_apiKey = ''k'', xc_baseURL = ''https://api.primitive.dev'', xc_timeout_ms = None\<rparr>"

lemma example_time: "unix_seconds ''2030-01-01T00:00:00Z'' = Some 1893456000" by code_simp

lemma example_signature: "re_match x402SignatureRe (''0x'' @ replicate 130 (CHR ''4''))" by code_simp

lemma example_signs_well: "signs_well example_signer"
  unfolding signs_well_def using example_signature by (simp add: example_signer_def del: re_match.simps)

lemma example_payable: "payable example_challenge 8453" unfolding payable_def by code_simp

lemma example_authorizes:
  "\<exists>td p. authorize_payment example_env example_signer ''base'' 8453 example_requirements
     (ch_NonceBinding example_challenge) ''2030-01-01T00:00:00Z'' = ([Signed td], Inr p)"
proof (rule authorize_answers [OF _ example_time _ _ _ _ _ example_signs_well])
  show "re_match x402AmountRe (pr_MaxAmountRequired example_requirements)" by code_simp
  show "re_match x402ChallengeNonceRe (xnb_ChallengeNonce (ch_NonceBinding example_challenge))" by code_simp
qed (simp_all add: x402ChainIDs_def example_env_def)

definition example_receipt :: X402Receipt where
  "example_receipt = \<lparr>rc_ID = ''p1'', rc_Status = ''settled'', rc_SettleTx = None\<rparr>"

lemma example_reply:
  "snd (request example_env example_client m path body dec_X402Receipt X402Receipt_zero hs) = Inr example_receipt"
proof -
  have "printable 1 (JObj [(''id'', JStr ''p1''), (''status'', JStr ''settled'')])"
    unfolding One_nat_def by (rule printable_obj) (auto simp: printable_def ascii_def)
  then have "read_reply path dec_X402Receipt X402Receipt_zero 200 [] (json_text (JObj [(''success'', JBool True),
      (''data'', JObj [(''id'', JStr ''p1''), (''status'', JStr ''settled'')])])) = Inr example_receipt" for path
    by (subst read_success [where n = 1])
      (simp_all add: max_nesting_def dec_X402Receipt_def dec_struct_def member_step_def find_field_def fld_def
        dec_string_def X402Receipt_zero_def example_receipt_def)
  then show ?thesis
    by (simp add: request_def example_env_def example_client_def Let_def del: text_of.simps)
qed

lemma example_pays:
  "snd (Pay example_env example_client (Some example_challenge) (Some example_signer)) = Inr example_receipt"
proof -
  obtain td p where a: "authorize_payment example_env example_signer ''base'' 8453 example_requirements
     (ch_NonceBinding example_challenge) ''2030-01-01T00:00:00Z'' = ([Signed td], Inr p)"
    using example_authorizes by blast
  have f: "ch_Network example_challenge = ''base''" "ch_PaymentRequirements example_challenge = example_requirements"
    "ch_ExpiresAt example_challenge = ''2030-01-01T00:00:00Z''" by (simp_all add: example_challenge_def)
  have "snd (pay_body example_env example_client example_challenge example_signer 8453) = Inr example_receipt"
    by (subst pay_body_Inr [where td = td and p = p]) (simp_all only: a f snd_conv example_reply)
  moreover have "\<not> no_signer (Some example_signer)" by (simp add: no_signer_def example_signer_def)
  ultimately show ?thesis using example_payable by (simp add: Pay_def payable_def Let_def)
qed

section \<open>Properties\<close>

text \<open>
  C27. \<open>Pay\<close> signs only what the challenge asks, and only when it should: whatever is signed
  belongs to a complete challenge with one supported network throughout and the exact
  scheme, that has not expired; it transfers from the signer to the challenge's recipient
  the amount it requires, in the window computed for its expiry, under the nonce bound to
  its interaction.
\<close>

theorem pay_signs_only_the_challenge:
  assumes "Signed td \<in> set (fst (Pay env c challenge signer))"
  shows "\<exists>ch s chainID. challenge = Some ch \<and> signer = Some s \<and> signer_Address s \<noteq> [] \<and> payable ch chainID \<and>
    signs env s chainID (ch_PaymentRequirements ch) (ch_NonceBinding ch) (ch_ExpiresAt ch) td"
proof (cases rule: Pay_cases [of env c challenge signer])
  case (stops e)
  then show ?thesis using assms by simp
next
  case (goes_on ch s chainID)
  then show ?thesis using assms pay_body_signs by auto
qed

theorem pay_signs_only_the_challenge_witness:
  "\<exists>td. Signed td \<in> set (fst (Pay example_env example_client (Some example_challenge) (Some example_signer))) \<and>
     signs example_env example_signer 8453 example_requirements (ch_NonceBinding example_challenge)
       (ch_ExpiresAt example_challenge) td"
proof -
  obtain td where td: "Signed td \<in> set (fst (Pay example_env example_client (Some example_challenge) (Some example_signer)))"
    using pay_body_receipt example_pays Pay_cases
    by (metis Inl_Inr_False list.set_intros(1) snd_conv)
  from pay_signs_only_the_challenge [OF td] example_payable have
    "signs example_env example_signer 8453 (ch_PaymentRequirements example_challenge)
      (ch_NonceBinding example_challenge) (ch_ExpiresAt example_challenge) td"
    by (auto simp: payable_def)
  then show ?thesis using td by (auto simp: example_challenge_def)
qed

text \<open>
  C28. A payment is submitted at most once and never unsigned: \<open>Pay\<close> does nothing, or asks for
  one signature, or asks for one signature and then sends one request; and a receipt is
  returned only in the last case, read from the reply to that request, which went to the
  path of the challenge and whose body carries the signature that was given.
\<close>

theorem pay_effects:
  "(\<exists>td req. fst (Pay env c challenge signer) \<in> {[], [Signed td], [Signed td, Sent req]}) \<and>
   (\<forall>receipt. snd (Pay env c challenge signer) = Inr receipt \<longrightarrow>
     (\<exists>ch s td req p status ra txt. challenge = Some ch \<and> signer = Some s \<and>
        fst (Pay env c challenge signer) = [Signed td, Sent req] \<and>
        signer_SignTypedData s td = Inr (pp_Signature p) \<and> pp_To p = pr_PayTo (ch_PaymentRequirements ch) \<and>
        req_URL req = xc_baseURL c @ ''/v1/x402/challenges/'' @ ch_ID ch @ ''/pay'' \<and>
        req_Body req = Some (json_text (JObj [(''payment'', enc_X402PaymentPayload p)])) \<and>
        env_http env req = Reply status ra txt \<and>
        read_reply (''/v1/x402/challenges/'' @ ch_ID ch @ ''/pay'') dec_X402Receipt X402Receipt_zero status ra txt = Inr receipt))"
proof (cases rule: Pay_cases [of env c challenge signer])
  case (stops e)
  then show ?thesis by simp
next
  case (goes_on ch s chainID)
  then show ?thesis using pay_body_effects pay_body_receipt by fastforce
qed

theorem pay_effects_witness:
  "\<exists>td req. fst (Pay example_env example_client (Some example_challenge) (Some example_signer)) = [Signed td, Sent req] \<and>
     req_URL req = ''https://api.primitive.dev/v1/x402/challenges/c1/pay''"
proof -
  have "xc_baseURL example_client @ ''/v1/x402/challenges/'' @ ch_ID example_challenge @ ''/pay'' =
      ''https://api.primitive.dev/v1/x402/challenges/c1/pay''" by (simp add: example_client_def example_challenge_def)
  then show ?thesis
    using pay_effects [of example_env example_client "Some example_challenge" "Some example_signer"] example_pays
    by fastforce
qed

text \<open>
  C29. A challenge that arrived by email can be paid: once \<open>ExtractEmailChallenge\<close> has read it
  from a part, \<open>PayEmailChallenge\<close> succeeds for every signer that answers, if the challenge
  asks for an exact payment on a supported network and has not expired. It asks for exactly
  one signature, sends nothing, and the step it builds answers the step of the challenge in
  its interaction.
\<close>

theorem extracted_challenge_payable:
  assumes ex: "ExtractEmailChallenge part = Inr ch"
    and chain: "x402ChainIDs (pr_Network (ecd_PaymentRequirements (ec_Challenge ch))) = Some chainID"
    and scheme: "pr_Scheme (ecd_PaymentRequirements (ec_Challenge ch)) = ''exact''"
    and time: "unix_seconds (ecd_ExpiresAt (ec_Challenge ch)) = Some t" "env_now env < t" "0 \<le> env_now env"
    and signer: "signs_well s" and keccak: "\<forall>x. length (env_keccak env x) = 32"
    and uuid: "re_match x402UUIDRe (env_uuid env)"
  shows "\<exists>td built. PayEmailChallenge env (Some ch) (Some s) = ([Signed td], Inr built) \<and>
    signs env s chainID (ecd_PaymentRequirements (ec_Challenge ch)) (ecd_NonceBinding (ec_Challenge ch))
      (ecd_ExpiresAt (ec_Challenge ch)) td \<and>
    env_InteractionID (BuiltEnvelope built) = ec_InteractionID ch \<and>
    env_PrevStepID (BuiltEnvelope built) = Some (xnb_ChallengeStepID (ecd_NonceBinding (ec_Challenge ch))) \<and>
    json_parse (BuiltJSON built) = Some (enc_InteractionEnvelope (BuiltEnvelope built)) \<and>
    signer_SignTypedData s td = Inr (pp_Signature (env_Payment (BuiltEnvelope built)))"
proof -
  note c = extracted_challenge [OF ex]
  from authorize_answers [OF chain time c(5,4) keccak signer] obtain td p where
    a: "authorize_payment env s (pr_Network (ecd_PaymentRequirements (ec_Challenge ch))) chainID
      (ecd_PaymentRequirements (ec_Challenge ch)) (ecd_NonceBinding (ec_Challenge ch))
      (ecd_ExpiresAt (ec_Challenge ch)) = ([Signed td], Inr p)" by blast
  from authorize_Inr [OF a] have s: "signs env s chainID (ecd_PaymentRequirements (ec_Challenge ch))
      (ecd_NonceBinding (ec_Challenge ch)) (ecd_ExpiresAt (ec_Challenge ch)) td"
      "signer_SignTypedData s td = Inr (pp_Signature p)" by auto
  let ?step = "\<lparr>step_InteractionID = ec_InteractionID ch, step_StepID = env_uuid env,
    step_PrevStepID = xnb_ChallengeStepID (ecd_NonceBinding (ec_Challenge ch)), step_Payment = p, step_ExpiresAt = []\<rparr>"
  obtain built where b: "BuildPaymentStepEnvelope ?step = Inr built"
    "env_InteractionID (BuiltEnvelope built) = ec_InteractionID ch"
    "env_PrevStepID (BuiltEnvelope built) = Some (xnb_ChallengeStepID (ecd_NonceBinding (ec_Challenge ch)))"
    "json_parse (BuiltJSON built) = Some (enc_InteractionEnvelope (BuiltEnvelope built))"
    "env_Payment (BuiltEnvelope built) = p"
    using built_step [of ?step] c(2,3) uuid by auto
  have "\<not> no_signer (Some s)" using signer by (simp add: no_signer_def signs_well_def)
  then have "PayEmailChallenge env (Some ch) (Some s) = ([Signed td], Inr built)"
    using c(1) chain scheme a b(1) by (simp add: PayEmailChallenge_def Let_def)
  then show ?thesis using s b by auto
qed

definition example_envelope :: x402ChallengeEnvelope where
  "example_envelope = \<lparr>ce_InteractionVersion = 1, ce_InteractionID = ''00000000-0000-4000-8000-000000000001@example.com'',
     ce_Protocol = ''x402.payment'', ce_ProtocolVersion = 1, ce_Step = ''challenge'',
     ce_StepID = ''00000000-0000-4000-8000-000000000002'', ce_ExpiresAt = ''2030-01-01T00:00:00Z'',
     ce_Payload = \<lparr>cp_ChallengeNonce = replicate 64 (CHR ''a''), cp_PaymentRequirements = example_requirements\<rparr>\<rparr>"

definition example_requirements_part :: json where
  "example_requirements_part = JObj [(''scheme'', enc_string ''exact''), (''network'', enc_string ''base''),
     (''maxAmountRequired'', enc_string ''10000''), (''payTo'', enc_string (''0x'' @ replicate 40 (CHR ''1''))),
     (''asset'', enc_string (''0x'' @ replicate 40 (CHR ''2''))),
     (''extra'', JObj [(''name'', enc_string ''USDC''), (''version'', enc_string ''2'')])]"

definition example_part :: json where
  "example_part = JObj [(''interaction_version'', enc_int 1),
     (''interaction_id'', enc_string ''00000000-0000-4000-8000-000000000001@example.com''),
     (''protocol'', enc_string ''x402.payment''), (''protocol_version'', enc_int 1), (''step'', enc_string ''challenge''),
     (''step_id'', enc_string ''00000000-0000-4000-8000-000000000002''), (''expires_at'', enc_string ''2030-01-01T00:00:00Z''),
     (''payload'', JObj [(''challenge_nonce'', enc_string (replicate 64 (CHR ''a''))),
       (''payment_requirements'', example_requirements_part)])]"

lemma printable_members:
  "list_all (\<lambda>(k, v). ascii k \<and> printable n v) ms \<Longrightarrow> printable (Suc n) (JObj ms)"
  by (rule printable_obj) (auto simp: list_all_iff)

lemma example_part_parses: "json_parse (json_text example_part) = Some example_part"
proof -
  have "printable (Suc (Suc 0)) example_requirements_part"
    unfolding example_requirements_part_def
    by (rule printable_members) (simp add: ascii_def printable_members)
  then have "printable (Suc (Suc (Suc 0))) (JObj [(''challenge_nonce'', enc_string (replicate 64 (CHR ''a''))),
      (''payment_requirements'', example_requirements_part)])"
    by (intro printable_members) (simp add: ascii_def)
  then have "printable (Suc (Suc (Suc (Suc 0)))) example_part"
    unfolding example_part_def by (intro printable_members) (simp add: ascii_def)
  then show ?thesis using json_parse_text [of example_part] by (simp add: printable_def max_nesting_def)
qed

lemma example_requirements_decode:
  "dec_X402PaymentRequirements example_requirements_part X402PaymentRequirements_zero = Some example_requirements"
  by (simp add: dec_X402PaymentRequirements_def example_requirements_part_def X402PaymentRequirements_zero_def
      dec_RequirementsExtra_def RequirementsExtra_zero_def example_requirements_def
      dec_struct_def member_step_def find_field_def fld_def dec_string_def enc_string_def ascii_def)

lemma example_part_decodes: "dec_x402ChallengeEnvelope example_part x402ChallengeEnvelope_zero = Some example_envelope"
  by (simp add: dec_x402ChallengeEnvelope_def envelope_fields_def example_part_def x402ChallengeEnvelope_zero_def
      dec_ChallengePayload_def ChallengePayload_zero_def example_envelope_def example_requirements_decode
      dec_struct_def member_step_def find_field_def fld_def dec_string_def enc_string_def dec_int64_def enc_int_def
      parse_int64_itoa is_int64_def ascii_def)

lemma example_envelope_ok: "envelope_error example_envelope = None"
  "validateEmailChallenge (Some (envelope_challenge example_envelope)) = None"
  by code_simp+

lemma example_extracts: "ExtractEmailChallenge (json_text example_part) = Inr (envelope_challenge example_envelope)"
proof -
  have "trim_space (json_text example_part) \<noteq> []"
    unfolding example_part_def json_text_obj_trim by simp
  then show ?thesis
    by (simp add: ExtractEmailChallenge_def example_part_parses example_part_decodes example_envelope_ok)
qed

theorem extracted_challenge_payable_witness:
  "\<exists>td built. PayEmailChallenge example_env (Some (envelope_challenge example_envelope)) (Some example_signer) =
     ([Signed td], Inr built) \<and>
     env_InteractionID (BuiltEnvelope built) = ''00000000-0000-4000-8000-000000000001@example.com''"
proof -
  let ?d = "ec_Challenge (envelope_challenge example_envelope)"
  have a: "x402ChainIDs (pr_Network (ecd_PaymentRequirements ?d)) = Some 8453"
    and b: "pr_Scheme (ecd_PaymentRequirements ?d) = ''exact''"
    and c: "unix_seconds (ecd_ExpiresAt ?d) = Some 1893456000"
    and i: "ec_InteractionID (envelope_challenge example_envelope) = ''00000000-0000-4000-8000-000000000001@example.com''"
    by (simp_all add: envelope_challenge_def example_envelope_def example_requirements_def x402ChainIDs_def example_time)
  have d: "env_now example_env < 1893456000" "0 \<le> env_now example_env" "\<forall>x. length (env_keccak example_env x) = 32"
    by (simp_all add: example_env_def)
  have "re_match x402UUIDRe ''00000000-0000-4000-8000-000000000003''" by code_simp
  then have e: "re_match x402UUIDRe (env_uuid example_env)"
    by (simp only: example_env_def x402_env.select_convs)
  show ?thesis
    using extracted_challenge_payable [OF example_extracts a b c d(1,2) example_signs_well d(3) e] unfolding i by blast
qed

section \<open>Paths, policies and replies\<close>

lemma upper_hex_inject: "m < 16 \<Longrightarrow> n < 16 \<Longrightarrow> upper_hex m = upper_hex n \<longleftrightarrow> m = n"
proof -
  assume "m < 16" "n < 16"
  then have "ord (upper_hex m) = (if m < 10 then 48 + m else 55 + m)" "ord (upper_hex n) = (if n < 10 then 48 + n else 55 + n)"
    by (simp_all add: upper_hex_def)
  moreover have "upper_hex m = upper_hex n \<longleftrightarrow> ord (upper_hex m) = ord (upper_hex n)" by (simp add: of_char_eq_iff)
  ultimately show ?thesis by (auto split: if_splits)
qed

definition escape_char :: "char \<Rightarrow> string" where
  "escape_char c = (if unreserved c then [c] else [CHR 0x25, upper_hex (ord c div 16), upper_hex (ord c mod 16)])"

lemma escape_simps: "escapePathSegment [] = []" "escapePathSegment (c # s) = escape_char c @ escapePathSegment s"
  by (simp_all add: escapePathSegment_def escape_char_def)

lemma ord_halves: "ord (c :: char) div 16 < 16" "ord c mod 16 < 16"
  by (simp_all add: less_mult_imp_div_less)

lemma escape_char_split: "escape_char c @ s = escape_char d @ t \<longleftrightarrow> c = d \<and> s = t"
proof -
  have "c = d" if "ord c div 16 = ord d div 16" "ord c mod 16 = ord d mod 16"
    using that div_mult_mod_eq [of "ord c" 16] div_mult_mod_eq [of "ord d" 16] by (metis of_char_eq_iff)
  moreover have "\<not> unreserved (CHR 0x25)" by code_simp
  ultimately show ?thesis
    by (auto simp: escape_char_def upper_hex_inject ord_halves)
qed

lemma escape_char_nonempty: "escape_char c \<noteq> []" by (simp add: escape_char_def)

lemma escape_inject: "escapePathSegment s = escapePathSegment t \<longleftrightarrow> s = t"
proof (induction s arbitrary: t)
  case Nil
  show ?case by (cases t) (simp_all add: escape_simps escape_char_nonempty)
next
  case (Cons c s)
  then show ?case by (cases t) (simp_all add: escape_simps escape_char_nonempty escape_char_split)
qed

lemma upper_hex_unreserved: "n < 16 \<Longrightarrow> unreserved (upper_hex n)"
  by (auto simp: upper_hex_def unreserved_def)

lemma escape_chars: "c \<in> set (escapePathSegment s) \<Longrightarrow> unreserved c \<or> c = CHR 0x25"
  by (induction s) (auto simp: escape_simps escape_char_def upper_hex_unreserved ord_halves split: if_splits)

datatype policy_op = OpPaused bool | OpMaxPerPayment string | OpClearMaxPerPayment
  | OpMaxPerDay string | OpClearMaxPerDay | OpAllowlist "string list"

fun apply_op :: "policy_op \<Rightarrow> X402SpendPolicyUpdate \<Rightarrow> X402SpendPolicyUpdate" where
  "apply_op (OpPaused v) = SetPaused v"
| "apply_op (OpMaxPerPayment v) = SetMaxPerPayment v"
| "apply_op OpClearMaxPerPayment = ClearMaxPerPayment"
| "apply_op (OpMaxPerDay v) = SetMaxPerDay v"
| "apply_op OpClearMaxPerDay = ClearMaxPerDay"
| "apply_op (OpAllowlist v) = SetAllowlist v"

text \<open>The member an operation asks for.\<close>

fun op_member :: "policy_op \<Rightarrow> string \<times> json" where
  "op_member (OpPaused v) = (''paused'', JBool v)"
| "op_member (OpMaxPerPayment v) = (''max_per_payment'', enc_string v)"
| "op_member OpClearMaxPerPayment = (''max_per_payment'', JNull)"
| "op_member (OpMaxPerDay v) = (''max_per_day'', enc_string v)"
| "op_member OpClearMaxPerDay = (''max_per_day'', JNull)"
| "op_member (OpAllowlist v) = (''allowlist'', JArr (map enc_string v))"

definition update_zero :: X402SpendPolicyUpdate where
  "update_zero = \<lparr>up_Paused = None, up_MaxPerPayment = None, up_MaxPerDay = None, up_Allowlist = None,
     up_clearMaxPerPayment = False, up_clearMaxPerDay = False\<rparr>"

definition update_members :: "X402SpendPolicyUpdate \<Rightarrow> (string \<times> json) list" where
  "update_members u = omit_nil ''paused'' JBool (up_Paused u) @
     cap_field ''max_per_payment'' (up_clearMaxPerPayment u) (up_MaxPerPayment u) @
     cap_field ''max_per_day'' (up_clearMaxPerDay u) (up_MaxPerDay u) @
     omit_nil ''allowlist'' (\<lambda>vs. JArr (map enc_string vs)) (up_Allowlist u)"

lemma update_members_distinct: "distinct (map fst (update_members u))"
  by (simp add: update_members_def cap_field_def omit_nil_def split: option.split)

lemma update_members_op:
  "map_of (update_members (apply_op op u)) = (map_of (update_members u))(fst (op_member op) \<mapsto> snd (op_member op))"
  by (cases op) (auto simp: fun_eq_iff update_members_def cap_field_def omit_nil_def SetPaused_def SetMaxPerPayment_def
      ClearMaxPerPayment_def SetMaxPerDay_def ClearMaxPerDay_def SetAllowlist_def map_add_def split: option.split)

lemma update_members_ops:
  "map_of (update_members (fold apply_op ops u)) = map_of (rev (map op_member ops) @ update_members u)"
proof (induction ops rule: rev_induct)
  case (snoc op ops)
  show ?case by (cases "op_member op") (simp add: update_members_op snoc)
qed simp

text \<open>
  An update of the spend policy says what was asked last: after any sequence of setters,
  the request body is an object with sorted, distinct names that holds exactly the members
  asked for, each with the value asked for last, where a cleared cap is \<open>null\<close> and an untouched
  field is absent.
\<close>

theorem spend_policy_last_wins:
  "\<exists>ms. update_body (fold apply_op ops update_zero) = JObj ms \<and> sorted (map fst ms) \<and> distinct (map fst ms) \<and>
     map_of ms = map_of (rev (map op_member ops))"
proof -
  let ?m = "update_members (fold apply_op ops update_zero)"
  have "map_of (sort_key fst ?m) = map_of (rev (map op_member ops))"
    unfolding map_of_sort_key [OF update_members_distinct] update_members_ops
    by (simp add: update_members_def update_zero_def cap_field_def omit_nil_def)
  moreover have "update_body (fold apply_op ops update_zero) = JObj (sort_key fst ?m)"
    by (simp add: update_body_def map_body_def update_members_def)
  ultimately show ?thesis using update_members_distinct by (simp add: distinct_map)
qed

text \<open>
  An id cannot leave its place in a path: the escaped segment holds no slash, question
  mark or number sign, and two ids share a segment only if they are equal.
\<close>

theorem escaped_path_segment:
  "(escapePathSegment s = escapePathSegment t \<longleftrightarrow> s = t) \<and>
   CHR ''/'' \<notin> set (escapePathSegment s) \<and> CHR ''?'' \<notin> set (escapePathSegment s) \<and> CHR ''#'' \<notin> set (escapePathSegment s)"
proof -
  have "\<not> unreserved (CHR ''/'')" "\<not> unreserved (CHR ''?'')" "\<not> unreserved (CHR ''#'')" by code_simp+
  then show ?thesis using escape_chars [of _ s] escape_inject by fastforce
qed

text \<open>
  A value comes only from a success and an error tells where it came from: \<open>request\<close> returns
  a value only for a reply with a 2xx status to the one request it sent; an error carries
  the status of that reply, or zero when nothing was sent or no reply arrived.
\<close>

theorem request_outcome:
  "case request env c httpMethod path body d zero headers of
     (eff, Inr v) \<Rightarrow> \<exists>req st ra txt. eff = [Sent req] \<and> env_http env req = Reply st ra txt \<and> 200 \<le> st \<and> st < 300 \<and>
       trim_space txt \<noteq> []
   | (eff, Inl e) \<Rightarrow> (\<exists>req st ra txt. eff = [Sent req] \<and> env_http env req = Reply st ra txt \<and> XStatus e = st) \<or>
       XStatus e = 0 \<and> (eff = [] \<or> (\<exists>req. eff = [Sent req] \<and> env_http env req = NoReply \<and> XCause e))"
  by (auto simp: request_def fail_def newX402Error_def Let_def read_reply_def
      split: http_reply.splits option.splits if_splits)

text \<open>A reply whose data is \<open>null\<close> is taken as a success with an empty challenge.\<close>

lemma null_data_accepted:
  "read_reply path dec_X402Challenge X402Challenge_zero 200 ra
     (json_text (JObj [(''success'', JBool True), (''data'', JNull)])) = Inr X402Challenge_zero"
  by (subst read_success [where n = 0]) (simp_all add: max_nesting_def dec_X402Challenge_def dec_struct_def)

end
