(* ===== verification/Event_Connection.thy ===== *)
theory Event_Connection
  imports Complex_Main X402_Client Event_Table
begin

text \<open>
  The connection of the event receiver (\<open>eventConnection\<close> of \<open>event_receiver.go\<close> and the
  transport hooks of \<open>api/event_transport.go\<close>). A method runs on a state that holds the
  connection and the log of everything done outside it; what the network, the clock and the
  context answer is a function of that log. A run is \<open>None\<close> when it never returns.
\<close>

section \<open>Wire types\<close>

record eventWireDelivery =
  wd_QueueID :: string
  wd_EventID :: string
  wd_EventType :: string
  wd_DeliveryID :: string
  wd_LeaseToken :: string
  wd_LeaseExpiresAt :: "int \<times> int"
  wd_Body :: string
  wd_Headers :: "(string \<times> string) list option"

text \<open>The zero \<open>time.Time\<close> is the start of year 1.\<close>

definition zero_time :: "int \<times> int" where "zero_time = (- 62135596800, 0)"

definition eventWireDelivery_zero :: eventWireDelivery where
  "eventWireDelivery_zero = \<lparr>wd_QueueID = [], wd_EventID = [], wd_EventType = [], wd_DeliveryID = [],
     wd_LeaseToken = [], wd_LeaseExpiresAt = zero_time, wd_Body = [], wd_Headers = None\<rparr>"

text \<open>\<open>time.Time.UnmarshalJSON\<close>: RFC 3339 without the leniency of \<open>time.Parse\<close>.\<close>

definition dec_time :: "(int \<times> int) dec" where
  "dec_time j old = (case j of JNull \<Rightarrow> Some old
     | JStr s \<Rightarrow>
         (case parse_rfc3339 s of None \<Rightarrow> None | Some t \<Rightarrow>
            if s ! 12 = CHR '':'' \<or> s ! 19 = CHR '','' then None
            else if last s \<noteq> CHR ''Z'' \<and> (24 \<le> digits_val (take 2 (drop (length s - 5) s)) \<or>
                 60 \<le> digits_val (drop (length s - 2) s)) then None
            else Some t)
     | _ \<Rightarrow> None)"

definition dec_eventWireDelivery :: "eventWireDelivery dec" where
  "dec_eventWireDelivery = dec_struct [
    fld ''queue_id'' dec_string wd_QueueID wd_QueueID_update,
    fld ''event_id'' dec_string wd_EventID wd_EventID_update,
    fld ''event_type'' dec_string wd_EventType wd_EventType_update,
    fld ''delivery_id'' dec_string wd_DeliveryID wd_DeliveryID_update,
    fld ''lease_token'' dec_string wd_LeaseToken wd_LeaseToken_update,
    fld ''lease_expires_at'' dec_time wd_LeaseExpiresAt wd_LeaseExpiresAt_update,
    fld ''body'' dec_string wd_Body wd_Body_update,
    fld ''headers'' (dec_ptr dec_str_map []) wd_Headers wd_Headers_update]"

record eventOffer =
  of_Delivery :: "eventWireDelivery option"
  of_Backlog :: int
  of_GapCount :: int
  of_LastGapReason :: "string option"
  of_Retention :: int
  of_HandlerTimeout :: int

definition eventOffer_zero :: eventOffer where
  "eventOffer_zero = \<lparr>of_Delivery = None, of_Backlog = 0, of_GapCount = 0, of_LastGapReason = None,
     of_Retention = 0, of_HandlerTimeout = 0\<rparr>"

definition dec_eventOffer :: "eventOffer dec" where
  "dec_eventOffer = dec_struct [
    fld ''delivery'' (dec_ptr dec_eventWireDelivery eventWireDelivery_zero) of_Delivery of_Delivery_update,
    fld ''backlog'' dec_int64 of_Backlog of_Backlog_update,
    fld ''gap_count'' dec_int64 of_GapCount of_GapCount_update,
    fld ''last_gap_reason'' opt_string of_LastGapReason of_LastGapReason_update,
    fld ''retention_seconds'' dec_int64 of_Retention of_Retention_update,
    fld ''handler_timeout_seconds'' dec_int64 of_HandlerTimeout of_HandlerTimeout_update]"

record eventFrame =
  fr_Type :: string
  fr_Protocol :: string
  fr_Data :: "json option"
  fr_Code :: string
  fr_Status :: int
  fr_RetryAfter :: "string option"

record eventEnvelope =
  ee_Success :: bool
  ee_Data :: "json option"
  ee_Code :: string

section \<open>Decoding that goes on after an error\<close>

text \<open>
  \<open>encoding/json\<close> stores what it can and reports the first mismatch at the end; the code of
  a failed request is read from such a result. The flag says that all went well.
\<close>

type_synonym 'a pdec = "json \<Rightarrow> 'a \<Rightarrow> 'a \<times> bool"

definition whole :: "'a dec \<Rightarrow> 'a pdec" where
  "whole d j old = (case d j old of None \<Rightarrow> (old, False) | Some v \<Rightarrow> (v, True))"

definition pfld :: "string \<Rightarrow> 'a pdec \<Rightarrow> ('r \<Rightarrow> 'a) \<Rightarrow> (('a \<Rightarrow> 'a) \<Rightarrow> 'r \<Rightarrow> 'r) \<Rightarrow> string \<times> 'r pdec" where
  "pfld name d get upd = (name, \<lambda>j r. case d j (get r) of (v, ok) \<Rightarrow> (upd (\<lambda>_. v) r, ok))"

definition pstep :: "(string \<times> 'r pdec) list \<Rightarrow> 'r \<times> bool \<Rightarrow> string \<times> json \<Rightarrow> 'r \<times> bool" where
  "pstep fs acc kv = (case acc of (r, ok) \<Rightarrow>
     (case find_field fs (fst kv) of None \<Rightarrow> (r, ok) | Some d \<Rightarrow> apsnd ((\<and>) ok) (d (snd kv) r)))"

definition pstruct :: "(string \<times> 'r pdec) list \<Rightarrow> 'r pdec" where
  "pstruct fs j r = (case j of JNull \<Rightarrow> (r, True) | JObj ms \<Rightarrow> foldl (pstep fs) (r, True) ms | _ \<Rightarrow> (r, False))"

definition dec_eventEnvelope :: "eventEnvelope pdec" where
  "dec_eventEnvelope = pstruct [
    pfld ''success'' (whole dec_bool) ee_Success ee_Success_update,
    pfld ''data'' (whole dec_raw) ee_Data ee_Data_update,
    pfld ''error'' (pstruct [pfld ''code'' (whole dec_string) id id]) ee_Code ee_Code_update]"

section \<open>State\<close>

record EventStatus =
  st_Type :: string
  st_Backlog :: int
  st_GapCount :: int
  st_LastGapReason :: "string option"
  st_Err :: "evt_error option"

definition status_of :: "string \<Rightarrow> evt_error option \<Rightarrow> EventStatus" where
  "status_of t e = \<lparr>st_Type = t, st_Backlog = 0, st_GapCount = 0, st_LastGapReason = None, st_Err = e\<rparr>"

record eventConnection =
  con_endpoint :: string
  con_options :: EventOptions
  con_socket :: bool
  con_origin :: string
  con_status :: EventStatus
  con_gaps :: int

text \<open>What \<open>url.Parse\<close> makes of an address, as far as the receiver looks at it.\<close>

record parsed_url =
  u_Scheme :: string
  u_Host :: string
  u_Hostname :: string
  u_Rest :: string

datatype api_operation = PullWebhookEvent | CreateEndpoint | GetAccount | CompleteWebhookEvent

record api_request =
  ar_Method :: string
  ar_URL :: string
  ar_Body :: "string option"
  ar_JSON :: bool
  ar_Operation :: api_operation

datatype read_answer = ReadDone ctx_err | ReadClosed | ReadFailed string | ReadFrame eventFrame

datatype evt_effect =
    Requested api_request
  | AskedConnection
  | Dialed parsed_url
  | Wrote json
  | WasRead read_answer
  | SocketClosed
  | Reported EventStatus
  | Paused int
  | GaveHandler string
  | Chose string bool

datatype dial_answer = DialError | DialRefused int string | DialOK "(string \<times> string) option"

datatype http_answer = HttpError | HttpReply int string string

text \<open>The handler returned, with an error or without, or the delivery's context was over first.\<close>

datatype handler_answer = HandlerReturned "string option" | HandlerLate evt_error

text \<open>
  Answers: to an HTTP request, a read of the credentials, a dial, a write and a read on the
  socket; \<open>ctx.Err()\<close>, the end of a pause, the jitter factor; \<open>url.Parse\<close> and the delay a
  \<open>Retry-After\<close> value asks for; the configured server; the clock in nanoseconds, whether
  the listener was closed, the cause that ended a delivery's context, whether the time for
  its completion is up, the handler.
\<close>

record evt_env =
  ev_http :: "evt_effect list \<Rightarrow> http_answer"
  ev_connection :: "evt_effect list \<Rightarrow> (string \<times> string) option"
  ev_dial :: "evt_effect list \<Rightarrow> dial_answer"
  ev_write :: "evt_effect list \<Rightarrow> bool"
  ev_read :: "evt_effect list \<Rightarrow> read_answer"
  ev_context :: "evt_effect list \<Rightarrow> ctx_err option"
  ev_pause :: "evt_effect list \<Rightarrow> ctx_err option"
  ev_jitter :: "evt_effect list \<Rightarrow> rat"
  ev_parse_url :: "string \<Rightarrow> parsed_url option"
  ev_retry_after :: "string \<Rightarrow> int"
  ev_server :: string
  ev_now :: "evt_effect list \<Rightarrow> int"
  ev_stopped :: "evt_effect list \<Rightarrow> bool"
  ev_delivery :: "evt_effect list \<Rightarrow> evt_error option"
  ev_deadline :: "evt_effect list \<Rightarrow> bool"
  ev_handler :: "evt_effect list \<Rightarrow> handler_answer"

record evt_state =
  es_con :: eventConnection
  es_log :: "evt_effect list"

type_synonym 'a run = "evt_state \<Rightarrow> ((evt_error + 'a) \<times> evt_state) option"

definition ret :: "'a \<Rightarrow> 'a run" where "ret x s = Some (Inr x, s)"
definition err :: "evt_error \<Rightarrow> 'a run" where "err e s = Some (Inl e, s)"

definition andThen :: "'a run \<Rightarrow> ('a \<Rightarrow> 'b run) \<Rightarrow> 'b run" where
  "andThen m f s = (case m s of None \<Rightarrow> None | Some (Inl e, s') \<Rightarrow> Some (Inl e, s') | Some (Inr x, s') \<Rightarrow> f x s')"

definition act :: "evt_effect \<Rightarrow> evt_state \<Rightarrow> evt_state" where
  "act e s = s\<lparr>es_log := es_log s @ [e]\<rparr>"

definition on_con :: "(eventConnection \<Rightarrow> eventConnection) \<Rightarrow> evt_state \<Rightarrow> evt_state" where
  "on_con f s = s\<lparr>es_con := f (es_con s)\<rparr>"

definition con_report :: "EventStatus \<Rightarrow> evt_state \<Rightarrow> evt_state" where
  "con_report st s = (if eo_HasOnStatus (con_options (es_con s)) then act (Reported st) s else s)"

definition con_close :: "evt_state \<Rightarrow> evt_state" where
  "con_close s = (if con_socket (es_con s) then act SocketClosed (on_con (con_socket_update (\<lambda>_. False)) s) else s)"

section \<open>Requests\<close>

definition receiver_operation :: "string \<Rightarrow> api_operation" where
  "receiver_operation path =
     (if has_suffix path ''/complete'' then CompleteWebhookEvent
      else if path = ''account'' then GetAccount
      else if path = ''endpoints'' then CreateEndpoint else PullWebhookEvent)"

definition ReceiverRequest :: "string \<Rightarrow> string \<Rightarrow> string option \<Rightarrow> api_request" where
  "ReceiverRequest server path body = \<lparr>
     ar_Method = (if body \<noteq> None then ''POST'' else ''GET''),
     ar_URL = trim_right_chars [CHR ''/''] server @ CHR ''/'' # path,
     ar_Body = body, ar_JSON = (body \<noteq> None), ar_Operation = receiver_operation path\<rparr>"

definition read_limit :: nat where "read_limit = 64 * 1024 * 1024"

definition read_envelope :: "string \<Rightarrow> eventEnvelope \<times> bool" where
  "read_envelope txt = (case json_first (take read_limit txt) of
     None \<Rightarrow> (\<lparr>ee_Success = False, ee_Data = None, ee_Code = []\<rparr>, False)
   | Some j \<Rightarrow> dec_eventEnvelope j \<lparr>ee_Success = False, ee_Data = None, ee_Code = []\<rparr>)"

definition con_request :: "evt_env \<Rightarrow> string \<Rightarrow> json \<Rightarrow> 'a dec \<Rightarrow> 'a \<Rightarrow> 'a run" where
  "con_request env path body d zero s =
     (let s1 = act (Requested (ReceiverRequest (ev_server env) path (Some (json_text body)))) s
      in case ev_http env (es_log s1) of
           HttpError \<Rightarrow> err (NetErr ''net/http'') s1
         | HttpReply status retryAfter txt \<Rightarrow>
             (case read_envelope txt of (result, decoded) \<Rightarrow>
                if status < 200 \<or> 300 \<le> status then err (Recv (ee_Code result) status (ev_retry_after env retryAfter)) s1
                else if \<not> decoded \<or> \<not> ee_Success result then err (recv ''invalid_response'') s1
                else (case Option.bind (ee_Data result) (\<lambda>j. d j zero) of
                    None \<Rightarrow> err (recv ''invalid_response'') s1
                  | Some v \<Rightarrow> ret v s1)))"

section \<open>Offers and frames\<close>

text \<open>The checks an offer passes.\<close>

definition read_offer :: "json option \<Rightarrow> eventOffer option" where
  "read_offer data = (case Option.bind data (\<lambda>j. dec_eventOffer j eventOffer_zero) of
     None \<Rightarrow> None
   | Some offer \<Rightarrow> if of_Retention offer \<noteq> 86400 \<or> of_HandlerTimeout offer \<noteq> 30 \<or> of_Backlog offer < 0 \<or> of_GapCount offer < 0
       then None else Some offer)"

definition con_update :: "json option \<Rightarrow> eventOffer run" where
  "con_update data s = (case read_offer data of
     None \<Rightarrow> err (recv ''invalid_response'') s
   | Some offer \<Rightarrow>
       (let st = \<lparr>st_Type = ''ready'', st_Backlog = of_Backlog offer, st_GapCount = of_GapCount offer,
              st_LastGapReason = of_LastGapReason offer, st_Err = None\<rparr>;
            s1 = on_con (con_status_update (\<lambda>_. st)) s
        in if 0 < of_GapCount offer \<and> of_GapCount offer \<noteq> con_gaps (es_con s1) then
             (let s2 = con_report (st\<lparr>st_Type := ''gap''\<rparr>) (on_con (con_gaps_update (\<lambda>_. of_GapCount offer)) s1)
              in if eo_OnGapError (con_options (es_con s2)) then err (Recv ''event_gap'' 409 0) s2 else ret offer s2)
           else ret offer s1))"

definition type_frame :: "string \<Rightarrow> json" where
  "type_frame t = JObj [(''type'', enc_string t)]"

text \<open>Waiting for the answer to a frame; status frames on the way update the connection.\<close>

partial_function (option) await_frame :: "evt_env \<Rightarrow> evt_state \<Rightarrow> ((evt_error + eventFrame) \<times> evt_state) option" where
  "await_frame env s =
     (let r = ev_read env (es_log s); s1 = act (WasRead r) s
      in case r of
           ReadDone e \<Rightarrow> Some (Inl (CtxErr e), con_close s1)
         | ReadClosed \<Rightarrow> Some (Inl (recv ''disconnected''), con_close s1)
         | ReadFailed m \<Rightarrow> Some (Inl (NetErr m), con_close s1)
         | ReadFrame f \<Rightarrow>
             if fr_Type f = ''ping'' then
               (let s2 = act (Wrote (type_frame ''pong'')) s1
                in if ev_write env (es_log s2) then await_frame env s2 else Some (Inl (NetErr ''websocket''), con_close s2))
             else if fr_Type f = ''status'' then
               (case con_update (fr_Data f) s1 of
                  None \<Rightarrow> None
                | Some (Inl e, s2) \<Rightarrow> Some (Inl e, s2)
                | Some (Inr offer, s2) \<Rightarrow> await_frame env s2)
             else if fr_Type f = ''error'' then
               Some (Inl (Recv (fr_Code f) (fr_Status f)
                 (case fr_RetryAfter f of None \<Rightarrow> 0 | Some v \<Rightarrow> ev_retry_after env v)), con_close s1)
             else Some (Inr f, s1))"

definition con_exchange :: "evt_env \<Rightarrow> json \<Rightarrow> eventFrame run" where
  "con_exchange env body s =
     (if \<not> con_socket (es_con s) then err (recv ''disconnected'') s
      else let s1 = act (Wrote body) s
           in if ev_write env (es_log s1) then await_frame env s1 else err (NetErr ''websocket'') (con_close s1))"

section \<open>Opening\<close>

definition path_escape_char :: "char \<Rightarrow> string" where
  "path_escape_char c = (if unreserved c \<or> c \<in> {CHR ''$'', CHR ''&'', CHR ''+'', CHR ''='', CHR '':'', CHR ''@''} then [c]
     else [CHR 0x25, upper_hex (ord c div 16), upper_hex (ord c mod 16)])"

definition PathEscape :: "string \<Rightarrow> string" where
  "PathEscape s = concat (map path_escape_char s)"

definition loopback :: "string \<Rightarrow> bool" where
  "loopback host \<longleftrightarrow> host \<in> {''localhost'', ''127.0.0.1'', ''::1''}"

text \<open>The response to the handshake was served by another host, or in the clear.\<close>

definition served_elsewhere :: "parsed_url \<Rightarrow> (string \<times> string) option \<Rightarrow> bool" where
  "served_elsewhere address served \<longleftrightarrow> (case served of None \<Rightarrow> False | Some (scheme, host) \<Rightarrow>
     host \<noteq> u_Host address \<or> (u_Scheme address = ''wss'' \<and> scheme \<noteq> ''https''))"

definition auth_frame :: "string \<Rightarrow> json" where
  "auth_frame token = JObj [(''token'', enc_string token), (''type'', enc_string ''authenticate'')]"

text \<open>The last steps of \<open>open\<close>, on a socket that has been dialled.\<close>

definition authenticate :: "evt_env \<Rightarrow> string \<Rightarrow> unit run" where
  "authenticate env token s =
     (case con_exchange env (auth_frame token) s of
        None \<Rightarrow> None
      | Some (Inl e, s1) \<Rightarrow> err e (con_close s1)
      | Some (Inr frame, s1) \<Rightarrow>
          if fr_Type frame \<noteq> ''ready'' \<or> fr_Protocol frame \<noteq> ''primitive.events.v1'' then
            err (recv ''unsupported'') (con_close s1)
          else ret () s1)"

text \<open>The steps of \<open>open\<close> from a parsed address on.\<close>

definition stream_address :: "parsed_url \<Rightarrow> parsed_url option" where
  "stream_address u =
     (if u_Scheme u \<noteq> ''https'' \<and> \<not> (u_Scheme u = ''http'' \<and> loopback (u_Hostname u)) then None
      else Some (u\<lparr>u_Scheme := (if u_Scheme u = ''https'' then ''wss'' else ''ws'')\<rparr>))"

definition dial_stream :: "evt_env \<Rightarrow> string \<Rightarrow> parsed_url \<Rightarrow> unit run" where
  "dial_stream env token u s =
     (case stream_address u of
        None \<Rightarrow> err (recv ''unsupported'') s
      | Some address \<Rightarrow>
          (let s1 = act (Dialed address) s
           in case ev_dial env (es_log s1) of
                DialError \<Rightarrow> err (NetErr ''websocket'') s1
              | DialRefused status retryAfter \<Rightarrow> err (Recv ''handshake_failed'' status (ev_retry_after env retryAfter)) s1
              | DialOK served \<Rightarrow>
                  (let s2 = on_con (con_socket_update (\<lambda>_. True)) s1
                   in if served_elsewhere address served then err (recv ''unsupported'') (con_close s2)
                      else authenticate env token s2)))"

definition stream_text :: "string \<Rightarrow> string \<Rightarrow> string" where
  "stream_text base endpoint = trim_right_chars [CHR ''/''] base @ ''/endpoints/'' @ PathEscape endpoint @ ''/stream''"

definition con_open :: "evt_env \<Rightarrow> unit run" where
  "con_open env s =
     (if eo_Transport (con_options (es_con s)) = ''poll'' \<or> con_socket (es_con s) then ret () s
      else let s1 = act AskedConnection s
      in case ev_connection env (es_log s1) of
           None \<Rightarrow> err (NetErr ''credentials'') s1
         | Some (base, token) \<Rightarrow>
             if con_origin (es_con s1) \<noteq> [] \<and> con_origin (es_con s1) \<noteq> base then err (Recv ''identity_changed'' 403 0) s1
             else let s2 = on_con (con_origin_update (\<lambda>_. base)) s1
             in case ev_parse_url env (stream_text base (con_endpoint (es_con s2))) of
                  None \<Rightarrow> err (recv ''unsupported'') s2
                | Some u \<Rightarrow> dial_stream env token u s2)"

section \<open>Receiving and completing\<close>

definition receive_socket :: "evt_env \<Rightarrow> eventOffer run" where
  "receive_socket env = andThen (con_exchange env (type_frame ''receive''))
     (\<lambda>frame. if fr_Type frame \<noteq> ''event'' then err (recv ''invalid_response'') else con_update (fr_Data frame))"

definition receive_poll :: "evt_env \<Rightarrow> eventOffer run" where
  "receive_poll env s = andThen
     (con_request env (''endpoints/'' @ con_endpoint (es_con s) @ ''/pull'') (JObj [(''wait_seconds'', enc_int 25)]) dec_raw None)
     con_update s"

definition con_receive :: "evt_env \<Rightarrow> eventOffer run" where
  "con_receive env = andThen (con_open env)
     (\<lambda>_ s. if eo_Transport (con_options (es_con s)) = ''poll'' then receive_poll env s else receive_socket env s)"

record receipt = rcp_Result :: string

definition dec_receipt :: "receipt dec" where
  "dec_receipt = dec_struct [fld ''result'' dec_string rcp_Result rcp_Result_update]"

definition complete_transport :: "evt_env \<Rightarrow> json \<Rightarrow> receipt run" where
  "complete_transport env body s =
     (if eo_Transport (con_options (es_con s)) = ''poll'' then
        con_request env (''endpoints/'' @ con_endpoint (es_con s) @ ''/complete'') body dec_receipt \<lparr>rcp_Result = []\<rparr> s
      else andThen (con_exchange env (JObj [(''body'', body), (''type'', enc_string ''complete'')]))
        (\<lambda>frame. if fr_Type frame \<noteq> ''receipt'' then err (recv ''invalid_response'')
           else (case Option.bind (fr_Data frame) (\<lambda>j. dec_receipt j \<lparr>rcp_Result = []\<rparr>) of
               None \<Rightarrow> err (recv ''invalid_response'') | Some r \<Rightarrow> ret r)) s)"

definition con_complete :: "evt_env \<Rightarrow> json \<Rightarrow> unit run" where
  "con_complete env body = andThen (con_open env) (\<lambda>_. andThen (complete_transport env body)
     (\<lambda>r. if rcp_Result r \<noteq> ''completed'' \<and> rcp_Result r \<noteq> ''already_completed'' then err (recv ''invalid_response'') else ret ()))"

section \<open>Retrying\<close>

definition fatal_codes :: "string list" where
  "fatal_codes = [''unsupported'', ''invalid_response'', ''pull_unavailable'', ''subscription_unavailable'']"

text \<open>An error that ends the retries.\<close>

fun fatal :: "evt_error \<Rightarrow> bool" where
  "fatal (Recv code status ra) \<longleftrightarrow> code \<in> set fatal_codes \<or> \<not> (status = 0 \<or> status = 408 \<or> status = 429 \<or> 500 \<le> status)"
| "fatal _ = False"

text \<open>The base delay in milliseconds, and the pause after a failed attempt in nanoseconds for a
  jitter factor of \<open>0.8 + rand * 0.4\<close>.\<close>

definition backoff_ms :: "nat \<Rightarrow> int" where
  "backoff_ms attempt = min 10000 (250 * 2 ^ min attempt 6)"

definition retry_delay :: "nat \<Rightarrow> rat \<Rightarrow> evt_error \<Rightarrow> int" where
  "retry_delay attempt jitter e =
     (let delay = \<lfloor>of_int (backoff_ms attempt) * jitter\<rfloor> * 1000000
      in case e of Recv _ _ ra \<Rightarrow> max delay ra | _ \<Rightarrow> delay)"

text \<open>One turn of the loop: it settles the call, or leaves the state the next turn starts from.\<close>

definition attempt_once ::
    "evt_env \<Rightarrow> 'a run \<Rightarrow> nat \<Rightarrow> evt_state \<Rightarrow> ((evt_error + 'a) \<times> evt_state) option + evt_state" where
  "attempt_once env operation attempt s =
     (case ev_context env (es_log s) of
        Some e \<Rightarrow> Inl (Some (Inl (CtxErr e), s))
      | None \<Rightarrow>
          (case operation s of
             None \<Rightarrow> Inl None
           | Some (Inr v, s1) \<Rightarrow> Inl (Some (Inr v, s1))
           | Some (Inl e, s1) \<Rightarrow>
               (case ev_context env (es_log s1) of
                  Some c \<Rightarrow> Inl (Some (Inl (CtxErr c), s1))
                | None \<Rightarrow>
                    if fatal e then Inl (Some (Inl e, s1))
                    else (let s2 = con_report (status_of ''reconnecting'' (Some e)) s1;
                              s3 = act (Paused (retry_delay attempt (ev_jitter env (es_log s1)) e)) s2
                          in case ev_pause env (es_log s3) of
                               Some c \<Rightarrow> Inl (Some (Inl (CtxErr c), s3))
                             | None \<Rightarrow> Inr s3))))"

partial_function (option) retry_from ::
    "evt_env \<Rightarrow> (evt_state \<Rightarrow> ((evt_error + 'a) \<times> evt_state) option) \<Rightarrow> nat \<Rightarrow> evt_state \<Rightarrow> ((evt_error + 'a) \<times> evt_state) option" where
  "retry_from env operation attempt s =
     (case attempt_once env operation attempt s of Inl r \<Rightarrow> r | Inr s' \<Rightarrow> retry_from env operation (Suc attempt) s')"

definition retryEvent :: "evt_env \<Rightarrow> 'a run \<Rightarrow> 'a run" where
  "retryEvent env operation = retry_from env operation 0"

section \<open>Connecting\<close>

record endpoint_reply =
  ep_ID :: string
  ep_Kind :: string
  ep_Enabled :: "bool option"
  ep_Modes :: "string list"
  ep_Protocols :: "string list"

definition endpoint_zero :: endpoint_reply where
  "endpoint_zero = \<lparr>ep_ID = [], ep_Kind = [], ep_Enabled = None, ep_Modes = [], ep_Protocols = []\<rparr>"

text \<open>The capabilities are a struct of their own, whose fields are kept in the reply.\<close>

definition dec_capabilities :: "endpoint_reply dec" where
  "dec_capabilities = dec_struct [
    fld ''completion_modes'' dec_strings ep_Modes ep_Modes_update,
    fld ''stream_protocols'' dec_strings ep_Protocols ep_Protocols_update]"

definition dec_endpoint :: "endpoint_reply dec" where
  "dec_endpoint = dec_struct [
    fld ''id'' dec_string ep_ID ep_ID_update,
    fld ''kind'' dec_string ep_Kind ep_Kind_update,
    fld ''enabled'' opt_bool ep_Enabled ep_Enabled_update,
    (''receiver_capabilities'', dec_capabilities)]"

definition endpoint_body :: "EventOptions \<Rightarrow> json" where
  "endpoint_body options = JObj ([(''kind'', enc_string ''pull''), (''name'', enc_string (eo_Subscription options))] @
     (case eo_Events options of None \<Rightarrow> []
      | Some es \<Rightarrow> [(''rules'', JObj [(''event_types'', JArr (map enc_string (remdups_adj (sort es))))])]))"

definition needs_agent :: "(string \<times> string) option \<Rightarrow> bool" where
  "needs_agent answer \<longleftrightarrow> (case answer of None \<Rightarrow> False | Some (_, token) \<Rightarrow> token \<noteq> [] \<and> \<not> has_prefix token ''pconn_'')"

definition endpoint_usable :: "EventOptions \<Rightarrow> endpoint_reply \<Rightarrow> evt_error option" where
  "endpoint_usable options ep =
     (if ep_Kind ep \<noteq> ''pull'' \<or> ep_ID ep = [] \<or> ep_Enabled ep = Some False then Some (Recv ''subscription_unavailable'' 409 0)
      else if ''sdk'' \<notin> set (ep_Modes ep) \<or>
              (eo_Transport options \<noteq> ''poll'' \<and> ''primitive.events.v1'' \<notin> set (ep_Protocols ep)) then Some (recv ''unsupported'')
      else None)"

definition new_connection :: "EventOptions \<Rightarrow> eventConnection" where
  "new_connection options = \<lparr>con_endpoint = [], con_options = options, con_socket = False, con_origin = [],
     con_status = status_of ''ready'' None, con_gaps = - 1\<rparr>"

definition con_connect :: "evt_env \<Rightarrow> EventOptions \<Rightarrow> evt_effect list \<Rightarrow> ((evt_error + unit) \<times> evt_state) option" where
  "con_connect env options past =
     (let s0 = act AskedConnection \<lparr>es_con = new_connection options, es_log = past\<rparr>
      in if needs_agent (ev_connection env (es_log s0)) then Some (Inl (Recv AgentConnectionRequired 403 0), s0)
      else andThen (retryEvent env (con_request env ''endpoints'' (endpoint_body options) dec_endpoint endpoint_zero))
        (\<lambda>ep s. case endpoint_usable options ep of
           Some e \<Rightarrow> err e s
         | None \<Rightarrow>
             (case retryEvent env (con_open env) (on_con (con_endpoint_update (\<lambda>_. ep_ID ep)) s) of
                None \<Rightarrow> None
              | Some (Inl e, s1) \<Rightarrow> Some (Inl e, con_close s1)
              | Some (Inr _, s1) \<Rightarrow> Some (Inr (), con_report (con_status (es_con s1)) s1))) s0)"

end
