(* ===== verification/Event_Receiver.thy ===== *)
theory Event_Receiver
  imports Event_Connection
begin

text \<open>
  What the retries, the socket and the offers of a connection do: which attempt a retried call
  returns, how long it pauses, where the credential is sent and which gaps are reported.
\<close>

section \<open>Retrying\<close>

primrec after_attempts :: "evt_env \<Rightarrow> 'a run \<Rightarrow> nat \<Rightarrow> nat \<Rightarrow> evt_state \<Rightarrow> evt_state option" where
  "after_attempts env operation attempt 0 s = Some s"
| "after_attempts env operation attempt (Suc n) s =
     (case attempt_once env operation attempt s of Inl _ \<Rightarrow> None | Inr s' \<Rightarrow> after_attempts env operation (Suc attempt) n s')"

lemma retry_from_settles:
  "after_attempts env operation attempt n s = Some s' \<Longrightarrow> attempt_once env operation (attempt + n) s' = Inl r \<Longrightarrow>
     retry_from env operation attempt s = r"
proof (induction n arbitrary: attempt s)
  case 0
  then show ?case by (subst retry_from.simps) simp
next
  case (Suc n)
  then show ?case by (subst retry_from.simps) (auto split: sum.splits)
qed

definition settled_by ::
    "evt_env \<Rightarrow> 'a run \<Rightarrow> nat \<Rightarrow> evt_state \<Rightarrow> (evt_error + 'a) \<times> evt_state \<Rightarrow> nat \<Rightarrow> bool" where
  "settled_by env operation attempt s r n \<longleftrightarrow> (\<exists>s'. after_attempts env operation attempt n s = Some s' \<and>
     attempt_once env operation (attempt + n) s' = Inl (Some r))"

lemma retry_from_settled:
  assumes "retry_from env operation attempt s = Some r"
  shows "\<exists>n. settled_by env operation attempt s r n"
proof (rule retry_from.raw_induct [OF _ assms], goal_cases)
  case (1 rf env operation attempt s r)
  show ?case
  proof (cases "attempt_once env operation attempt s")
    case (Inl x)
    then show ?thesis using 1(2) by (intro exI [of _ 0]) (simp add: settled_by_def)
  next
    case (Inr s1)
    then obtain n where "settled_by env operation (Suc attempt) s1 r n" using 1 by fastforce
    then show ?thesis using Inr by (intro exI [of _ "Suc n"]) (simp add: settled_by_def)
  qed
qed

definition pauses :: "evt_effect list \<Rightarrow> nat" where
  "pauses l = length (filter (\<lambda>e. case e of Paused _ \<Rightarrow> True | _ \<Rightarrow> False) l)"

lemma pauses_act: "pauses (es_log (act e s)) = pauses (es_log s) + (case e of Paused _ \<Rightarrow> 1 | _ \<Rightarrow> 0)"
  by (cases e) (simp_all add: pauses_def act_def)

lemma con_report_pauses: "pauses (es_log (con_report st s)) = pauses (es_log s)"
  by (simp add: con_report_def pauses_act)

lemma attempt_pauses:
  assumes "attempt_once env operation attempt s = Inr s'"
    and "\<And>r t. operation s = Some (r, t) \<Longrightarrow> pauses (es_log s) \<le> pauses (es_log t)"
  shows "Suc (pauses (es_log s)) \<le> pauses (es_log s')"
  using assms by (auto simp: attempt_once_def Let_def pauses_act con_report_pauses split: option.splits sum.splits if_splits)

lemma retry_returns:
  assumes total: "\<And>s. \<exists>r t. operation s = Some (r, t) \<and> pauses (es_log s) \<le> pauses (es_log t)"
    and deadline: "\<And>l. k \<le> pauses l \<Longrightarrow> ev_context env l \<noteq> None"
  shows "\<exists>r. retry_from env operation attempt s = Some r"
proof (induction "k - pauses (es_log s)" arbitrary: attempt s rule: less_induct)
  case less
  obtain r t where t: "operation s = Some (r, t)" "pauses (es_log s) \<le> pauses (es_log t)" using total by blast
  show ?case
  proof (cases "attempt_once env operation attempt s")
    case (Inl x)
    then have "x \<noteq> None" by (auto simp: attempt_once_def Let_def t(1) split: option.splits sum.splits if_splits)
    then show ?thesis using Inl by (subst retry_from.simps) auto
  next
    case (Inr s')
    then have "\<not> k \<le> pauses (es_log s)" using deadline [of "es_log s"] by (auto simp: attempt_once_def split: option.splits)
    moreover have "Suc (pauses (es_log s)) \<le> pauses (es_log s')" using attempt_pauses [OF Inr] t by auto
    ultimately have "k - pauses (es_log s') < k - pauses (es_log s)" by simp
    from less [OF this] show ?thesis using Inr by (subst retry_from.simps) simp
  qed
qed

section \<open>Delays\<close>

lemma backoff_bounds: "250 \<le> backoff_ms a \<and> backoff_ms a \<le> 10000 \<and> backoff_ms a \<le> backoff_ms (Suc a) \<and> (6 \<le> a \<longrightarrow> backoff_ms a = 10000)
  \<and> backoff_ms a mod 5 = 0"
proof -
  have "a = 0 \<or> a = 1 \<or> a = 2 \<or> a = 3 \<or> a = 4 \<or> a = 5 \<or> 6 \<le> a" by arith
  then show ?thesis by (auto simp: backoff_ms_def min_def)
qed

lemma jittered:
  assumes "4 / 5 \<le> q" "q \<le> (6 / 5 :: rat)"
  shows "4 * backoff_ms a div 5 \<le> \<lfloor>of_int (backoff_ms a) * q\<rfloor>" "\<lfloor>of_int (backoff_ms a) * q\<rfloor> \<le> 6 * backoff_ms a div 5"
proof -
  let ?b = "backoff_ms a"
  obtain c where c: "?b = 5 * c" using backoff_bounds [of a] by (metis mod_0_imp_dvd dvdE)
  have "0 \<le> c" using backoff_bounds [of a] c by simp
  have "of_int (4 * c) \<le> (of_int ?b * q :: rat)" "(of_int ?b * q :: rat) \<le> of_int (6 * c)"
    using assms mult_left_mono [of "4/5" q "of_int ?b"] mult_left_mono [of q "6/5" "of_int ?b"] \<open>0 \<le> c\<close> unfolding c by simp_all
  then show "4 * ?b div 5 \<le> \<lfloor>of_int ?b * q\<rfloor>" "\<lfloor>of_int ?b * q\<rfloor> \<le> 6 * ?b div 5"
    using c floor_mono [of "of_int ?b * q" "of_int (6 * c)"] by (simp_all add: le_floor_iff)
qed

section \<open>What the calls preserve\<close>

text \<open>A property of states that the steps outside the connection and the operation keep is kept by
  the retries of the operation.\<close>

lemma attempt_result:
  assumes "attempt_once env operation attempt s = Inr t \<or> attempt_once env operation attempt s = Inl (Some (r, t))"
  shows "t = s \<or> (\<exists>q s1. operation s = Some (q, s1) \<and> (t = s1 \<or> (\<exists>n st. t = act (Paused n) (con_report st s1))))"
proof (cases "operation s")
  case (Some x)
  obtain q s1 where "x = (q, s1)" by (cases x)
  then show ?thesis using assms Some
    by (cases q) (auto simp: attempt_once_def Let_def split: option.splits if_splits)
qed (use assms in \<open>auto simp: attempt_once_def split: option.splits\<close>)

lemma attempt_keeps:
  assumes op: "\<And>s r t. P s \<Longrightarrow> operation s = Some (r, t) \<Longrightarrow> P t"
    and acts: "\<And>s st. P s \<Longrightarrow> P (act (Reported st) s)" "\<And>s n. P s \<Longrightarrow> P (act (Paused n) s)"
    and "P s" and r: "attempt_once env operation attempt s = Inr t \<or> attempt_once env operation attempt s = Inl (Some (r, t))"
  shows "P t"
proof -
  have "P (act (Paused n) (con_report st u))" if "P u" for n st u using that acts by (simp add: con_report_def)
  then show ?thesis using attempt_result [OF r] op \<open>P s\<close> by blast
qed

lemma retry_keeps:
  assumes op: "\<And>s r t. P s \<Longrightarrow> operation s = Some (r, t) \<Longrightarrow> P t"
    and acts: "\<And>s st. P s \<Longrightarrow> P (act (Reported st) s)" "\<And>s n. P s \<Longrightarrow> P (act (Paused n) s)"
    and "P s" "retryEvent env operation s = Some (r, s')"
  shows "P s'"
proof -
  obtain n t where t: "after_attempts env operation 0 n s = Some t" "attempt_once env operation n t = Inl (Some (r, s'))"
    using retry_from_settled [of env operation 0 s] assms(5) by (auto simp: retryEvent_def settled_by_def)
  have keeps: "P t" if "P s"
      "attempt_once env operation a s = Inr t \<or> attempt_once env operation a s = Inl (Some (r, t))" for a s t r
    using op acts that by (rule attempt_keeps)
  have "P u" if "after_attempts env operation a m v = Some u" "P v" for a m u v
    using that
  proof (induction m arbitrary: a v)
    case (Suc m)
    then obtain w where "attempt_once env operation a v = Inr w" "after_attempts env operation (Suc a) m w = Some u"
      by (auto split: sum.splits)
    then show ?case using Suc keeps by blast
  qed simp
  from this [OF t(1) assms(4)] show ?thesis using keeps t(2) by blast
qed

text \<open>Effects of a connection, as opposed to those of a listener.\<close>

fun on_wire :: "evt_effect \<Rightarrow> bool" where
  "on_wire (GaveHandler i) = False"
| "on_wire (Chose i b) = False"
| "on_wire _ = True"

locale connection_property =
  fixes P :: "evt_state \<Rightarrow> bool"
  assumes wire: "P s \<Longrightarrow> on_wire e \<Longrightarrow> P (act e s)"
    and con: "P s \<Longrightarrow> P (on_con f s)"
begin

lemma acts: "P s \<Longrightarrow> P (act (Requested q) s)" "P s \<Longrightarrow> P (act AskedConnection s)" "P s \<Longrightarrow> P (act (Dialed u) s)"
  "P s \<Longrightarrow> P (act (Wrote j) s)" "P s \<Longrightarrow> P (act (WasRead a) s)" "P s \<Longrightarrow> P (act SocketClosed s)"
  "P s \<Longrightarrow> P (act (Reported st) s)" "P s \<Longrightarrow> P (act (Paused n) s)"
  by (simp_all add: wire)

lemma closes: "P s \<Longrightarrow> P (con_close s)"
  by (simp add: con_close_def acts con)

lemma reports: "P s \<Longrightarrow> P (con_report st s)"
  by (simp add: con_report_def acts)

lemma update: "P s \<Longrightarrow> con_update d s = Some (r, s') \<Longrightarrow> P s'"
  by (auto simp: con_update_def err_def ret_def Let_def con reports split: option.splits if_splits)

lemma requests: "P s \<Longrightarrow> con_request env path body d zero s = Some (r, s') \<Longrightarrow> P s'"
  by (auto simp: con_request_def err_def ret_def Let_def acts split: http_answer.splits prod.splits option.splits if_splits)

lemma awaits:
  assumes "await_frame env s = Some y" "P s"
  shows "P (snd y)"
proof -
  have "P s \<longrightarrow> P (snd y)"
  proof (rule await_frame.raw_induct [OF _ assms(1)], goal_cases)
    case (1 rf env s y)
    note step = 1(2)
    let ?s1 = "act (WasRead (ev_read env (es_log s))) s"
    have rf: "P (snd y)" if "rf env u = Some y" "P u" for u using 1(1) [OF that(1)] that(2) by blast
    show ?case
    proof
      assume "P s"
      then have p: "P ?s1" "P (con_close ?s1)" "P (act (Wrote j) ?s1)" "P (con_close (act (Wrote j) ?s1))" for j
        by (simp_all add: acts closes)
      show "P (snd y)"
      proof (cases "ev_read env (es_log s)")
        case (ReadFrame f)
        consider "fr_Type f = ''ping''" | "fr_Type f = ''status''" | "fr_Type f \<noteq> ''ping''" "fr_Type f \<noteq> ''status''" by blast
        then show ?thesis
        proof cases
          case 1
          then show ?thesis using step ReadFrame p rf [of "act _ ?s1"] by (auto simp: Let_def split: if_splits)
        next
          case 2
          then show ?thesis using step ReadFrame p(1) rf update [of ?s1 "fr_Data f"]
            by (auto simp: Let_def split: option.splits prod.splits sum.splits)
        next
          case 3
          then show ?thesis using step ReadFrame p by (auto simp: Let_def split: if_splits)
        qed
      qed (use step p in auto)
    qed
  qed
  then show ?thesis using assms(2) by blast
qed

lemma exchanges: "P s \<Longrightarrow> con_exchange env body s = Some (r, s') \<Longrightarrow> P s'"
  using awaits [of env "act (Wrote body) s" "(r, s')"]
  by (auto simp: con_exchange_def err_def Let_def acts closes split: if_splits)

lemma authenticates:
  assumes "P s" "authenticate env token s = Some (r, s')"
  shows "P s'"
proof -
  obtain q t where q: "con_exchange env (auth_frame token) s = Some (q, t)" "s' = t \<or> s' = con_close t"
    using assms(2) by (auto simp: authenticate_def err_def ret_def split: option.splits prod.splits sum.splits if_splits)
  then show ?thesis using exchanges [OF assms(1) q(1)] closes by auto
qed

lemma dials:
  assumes "P s" "dial_stream env token u s = Some (r, s')"
  shows "P s'"
proof (cases "stream_address u")
  case None
  then show ?thesis using assms by (simp add: dial_stream_def err_def)
next
  case (Some a)
  let ?s1 = "act (Dialed a) s" and ?s2 = "on_con (con_socket_update (\<lambda>_. True)) (act (Dialed a) s)"
  have p: "P ?s1" "P ?s2" "P (con_close ?s2)" using assms(1) by (simp_all add: acts con closes)
  have "s' = ?s1 \<or> s' = con_close ?s2 \<or> authenticate env token ?s2 = Some (r, s')"
    using assms(2) Some by (auto simp: dial_stream_def err_def Let_def split: dial_answer.splits if_splits)
  then show ?thesis using p authenticates [OF p(2)] by blast
qed

lemma opens:
  assumes "P s" "con_open env s = Some (r, s')"
  shows "P s'"
proof -
  let ?s1 = "act AskedConnection s" and ?s2 = "\<lambda>b. on_con (con_origin_update (\<lambda>_. b)) (act AskedConnection s)"
  have p: "P ?s1" "P (?s2 b)" for b using assms(1) by (simp_all add: acts con)
  have "s' = s \<or> s' = ?s1 \<or> (\<exists>b. s' = ?s2 b \<or> (\<exists>token u. dial_stream env token u (?s2 b) = Some (r, s')))"
    using assms(2) unfolding con_open_def err_def ret_def Let_def
    by (auto split: option.splits if_splits)
  then show ?thesis using assms(1) p dials [OF p(2)] by blast
qed

lemma chained:
  assumes m: "\<And>s r t. P s \<Longrightarrow> m s = Some (r, t) \<Longrightarrow> P t" and f: "\<And>x s r t. P s \<Longrightarrow> f x s = Some (r, t) \<Longrightarrow> P t"
    and "P s" and run: "andThen m f s = Some (r, t)"
  shows "P t"
proof -
  obtain q u where u: "m s = Some (q, u)" using run by (auto simp: andThen_def split: option.splits)
  have "P u" by (rule m [OF \<open>P s\<close> u])
  moreover have "(\<exists>e. q = Inl e \<and> t = u) \<or> (\<exists>x. q = Inr x \<and> f x u = Some (r, t))"
    using run u by (cases q) (auto simp: andThen_def)
  ultimately show ?thesis using f by blast
qed

lemma errs: "P s \<Longrightarrow> err e s = Some (r, t) \<Longrightarrow> P t" "P s \<Longrightarrow> ret v s = Some (q, t) \<Longrightarrow> P t"
  by (simp_all add: err_def ret_def)

lemma receives: assumes "P s" "con_receive env s = Some (r, t)" shows "P t"
proof -
  have socket: "P t" if "P s" "receive_socket env s = Some (r, t)" for s r t
    by (rule chained [OF _ _ that(1) that(2) [unfolded receive_socket_def]])
      (auto intro: exchanges update errs split: if_splits)
  have poll: "P t" if "P s" "receive_poll env s = Some (r, t)" for s r t
    by (rule chained [OF _ _ that(1) that(2) [unfolded receive_poll_def]]) (auto intro: requests update)
  show ?thesis
    by (rule chained [OF _ _ assms(1) assms(2) [unfolded con_receive_def]])
      (auto intro: opens socket poll split: if_splits)
qed

lemma completes: assumes "P s" "con_complete env body s = Some (r, t)" shows "P t"
proof -
  have transport: "P t" if "P s" "complete_transport env body s = Some (r, t)" for s r t
  proof (cases "eo_Transport (con_options (es_con s)) = ''poll''")
    case True
    then show ?thesis using that(2) requests [OF that(1)] unfolding complete_transport_def by simp
  next
    case False
    show ?thesis
      by (rule chained [OF _ _ that(1) that(2) [unfolded complete_transport_def if_not_P [OF False]]])
        (auto intro: exchanges errs split: if_splits option.splits)
  qed
  have checked: "P t" if "P s" "andThen (complete_transport env body)
     (\<lambda>r. if rcp_Result r \<noteq> ''completed'' \<and> rcp_Result r \<noteq> ''already_completed'' then err (recv ''invalid_response'') else ret ()) s =
       Some (r, t)" for s t and r :: "evt_error + unit"
    by (rule chained [OF _ _ that]) (auto intro: transport errs split: if_splits)
  show ?thesis
    by (rule chained [OF _ _ assms(1) assms(2) [unfolded con_complete_def]]) (auto intro: opens checked)
qed

lemma retries:
  assumes "\<And>s r t. P s \<Longrightarrow> operation s = Some (r, t) \<Longrightarrow> P t" "P s" "retryEvent env operation s = Some (r, t)"
  shows "P t"
  using assms(1) acts(7,8) assms(2,3) by (rule retry_keeps)

end

section \<open>Logs\<close>

definition grows :: "evt_state \<Rightarrow> evt_state \<Rightarrow> bool" where
  "grows s s' \<longleftrightarrow> (\<exists>l. es_log s' = es_log s @ l)"

lemma grows_refl [simp]: "grows s s" by (simp add: grows_def)

interpretation growing: connection_property "grows s0" for s0
  by unfold_locales (auto simp: grows_def act_def on_con_def)

lemma con_exchange_log:
  assumes "con_exchange env body s = Some (r, s')" "con_socket (es_con s)"
  shows "\<exists>l. es_log s' = es_log s @ Wrote body # l"
proof -
  let ?s = "act (Wrote body) s"
  have "grows ?s (con_close ?s)" by (rule growing.closes) simp
  moreover have "grows ?s s'" if "await_frame env ?s = Some (r, s')"
    using growing.awaits [OF that, of ?s] by simp
  ultimately have "grows ?s s'"
    using assms by (auto simp: con_exchange_def err_def Let_def split: if_splits)
  then show ?thesis by (auto simp: grows_def act_def)
qed

lemma authenticate_log:
  assumes "authenticate env token s = Some (r, s')" "con_socket (es_con s)"
  shows "\<exists>l. es_log s' = es_log s @ Wrote (auth_frame token) # l"
proof -
  obtain q t where q: "con_exchange env (auth_frame token) s = Some (q, t)" "s' = t \<or> s' = con_close t"
    using assms(1) by (auto simp: authenticate_def err_def ret_def split: option.splits prod.splits sum.splits if_splits)
  moreover have "grows t s'" using q(2) growing.closes [of t t] by auto
  ultimately show ?thesis using con_exchange_log [OF q(1) assms(2)] by (auto simp: grows_def)
qed

lemma dial_stream_cases:
  assumes "dial_stream env token u s = Some (r, s')"
  obtains (quiet) l where "es_log s' = es_log s @ l" "\<forall>w. Wrote w \<notin> set l"
  | (wrote) a served l where "stream_address u = Some a" "ev_dial env (es_log s @ [Dialed a]) = DialOK served"
      "\<not> served_elsewhere a served" "es_log s' = es_log s @ Dialed a # Wrote (auth_frame token) # l"
proof (cases "stream_address u")
  case None
  then show ?thesis using assms quiet [of "[]"] by (simp add: dial_stream_def err_def)
next
  case (Some a)
  let ?s2 = "on_con (con_socket_update (\<lambda>_. True)) (act (Dialed a) s)"
  show ?thesis
  proof (cases "\<exists>served. ev_dial env (es_log s @ [Dialed a]) = DialOK served \<and> \<not> served_elsewhere a served")
    case True
    then obtain served where d: "ev_dial env (es_log s @ [Dialed a]) = DialOK served" "\<not> served_elsewhere a served" by blast
    then have "authenticate env token ?s2 = Some (r, s')"
      using assms Some by (simp add: dial_stream_def act_def)
    then obtain l where "es_log s' = es_log ?s2 @ Wrote (auth_frame token) # l"
      using authenticate_log [of env token ?s2] by (auto simp: on_con_def)
    then show ?thesis using wrote [OF Some d] by (simp add: act_def on_con_def)
  next
    case False
    then have "es_log s' = es_log s @ [Dialed a] \<or> es_log s' = es_log s @ [Dialed a, SocketClosed]"
      using assms Some by (auto simp: dial_stream_def act_def err_def on_con_def con_close_def Let_def split: dial_answer.splits if_splits)
    then show ?thesis using quiet by auto
  qed
qed

lemma dial_stream_log:
  assumes "dial_stream env token u s = Some (r, s')" "es_log s' = es_log s @ new" "Wrote w \<in> set new"
  shows "\<exists>a served rest. new = Dialed a # Wrote (auth_frame token) # rest \<and> stream_address u = Some a \<and>
    ev_dial env (es_log s @ [Dialed a]) = DialOK served \<and> \<not> served_elsewhere a served"
  using assms(1) by (cases rule: dial_stream_cases) (use assms(2,3) in auto)

section \<open>Gaps\<close>

lemma remdups_adj_snoc:
  "remdups_adj (xs @ [x]) = (if xs \<noteq> [] \<and> last xs = x then remdups_adj xs else remdups_adj xs @ [x])"
  by (induction xs rule: remdups_adj.induct) auto

definition gap_reports :: "evt_effect list \<Rightarrow> int list" where
  "gap_reports l = List.map_filter (\<lambda>e. case e of
     Reported st \<Rightarrow> if st_Type st = ''gap'' then Some (st_GapCount st) else None | _ \<Rightarrow> None) l"

text \<open>The positive gap counts of the valid offers among some data.\<close>

definition gap_counts :: "json option list \<Rightarrow> int list" where
  "gap_counts datas = filter (\<lambda>n. 0 < n) (List.map_filter (\<lambda>d. map_option of_GapCount (read_offer d)) datas)"

definition updates :: "json option list \<Rightarrow> evt_state \<Rightarrow> evt_state" where
  "updates datas s = fold (\<lambda>d s. snd (the (con_update d s))) datas s"

lemma map_filter_append: "List.map_filter f (xs @ ys) = List.map_filter f xs @ List.map_filter f ys"
  by (simp add: List.map_filter_def)

lemma gap_reports_act: "gap_reports (l @ [e]) = gap_reports l @ (case e of
     Reported st \<Rightarrow> if st_Type st = ''gap'' then [st_GapCount st] else [] | _ \<Rightarrow> [])"
  by (cases e) (simp_all add: gap_reports_def map_filter_append List.map_filter_def)

lemma updates_gaps:
  assumes "con_gaps (es_con s) = - 1" "eo_HasOnStatus (con_options (es_con s))" "gap_reports (es_log s) = []"
  shows "gap_reports (es_log (updates datas s)) = remdups_adj (gap_counts datas) \<and>
    con_gaps (es_con (updates datas s)) = (if gap_counts datas = [] then - 1 else last (gap_counts datas)) \<and>
    eo_HasOnStatus (con_options (es_con (updates datas s)))"
proof (induction datas rule: rev_induct)
  case Nil
  then show ?case using assms by (simp add: updates_def gap_counts_def List.map_filter_def)
next
  case (snoc d datas)
  let ?t = "updates datas s"
  have u: "updates (datas @ [d]) s = snd (the (con_update d ?t))" by (simp add: updates_def)
  show ?case
  proof (cases "read_offer d")
    case None
    then show ?thesis using snoc
      by (simp add: u con_update_def err_def gap_counts_def List.map_filter_def)
  next
    case (Some offer)
    then have g: "gap_counts (datas @ [d]) = gap_counts datas @ (if 0 < of_GapCount offer then [of_GapCount offer] else [])"
      by (simp add: gap_counts_def List.map_filter_def)
    show ?thesis
    proof (cases "0 < of_GapCount offer \<and> of_GapCount offer \<noteq> con_gaps (es_con ?t)")
      case True
      then show ?thesis using snoc Some
        by (auto simp: u g con_update_def Let_def err_def ret_def on_con_def con_report_def act_def gap_reports_act remdups_adj_snoc)
    next
      case False
      then show ?thesis using snoc Some
        by (auto simp: u g con_update_def Let_def err_def ret_def on_con_def remdups_adj_snoc split: if_splits)
    qed
  qed
qed

section \<open>A concrete connection\<close>

definition example_evt_env :: evt_env where
  "example_evt_env = \<lparr>ev_http = (\<lambda>_. HttpError), ev_connection = (\<lambda>_. Some (''https://api.example.com'', ''pconn_t'')),
     ev_dial = (\<lambda>_. DialOK None), ev_write = (\<lambda>_. True),
     ev_read = (\<lambda>_. ReadFrame \<lparr>fr_Type = ''ready'', fr_Protocol = ''primitive.events.v1'', fr_Data = None, fr_Code = [],
        fr_Status = 0, fr_RetryAfter = None\<rparr>),
     ev_context = (\<lambda>l. if 2 \<le> pauses l then Some DeadlineExceeded else None), ev_pause = (\<lambda>_. None), ev_jitter = (\<lambda>_. 1),
     ev_parse_url = (\<lambda>s. Some \<lparr>u_Scheme = ''https'', u_Host = ''api.example.com'', u_Hostname = ''api.example.com'', u_Rest = s\<rparr>),
     ev_retry_after = (\<lambda>_. 0), ev_server = ''https://api.example.com'', ev_now = (\<lambda>_. 0), ev_stopped = (\<lambda>_. False),
     ev_delivery = (\<lambda>_. None), ev_deadline = (\<lambda>_. False), ev_handler = (\<lambda>_. HandlerReturned None)\<rparr>"

definition example_options :: EventOptions where
  "example_options = \<lparr>eo_Subscription = ''agent'', eo_Events = None, eo_Transport = [], eo_HasOnStatus = True, eo_OnGapError = False\<rparr>"

definition example_state :: evt_state where
  "example_state = \<lparr>es_con = new_connection example_options, es_log = []\<rparr>"

definition offer_data :: "int \<Rightarrow> json option" where
  "offer_data gaps = Some (JObj [(''backlog'', enc_int 0), (''gap_count'', enc_int gaps), (''retention_seconds'', enc_int 86400),
     (''handler_timeout_seconds'', enc_int 30)])"

section \<open>Properties\<close>

text \<open>
  The pause before a retry is bounded: for a jitter factor between 0.8 and 1.2 it lies
  between 0.8 and 1.2 times a base delay that doubles from a quarter of a second and stops
  at ten seconds, unless the server asked for more with \<open>Retry-After\<close>, which is then the
  pause.
\<close>

theorem retry_delay_bounds:
  assumes "4 / 5 \<le> q" and "q \<le> 6 / 5"
  shows "let d = retry_delay attempt q e; asked = (case e of Recv _ _ ra \<Rightarrow> ra | _ \<Rightarrow> 0); base = backoff_ms attempt in
    base = min 10000 (250 * 2 ^ min attempt 6) \<and> 800000 * base \<le> d \<and> d \<le> max (1200000 * base) asked \<and> asked \<le> d \<and>
    200 * 10 ^ 6 \<le> d \<and> d \<le> max (12 * 10 ^ 9) asked"
proof -
  let ?b = "backoff_ms attempt" and ?f = "\<lfloor>of_int (backoff_ms attempt) * q\<rfloor>"
  have b: "250 \<le> ?b" "?b \<le> 10000" "?b mod 5 = 0" using backoff_bounds [of attempt] by blast+
  then obtain c where c: "?b = 5 * c" by (metis mod_0_imp_dvd dvdE)
  have f: "4 * c \<le> ?f" "?f \<le> 6 * c" using jittered [OF assms, of attempt] unfolding c by simp_all
  obtain f where fl: "f = ?f" by blast
  have d: "retry_delay attempt q e = (case e of Recv _ _ ra \<Rightarrow> max (f * 1000000) ra | _ \<Rightarrow> f * 1000000)"
    by (simp add: retry_delay_def Let_def fl split: evt_error.split)
  note f = f [folded fl]
  have asked: "(case e of Recv _ _ ra \<Rightarrow> ra | _ \<Rightarrow> 0) \<le> retry_delay attempt q e"
    using f(1) b(1) c unfolding d by (auto split: evt_error.split)
  have base: "?b = min 10000 (250 * 2 ^ min attempt 6)" by (simp add: backoff_ms_def)
  show ?thesis using asked f b(1,2) unfolding d Let_def c base [symmetric] by (auto split: evt_error.splits)
qed

theorem retry_delay_bounds_witness:
  "retry_delay 3 1 (Recv ''overloaded'' 503 (3 * 10 ^ 9)) = 3 * 10 ^ 9 \<and> retry_delay 3 1 (NetErr ''offline'') = 2 * 10 ^ 9 \<and>
   200 * 10 ^ 6 \<le> retry_delay 9 (11 / 10) (NetErr ''offline'')"
proof -
  have "200 * 10 ^ 6 \<le> retry_delay 9 (11 / 10) (NetErr ''offline'')"
    using retry_delay_bounds [of "11 / 10" 9 "NetErr ''offline''"] by (simp add: Let_def)
  then show ?thesis by (simp add: retry_delay_def backoff_ms_def)
qed


text \<open>
  C32. A context that ends makes \<open>retryEvent\<close> return: if the operation always comes back and
  the context is over once there have been \<open>k\<close> pauses, the call returns, from every state.
\<close>

theorem retry_returns_by_deadline:
  assumes "\<And>s. \<exists>r t. operation s = Some (r, t) \<and> pauses (es_log s) \<le> pauses (es_log t)"
    and "\<And>l. k \<le> pauses l \<Longrightarrow> ev_context env l \<noteq> None"
  shows "\<exists>r. retryEvent env operation s = Some r"
  unfolding retryEvent_def using assms by (rule retry_returns)

theorem retry_returns_by_deadline_witness:
  "\<exists>r. retryEvent example_evt_env (err (NetErr ''offline'') :: unit run) example_state = Some r"
  by (rule retry_returns_by_deadline [where k = 2]) (simp_all add: err_def example_evt_env_def)

text \<open>
  C33. The credential goes only where it may: when \<open>open\<close> writes anything to a socket, the
  first frame is the one that authenticates, with the token just read, to an address that
  is encrypted or on this machine, whose answer came from the host that was dialled, and the
  API origin is the one of every earlier opening.
\<close>

theorem token_goes_to_checked_host:
  assumes run: "con_open env s = Some (r, s')" and log: "es_log s' = es_log s @ new" and wrote: "Wrote w \<in> set new"
  shows "\<exists>base token u served rest. new = AskedConnection # Dialed u # Wrote (auth_frame token) # rest \<and>
    ev_connection env (es_log s @ [AskedConnection]) = Some (base, token) \<and>
    con_origin (es_con s) \<in> {[], base} \<and>
    (u_Scheme u = ''wss'' \<or> u_Scheme u = ''ws'' \<and> loopback (u_Hostname u)) \<and>
    ev_dial env (es_log s @ [AskedConnection, Dialed u]) = DialOK served \<and>
    (case served of None \<Rightarrow> True | Some (scheme, host) \<Rightarrow> host = u_Host u \<and> (u_Scheme u = ''ws'' \<or> scheme = ''https''))"
proof -
  let ?s1 = "act AskedConnection s"
  have "\<not> (eo_Transport (con_options (es_con s)) = ''poll'' \<or> con_socket (es_con s))"
    using run log wrote by (auto simp: con_open_def ret_def)
  then have opens: "con_open env s = (case ev_connection env (es_log ?s1) of
       None \<Rightarrow> err (NetErr ''credentials'') ?s1
     | Some (base, token) \<Rightarrow>
         if con_origin (es_con ?s1) \<noteq> [] \<and> con_origin (es_con ?s1) \<noteq> base then err (Recv ''identity_changed'' 403 0) ?s1
         else case ev_parse_url env (stream_text base (con_endpoint (es_con (on_con (con_origin_update (\<lambda>_. base)) ?s1)))) of
                None \<Rightarrow> err (recv ''unsupported'') (on_con (con_origin_update (\<lambda>_. base)) ?s1)
              | Some u \<Rightarrow> dial_stream env token u (on_con (con_origin_update (\<lambda>_. base)) ?s1))"
    unfolding con_open_def Let_def by simp
  have l1: "es_log ?s1 = es_log s @ [AskedConnection]" by (simp add: act_def)
  obtain base token u where conn: "ev_connection env (es_log ?s1) = Some (base, token)"
    and origin: "con_origin (es_con ?s1) \<in> {[], base}"
    and dial: "dial_stream env token u (on_con (con_origin_update (\<lambda>_. base)) ?s1) = Some (r, s')"
    using run log wrote unfolding opens
    by (auto simp: err_def act_def on_con_def split: option.splits prod.splits if_splits)
  let ?s2 = "on_con (con_origin_update (\<lambda>_. base)) ?s1"
  have l2: "es_log ?s2 = es_log s @ [AskedConnection]" by (simp add: act_def on_con_def)
  obtain new' where new: "new = AskedConnection # new'" "es_log s' = es_log ?s2 @ new'" "Wrote w \<in> set new'"
    using growing.dials [OF grows_refl dial] log wrote unfolding grows_def l2 by auto
  from dial_stream_log [OF dial new(2,3)] obtain a served rest where n: "new' = Dialed a # Wrote (auth_frame token) # rest"
    and a: "stream_address u = Some a" and d: "ev_dial env (es_log ?s2 @ [Dialed a]) = DialOK served"
    and here: "\<not> served_elsewhere a served" by blast
  have scheme: "u_Scheme a = ''wss'' \<or> u_Scheme a = ''ws'' \<and> loopback (u_Hostname a)"
    using a by (auto simp: stream_address_def split: if_splits)
  have host: "case served of None \<Rightarrow> True | Some (scheme, host) \<Rightarrow> host = u_Host a \<and> (u_Scheme a = ''ws'' \<or> scheme = ''https'')"
    using here scheme by (auto simp: served_elsewhere_def split: option.splits)
  have "con_origin (es_con s) \<in> {[], base}" using origin by (simp add: act_def)
  moreover have "ev_dial env (es_log s @ [AskedConnection, Dialed a]) = DialOK served" using d unfolding l2 by simp
  ultimately show ?thesis using new(1) n conn scheme host unfolding l1 by metis
qed

theorem token_goes_to_checked_host_witness:
  "\<exists>s' u rest. con_open example_evt_env example_state = Some (Inr (), s') \<and>
     es_log s' = AskedConnection # Dialed u # Wrote (auth_frame ''pconn_t'') # rest \<and> u_Scheme u = ''wss''"
proof -
  obtain s' where run: "con_open example_evt_env example_state = Some (Inr (), s')"
      "\<exists>w. Wrote w \<in> set (es_log s')"
    by (simp add: con_open_def example_state_def example_options_def new_connection_def act_def on_con_def dial_stream_def
        stream_address_def served_elsewhere_def authenticate_def con_exchange_def await_frame.simps ret_def
        example_evt_env_def Let_def)
  obtain w where w: "Wrote w \<in> set (es_log s')" using run(2) by blast
  have "es_log s' = es_log example_state @ es_log s'" by (simp add: example_state_def)
  from token_goes_to_checked_host [OF run(1) this w] obtain base token u rest where
    t: "es_log s' = AskedConnection # Dialed u # Wrote (auth_frame token) # rest"
      "ev_connection example_evt_env (es_log example_state @ [AskedConnection]) = Some (base, token)"
      "u_Scheme u = ''wss'' \<or> u_Scheme u = ''ws'' \<and> loopback (u_Hostname u)" by blast
  have "token = ''pconn_t''" using t(2) by (simp add: example_evt_env_def)
  moreover have "u_Scheme u = ''wss''"
    using run(1) t(1) by (auto simp: con_open_def example_state_def example_options_def new_connection_def act_def on_con_def
        dial_stream_def stream_address_def served_elsewhere_def authenticate_def con_exchange_def await_frame.simps ret_def
        example_evt_env_def Let_def)
  ultimately show ?thesis using run(1) t(1) by blast
qed

text \<open>
  Every gap is reported once: over any data that arrives on a new connection, the gaps
  reported are the positive gap counts of the valid offers, one report for each run of equal
  counts.
\<close>

theorem gaps_reported_on_change:
  assumes "eo_HasOnStatus options"
  shows "gap_reports (es_log (updates datas \<lparr>es_con = new_connection options, es_log = []\<rparr>)) = remdups_adj (gap_counts datas)"
  using updates_gaps [of "\<lparr>es_con = new_connection options, es_log = []\<rparr>"] assms
  by (simp add: new_connection_def gap_reports_def List.map_filter_def)

theorem gaps_reported_on_change_witness:
  "gap_reports (es_log (updates [offer_data 0, offer_data 2, offer_data 2, offer_data 3, None, offer_data 2] example_state)) = [2, 3, 2]"
proof -
  have "read_offer (offer_data n) = Some \<lparr>of_Delivery = None, of_Backlog = 0, of_GapCount = n, of_LastGapReason = None,
      of_Retention = 86400, of_HandlerTimeout = 30\<rparr>" if "n \<in> {0, 2, 3}" for n
    using that by (auto simp: read_offer_def offer_data_def dec_eventOffer_def dec_struct_def member_step_def find_field_def
        fld_def eventOffer_zero_def dec_int64_def enc_int_def parse_int64_itoa is_int64_def)
  then have "gap_counts [offer_data 0, offer_data 2, offer_data 2, offer_data 3, None, offer_data 2] = [2, 2, 3, 2]"
    by (simp add: gap_counts_def List.map_filter_def read_offer_def)
  moreover have "eo_HasOnStatus example_options" by (simp add: example_options_def)
  ultimately show ?thesis using gaps_reported_on_change [of example_options] by (simp add: example_state_def)
qed

end
