(* ===== verification/Event_Delivery.thy ===== *)
theory Event_Delivery
  imports Event_Receiver
begin

text \<open>
  One delivery (\<open>PendingEvent\<close> of \<open>event_receiver.go\<close>): the checks it passes, the time its lease
  leaves, and its completion as a machine of interleaved steps, with any number of callers
  of \<open>Ack\<close> and \<open>Retry\<close>, the timer, the end of the context and the goroutine that waits for it.
\<close>

section \<open>A new delivery\<close>

record LocalEvent =
  le_ID :: string
  le_Type :: string
  le_Data :: string
  le_Body :: string
  le_Headers :: "(string \<times> string) list"

text \<open>\<open>time.Until\<close> in nanoseconds; a difference that does not fit saturates.\<close>

definition saturate64 :: "int \<Rightarrow> int" where
  "saturate64 x = max (- (2 ^ 63)) (min (2 ^ 63 - 1) x)"

definition until_ns :: "int \<Rightarrow> int \<times> int \<Rightarrow> int" where
  "until_ns now t = saturate64 (fst t * 10 ^ 9 + snd t - now)"

definition lease_duration :: "int \<Rightarrow> int \<times> int \<Rightarrow> int" where
  "lease_duration now t = min (30 * 10 ^ 9) (wrap64 (until_ns now t - 5 * 10 ^ 9))"

record pending_event =
  pd_Event :: LocalEvent
  pd_raw :: eventWireDelivery
  pd_started :: int
  pd_duration :: int

definition raw_incomplete :: "eventWireDelivery \<Rightarrow> bool" where
  "raw_incomplete raw \<longleftrightarrow> wd_EventID raw = [] \<or> wd_EventType raw = [] \<or> wd_LeaseToken raw = [] \<or>
     wd_QueueID raw = [] \<or> wd_DeliveryID raw = [] \<or> wd_Headers raw = None \<or> json_parse (wd_Body raw) = None"

definition newPendingEvent :: "int \<Rightarrow> eventWireDelivery option \<Rightarrow> evt_error + pending_event" where
  "newPendingEvent now delivery =
     (case delivery of None \<Rightarrow> Inl (recv ''invalid_response'') | Some raw \<Rightarrow>
        if raw_incomplete raw then Inl (recv ''invalid_response'')
        else let duration = lease_duration now (wd_LeaseExpiresAt raw)
             in if duration \<le> 0 then Inl ErrDeliveryExpired
                else Inr \<lparr>pd_Event = \<lparr>le_ID = wd_EventID raw, le_Type = wd_EventType raw, le_Data = wd_Body raw,
                       le_Body = wd_Body raw, le_Headers = the (wd_Headers raw)\<rparr>,
                     pd_raw = raw, pd_started = now, pd_duration = duration\<rparr>)"

section \<open>Completion by several callers\<close>

datatype timer = Armed | Firing | Idle

text \<open>Where a call of \<open>complete\<close> stands. The owner, the call that made the choice, runs the
  completion and then, in this order, stores its error, closes \<open>done\<close>, cancels the context and
  releases.\<close>

datatype call_pc = Entering | Waiting | Completing | Stored | Closed | Cancelling | Returned "evt_error option"

record delivery =
  dl_cause :: "evt_error option"
  dl_timer :: timer
  dl_chosen :: "bool option"
  dl_err :: "evt_error option"
  dl_done :: bool
  dl_once :: bool
  dl_released :: nat
  dl_calls :: "(bool \<times> call_pc) list"
  dl_started :: "bool list"

definition delivery_start :: delivery where
  "delivery_start = \<lparr>dl_cause = None, dl_timer = Armed, dl_chosen = None, dl_err = None, dl_done = False,
     dl_once = False, dl_released = 0, dl_calls = [], dl_started = []\<rparr>"

definition set_pc :: "nat \<Rightarrow> call_pc \<Rightarrow> delivery \<Rightarrow> delivery" where
  "set_pc i pc d = d\<lparr>dl_calls := (dl_calls d)[i := (fst (dl_calls d ! i), pc)]\<rparr>"

definition at_pc :: "delivery \<Rightarrow> nat \<Rightarrow> bool \<Rightarrow> call_pc \<Rightarrow> bool" where
  "at_pc d i b pc \<longleftrightarrow> i < length (dl_calls d) \<and> dl_calls d ! i = (b, pc)"

text \<open>\<open>cancelCause\<close>: the first cause stays.\<close>

definition cancel_with :: "evt_error \<Rightarrow> delivery \<Rightarrow> delivery" where
  "cancel_with e d = (case dl_cause d of None \<Rightarrow> d\<lparr>dl_cause := Some e\<rparr> | Some _ \<Rightarrow> d)"

definition release_once :: "delivery \<Rightarrow> delivery" where
  "release_once d = (if dl_once d then d else d\<lparr>dl_once := True, dl_released := dl_released d + 1\<rparr>)"

definition completion_conflict :: evt_error where
  "completion_conflict = Recv ''completion_conflict'' 409 0"

text \<open>The part of \<open>complete\<close> under the mutex, for the call at position \<open>i\<close>.\<close>

definition enter_complete :: "nat \<Rightarrow> bool \<Rightarrow> delivery \<Rightarrow> delivery" where
  "enter_complete i accepted d =
     (case dl_chosen d of
        Some c \<Rightarrow> if c = accepted then set_pc i Waiting d else set_pc i (Returned (Some completion_conflict)) d
      | None \<Rightarrow>
          (case dl_cause d of
             Some e \<Rightarrow> set_pc i (Returned (Some e)) d
           | None \<Rightarrow> set_pc i Completing (d\<lparr>dl_chosen := Some accepted, dl_started := dl_started d @ [accepted],
               dl_timer := (if dl_timer d = Armed then Idle else dl_timer d)\<rparr>)))"

inductive delivery_step :: "delivery \<Rightarrow> delivery \<Rightarrow> bool" where
  call: "delivery_step d (d\<lparr>dl_calls := dl_calls d @ [(b, Entering)]\<rparr>)"
| enter: "at_pc d i b Entering \<Longrightarrow> delivery_step d (enter_complete i b d)"
| wake: "at_pc d i b Waiting \<Longrightarrow> dl_done d \<Longrightarrow> delivery_step d (set_pc i (Returned (dl_err d)) d)"
| store: "at_pc d i b Completing \<Longrightarrow> delivery_step d (set_pc i Stored (d\<lparr>dl_err := result\<rparr>))"
| close: "at_pc d i b Stored \<Longrightarrow> delivery_step d (set_pc i Closed (d\<lparr>dl_done := True\<rparr>))"
| cancel: "at_pc d i b Closed \<Longrightarrow> delivery_step d (set_pc i Cancelling (cancel_with (CtxErr Canceled) d))"
| finish: "at_pc d i b Cancelling \<Longrightarrow> delivery_step d (set_pc i (Returned (dl_err d)) (release_once d))"
| fire: "dl_timer d = Armed \<Longrightarrow> delivery_step d (d\<lparr>dl_timer := Firing\<rparr>)"
| expire: "dl_timer d = Firing \<Longrightarrow> delivery_step d (cancel_with ErrDeliveryExpired (d\<lparr>dl_timer := Idle\<rparr>))"
| context_ends: "dl_cause d = None \<Longrightarrow> delivery_step d (cancel_with (CtxErr e) d)"
| watcher: "dl_cause d \<noteq> None \<Longrightarrow> delivery_step d (release_once d)"

inductive delivery_reach :: "delivery \<Rightarrow> bool" where
  start: "delivery_reach delivery_start"
| step: "delivery_reach d \<Longrightarrow> delivery_step d d' \<Longrightarrow> delivery_reach d'"

inductive_cases delivery_stepE: "delivery_step d d'"

section \<open>The promise of a completion\<close>

text \<open>Seen from its callers a delivery is undecided, being completed with the choice made,
  completed with a result, or over before any choice.\<close>

datatype outcome = Undecided | Deciding bool | Settled bool "evt_error option" | Over evt_error

inductive outcome_step :: "outcome \<Rightarrow> outcome \<Rightarrow> bool" where
  "outcome_step Undecided (Deciding b)"
| "outcome_step (Deciding b) (Settled b r)"
| "outcome_step Undecided (Over e)"

inductive_simps outcome_step_simps [simp]:
  "outcome_step Undecided y" "outcome_step (Deciding b) y" "outcome_step (Settled b r) y" "outcome_step (Over e) y"

definition outcome_of :: "delivery \<Rightarrow> outcome" where
  "outcome_of d = (case dl_chosen d of
     None \<Rightarrow> (case dl_cause d of None \<Rightarrow> Undecided | Some e \<Rightarrow> Over e)
   | Some b \<Rightarrow> if dl_done d then Settled b (dl_err d) else Deciding b)"

text \<open>What a call with choice \<open>b\<close> may have returned in an outcome, and the places it may be.\<close>

fun answers :: "outcome \<Rightarrow> bool \<Rightarrow> evt_error option \<Rightarrow> bool" where
  "answers Undecided b r \<longleftrightarrow> False"
| "answers (Over e) b r \<longleftrightarrow> r = Some e"
| "answers (Deciding c) b r \<longleftrightarrow> b \<noteq> c \<and> r = Some completion_conflict"
| "answers (Settled c s) b r \<longleftrightarrow> r = (if b = c then s else Some completion_conflict)"

definition owner_pc :: "call_pc \<Rightarrow> bool" where
  "owner_pc pc \<longleftrightarrow> pc \<in> {Completing, Stored, Closed, Cancelling}"

definition place_ok :: "outcome \<Rightarrow> bool \<Rightarrow> call_pc \<Rightarrow> bool" where
  "place_ok out b pc \<longleftrightarrow> (case pc of
     Entering \<Rightarrow> True
   | Returned r \<Rightarrow> answers out b r
   | Completing \<Rightarrow> out = Deciding b
   | Stored \<Rightarrow> out = Deciding b
   | Waiting \<Rightarrow> out = Deciding b \<or> (\<exists>s. out = Settled b s)
   | _ \<Rightarrow> \<exists>s. out = Settled b s)"

definition busy :: "delivery \<Rightarrow> bool" where
  "busy d \<longleftrightarrow> (\<exists>i b. at_pc d i b Completing \<or> at_pc d i b Stored)"

text \<open>The parts of the invariant: every call is where the outcome lets it be; at most one call
  owns the completion, and until the result is there it is busy with it; what is started is
  the choice; the release function runs once, after the context is over.\<close>

definition places_ok :: "delivery \<Rightarrow> bool" where
  "places_ok d \<longleftrightarrow> (\<forall>i b pc. at_pc d i b pc \<longrightarrow> place_ok (outcome_of d) b pc)"

definition owner_ok :: "delivery \<Rightarrow> bool" where
  "owner_ok d \<longleftrightarrow> (\<forall>i j b b' pc pc'. at_pc d i b pc \<longrightarrow> owner_pc pc \<longrightarrow> at_pc d j b' pc' \<longrightarrow> owner_pc pc' \<longrightarrow> i = j)"

definition busy_ok :: "delivery \<Rightarrow> bool" where
  "busy_ok d \<longleftrightarrow> (\<forall>b. outcome_of d = Deciding b \<longrightarrow> busy d)"

definition started_ok :: "delivery \<Rightarrow> bool" where
  "started_ok d \<longleftrightarrow> dl_started d = (case dl_chosen d of None \<Rightarrow> [] | Some b \<Rightarrow> [b]) \<and> (dl_chosen d = None \<longrightarrow> \<not> dl_done d)"

definition release_ok :: "delivery \<Rightarrow> bool" where
  "release_ok d \<longleftrightarrow> dl_released d = (if dl_once d then 1 else 0) \<and> (dl_once d \<longrightarrow> dl_cause d \<noteq> None) \<and>
     (\<forall>i b. at_pc d i b Cancelling \<longrightarrow> dl_cause d \<noteq> None)"

definition delivery_inv :: "delivery \<Rightarrow> bool" where
  "delivery_inv d \<longleftrightarrow> places_ok d \<and> owner_ok d \<and> busy_ok d \<and> started_ok d \<and> release_ok d"

lemmas inv_defs = places_ok_def owner_ok_def busy_ok_def started_ok_def release_ok_def

lemma at_pc_set: "at_pc (set_pc i pc d) j b q \<longleftrightarrow>
   (if i = j then i < length (dl_calls d) \<and> b = fst (dl_calls d ! i) \<and> q = pc else at_pc d j b q)"
  by (auto simp: at_pc_def set_pc_def nth_list_update)

lemma at_pc_moved: "at_pc d i b pc \<Longrightarrow> at_pc (set_pc i pc' d) j b' q \<longleftrightarrow>
   (if i = j then b' = b \<and> q = pc' else at_pc d j b' q)"
  unfolding at_pc_set by (auto simp: at_pc_def)

lemma at_pc_unique: "at_pc d i b pc \<Longrightarrow> at_pc d i b' pc' \<longleftrightarrow> b' = b \<and> pc' = pc"
  by (auto simp: at_pc_def)

lemma at_pc_fields [simp]:
  "at_pc (d\<lparr>dl_cause := c\<rparr>) = at_pc d" "at_pc (d\<lparr>dl_timer := t\<rparr>) = at_pc d" "at_pc (d\<lparr>dl_chosen := x\<rparr>) = at_pc d"
  "at_pc (d\<lparr>dl_err := r\<rparr>) = at_pc d" "at_pc (d\<lparr>dl_done := b\<rparr>) = at_pc d" "at_pc (d\<lparr>dl_once := b\<rparr>) = at_pc d"
  "at_pc (d\<lparr>dl_released := n\<rparr>) = at_pc d" "at_pc (d\<lparr>dl_started := l\<rparr>) = at_pc d"
  by (auto simp: fun_eq_iff at_pc_def)

lemma at_pc_new: "at_pc (d\<lparr>dl_calls := dl_calls d @ [(b, Entering)]\<rparr>) j b' q \<longleftrightarrow>
   at_pc d j b' q \<or> (j = length (dl_calls d) \<and> b' = b \<and> q = Entering)"
  by (auto simp: at_pc_def nth_append)

lemma set_pc_fields [simp]:
  "dl_cause (set_pc i pc d) = dl_cause d" "dl_chosen (set_pc i pc d) = dl_chosen d" "dl_done (set_pc i pc d) = dl_done d"
  "dl_err (set_pc i pc d) = dl_err d" "dl_once (set_pc i pc d) = dl_once d" "dl_released (set_pc i pc d) = dl_released d"
  "dl_started (set_pc i pc d) = dl_started d" "dl_timer (set_pc i pc d) = dl_timer d"
  by (simp_all add: set_pc_def)

lemma outcome_fields [simp]:
  "outcome_of (set_pc i pc d) = outcome_of d" "outcome_of (d\<lparr>dl_calls := cs\<rparr>) = outcome_of d"
  "outcome_of (d\<lparr>dl_timer := t\<rparr>) = outcome_of d" "outcome_of (release_once d) = outcome_of d"
  by (simp_all add: outcome_of_def release_once_def cong: option.case_cong if_cong)

lemma cancel_fields [simp]:
  "at_pc (cancel_with e d) = at_pc d" "dl_chosen (cancel_with e d) = dl_chosen d" "dl_done (cancel_with e d) = dl_done d"
  "dl_err (cancel_with e d) = dl_err d" "dl_once (cancel_with e d) = dl_once d" "dl_released (cancel_with e d) = dl_released d"
  "dl_started (cancel_with e d) = dl_started d" "dl_cause (cancel_with e d) \<noteq> None"
  by (simp_all add: cancel_with_def split: option.split)

lemma release_fields [simp]:
  "at_pc (release_once d) = at_pc d" "dl_chosen (release_once d) = dl_chosen d" "dl_done (release_once d) = dl_done d"
  "dl_err (release_once d) = dl_err d" "dl_cause (release_once d) = dl_cause d" "dl_started (release_once d) = dl_started d"
  "dl_once (release_once d)"
  by (simp_all add: release_once_def)

lemma outcome_cancel:
  "outcome_of (cancel_with e d) = (if outcome_of d = Undecided then Over e else outcome_of d)"
  by (auto simp: outcome_of_def cancel_with_def split: option.split)

text \<open>The places of an outcome survive its steps, except the owner's.\<close>

lemma place_over: "place_ok Undecided b pc \<Longrightarrow> place_ok (Over e) b pc"
  by (auto simp: place_ok_def split: call_pc.splits)

lemma place_decide: "place_ok Undecided b pc \<Longrightarrow> place_ok (Deciding c) b pc"
  by (auto simp: place_ok_def split: call_pc.splits)

lemma place_settle: "place_ok (Deciding c) b pc \<Longrightarrow> pc \<noteq> Completing \<Longrightarrow> pc \<noteq> Stored \<Longrightarrow> place_ok (Settled c r) b pc"
  by (auto simp: place_ok_def split: call_pc.splits)

lemma undecided_entering: "place_ok Undecided b pc \<longleftrightarrow> pc = Entering"
  by (auto simp: place_ok_def split: call_pc.splits)

lemma delivery_start_inv: "delivery_inv delivery_start"
  by (auto simp: delivery_inv_def inv_defs delivery_start_def at_pc_def outcome_of_def)

lemma moved_inv:
  assumes inv: "delivery_inv d" and at: "at_pc d i b pc" and ok: "place_ok (outcome_of d) b pc'"
    and own: "owner_pc pc' \<Longrightarrow> owner_pc pc" and free: "pc = Completing \<or> pc = Stored \<Longrightarrow> pc' = Completing \<or> pc' = Stored"
    and canc: "pc' = Cancelling \<Longrightarrow> dl_cause d \<noteq> None"
  shows "delivery_inv (set_pc i pc' d)"
proof -
  let ?d = "set_pc i pc' d"
  have "places_ok ?d" using inv ok by (simp add: delivery_inv_def places_ok_def at_pc_moved [OF at])
  moreover have "owner_ok ?d"
    using inv own at unfolding delivery_inv_def owner_ok_def at_pc_moved [OF at] by metis
  moreover have "busy ?d" if "busy d"
    using that free unfolding busy_def at_pc_moved [OF at] by (metis at at_pc_unique)
  then have "busy_ok ?d" using inv by (simp add: delivery_inv_def busy_ok_def)
  moreover have "started_ok ?d" using inv by (simp add: delivery_inv_def started_ok_def)
  moreover have "release_ok ?d"
    using inv canc by (auto simp: delivery_inv_def release_ok_def at_pc_moved [OF at] split: if_splits)
  ultimately show ?thesis by (simp add: delivery_inv_def)
qed

lemma inv_place: "delivery_inv d \<Longrightarrow> at_pc d i b pc \<Longrightarrow> place_ok (outcome_of d) b pc"
  by (auto simp: delivery_inv_def places_ok_def)

lemma inv_no_owner:
  assumes "delivery_inv d" "outcome_of d = Undecided \<or> outcome_of d = Over e" "at_pc d i b pc"
  shows "\<not> owner_pc pc"
  using inv_place [OF assms(1,3)] assms(2) by (auto simp: place_ok_def owner_pc_def split: call_pc.splits)

lemma cancel_inv: assumes "delivery_inv d" shows "delivery_inv (cancel_with e d)"
proof -
  have "place_ok (outcome_of (cancel_with e d)) b pc" if "at_pc d i b pc" for i b pc
    using inv_place [OF assms that] by (auto simp: outcome_cancel place_over)
  then show ?thesis using assms
    by (auto simp: delivery_inv_def inv_defs outcome_cancel busy_def split: if_splits)
qed

lemma release_inv: "delivery_inv d \<Longrightarrow> dl_cause d \<noteq> None \<Longrightarrow> delivery_inv (release_once d)"
  by (auto simp: delivery_inv_def inv_defs busy_def) (auto simp: release_once_def)

lemma chosen_inv:
  assumes inv: "delivery_inv d" and at: "at_pc d i b Entering" and free: "dl_chosen d = None" "dl_cause d = None"
  shows "delivery_inv (set_pc i Completing (d\<lparr>dl_chosen := Some b, dl_started := dl_started d @ [b], dl_timer := t\<rparr>))"
    (is "delivery_inv (set_pc i Completing ?d)")
proof -
  let ?e = "set_pc i Completing ?d"
  have at': "at_pc ?d i b Entering" using at by simp
  have out: "outcome_of d = Undecided" using free by (simp add: outcome_of_def)
  have "\<not> dl_done d" using inv free by (simp add: delivery_inv_def started_ok_def)
  then have out': "outcome_of ?e = Deciding b" by (simp add: outcome_of_def)
  have enter: "pc = Entering" if "at_pc d j c pc" for j c pc
    using inv_place [OF inv that] by (simp add: out undecided_entering)
  have "places_ok ?e"
    unfolding places_ok_def out' at_pc_moved [OF at'] by (auto simp: place_ok_def dest!: enter split: if_splits)
  moreover have "owner_ok ?e"
    using enter unfolding owner_ok_def at_pc_moved [OF at'] by (auto simp: owner_pc_def split: if_splits)
  moreover have "busy_ok ?e" unfolding busy_ok_def busy_def at_pc_moved [OF at'] by auto
  moreover have "started_ok ?e" using inv free by (simp add: delivery_inv_def started_ok_def)
  moreover have "release_ok ?e"
    using inv enter unfolding release_ok_def at_pc_moved [OF at'] by (auto simp: delivery_inv_def release_ok_def)
  ultimately show ?thesis by (simp add: delivery_inv_def)
qed

lemma entered_inv:
  assumes inv: "delivery_inv d" and at: "at_pc d i b Entering"
  shows "delivery_inv (enter_complete i b d)"
proof (cases "dl_chosen d")
  case (Some c)
  then have out: "outcome_of d = Deciding c \<or> (\<exists>r. outcome_of d = Settled c r)" by (simp add: outcome_of_def)
  show ?thesis
  proof (cases "c = b")
    case True
    have "delivery_inv (set_pc i Waiting d)"
      by (rule moved_inv [OF inv at]) (use out True in \<open>auto simp: place_ok_def owner_pc_def\<close>)
    then show ?thesis using Some True by (simp add: enter_complete_def)
  next
    case False
    have "delivery_inv (set_pc i (Returned (Some completion_conflict)) d)"
      by (rule moved_inv [OF inv at]) (use out False in \<open>auto simp: place_ok_def owner_pc_def\<close>)
    then show ?thesis using Some False by (simp add: enter_complete_def)
  qed
next
  case None
  show ?thesis
  proof (cases "dl_cause d")
    case cause: None
    show ?thesis using chosen_inv [OF inv at None cause] None cause by (simp add: enter_complete_def)
  next
    case (Some e)
    then have "outcome_of d = Over e" using None by (simp add: outcome_of_def)
    then have "delivery_inv (set_pc i (Returned (Some e)) d)"
      by (intro moved_inv [OF inv at]) (auto simp: place_ok_def owner_pc_def)
    then show ?thesis using None Some by (simp add: enter_complete_def)
  qed
qed

lemma deciding_chosen: "outcome_of d = Deciding b \<longleftrightarrow> dl_chosen d = Some b \<and> \<not> dl_done d"
  by (auto simp: outcome_of_def split: option.splits)

lemma stored_inv:
  assumes inv: "delivery_inv d" and at: "at_pc d i b Completing"
  shows "delivery_inv (set_pc i Stored (d\<lparr>dl_err := r\<rparr>))"
proof -
  have out: "outcome_of d = Deciding b" using inv_place [OF inv at] by (simp add: place_ok_def)
  then have same: "outcome_of (d\<lparr>dl_err := r\<rparr>) = Deciding b" unfolding deciding_chosen by simp
  have inv': "delivery_inv (d\<lparr>dl_err := r\<rparr>)"
    using inv out same by (simp add: delivery_inv_def inv_defs busy_def)
  show ?thesis by (rule moved_inv [OF inv', where b = b and pc = Completing])
    (use at same in \<open>auto simp: place_ok_def owner_pc_def\<close>)
qed

lemma closed_inv:
  assumes inv: "delivery_inv d" and at: "at_pc d i b Stored"
  shows "delivery_inv (set_pc i Closed (d\<lparr>dl_done := True\<rparr>))"
    (is "delivery_inv (set_pc i Closed ?d)")
proof -
  let ?e = "set_pc i Closed ?d"
  have at': "at_pc ?d i b Stored" using at by simp
  have out: "outcome_of d = Deciding b" using inv_place [OF inv at] by (simp add: place_ok_def)
  then have out': "outcome_of ?e = Settled b (dl_err d)" unfolding deciding_chosen by (simp add: outcome_of_def)
  have others: "place_ok (Settled b (dl_err d)) c pc" if "at_pc d j c pc" "j \<noteq> i" for j c pc
  proof (rule place_settle)
    show "place_ok (Deciding b) c pc" using inv_place [OF inv that(1)] out by simp
    have "\<not> owner_pc pc" using inv at that unfolding delivery_inv_def owner_ok_def by (metis insertCI owner_pc_def)
    then show "pc \<noteq> Completing" "pc \<noteq> Stored" by (auto simp: owner_pc_def)
  qed
  have "places_ok ?e" using others unfolding places_ok_def out' at_pc_moved [OF at'] by (auto simp: place_ok_def)
  moreover have "owner_ok ?e"
    using inv at unfolding delivery_inv_def owner_ok_def at_pc_moved [OF at'] at_pc_fields by (metis insertCI owner_pc_def)
  moreover have "busy_ok ?e" unfolding busy_ok_def out' by simp
  moreover have "started_ok ?e" using inv out by (simp add: delivery_inv_def started_ok_def deciding_chosen)
  moreover have "release_ok ?e" using inv unfolding release_ok_def at_pc_moved [OF at'] by (auto simp: delivery_inv_def release_ok_def)
  ultimately show ?thesis by (simp add: delivery_inv_def)
qed

lemma settled_err: "outcome_of d = Settled b r \<Longrightarrow> dl_err d = r"
  by (auto simp: outcome_of_def split: option.splits if_splits)

lemma delivery_step_inv: "delivery_step d d' \<Longrightarrow> delivery_inv d \<Longrightarrow> delivery_inv d'"
proof (induction rule: delivery_step.induct)
  case (call d b)
  have o: "outcome_of (d\<lparr>dl_calls := dl_calls d @ [(b, Entering)]\<rparr>) = outcome_of d" by simp
  have "busy (d\<lparr>dl_calls := dl_calls d @ [(b, Entering)]\<rparr>)" if "busy d"
    using that by (auto simp: busy_def at_pc_new)
  then show ?case using call
    by (auto simp: delivery_inv_def inv_defs at_pc_new) (auto simp: place_ok_def owner_pc_def)
next
  case (enter d i b)
  then show ?case by (rule_tac entered_inv)
next
  case (wake d i b)
  obtain s where s: "outcome_of d = Settled b s"
    using inv_place [OF wake(3,1)] wake(2) by (auto simp: place_ok_def deciding_chosen)
  show ?case by (rule moved_inv [OF wake(3,1)]) (use s settled_err [OF s] in \<open>auto simp: place_ok_def owner_pc_def\<close>)
next
  case (store d i b result)
  then show ?case by (rule_tac stored_inv)
next
  case (close d i b)
  then show ?case by (rule_tac closed_inv)
next
  case (cancel d i b)
  obtain s where s: "outcome_of d = Settled b s" using inv_place [OF cancel(2,1)] by (auto simp: place_ok_def)
  have at: "at_pc (cancel_with (CtxErr Canceled) d) i b Closed" using cancel(1) by simp
  show ?case by (rule moved_inv [OF cancel_inv [OF cancel(2)] at])
    (use s in \<open>auto simp: place_ok_def owner_pc_def outcome_cancel\<close>)
next
  case (finish d i b)
  obtain s where s: "outcome_of d = Settled b s" using inv_place [OF finish(2,1)] by (auto simp: place_ok_def)
  have "dl_cause d \<noteq> None" using finish by (auto simp: delivery_inv_def release_ok_def)
  then have inv: "delivery_inv (release_once d)" using finish(2) by (rule_tac release_inv)
  have at: "at_pc (release_once d) i b Cancelling" using finish(1) by simp
  show ?case by (rule moved_inv [OF inv at]) (use s settled_err [OF s] in \<open>auto simp: place_ok_def owner_pc_def\<close>)
next
  case (fire d)
  then show ?case by (simp add: delivery_inv_def inv_defs busy_def)
next
  case (expire d)
  then have "delivery_inv (d\<lparr>dl_timer := Idle\<rparr>)" by (simp add: delivery_inv_def inv_defs busy_def)
  then show ?case by (rule cancel_inv)
next
  case (context_ends d e)
  then show ?case by (rule_tac cancel_inv)
next
  case (watcher d)
  then show ?case by (rule_tac release_inv)
qed

lemma delivery_reach_inv: "delivery_reach d \<Longrightarrow> delivery_inv d"
  by (induction rule: delivery_reach.induct) (auto intro: delivery_start_inv delivery_step_inv)

section \<open>Properties\<close>

text \<open>
  C34. A delivery is completed once and its callers agree: however the calls of \<open>Ack\<close> and
  \<open>Retry\<close>, the timer and the end of the context interleave, at most one completion is
  started, the release function runs at most once and only when the context is over, every
  call that has returned answers what the one outcome demands of it, and a call that waits
  for a result waits for a call that is at work on it.
\<close>

theorem completion_agreed:
  assumes "delivery_reach d"
  shows "length (dl_started d) \<le> 1 \<and> dl_released d \<le> 1 \<and> (dl_released d = 0 \<or> dl_cause d \<noteq> None) \<and>
    (\<forall>i b r. at_pc d i b (Returned r) \<longrightarrow> answers (outcome_of d) b r) \<and>
    (\<forall>i b. at_pc d i b Waiting \<longrightarrow> dl_done d \<or> busy d)"
proof -
  have inv: "delivery_inv d" by (rule delivery_reach_inv [OF assms])
  have "answers (outcome_of d) b r" if "at_pc d i b (Returned r)" for i b r
    using inv_place [OF inv that] by (simp add: place_ok_def)
  moreover have "dl_done d \<or> busy d" if "at_pc d i b Waiting" for i b
    using inv_place [OF inv that] inv deciding_chosen [of d b]
    by (auto simp: place_ok_def delivery_inv_def busy_ok_def outcome_of_def split: option.splits if_splits)
  moreover have "length (dl_started d) \<le> 1" "dl_released d \<le> 1" "dl_released d = 0 \<or> dl_cause d \<noteq> None"
    using inv by (auto simp: delivery_inv_def started_ok_def release_ok_def split: option.splits)
  ultimately show ?thesis by blast
qed

text \<open>Two calls of \<open>Ack\<close> and one of \<open>Retry\<close>: the first completes with an error, the second waits
  and returns that error, the third conflicts.\<close>

definition example_delivery :: delivery where
  "example_delivery = \<lparr>dl_cause = Some (CtxErr Canceled), dl_timer = Idle, dl_chosen = Some True, dl_err = Some (NetErr ''x''),
     dl_done = True, dl_once = True, dl_released = 1,
     dl_calls = [(True, Returned (Some (NetErr ''x''))), (True, Returned (Some (NetErr ''x''))),
       (False, Returned (Some completion_conflict))], dl_started = [True]\<rparr>"

lemma example_delivery_reach: "delivery_reach example_delivery"
proof -
  note s = delivery_reach.step and f = delivery_start_def set_pc_def enter_complete_def cancel_with_def release_once_def at_pc_def
  define d1 where "d1 = delivery_start\<lparr>dl_calls := [(True, Entering), (True, Entering), (False, Entering)]\<rparr>"
  have "delivery_reach (delivery_start\<lparr>dl_calls := [(True, Entering)]\<rparr>)"
    using s [OF delivery_reach.start delivery_step.call, of True] by (simp add: f)
  from s [OF this delivery_step.call, of True]
  have "delivery_reach (delivery_start\<lparr>dl_calls := [(True, Entering), (True, Entering)]\<rparr>)" by simp
  from s [OF this delivery_step.call, of False] have 1: "delivery_reach d1" by (simp add: d1_def)
  define d2 where "d2 = set_pc 2 (Returned (Some completion_conflict)) (set_pc 1 Waiting (set_pc 0 Completing
    (d1\<lparr>dl_chosen := Some True, dl_started := [True], dl_timer := Idle\<rparr>)))"
  have "delivery_reach (enter_complete 0 True d1)"
    by (rule s [OF 1 delivery_step.enter]) (simp add: d1_def f)
  from s [OF this delivery_step.enter, of 1 True]
  have "delivery_reach (enter_complete 1 True (enter_complete 0 True d1))" by (simp add: d1_def f)
  from s [OF this delivery_step.enter, of 2 False]
  have 2: "delivery_reach d2" by (simp add: d1_def d2_def f)
  from s [OF this delivery_step.store, of 0 True "Some (NetErr ''x'')"]
  have "delivery_reach (set_pc 0 Stored (d2\<lparr>dl_err := Some (NetErr ''x'')\<rparr>))" by (simp add: d1_def d2_def f)
  from s [OF this delivery_step.close, of 0 True]
  have "delivery_reach (set_pc 0 Closed (d2\<lparr>dl_err := Some (NetErr ''x''), dl_done := True\<rparr>))" by (simp add: d1_def d2_def f)
  from s [OF this delivery_step.cancel, of 0 True]
  have "delivery_reach (set_pc 0 Cancelling (d2\<lparr>dl_err := Some (NetErr ''x''), dl_done := True, dl_cause := Some (CtxErr Canceled)\<rparr>))"
    by (simp add: d1_def d2_def f)
  from s [OF this delivery_step.finish, of 0 True]
  have "delivery_reach (set_pc 0 (Returned (Some (NetErr ''x''))) (d2\<lparr>dl_err := Some (NetErr ''x''), dl_done := True,
      dl_cause := Some (CtxErr Canceled), dl_once := True, dl_released := 1\<rparr>))" by (simp add: d1_def d2_def f)
  from s [OF this delivery_step.wake, of 1 True] show ?thesis by (simp add: d1_def d2_def f example_delivery_def)
qed

theorem completion_agreed_witness:
  "answers (outcome_of example_delivery) True (Some (NetErr ''x'')) \<and>
   answers (outcome_of example_delivery) False (Some completion_conflict) \<and> length (dl_started example_delivery) \<le> 1"
proof -
  note a = completion_agreed [OF example_delivery_reach]
  have "at_pc example_delivery 1 True (Returned (Some (NetErr ''x'')))"
    "at_pc example_delivery 2 False (Returned (Some completion_conflict))"
    by (simp_all add: at_pc_def example_delivery_def)
  then show ?thesis using a by blast
qed

text \<open>
  C35. The steps of a delivery refine its promise: seen through \<open>outcome_of\<close> every step of the
  machine leaves the outcome as it is or is one of decide, settle and end.
\<close>

theorem delivery_refines_outcome:
  assumes "delivery_reach d" and "delivery_step d d'"
  shows "outcome_of d' = outcome_of d \<or> outcome_step (outcome_of d) (outcome_of d')"
proof -
  have inv: "delivery_inv d" by (rule delivery_reach_inv [OF assms(1)])
  have place: "place_ok (outcome_of d) b pc" if "at_pc d i b pc" for i b pc by (rule inv_place [OF inv that])
  show ?thesis using assms(2)
  proof cases
    case (enter i b)
    then show ?thesis using inv
      by (auto simp: enter_complete_def outcome_of_def delivery_inv_def started_ok_def split: option.splits cong: if_cong)
  next
    case (store i b r)
    then have "dl_chosen d = Some b" "\<not> dl_done d"
      using place [of i b Completing] by (simp_all add: place_ok_def deciding_chosen)
    then show ?thesis unfolding store(1) outcome_fields by (simp add: outcome_of_def)
  next
    case (close i b)
    then have "dl_chosen d = Some b" "\<not> dl_done d"
      using place [of i b Stored] by (simp_all add: place_ok_def deciding_chosen)
    then show ?thesis unfolding close(1) outcome_fields by (simp add: outcome_of_def)
  next
    case (cancel i b)
    then show ?thesis using place [of i b Closed] by (auto simp: place_ok_def outcome_cancel)
  next
    case expire
    then show ?thesis by (auto simp: outcome_cancel)
  next
    case (context_ends e)
    then show ?thesis by (auto simp: outcome_cancel)
  qed simp_all
qed

theorem delivery_refines_outcome_witness:
  "outcome_step (outcome_of delivery_start) (outcome_of (cancel_with (CtxErr Canceled) delivery_start))"
proof -
  have s: "delivery_step delivery_start (cancel_with (CtxErr Canceled) delivery_start)"
    by (rule delivery_step.context_ends) (simp add: delivery_start_def)
  have "outcome_of (cancel_with (CtxErr Canceled) delivery_start) \<noteq> outcome_of delivery_start"
    by (simp add: outcome_of_def cancel_with_def delivery_start_def)
  then show ?thesis using delivery_refines_outcome [OF delivery_reach.start s] by blast
qed


definition example_raw :: "int \<times> int \<Rightarrow> eventWireDelivery" where
  "example_raw lease = \<lparr>wd_QueueID = ''q'', wd_EventID = ''e'', wd_EventType = ''email.received'', wd_DeliveryID = ''d'',
     wd_LeaseToken = ''t'', wd_LeaseExpiresAt = lease, wd_Body = ''{}'', wd_Headers = Some []\<rparr>"

lemma example_raw_complete: "\<not> raw_incomplete (example_raw lease)"
proof -
  have "json_parse (json_text (JObj [])) = Some (JObj [])"
    using json_parse_text [of "JObj []"] by (simp add: max_nesting_def)
  then show ?thesis by (simp add: raw_incomplete_def example_raw_def)
qed


text \<open>A lease that ended too long ago, or was never given, is taken for a fresh one: the difference
  saturates and subtracting the margin wraps around.\<close>

lemma absent_lease_accepted:
  assumes "0 \<le> now"
  shows "lease_duration now zero_time = 30 * 10 ^ 9"
proof -
  have "until_ns now zero_time = - (2 ^ 63)" using assms by (simp add: until_ns_def zero_time_def saturate64_def)
  moreover have "wrap64 (- (2 ^ 63) - 5 * 10 ^ 9) = 2 ^ 63 - 5 * 10 ^ 9" by (simp add: wrap64_def)
  ultimately show ?thesis by (simp add: lease_duration_def)
qed

end
