(* ===== verification/Event_Reader.thy ===== *)
theory Event_Reader
  imports Event_Delivery
begin

text \<open>
  Two parts of \<open>event_receiver.go\<close> that a connection sees by their answers only: the goroutine that
  \<open>open\<close> starts to move frames from the socket to a channel, as steps interleaved with the
  connection's own, and the delay a \<open>Retry-After\<close> value asks for. What the connection reads from the
  channel is the \<open>ev_read\<close> of \<open>Event_Connection\<close>, the delay its \<open>ev_retry_after\<close>.
\<close>

section \<open>Retry-After\<close>

text \<open>\<open>time.Duration(seconds * float64(time.Second))\<close>, for a \<open>float64\<close> that is not negative: the product is
  rounded and then truncated.\<close>

definition seconds_ns :: "f64 \<Rightarrow> int" where
  "seconds_ns x = (case x of F64 m e \<Rightarrow>
     (case f64_of_ratio False (nat m * 2 ^ nat e * 10 ^ 9) (2 ^ nat (- e)) of
        F64 p k \<Rightarrow> if 0 \<le> k then p * 2 ^ nat k else p div 2 ^ nat (- k) | _ \<Rightarrow> 0) | _ \<Rightarrow> 0)"

text \<open>\<open>seconds >= 0 && seconds < 86400*365\<close>\<close>

definition within_year :: "f64 \<Rightarrow> bool" where
  "within_year x \<longleftrightarrow> (case x of F64 m e \<Rightarrow> 0 \<le> m \<and> m * 2 ^ nat e < 31536000 * 2 ^ nat (- e) | _ \<Rightarrow> False)"

text \<open>\<open>strconv.ParseFloat\<close>, \<open>http.ParseTime\<close> and the clock in nanoseconds are arguments.\<close>

definition retryAfterEvent :: "(string \<Rightarrow> f64 option) \<Rightarrow> (string \<Rightarrow> (int \<times> int) option) \<Rightarrow> int \<Rightarrow> string \<Rightarrow> int" where
  "retryAfterEvent parseFloat parseTime now value =
     (case parseFloat value of
        Some seconds \<Rightarrow> if within_year seconds then seconds_ns seconds
          else (case parseTime value of Some t \<Rightarrow> max 0 (until_ns now t) | None \<Rightarrow> 0)
      | None \<Rightarrow> (case parseTime value of Some t \<Rightarrow> max 0 (until_ns now t) | None \<Rightarrow> 0))"

section \<open>The reader\<close>

record eventPacket =
  pk_frame :: eventFrame
  pk_err :: "string option"

record reader =
  rd_queue :: "eventPacket list"
  rd_closed :: bool
  rd_socket :: bool
  rd_finished :: bool
  rd_pongs :: nat
  rd_taken :: "eventPacket list"
  rd_made :: "eventPacket list"

text \<open>The channel and whether it is closed, the socket, whether the loop is over, the answers to
  pings; what the connection took from the channel and all packets the loop made.\<close>

definition reader_start :: reader where
  "reader_start = \<lparr>rd_queue = [], rd_closed = False, rd_socket = True, rd_finished = False, rd_pongs = 0,
     rd_taken = [], rd_made = []\<rparr>"

text \<open>The channel holds two packets; one that finds it full ends the loop and the socket.\<close>

definition send_packet :: "eventPacket \<Rightarrow> reader \<Rightarrow> reader" where
  "send_packet p r =
     (if length (rd_queue r) < 2 then
        r\<lparr>rd_made := rd_made r @ [p], rd_queue := rd_queue r @ [p], rd_finished := (pk_err p \<noteq> None)\<rparr>
      else r\<lparr>rd_made := rd_made r @ [p], rd_socket := False, rd_finished := True\<rparr>)"

inductive reader_step :: "reader \<Rightarrow> reader \<Rightarrow> bool" where
  got_frame: "\<not> rd_finished r \<Longrightarrow> rd_socket r \<Longrightarrow> fr_Type f \<noteq> ''ping'' \<Longrightarrow>
    reader_step r (send_packet \<lparr>pk_frame = f, pk_err = None\<rparr> r)"
| got_error: "\<not> rd_finished r \<Longrightarrow> reader_step r (send_packet \<lparr>pk_frame = f, pk_err = Some e\<rparr> r)"
| answered: "\<not> rd_finished r \<Longrightarrow> rd_socket r \<Longrightarrow> reader_step r (r\<lparr>rd_pongs := Suc (rd_pongs r)\<rparr>)"
| unanswered: "\<not> rd_finished r \<Longrightarrow> fr_Type f = ''ping'' \<Longrightarrow>
    reader_step r (send_packet \<lparr>pk_frame = f, pk_err = Some e\<rparr> r)"
| closes: "rd_finished r \<Longrightarrow> \<not> rd_closed r \<Longrightarrow> reader_step r (r\<lparr>rd_closed := True\<rparr>)"
| takes: "rd_queue r = p # q \<Longrightarrow> reader_step r (r\<lparr>rd_queue := q, rd_taken := rd_taken r @ [p]\<rparr>)"
| shuts: "reader_step r (r\<lparr>rd_socket := False\<rparr>)"

inductive reader_reach :: "reader \<Rightarrow> bool" where
  start: "reader_reach reader_start"
| step: "reader_reach r \<Longrightarrow> reader_step r r' \<Longrightarrow> reader_reach r'"

inductive_cases reader_stepE: "reader_step r r'"

text \<open>What \<open>exchange\<close> sees: a packet, or the end of a channel that is closed and empty.\<close>

definition read_of :: "eventPacket \<Rightarrow> read_answer" where
  "read_of p = (case pk_err p of Some e \<Rightarrow> ReadFailed e | None \<Rightarrow> ReadFrame (pk_frame p))"

section \<open>Properties\<close>

lemma seconds_ns_nonneg: "within_year x \<Longrightarrow> 0 \<le> seconds_ns x"
proof -
  have "0 \<le> p" if "f64_of_ratio False n d = F64 p k" for n d p k
  proof -
    have c: "0 \<le> m \<Longrightarrow> f64_canon m e = F64 p k \<Longrightarrow> 0 \<le> p" for m e
    proof (induction m e rule: f64_canon.induct)
      case (1 m e)
      then show ?case by (cases "m = 0"; cases "even m") (auto simp: f64_canon.simps [of m e] f64_canon.simps [of 0 e])
    qed
    have "p = 0 \<or> (\<exists>q k'. f64_canon (int q) k' = F64 p k)"
      using that by (auto simp: f64_of_ratio_def Let_def split: if_splits)
    then show ?thesis using c [OF of_nat_0_le_iff] by auto
  qed
  then show "within_year x \<Longrightarrow> 0 \<le> seconds_ns x"
    by (auto simp: seconds_ns_def split: f64.splits) (metis div_int_pos_iff zero_le_numeral zero_le_power)
qed

text \<open>The delay a server asks for is never negative.\<close>

theorem retry_after_nonneg: "0 \<le> retryAfterEvent parseFloat parseTime now value"
  using seconds_ns_nonneg by (auto simp: retryAfterEvent_def split: option.splits)

definition reader_ok :: "reader \<Rightarrow> bool" where
  "reader_ok r \<longleftrightarrow> (\<exists>lost. rd_made r = rd_taken r @ rd_queue r @ lost \<and>
       (lost \<noteq> [] \<longrightarrow> length lost = 1 \<and> \<not> rd_socket r \<and> rd_finished r)) \<and>
     length (rd_queue r) \<le> 2 \<and> (rd_closed r \<longrightarrow> rd_finished r) \<and>
     (\<forall>p \<in> set (rd_made r). fr_Type (pk_frame p) = ''ping'' \<longrightarrow> pk_err p \<noteq> None) \<and>
     (\<forall>p \<in> set (butlast (rd_made r)). pk_err p = None) \<and>
     (\<not> rd_finished r \<longrightarrow> (\<forall>p \<in> set (rd_made r). pk_err p = None))"

lemma send_ok:
  assumes "reader_ok r" "\<not> rd_finished r" "fr_Type (pk_frame p) = ''ping'' \<longrightarrow> pk_err p \<noteq> None"
  shows "reader_ok (send_packet p r)"
proof -
  have m: "rd_made r = rd_taken r @ rd_queue r" using assms(1,2) by (auto simp: reader_ok_def)
  show ?thesis
  proof (cases "length (rd_queue r) < 2")
    case True
    then show ?thesis using assms m by (auto simp: reader_ok_def send_packet_def butlast_append)
  next
    case False
    then show ?thesis using assms m
      by (auto simp: reader_ok_def send_packet_def butlast_append intro: exI [of _ "[p]"])
  qed
qed

lemma reader_reach_ok: "reader_reach r \<Longrightarrow> reader_ok r"
proof (induction rule: reader_reach.induct)
  case start
  then show ?case by (simp add: reader_ok_def reader_start_def)
next
  case (step r r')
  from step(2) show ?case
  proof cases
    case (got_frame f)
    then show ?thesis using step(3) send_ok by simp
  next
    case (got_error f e)
    then show ?thesis using step(3) send_ok by simp
  next
    case (unanswered f e)
    then show ?thesis using step(3) send_ok by simp
  next
    case (takes p q)
    then show ?thesis using step(3) by (simp add: reader_ok_def)
  next
    case shuts
    then show ?thesis using step(3) by (auto simp: reader_ok_def)
  qed (use step(3) in \<open>auto simp: reader_ok_def\<close>)
qed

text \<open>
  What the connection reads is what the server sent. In every interleaving the packets taken from
  the channel and the at most two in it are, in order, all packets the reader made but one at most,
  which found the channel full and then the socket is shut and the reader over; only the last
  packet can be an error; pings are answered by the reader and reach the connection only as an
  error, so the connection's own answer to a ping is never needed.
\<close>

theorem reader_faithful:
  assumes "reader_reach r"
  shows "(\<exists>lost. map read_of (rd_made r) = map read_of (rd_taken r @ rd_queue r) @ lost \<and>
      (lost \<noteq> [] \<longrightarrow> length lost = 1 \<and> \<not> rd_socket r \<and> rd_finished r)) \<and>
    length (rd_queue r) \<le> 2 \<and> (rd_closed r \<longrightarrow> rd_finished r) \<and>
    (\<forall>p \<in> set (butlast (rd_made r)). read_of p = ReadFrame (pk_frame p)) \<and>
    (\<forall>p \<in> set (rd_taken r). \<forall>f. read_of p = ReadFrame f \<longrightarrow> fr_Type f \<noteq> ''ping'')"
proof -
  have ok: "reader_ok r" by (rule reader_reach_ok [OF assms])
  then obtain lost where l: "rd_made r = rd_taken r @ rd_queue r @ lost"
      "lost \<noteq> [] \<longrightarrow> length lost = 1 \<and> \<not> rd_socket r \<and> rd_finished r"
    by (auto simp: reader_ok_def)
  have "\<forall>p \<in> set (rd_taken r). \<forall>f. read_of p = ReadFrame f \<longrightarrow> fr_Type f \<noteq> ''ping''"
    using ok l(1) by (auto simp: reader_ok_def read_of_def split: option.splits)
  moreover have "\<forall>p \<in> set (butlast (rd_made r)). read_of p = ReadFrame (pk_frame p)"
    using ok by (simp add: reader_ok_def read_of_def)
  ultimately show ?thesis using ok l by (auto simp: reader_ok_def intro: exI [of _ "map read_of lost"])
qed


end
