(* ===== verification/Event_Listener.thy ===== *)
theory Event_Listener
  imports Event_Delivery
begin

text \<open>
  \<open>Wait\<close> and \<open>Listen\<close> of \<open>event_receiver.go\<close>: reserving a subscription, connecting, and handing
  over one delivery, or handling one delivery after another until stopped. The listener's
  goroutine is the only caller of \<open>Ack\<close> and \<open>Retry\<close> on the deliveries it handles.
\<close>

section \<open>Wait\<close>

text \<open>\<open>pauseEvent(ctx, 250ms)\<close> when there is nothing to deliver.\<close>

definition idle :: "evt_state \<Rightarrow> evt_state" where
  "idle s = act (Paused (250 * 10 ^ 6)) s"

partial_function (option) wait_loop :: "evt_env \<Rightarrow> evt_state \<Rightarrow> ((evt_error + pending_event) \<times> evt_state) option" where
  "wait_loop env s =
     (case retryEvent env (con_receive env) s of
        None \<Rightarrow> None
      | Some (Inl e, s1) \<Rightarrow> Some (Inl e, s1)
      | Some (Inr offer, s1) \<Rightarrow>
          if of_Delivery offer = None then
            (case ev_pause env (es_log (idle s1)) of
               Some c \<Rightarrow> Some (Inl (CtxErr c), idle s1)
             | None \<Rightarrow> wait_loop env (idle s1))
          else Some (newPendingEvent (ev_now env (es_log s1)) (of_Delivery offer), s1))"

text \<open>The result, the table and the connection afterwards. A delivery comes with its release function.\<close>

definition Wait :: "evt_env \<Rightarrow> EventOptions \<Rightarrow> EventsResource \<Rightarrow>
    ((evt_error + pending_event \<times> nat) \<times> EventsResource \<times> evt_state option) option" where
  "Wait env options res =
     (case reserve options res of
        (Inl e, res') \<Rightarrow> Some (Inl e, res', None)
      | (Inr h, res') \<Rightarrow>
          (case con_connect env options [] of
             None \<Rightarrow> None
           | Some (Inl e, s) \<Rightarrow> Some (Inl e, release h res', Some s)
           | Some (Inr _, s) \<Rightarrow>
               (case wait_loop env s of
                  None \<Rightarrow> None
                | Some (Inl e, s1) \<Rightarrow> Some (Inl e, release h res', Some (con_close s1))
                | Some (Inr d, s1) \<Rightarrow> Some (Inr (d, h), res', Some s1))))"

section \<open>Listen\<close>

text \<open>What the completion of a delivery sends, by a single caller.\<close>

definition completion_body :: "int \<Rightarrow> pending_event \<Rightarrow> bool \<Rightarrow> json" where
  "completion_body now d accepted = JObj [(''accepted'', JBool accepted),
     (''delivery_id'', enc_string (wd_DeliveryID (pd_raw d))),
     (''duration_ms'', enc_int (min 30000 ((now - pd_started d) div 1000000))),
     (''lease_token'', enc_string (wd_LeaseToken (pd_raw d))), (''mode'', enc_string ''sdk''),
     (''queue_id'', enc_string (wd_QueueID (pd_raw d)))]"

text \<open>The context of a completion ends with its delivery's, and when its time is up.\<close>

definition completing :: "evt_env \<Rightarrow> evt_env" where
  "completing env = env\<lparr>ev_context := (\<lambda>l. case ev_context env l of Some c \<Rightarrow> Some c
     | None \<Rightarrow> if ev_delivery env l \<noteq> None then Some Canceled else if ev_deadline env l then Some DeadlineExceeded else None)\<rparr>"

definition settle :: "evt_env \<Rightarrow> pending_event \<Rightarrow> bool \<Rightarrow> unit run" where
  "settle env d accepted s =
     (case ev_delivery env (es_log s) of
        Some e \<Rightarrow> err e s
      | None \<Rightarrow>
          (let s1 = act (Chose (le_ID (pd_Event d)) accepted) s
           in retryEvent (completing env) (con_complete (completing env) (completion_body (ev_now env (es_log s1)) d accepted)) s1))"

text \<open>The context under which the listener receives also ends when it is closed.\<close>

definition receiving :: "evt_env \<Rightarrow> evt_env" where
  "receiving env = env\<lparr>ev_context := (\<lambda>l. case ev_context env l of Some c \<Rightarrow> Some c
     | None \<Rightarrow> if ev_stopped env l then Some Canceled else None)\<rparr>"

definition stopping :: "evt_env \<Rightarrow> evt_effect list \<Rightarrow> bool" where
  "stopping env l \<longleftrightarrow> ev_stopped env l \<or> ev_context env l \<noteq> None"

text \<open>Handling one delivery: the error that ends the listener, if any.\<close>

definition handle_delivery :: "evt_env \<Rightarrow> pending_event \<Rightarrow> unit run" where
  "handle_delivery env d s =
     (let s1 = act (GaveHandler (le_ID (pd_Event d))) s
      in case ev_handler env (es_log s1) of
           HandlerLate e \<Rightarrow> err e s1
         | HandlerReturned None \<Rightarrow> settle env d True s1
         | HandlerReturned (Some m) \<Rightarrow> settle env d False (con_report (status_of ''handler_error'' (Some (Plain m))) s1))"

text \<open>The loop, with the listener's final error.\<close>

partial_function (option) listen_loop :: "evt_env \<Rightarrow> evt_state \<Rightarrow> (evt_error option \<times> evt_state) option" where
  "listen_loop env s =
     (if stopping env (es_log s) then Some (None, s)
      else (case retryEvent (receiving env) (con_receive (receiving env)) s of
          None \<Rightarrow> None
        | Some (Inl e, s1) \<Rightarrow> Some (if stopping env (es_log s1) then None else Some e, s1)
        | Some (Inr offer, s1) \<Rightarrow>
            if of_Delivery offer = None then
              (if ev_pause env (es_log (idle s1)) = None then listen_loop env (idle s1) else Some (None, idle s1))
            else (case newPendingEvent (ev_now env (es_log s1)) (of_Delivery offer) of
                Inl e \<Rightarrow> Some (Some e, s1)
              | Inr d \<Rightarrow>
                  (case handle_delivery env d s1 of
                     None \<Rightarrow> None
                   | Some (Inl e, s2) \<Rightarrow> Some (Some e, s2)
                   | Some (Inr _, s2) \<Rightarrow> listen_loop env s2))))"

text \<open>\<open>Listen\<close> with the goroutine it starts run to its end: the error \<open>Listen\<close> returns, or the
  listener's own error.\<close>

definition Listen :: "evt_env \<Rightarrow> bool \<Rightarrow> EventOptions \<Rightarrow> EventsResource \<Rightarrow>
    ((evt_error + evt_error option) \<times> EventsResource \<times> evt_state option) option" where
  "Listen env hasHandler options res =
     (if \<not> hasHandler then Some (Inl (Plain ''handler is required''), res, None)
      else (case reserve options res of
        (Inl e, res') \<Rightarrow> Some (Inl e, res', None)
      | (Inr h, res') \<Rightarrow>
          (case con_connect env options [] of
             None \<Rightarrow> None
           | Some (Inl e, s) \<Rightarrow> Some (Inl e, release h res', Some s)
           | Some (Inr _, s) \<Rightarrow>
               (case listen_loop env s of
                  None \<Rightarrow> None
                | Some (result, s1) \<Rightarrow>
                    Some (Inr result, release h res', Some (con_close (con_report (status_of ''closed'' None) s1)))))))"

section \<open>What was handed out and settled\<close>

definition deliveries :: "evt_effect list \<Rightarrow> evt_effect list" where
  "deliveries l = filter (\<lambda>e. \<not> on_wire e) l"

lemma deliveries_act: "deliveries (es_log (act e s)) = deliveries (es_log s) @ (if on_wire e then [] else [e])"
  by (simp add: deliveries_def act_def)

lemma deliveries_con [simp]: "deliveries (es_log (on_con f s)) = deliveries (es_log s)"
  by (simp add: on_con_def)

interpretation quiet: connection_property "\<lambda>s. deliveries (es_log s) = D" for D
  by unfold_locales (simp_all add: deliveries_act)

fun all_settled :: "evt_effect list \<Rightarrow> bool" where
  "all_settled [] = True"
| "all_settled (GaveHandler i # Chose j b # l) \<longleftrightarrow> i = j \<and> all_settled l"
| "all_settled l = False"

text \<open>Every event handed out is settled before the next one is, except perhaps the last.\<close>

definition settled_in_order :: "evt_effect list \<Rightarrow> bool" where
  "settled_in_order l \<longleftrightarrow> all_settled l \<or> (\<exists>i. l \<noteq> [] \<and> last l = GaveHandler i \<and> all_settled (butlast l))"

lemma all_settled_append: "all_settled l \<Longrightarrow> all_settled (l @ [GaveHandler i, Chose i b])"
  by (induction l rule: all_settled.induct) auto

lemma settle_deliveries:
  assumes "settle env d b s = Some (r, t)"
  shows "deliveries (es_log t) = deliveries (es_log s) \<and> (\<exists>e. r = Inl e) \<or>
    deliveries (es_log t) = deliveries (es_log s) @ [Chose (le_ID (pd_Event d)) b]"
proof (cases "ev_delivery env (es_log s)")
  case None
  let ?s1 = "act (Chose (le_ID (pd_Event d)) b) s"
  have "retryEvent (completing env) (con_complete (completing env) (completion_body (ev_now env (es_log ?s1)) d b)) ?s1 = Some (r, t)"
    using assms None by (simp add: settle_def Let_def)
  from quiet.retries [OF quiet.completes refl this] show ?thesis by (simp add: deliveries_act)
next
  case (Some e)
  then show ?thesis using assms by (auto simp: settle_def err_def)
qed

lemma handle_deliveries:
  assumes "handle_delivery env d s = Some (r, t)"
  shows "deliveries (es_log t) = deliveries (es_log s) @ [GaveHandler (le_ID (pd_Event d))] \<and> (\<exists>e. r = Inl e) \<or>
    (\<exists>b. deliveries (es_log t) = deliveries (es_log s) @ [GaveHandler (le_ID (pd_Event d)), Chose (le_ID (pd_Event d)) b])"
proof -
  let ?s1 = "act (GaveHandler (le_ID (pd_Event d))) s"
  have 1: "deliveries (es_log ?s1) = deliveries (es_log s) @ [GaveHandler (le_ID (pd_Event d))]" by (simp add: deliveries_act)
  show ?thesis
  proof (cases "ev_handler env (es_log ?s1)")
    case (HandlerLate e)
    then show ?thesis using assms 1 by (auto simp: handle_delivery_def err_def Let_def)
  next
    case (HandlerReturned m)
    obtain b u where u: "settle env d b u = Some (r, t)" "deliveries (es_log u) = deliveries (es_log ?s1)"
      using assms HandlerReturned
      by (cases m) (auto simp: handle_delivery_def Let_def quiet.reports [OF refl])
    from settle_deliveries [OF u(1)] show ?thesis unfolding u(2) 1 by auto
  qed
qed

lemma listen_loop_settles:
  assumes "listen_loop env s = Some y" "all_settled (deliveries (es_log s))"
  shows "settled_in_order (deliveries (es_log (snd y)))"
proof -
  have "all_settled (deliveries (es_log s)) \<longrightarrow> settled_in_order (deliveries (es_log (snd y)))"
  proof (rule listen_loop.raw_induct [OF _ assms(1)], goal_cases)
    case (1 rf env s y)
    note step = 1(2)
    have rf: "settled_in_order (deliveries (es_log (snd y)))" if "rf env u = Some y" "all_settled (deliveries (es_log u))" for u
      using 1(1) [OF that(1)] that(2) by blast
    show ?case
    proof
      assume all: "all_settled (deliveries (es_log s))"
      show "settled_in_order (deliveries (es_log (snd y)))"
      proof (cases "stopping env (es_log s)")
        case True
        then show ?thesis using step all by (auto simp: settled_in_order_def)
      next
        case False
        then obtain q s1 where r: "retryEvent (receiving env) (con_receive (receiving env)) s = Some (q, s1)"
          using step by (auto split: option.splits)
        have d1: "deliveries (es_log s1) = deliveries (es_log s)" by (rule quiet.retries [OF quiet.receives refl r])
        show ?thesis
        proof (cases q)
          case (Inl e)
          then show ?thesis using step False r all d1 by (auto simp: settled_in_order_def)
        next
          case (Inr offer)
          have idle: "deliveries (es_log (idle s1)) = deliveries (es_log s)" by (simp add: idle_def deliveries_act d1)
          show ?thesis
          proof (cases "of_Delivery offer")
            case None
            then show ?thesis using step False r Inr all idle rf [of "idle s1"]
              by (auto simp: settled_in_order_def split: if_splits)
          next
            case (Some raw)
            show ?thesis
            proof (cases "newPendingEvent (ev_now env (es_log s1)) (of_Delivery offer)")
              case (Inl e)
              then show ?thesis using step False r Inr Some all d1 by (auto simp: settled_in_order_def)
            next
              case pending: (Inr d)
              then obtain p s2 where h: "handle_delivery env d s1 = Some (p, s2)"
                using step False r Inr Some by (auto split: option.splits)
              from handle_deliveries [OF h] show ?thesis
              proof (elim disjE)
                assume a: "deliveries (es_log s2) = deliveries (es_log s1) @ [GaveHandler (le_ID (pd_Event d))] \<and> (\<exists>e. p = Inl e)"
                then have "settled_in_order (deliveries (es_log s2))" using all d1 by (auto simp: settled_in_order_def)
                then show ?thesis using a step False r Inr Some pending h by auto
              next
                assume "\<exists>b. deliveries (es_log s2) = deliveries (es_log s1) @ [GaveHandler (le_ID (pd_Event d)), Chose (le_ID (pd_Event d)) b]"
                then have a: "all_settled (deliveries (es_log s2))" using all d1 all_settled_append by auto
                then have "settled_in_order (deliveries (es_log s2))" by (simp add: settled_in_order_def)
                then show ?thesis using a step False r Inr Some pending h rf [of s2] by (cases p) auto
              qed
            qed
          qed
        qed
      qed
    qed
  qed
  then show ?thesis using assms(2) by blast
qed

section \<open>What a failed connection leaves\<close>

lemma request_con: "con_request env path body d zero s = Some (r, t) \<Longrightarrow> es_con t = es_con s"
  by (auto simp: con_request_def err_def ret_def Let_def act_def split: http_answer.splits prod.splits option.splits if_splits)

lemma closed_socket [simp]: "\<not> con_socket (es_con (con_close s))"
  by (simp add: con_close_def act_def on_con_def)

lemma connect_failed:
  assumes "con_connect env options past = Some (Inl e, s)"
  shows "\<not> con_socket (es_con s)"
proof -
  let ?s0 = "act AskedConnection \<lparr>es_con = new_connection options, es_log = past\<rparr>"
  let ?m = "retryEvent env (con_request env ''endpoints'' (endpoint_body options) dec_endpoint endpoint_zero)"
  have s0: "\<not> con_socket (es_con ?s0)" by (simp add: act_def new_connection_def)
  have m: "\<not> con_socket (es_con t)" if "?m ?s0 = Some (q, t)" for q t
    using retry_keeps [of "\<lambda>s. \<not> con_socket (es_con s)", OF _ _ _ s0 that] request_con by (fastforce simp: act_def)
  show ?thesis
  proof (cases "needs_agent (ev_connection env (es_log ?s0))")
    case True
    then show ?thesis using assms s0 by (simp add: con_connect_def Let_def)
  next
    case False
    then obtain q t where q: "?m ?s0 = Some (q, t)"
      using assms by (auto simp: con_connect_def Let_def andThen_def split: option.splits)
    then show ?thesis using assms False m [OF q]
      by (cases q) (auto simp: con_connect_def Let_def andThen_def err_def split: option.splits sum.splits prod.splits)
  qed
qed

lemma connect_quiet:
  assumes "con_connect env options past = Some (q, s)"
  shows "deliveries (es_log s) = deliveries past"
proof -
  let ?s0 = "act AskedConnection \<lparr>es_con = new_connection options, es_log = past\<rparr>"
  let ?m = "retryEvent env (con_request env ''endpoints'' (endpoint_body options) dec_endpoint endpoint_zero)"
  have s0: "deliveries (es_log ?s0) = deliveries past" by (simp add: deliveries_act)
  have open_quiet: "deliveries (es_log t) = deliveries (es_log u)" if "retryEvent env (con_open env) u = Some (r, t)" for r t u
    by (rule quiet.retries [OF quiet.opens refl that])
  show ?thesis
  proof (cases "needs_agent (ev_connection env (es_log ?s0))")
    case True
    then show ?thesis using assms s0 by (auto simp: con_connect_def Let_def)
  next
    case False
    then obtain p t where p: "?m ?s0 = Some (p, t)"
      using assms by (auto simp: con_connect_def Let_def andThen_def split: option.splits)
    have t: "deliveries (es_log t) = deliveries past" using quiet.retries [OF quiet.requests s0 p] .
    show ?thesis
    proof (cases p)
      case (Inl e)
      then show ?thesis using assms False p t by (simp add: con_connect_def Let_def andThen_def)
    next
      case (Inr ep)
      let ?u = "on_con (con_endpoint_update (\<lambda>_. ep_ID ep)) t"
      show ?thesis
      proof (cases "endpoint_usable options ep")
        case (Some e)
        then show ?thesis using assms False p t Inr by (simp add: con_connect_def Let_def andThen_def err_def)
      next
        case None
        then obtain r v where r: "retryEvent env (con_open env) ?u = Some (r, v)"
          using assms False p Inr by (auto simp: con_connect_def Let_def andThen_def split: option.splits)
        have v: "deliveries (es_log v) = deliveries past" using open_quiet [OF r] t by simp
        have "s = con_close v \<or> s = con_report (con_status (es_con v)) v"
          using assms False p Inr None r by (cases r) (auto simp: con_connect_def Let_def andThen_def)
        then show ?thesis using quiet.closes [OF v] quiet.reports [OF v] by auto
      qed
    qed
  qed
qed

lemma wait_loop_pending:
  assumes "wait_loop env s = Some (Inr d, t)"
  shows "\<exists>now raw. newPendingEvent now (Some raw) = Inr d"
proof -
  have "\<forall>d. fst y = Inr d \<longrightarrow> (\<exists>now raw. newPendingEvent now (Some raw) = Inr d)" if "wait_loop env s = Some y" for y
  proof (rule wait_loop.raw_induct [OF _ that], goal_cases)
    case (1 rf env s y)
    then obtain q s1 where r: "retryEvent env (con_receive env) s = Some (q, s1)" by (auto split: option.splits)
    show ?case
    proof (cases q)
      case (Inl e)
      then show ?thesis using 1(2) r by auto
    next
      case (Inr offer)
      show ?thesis
      proof (cases "of_Delivery offer")
        case None
        then show ?thesis using 1(2) r Inr 1(1) [of env "idle s1" y] by (auto split: option.splits)
      next
        case (Some raw)
        then show ?thesis using 1(2) r Inr by fastforce
      qed
    qed
  qed
  from this [OF assms] show ?thesis by simp
qed

lemma pending_checked:
  "newPendingEvent now (Some raw) = Inr d \<Longrightarrow> 0 < pd_duration d \<and> \<not> raw_incomplete (pd_raw d)"
  by (auto simp: newPendingEvent_def Let_def split: if_splits)

lemma reserve_release:
  "reserve options res = (Inr h, res') \<Longrightarrow> res_holder (release h res') = res_holder res \<and>
     res_holder res h = None \<and> res_holder res' = (res_holder res)(h \<mapsto> eo_Subscription options)"
  by (cases rule: reserve_cases [of options res]) (auto simp: release_holder dest!: take_entry_holder)

section \<open>Properties\<close>

text \<open>
  C37. \<open>Wait\<close> keeps the subscription exactly while a delivery is out: when it fails, the
  subscription is free again and no socket is left open; when it succeeds, the release
  function that comes with the delivery holds it, and the delivery is complete with time
  left.
\<close>

theorem wait_holds_only_deliveries:
  "case Wait env options res of
     None \<Rightarrow> True
   | Some (Inl e, res', c) \<Rightarrow> res_holder res' = res_holder res \<and>
       (case c of None \<Rightarrow> True | Some s \<Rightarrow> \<not> con_socket (es_con s))
   | Some (Inr (d, h), res', c) \<Rightarrow> res_holder res h = None \<and>
       res_holder res' = (res_holder res)(h \<mapsto> eo_Subscription options) \<and> 0 < pd_duration d \<and> \<not> raw_incomplete (pd_raw d)"
proof (cases rule: reserve_cases [of options res])
  case (refused e)
  then show ?thesis by (simp add: Wait_def)
next
  case (taken h r')
  note held = reserve_release [OF taken(1)]
  show ?thesis
  proof (cases "con_connect env options []")
    case None
    then show ?thesis using taken by (simp add: Wait_def)
  next
    case (Some x)
    obtain q s where x: "x = (q, s)" by (cases x)
    show ?thesis
    proof (cases q)
      case (Inl e)
      then show ?thesis using taken(1) Some x held connect_failed [of env options "[]" e s] by (simp add: Wait_def)
    next
      case (Inr u)
      show ?thesis
      proof (cases "wait_loop env s")
        case None
        then show ?thesis using taken(1) Some x Inr by (simp add: Wait_def)
      next
        case w: (Some y)
        obtain p t where y: "y = (p, t)" by (cases y)
        show ?thesis
        proof (cases p)
          case (Inl e)
          then show ?thesis using taken(1) Some x Inr w y held by (simp add: Wait_def)
        next
          case d: (Inr d)
          then show ?thesis using taken(1) Some x Inr w y held wait_loop_pending [of env s d t] pending_checked
            by (auto simp: Wait_def)
        qed
      qed
    qed
  qed
qed


end
