(* ===== verification/Event_Close.thy ===== *)
theory Event_Close
  imports Event_Table
begin

text \<open>
  The life of an \<open>EventListener\<close> (\<open>event_receiver.go\<close>): the goroutine that \<open>Listen\<close> starts and the
  callers of \<open>Wait\<close> and \<open>Close\<close>, as interleaved steps on what they share, the two channels, the
  error, the \<open>Once\<close> and the function that cancels a pending receive, which the mutex guards. A
  section under the mutex is one step. What receiving, the handler and settling do is modelled
  in \<open>Event_Listener\<close>; here each ends with an answer of the environment.
\<close>

section \<open>State\<close>

text \<open>How a receive ends: an error, an offer without a delivery, with a bad one or with a good one.\<close>

datatype received = Failed evt_error | Nothing | Unusable evt_error | Offered

datatype loop_pc =
    Top | Making | Receiving | Got received | Unregistered received | Pausing | Handling | Leaving | Released | Ended

datatype close_pc = WaitsDone | AtOnce | StopClosed | Selecting | Back "evt_error option" | GaveUp evt_error

datatype once = Unused | Running | Used

record listener =
  li_stop :: bool
  li_done :: bool
  li_once :: once
  li_err :: "evt_error option"
  li_registered :: bool
  li_canceled :: bool
  li_context :: bool
  li_pc :: loop_pc
  li_callers :: "close_pc list"
  li_handed :: nat
  li_late :: nat
  li_released :: nat

text \<open>\<open>li_registered\<close>: \<open>cancelReceive\<close> is set. \<open>li_canceled\<close>: the current receiving context was
  canceled. \<open>li_context\<close>: the context of \<open>Listen\<close> is over. The last three count what the handler was
  given, what it was given after \<open>stop\<close> was closed, and the runs of the release function.\<close>

definition listener_start :: listener where
  "listener_start = \<lparr>li_stop = False, li_done = False, li_once = Unused, li_err = None, li_registered = False,
     li_canceled = False, li_context = False, li_pc = Top, li_callers = [], li_handed = 0, li_late = 0, li_released = 0\<rparr>"

section \<open>Steps\<close>

text \<open>The goroutine, through one round of its loop and out of it.\<close>

inductive loop_step :: "listener \<Rightarrow> listener \<Rightarrow> bool" where
  top_leave: "li_pc l = Top \<Longrightarrow> li_stop l \<or> li_context l \<Longrightarrow> loop_step l (l\<lparr>li_pc := Leaving\<rparr>)"
| top_go: "li_pc l = Top \<Longrightarrow> \<not> li_stop l \<Longrightarrow> \<not> li_context l \<Longrightarrow> loop_step l (l\<lparr>li_pc := Making, li_canceled := False\<rparr>)"
| register: "li_pc l = Making \<Longrightarrow>
    loop_step l (l\<lparr>li_pc := Receiving, li_registered := True, li_canceled := li_canceled l \<or> li_stop l\<rparr>)"
| receive: "li_pc l = Receiving \<Longrightarrow> loop_step l (l\<lparr>li_pc := Got r\<rparr>)"
| unregister: "li_pc l = Got r \<Longrightarrow> loop_step l (l\<lparr>li_pc := Unregistered r, li_registered := False, li_canceled := True\<rparr>)"
| failed_late: "li_pc l = Unregistered (Failed e) \<Longrightarrow> li_stop l \<or> li_context l \<Longrightarrow> loop_step l (l\<lparr>li_pc := Leaving\<rparr>)"
| failed: "li_pc l = Unregistered (Failed e) \<Longrightarrow> \<not> li_stop l \<Longrightarrow> \<not> li_context l \<Longrightarrow>
    loop_step l (l\<lparr>li_pc := Leaving, li_err := Some e\<rparr>)"
| no_offer: "li_pc l = Unregistered Nothing \<Longrightarrow> loop_step l (l\<lparr>li_pc := Pausing\<rparr>)"
| paused: "li_pc l = Pausing \<Longrightarrow> loop_step l (l\<lparr>li_pc := Top\<rparr>)"
| pause_ends: "li_pc l = Pausing \<Longrightarrow> li_context l \<Longrightarrow> loop_step l (l\<lparr>li_pc := Leaving\<rparr>)"
| unusable: "li_pc l = Unregistered (Unusable e) \<Longrightarrow> loop_step l (l\<lparr>li_pc := Leaving, li_err := Some e\<rparr>)"
| hand: "li_pc l = Unregistered Offered \<Longrightarrow>
    loop_step l (l\<lparr>li_pc := Handling, li_handed := Suc (li_handed l), li_late := li_late l + of_bool (li_stop l)\<rparr>)"
| settled: "li_pc l = Handling \<Longrightarrow> loop_step l (l\<lparr>li_pc := Top\<rparr>)"
| unsettled: "li_pc l = Handling \<Longrightarrow> loop_step l (l\<lparr>li_pc := Leaving, li_err := Some e\<rparr>)"
| leave: "li_pc l = Leaving \<Longrightarrow> loop_step l (l\<lparr>li_pc := Released, li_released := Suc (li_released l)\<rparr>)"
| finish: "li_pc l = Released \<Longrightarrow> loop_step l (l\<lparr>li_pc := Ended, li_done := True\<rparr>)"

definition set_caller :: "nat \<Rightarrow> close_pc \<Rightarrow> listener \<Rightarrow> listener" where
  "set_caller i pc l = l\<lparr>li_callers := (li_callers l)[i := pc]\<rparr>"

definition caller_at :: "listener \<Rightarrow> nat \<Rightarrow> close_pc \<Rightarrow> bool" where
  "caller_at l i pc \<longleftrightarrow> i < length (li_callers l) \<and> li_callers l ! i = pc"

text \<open>The callers: the first one into the \<open>Once\<close> closes \<open>stop\<close> and then cancels what is pending.\<close>

inductive caller_step :: "listener \<Rightarrow> listener \<Rightarrow> bool" where
  wait: "caller_step l (l\<lparr>li_callers := li_callers l @ [WaitsDone]\<rparr>)"
| close: "caller_step l (l\<lparr>li_callers := li_callers l @ [AtOnce]\<rparr>)"
| first: "caller_at l i AtOnce \<Longrightarrow> li_once l = Unused \<Longrightarrow>
    caller_step l (set_caller i StopClosed (l\<lparr>li_once := Running, li_stop := True\<rparr>))"
| cancel: "caller_at l i StopClosed \<Longrightarrow>
    caller_step l (set_caller i Selecting (l\<lparr>li_once := Used, li_canceled := li_canceled l \<or> li_registered l\<rparr>))"
| again: "caller_at l i AtOnce \<Longrightarrow> li_once l = Used \<Longrightarrow> caller_step l (set_caller i Selecting l)"
| returns: "caller_at l i pc \<Longrightarrow> pc = WaitsDone \<or> pc = Selecting \<Longrightarrow> li_done l \<Longrightarrow> caller_step l (set_caller i (Back (li_err l)) l)"
| give_up: "caller_at l i Selecting \<Longrightarrow> caller_step l (set_caller i (GaveUp (CtxErr e)) l)"

inductive listener_step :: "listener \<Rightarrow> listener \<Rightarrow> bool" where
  loop: "loop_step l l' \<Longrightarrow> listener_step l l'"
| caller: "caller_step l l' \<Longrightarrow> listener_step l l'"
| context_ends: "listener_step l (l\<lparr>li_context := True\<rparr>)"

inductive listener_reach :: "listener \<Rightarrow> bool" where
  start: "listener_reach listener_start"
| step: "listener_reach l \<Longrightarrow> listener_step l l' \<Longrightarrow> listener_reach l'"

inductive_cases loop_stepE: "loop_step l l'"
inductive_cases caller_stepE: "caller_step l l'"
inductive_cases listener_stepE: "listener_step l l'"

section \<open>The invariant\<close>

text \<open>The goroutine's part: where it is fixes what is registered, done and released; at most one
  delivery is handed out late, and then the loop is on its way out.\<close>

definition loop_ok :: "listener \<Rightarrow> bool" where
  "loop_ok l \<longleftrightarrow> (li_registered l \<longleftrightarrow> li_pc l = Receiving \<or> (\<exists>r. li_pc l = Got r)) \<and>
     (li_done l \<longleftrightarrow> li_pc l = Ended) \<and> li_released l = of_bool (li_pc l = Released \<or> li_pc l = Ended) \<and>
     (li_err l \<noteq> None \<longrightarrow> li_pc l \<in> {Leaving, Released, Ended}) \<and> li_late l \<le> 1 \<and>
     (li_late l = 1 \<longrightarrow> li_stop l \<and> li_pc l \<in> {Handling, Top, Leaving, Released, Ended})"

text \<open>The callers' part: \<open>stop\<close> is closed once, by the caller inside the \<open>Once\<close>; when it is out, a
  receive that is pending has been canceled; and whoever came back has the listener's error.\<close>

definition callers_ok :: "listener \<Rightarrow> bool" where
  "callers_ok l \<longleftrightarrow> (li_stop l \<longleftrightarrow> li_once l \<noteq> Unused) \<and>
     (li_once l = Used \<and> li_registered l \<longrightarrow> li_canceled l) \<and>
     (\<forall>i r. caller_at l i (Back r) \<longrightarrow> li_done l \<and> r = li_err l) \<and>
     (\<forall>i. caller_at l i StopClosed \<longrightarrow> li_once l = Running) \<and>
     (\<forall>i j. caller_at l i StopClosed \<longrightarrow> caller_at l j StopClosed \<longrightarrow> i = j) \<and>
     (\<forall>i. caller_at l i Selecting \<longrightarrow> li_once l = Used) \<and> (li_once l = Running \<longrightarrow> (\<exists>i. caller_at l i StopClosed))"

lemma caller_at_fields [simp]:
  "caller_at (l\<lparr>li_pc := p\<rparr>) = caller_at l" "caller_at (l\<lparr>li_canceled := c\<rparr>) = caller_at l"
  "caller_at (l\<lparr>li_registered := g\<rparr>) = caller_at l" "caller_at (l\<lparr>li_err := e\<rparr>) = caller_at l"
  "caller_at (l\<lparr>li_handed := n\<rparr>) = caller_at l" "caller_at (l\<lparr>li_late := n\<rparr>) = caller_at l"
  "caller_at (l\<lparr>li_released := n\<rparr>) = caller_at l" "caller_at (l\<lparr>li_done := d\<rparr>) = caller_at l"
  "caller_at (l\<lparr>li_once := v\<rparr>) = caller_at l" "caller_at (l\<lparr>li_stop := d\<rparr>) = caller_at l"
  "caller_at (l\<lparr>li_context := d\<rparr>) = caller_at l"
  by (auto simp: caller_at_def fun_eq_iff)

lemma caller_at_set: "caller_at l i pc \<Longrightarrow> caller_at (set_caller i pc' l) j q \<longleftrightarrow> (if i = j then q = pc' else caller_at l j q)"
  by (auto simp: caller_at_def set_caller_def)

lemma caller_at_new: "caller_at (l\<lparr>li_callers := li_callers l @ [pc]\<rparr>) j q \<longleftrightarrow> caller_at l j q \<or> (j = length (li_callers l) \<and> q = pc)"
  by (auto simp: caller_at_def nth_append)

lemma caller_at_unique: "caller_at l i p \<Longrightarrow> caller_at l i q \<longleftrightarrow> q = p"
  by (auto simp: caller_at_def)

lemma set_caller_fields [simp]:
  "li_stop (set_caller i pc l) = li_stop l" "li_done (set_caller i pc l) = li_done l" "li_once (set_caller i pc l) = li_once l"
  "li_err (set_caller i pc l) = li_err l" "li_registered (set_caller i pc l) = li_registered l"
  "li_canceled (set_caller i pc l) = li_canceled l" "li_context (set_caller i pc l) = li_context l"
  "li_pc (set_caller i pc l) = li_pc l" "li_handed (set_caller i pc l) = li_handed l" "li_late (set_caller i pc l) = li_late l"
  "li_released (set_caller i pc l) = li_released l"
  by (simp_all add: set_caller_def)

lemma loop_keeps_loop: "loop_step l l' \<Longrightarrow> loop_ok l \<Longrightarrow> loop_ok l'"
  by (erule loop_stepE) (auto simp: loop_ok_def)

lemma loop_keeps_callers: "loop_step l l' \<Longrightarrow> loop_ok l \<Longrightarrow> callers_ok l \<Longrightarrow> callers_ok l'"
  by (erule loop_stepE) (auto simp: loop_ok_def callers_ok_def)

lemma caller_keeps_loop: "caller_step l l' \<Longrightarrow> loop_ok l \<Longrightarrow> loop_ok l'"
  by (erule caller_stepE) (auto simp: loop_ok_def)

lemma moved_callers:
  assumes ok: "callers_ok l" and at: "caller_at l i pc" and "pc \<noteq> StopClosed" "pc' \<noteq> StopClosed"
    and sel: "pc' = Selecting \<Longrightarrow> li_once l = Used" and bk: "\<And>r. pc' = Back r \<Longrightarrow> li_done l \<and> r = li_err l"
  shows "callers_ok (set_caller i pc' l)"
proof -
  have no: "\<not> caller_at l i StopClosed" using caller_at_unique [OF at] assms(3) by auto
  have o: "li_stop l \<longleftrightarrow> li_once l \<noteq> Unused" "li_once l = Used \<and> li_registered l \<longrightarrow> li_canceled l"
    "\<And>j r. caller_at l j (Back r) \<Longrightarrow> li_done l \<and> r = li_err l" "\<And>j. caller_at l j StopClosed \<Longrightarrow> li_once l = Running"
    "\<And>j k. caller_at l j StopClosed \<Longrightarrow> caller_at l k StopClosed \<Longrightarrow> j = k" "\<And>j. caller_at l j Selecting \<Longrightarrow> li_once l = Used"
    "li_once l = Running \<Longrightarrow> \<exists>j. caller_at l j StopClosed"
    using ok unfolding callers_ok_def by blast+
  let ?at = "caller_at (set_caller i pc' l)"
  have "li_done l \<and> r = li_err l" if "?at j (Back r)" for j r
    using that bk o(3) unfolding caller_at_set [OF at] by (metis (full_types))
  moreover have "\<exists>j. ?at j StopClosed" if "li_once l = Running"
    using o(7) [OF that] no unfolding caller_at_set [OF at] by metis
  moreover have "?at j StopClosed \<longleftrightarrow> caller_at l j StopClosed" for j
    unfolding caller_at_set [OF at] using no assms(4) by metis
  moreover have "li_once l = Used" if "?at j Selecting" for j
    using that sel o(6) unfolding caller_at_set [OF at] by metis
  ultimately show ?thesis using o(1,2,4,5) unfolding callers_ok_def set_caller_fields by blast
qed

lemma caller_keeps_callers:
  assumes "caller_step l l'" "callers_ok l"
  shows "callers_ok l'"
  using assms(1)
proof cases
  case (first i)
  then have "\<not> caller_at l j StopClosed" "\<not> caller_at l j Selecting" for j using assms(2) by (auto simp: callers_ok_def)
  then show ?thesis using first assms(2) caller_at_set [of "l\<lparr>li_once := Running, li_stop := True\<rparr>" i AtOnce StopClosed]
    by (auto simp: callers_ok_def)
next
  case (cancel i)
  have at: "caller_at l' j q \<longleftrightarrow> (if i = j then q = Selecting else caller_at l j q)" for j q
    unfolding cancel(1) using cancel(2) by (subst caller_at_set) simp_all
  have one: "j = i" if "caller_at l j StopClosed" for j
    using that cancel(2) assms(2) unfolding callers_ok_def by blast
  have "li_once l = Running" using cancel(2) assms(2) by (auto simp: callers_ok_def)
  moreover have "li_stop l' = li_stop l" "li_once l' = Used" "li_registered l' = li_registered l" "li_done l' = li_done l"
      "li_err l' = li_err l" "li_canceled l' = (li_canceled l \<or> li_registered l)"
    by (simp_all add: cancel(1))
  moreover have "li_done l \<and> r = li_err l" if "caller_at l j (Back r)" for j r
    using that assms(2) unfolding callers_ok_def by blast
  moreover have "li_stop l" using assms(2) calculation(1) by (simp add: callers_ok_def)
  ultimately show ?thesis
    unfolding callers_ok_def at by (intro conjI allI impI) (use one in \<open>auto split: if_splits\<close>)
next
  case (again i)
  show ?thesis unfolding again(1) by (rule moved_callers [OF assms(2) again(2)]) (use again in auto)
next
  case (returns i pc)
  show ?thesis unfolding returns(1) by (rule moved_callers [OF assms(2) returns(2)]) (use returns in auto)
next
  case (give_up i e)
  show ?thesis unfolding give_up(1) by (rule moved_callers [OF assms(2) give_up(2)]) auto
qed (use assms(2) in \<open>auto simp: callers_ok_def caller_at_new\<close>)

lemma listener_ok: "listener_reach l \<Longrightarrow> loop_ok l \<and> callers_ok l"
proof (induction rule: listener_reach.induct)
  case start
  then show ?case by (simp add: loop_ok_def callers_ok_def listener_start_def caller_at_def)
next
  case (step l l')
  from step(2) show ?case
  proof cases
    case loop
    then show ?thesis using step loop_keeps_loop loop_keeps_callers by blast
  next
    case caller
    then show ?thesis using step caller_keeps_loop caller_keeps_callers by blast
  next
    case context_ends
    then show ?thesis using step by (auto simp: loop_ok_def callers_ok_def)
  qed
qed

section \<open>Runs\<close>

text \<open>A run of the system with the number of steps the goroutine takes in it.\<close>

inductive listener_run :: "nat \<Rightarrow> listener \<Rightarrow> listener \<Rightarrow> bool" where
  stays: "listener_run 0 l l"
| runs: "loop_step l l' \<Longrightarrow> listener_run n l' l'' \<Longrightarrow> listener_run (Suc n) l l''"
| others: "caller_step l l' \<or> l' = l\<lparr>li_context := True\<rparr> \<Longrightarrow> listener_run n l' l'' \<Longrightarrow> listener_run n l l''"

fun to_go :: "loop_pc \<Rightarrow> nat" where
  "to_go Making = 8"
| "to_go Receiving = 7"
| "to_go (Got r) = 6"
| "to_go (Unregistered r) = 5"
| "to_go Pausing = 4"
| "to_go Handling = 4"
| "to_go Top = 3"
| "to_go Leaving = 2"
| "to_go Released = 1"
| "to_go Ended = 0"

lemma loop_to_go: "loop_step l l' \<Longrightarrow> li_stop l \<Longrightarrow> to_go (li_pc l') < to_go (li_pc l) \<and> li_stop l'"
  by (erule loop_stepE) auto

lemma caller_to_go: "caller_step l l' \<Longrightarrow> li_pc l' = li_pc l \<and> (li_stop l \<longrightarrow> li_stop l')"
  by (erule caller_stepE) auto

lemma run_to_go: "listener_run n l l' \<Longrightarrow> li_stop l \<Longrightarrow> n + to_go (li_pc l') \<le> to_go (li_pc l)"
proof (induction rule: listener_run.induct)
  case (runs l l' n l'')
  then show ?case using loop_to_go [OF runs(1)] by force
next
  case (others l l' n l'')
  then show ?case using caller_to_go [of l l'] by auto
qed simp

lemma run_reach: "listener_run n l l' \<Longrightarrow> listener_reach l \<Longrightarrow> listener_reach l'"
proof (induction rule: listener_run.induct)
  case (others l l' n l'')
  then have "listener_step l l'" using caller context_ends by blast
  then show ?case using others step by blast
qed (blast intro: step loop)+

lemma loop_progress: "li_pc l \<noteq> Ended \<Longrightarrow> \<exists>l'. loop_step l l'"
proof (cases "li_pc l")
  case Top
  then show ?thesis using top_leave top_go by blast
next
  case (Unregistered r)
  then show ?thesis by (cases r) (use loop_step.intros [of l] in blast)+
qed (blast intro: register receive unregister paused settled leave finish)+

section \<open>Properties\<close>

text \<open>
  C39. Closing a listener stops it, in every interleaving of its goroutine with any number of calls
  of \<open>Wait\<close> and \<open>Close\<close>. Once one \<open>Close\<close> is through its \<open>Once\<close>, a receive that is pending has been
  canceled, whichever of the two came first; the handler gets at most one more delivery
  after \<open>stop\<close> is closed; the subscription is released once, before anyone returns; and whoever returns
  other than for its own context returns the same, final error.
\<close>

theorem close_agreed:
  assumes "listener_reach l"
  shows "(li_once l = Used \<and> li_pc l = Receiving \<longrightarrow> li_canceled l) \<and> li_late l \<le> 1 \<and>
    (\<forall>i r. caller_at l i (Back r) \<longrightarrow> li_pc l = Ended \<and> li_released l = 1 \<and> r = li_err l) \<and>
    (\<forall>l'. li_pc l = Ended \<and> listener_step l l' \<longrightarrow> li_pc l' = Ended \<and> li_err l' = li_err l \<and> li_released l' = 1)"
proof -
  note ok = listener_ok [OF assms]
  have "li_pc l' = Ended \<and> li_err l' = li_err l \<and> li_released l' = li_released l"
    if "li_pc l = Ended" "listener_step l l'" for l'
    using that(2)
  proof cases
    case loop
    then show ?thesis using that(1) by (auto elim!: loop_stepE)
  next
    case caller
    then show ?thesis using that(1) by (auto elim!: caller_stepE)
  next
    case context_ends
    then show ?thesis using that(1) by simp
  qed
  then show ?thesis using ok by (auto simp: loop_ok_def callers_ok_def)
qed

text \<open>
  C40. A closed listener ends. From the moment \<open>stop\<close> is closed its goroutine takes at most eight more
  steps, whatever its callers do meanwhile, and can always take the next one until it is
  done, given that what it waits for comes to an end.
\<close>

theorem close_ends_listener:
  assumes "listener_reach l" and "li_stop l" and "listener_run n l l'"
  shows "n \<le> 8 \<and> (li_done l' \<or> (\<exists>l''. loop_step l' l'')) \<and> (n = 8 \<longrightarrow> li_done l')"
proof -
  have d: "n + to_go (li_pc l') \<le> to_go (li_pc l)" by (rule run_to_go [OF assms(3,2)])
  have "to_go p \<le> 8" for p by (cases p) simp_all
  then have b: "n + to_go (li_pc l') \<le> 8" using d order_trans by blast
  have e: "li_done l' \<longleftrightarrow> li_pc l' = Ended" using listener_ok [OF run_reach [OF assms(3,1)]] by (simp add: loop_ok_def)
  have "to_go p = 0 \<Longrightarrow> p = Ended" for p by (cases p) simp_all
  then show ?thesis using b e loop_progress by force
qed

section \<open>An example\<close>

text \<open>A listener that is closed while it receives.\<close>

definition example_closing :: listener where
  "example_closing = listener_start\<lparr>li_stop := True, li_once := Running, li_registered := True, li_pc := Receiving,
     li_callers := [StopClosed]\<rparr>"

lemma example_closing_reach: "listener_reach example_closing"
proof -
  let ?l1 = "listener_start\<lparr>li_callers := [AtOnce]\<rparr>"
  have "caller_step listener_start ?l1" using close [of listener_start] by (simp add: listener_start_def)
  then have 1: "listener_reach ?l1" using listener_reach.intros caller by blast
  have "loop_step ?l1 (?l1\<lparr>li_pc := Making\<rparr>)" using top_go [of ?l1] by (simp add: listener_start_def)
  then have 2: "listener_reach (?l1\<lparr>li_pc := Making\<rparr>)" using 1 step loop by blast
  let ?l3 = "?l1\<lparr>li_pc := Receiving, li_registered := True\<rparr>"
  have "loop_step (?l1\<lparr>li_pc := Making\<rparr>) ?l3" using register [of "?l1\<lparr>li_pc := Making\<rparr>"] by (simp add: listener_start_def)
  then have 3: "listener_reach ?l3" using 2 step loop by blast
  have "caller_step ?l3 example_closing"
    using first [of ?l3 0] by (simp add: caller_at_def set_caller_def example_closing_def listener_start_def)
  then show ?thesis using 3 step caller by blast
qed

lemma example_closed:
  "\<exists>l. listener_reach l \<and> caller_at l 0 (Back None)"
proof -
  let ?l = "\<lambda>p c. listener_start\<lparr>li_stop := True, li_once := Used, li_registered := False, li_canceled := True, li_pc := p,
    li_callers := [c]\<rparr>"
  let ?a = "(?l Receiving Selecting)\<lparr>li_registered := True\<rparr>" and ?f = "Failed (CtxErr Canceled)"
  have "caller_step example_closing ?a"
    using cancel [of example_closing 0] by (simp add: caller_at_def set_caller_def example_closing_def listener_start_def)
  then have 1: "listener_reach ?a" using example_closing_reach step caller by blast
  have "loop_step ?a (?a\<lparr>li_pc := Got ?f\<rparr>)" using receive [of ?a ?f] by (simp add: listener_start_def)
  then have 2: "listener_reach (?a\<lparr>li_pc := Got ?f\<rparr>)" using 1 step loop by blast
  have "loop_step (?a\<lparr>li_pc := Got ?f\<rparr>) (?l (Unregistered ?f) Selecting)"
    using unregister [of "?a\<lparr>li_pc := Got ?f\<rparr>" ?f] by (simp add: listener_start_def)
  then have 3: "listener_reach (?l (Unregistered ?f) Selecting)" using 2 step loop by blast
  have "loop_step (?l (Unregistered ?f) Selecting) (?l Leaving Selecting)"
    using failed_late [of "?l (Unregistered ?f) Selecting"] by (simp add: listener_start_def)
  then have 4: "listener_reach (?l Leaving Selecting)" using 3 step loop by blast
  let ?r = "(?l Released Selecting)\<lparr>li_released := 1\<rparr>" and ?e = "(?l Ended Selecting)\<lparr>li_released := 1, li_done := True\<rparr>"
  have "loop_step (?l Leaving Selecting) ?r" using leave [of "?l Leaving Selecting"] by (simp add: listener_start_def)
  then have 5: "listener_reach ?r" using 4 step loop by blast
  have "loop_step ?r ?e" using finish [of ?r] by (simp add: listener_start_def)
  then have 6: "listener_reach ?e" using 5 step loop by blast
  have "caller_step ?e (set_caller 0 (Back (li_err ?e)) ?e)"
    by (rule returns [of _ _ Selecting]) (simp_all add: caller_at_def)
  then have "listener_reach (set_caller 0 (Back (li_err ?e)) ?e)" using 6 step caller by blast
  then show ?thesis
    by (intro exI [of _ "set_caller 0 (Back (li_err ?e)) ?e"]) (simp add: caller_at_def set_caller_def listener_start_def)
qed

theorem close_agreed_witness:
  "\<exists>l. listener_reach l \<and> caller_at l 0 (Back None) \<and> li_pc l = Ended \<and> li_released l = 1 \<and> li_err l = None"
proof -
  obtain l where l: "listener_reach l" "caller_at l 0 (Back None)" using example_closed by blast
  then show ?thesis using close_agreed [OF l(1)] by auto
qed

theorem close_ends_listener_witness:
  "\<exists>l'. listener_run 1 example_closing l' \<and> (li_done l' \<or> (\<exists>l''. loop_step l' l''))"
proof -
  have s: "li_stop example_closing" "li_pc example_closing = Receiving" by (simp_all add: example_closing_def)
  then have run: "listener_run 1 example_closing (example_closing\<lparr>li_pc := Got Nothing\<rparr>)"
    using runs [OF receive [OF s(2)] stays] by simp
  then show ?thesis using close_ends_listener [OF example_closing_reach s(1) run] by blast
qed

end
