(* ===== verification/Go_Json_Tokens.thy ===== *)
theory Go_Json_Tokens
  imports Go_Json_Encode
begin

text \<open>
  \<open>json.Decoder\<close> read token by token. The decoder keeps what it expects next and a stack of
  what to return to, as Go's \<open>tokenState\<close> and \<open>tokenStack\<close> do. The tokens of the text are
  the ones of \<open>json_lex\<close>: a text without a further token stands for both its end and the
  error at its first unreadable byte, which a caller tells apart by the flag of \<open>json_lex\<close>.
\<close>

datatype tstate = TopValue | ArrStart | ArrValue | ArrComma | ObjStart | ObjKey | ObjColon | ObjValue | ObjComma

type_synonym decoder = "tstate \<times> tstate list \<times> jtok list"

definition value_allowed :: "tstate \<Rightarrow> bool" where
  "value_allowed st \<longleftrightarrow> st \<in> {TopValue, ArrStart, ArrValue, ObjValue}"

text \<open>\<open>tokenValueEnd\<close>\<close>

definition value_end :: "tstate \<Rightarrow> tstate" where
  "value_end st = (if st \<in> {ArrStart, ArrValue} then ArrComma else if st = ObjValue then ObjComma else st)"

text \<open>\<open>Decoder.Token\<close>: commas and colons are skipped where they are expected.\<close>

fun dec_token :: "tstate \<Rightarrow> tstate list \<Rightarrow> jtok list \<Rightarrow> (jtok \<times> decoder) option" where
  "dec_token st k [] = None"
| "dec_token st k (TOpenArr # ts) = (if value_allowed st then Some (TOpenArr, ArrStart, st # k, ts) else None)"
| "dec_token st k (TOpenObj # ts) = (if value_allowed st then Some (TOpenObj, ObjStart, st # k, ts) else None)"
| "dec_token st k (TCloseArr # ts) = (case k of [] \<Rightarrow> None | s # k' \<Rightarrow>
     if st \<in> {ArrStart, ArrComma} then Some (TCloseArr, value_end s, k', ts) else None)"
| "dec_token st k (TCloseObj # ts) = (case k of [] \<Rightarrow> None | s # k' \<Rightarrow>
     if st \<in> {ObjStart, ObjComma} then Some (TCloseObj, value_end s, k', ts) else None)"
| "dec_token st k (TColon # ts) = (if st = ObjColon then dec_token ObjValue k ts else None)"
| "dec_token st k (TComma # ts) = (if st = ArrComma then dec_token ArrValue k ts
     else if st = ObjComma then dec_token ObjKey k ts else None)"
| "dec_token st k (TStr x # ts) = (if st \<in> {ObjStart, ObjKey} then Some (TStr x, ObjColon, k, ts)
     else if value_allowed st then Some (TStr x, value_end st, k, ts) else None)"
| "dec_token st k (t # ts) = (if value_allowed st then Some (t, value_end st, k, ts) else None)"

text \<open>\<open>Decoder.More\<close>\<close>

definition dec_more :: "jtok list \<Rightarrow> bool" where
  "dec_more ts = (case ts of [] \<Rightarrow> False | t # _ \<Rightarrow> t \<noteq> TCloseArr \<and> t \<noteq> TCloseObj)"

section \<open>The tokens of a document that was parsed\<close>

definition comma_toks :: "('a \<Rightarrow> jtok list) \<Rightarrow> 'a list \<Rightarrow> jtok list" where
  "comma_toks f xs = concat (map (\<lambda>x. f x @ [TComma]) xs)"

definition member_toks :: "string \<times> json \<Rightarrow> jtok list" where
  "member_toks m = TStr (fst m) # TColon # json_toks (snd m)"

lemma comma_toks_simps [simp]:
  "comma_toks f [] = []" "comma_toks f (xs @ ys) = comma_toks f xs @ comma_toks f ys"
  "comma_toks f (x # xs) = f x @ TComma # comma_toks f xs"
  by (simp_all add: comma_toks_def)

lemma comma_toks_shift: "TComma # comma_toks f xs @ u = concat (map (\<lambda>x. TComma # f x) xs) @ TComma # u"
  by (induction xs) auto

lemma toks_array: "json_toks (JArr (xs @ [v])) = TOpenArr # comma_toks json_toks xs @ json_toks v @ [TCloseArr]"
  using comma_toks_shift [of json_toks "tl xs"] by (cases xs) auto

lemma member_toks_pair: "(\<lambda>(k, x). TComma # TStr k # TColon # json_toks x) = (\<lambda>m. TComma # member_toks m)"
  by (auto simp: member_toks_def)

lemma toks_object: "json_toks (JObj (xs @ [m])) = TOpenObj # comma_toks member_toks xs @ member_toks m @ [TCloseObj]"
  using comma_toks_shift [of member_toks "tl xs"]
  by (cases xs; cases m) (auto simp: member_toks_pair member_toks_def)

text \<open>The tokens read so far inside the frames of the parser's stack.\<close>

fun frame_toks :: "jframe list \<Rightarrow> jtok list" where
  "frame_toks [] = []"
| "frame_toks (FArr acc # st) = frame_toks st @ TOpenArr # comma_toks json_toks (rev acc)"
| "frame_toks (FObj acc k # st) = frame_toks st @ TOpenObj # comma_toks member_toks (rev acc) @ [TStr k, TColon]"

lemma parse_keeps_tokens:
  "parse_value st ts = Some (w, r) \<Longrightarrow> frame_toks st @ ts = json_toks w @ r"
  "parse_after v st ts = Some (w, r) \<Longrightarrow> frame_toks st @ json_toks v @ ts = json_toks w @ r"
  "parse_key acc st ts = Some (w, r) \<Longrightarrow>
     frame_toks st @ TOpenObj # comma_toks member_toks (rev acc) @ ts = json_toks w @ r"
  by (induction st ts and v st ts and acc st ts rule: parse_value_parse_after_parse_key.induct)
    (auto simp: toks_array toks_object member_toks_def split: if_splits)

lemma json_parse_lex: "json_parse s = Some j \<Longrightarrow> json_lex s = (json_toks j, True)"
  using parse_keeps_tokens(1) [of "[]" "fst (json_lex s)" j "[]"]
  by (auto simp: json_parse_def split: prod.splits option.splits list.splits if_splits)

lemma json_lex_parse: "json_lex s = (json_toks j, True) \<Longrightarrow> json_depth j \<le> max_nesting \<Longrightarrow> json_parse s = Some j"
  using parse_json_toks [of j "[]" "[]"] by (simp add: json_parse_def)

lemma json_toks_nonempty [simp]: "json_toks j \<noteq> []"
  by (cases j rule: json_toks.cases) auto

end
