(* ===== verification/Go_Float.thy ===== *)
theory Go_Float
  imports Go_Json_Encode
begin

text \<open>
  Integers as \<open>float64\<close>: a literal of an integer below 2^53 in magnitude reads as exactly that
  integer, and the integer is read back off the number.
\<close>

text \<open>The integer a finite number is, if it is one.\<close>

definition f64_whole :: "f64 \<Rightarrow> int option" where
  "f64_whole x = (case x of F64 m e \<Rightarrow> if 0 \<le> e then Some (m * 2 ^ nat e) else None | _ \<Rightarrow> None)"

lemma f64_canon_0 [simp]: "f64_canon 0 e = F64 0 0"
  by (simp add: f64_canon.simps)

lemma f64_canon_shift: "f64_canon (m * 2 ^ k) (e - int k) = f64_canon m e"
proof (induction k)
  case (Suc k)
  show ?case
  proof (cases "m = 0")
    case False
    then show ?thesis using Suc by (subst f64_canon.simps) (simp add: algebra_simps)
  qed simp
qed simp

lemma f64_canon_whole: "0 \<le> e \<Longrightarrow> f64_whole (f64_canon m e) = Some (m * 2 ^ nat e)"
proof (induction m e rule: f64_canon.induct)
  case (1 m e)
  show ?case
  proof (cases "m \<noteq> 0 \<and> even m")
    case True
    then have "m div 2 * 2 ^ nat (e + 1) = m * 2 ^ nat e"
      using 1(2) by (simp add: nat_add_distrib)
    then show ?thesis using 1 True by (subst f64_canon.simps) simp
  next
    case False
    then show ?thesis using 1(2) by (subst f64_canon.simps) (auto simp: f64_whole_def)
  qed
qed

lemma f64_canon_finite: "\<exists>m' e'. f64_canon m e = F64 m' e'"
  by (induction m e rule: f64_canon.induct) (subst f64_canon.simps, auto)

lemma bits_bounds: "n < 2 ^ bits n \<and> (0 < n \<longrightarrow> 2 ^ (bits n - 1) \<le> n \<and> 0 < bits n)"
proof (induction n rule: bits.induct)
  case (1 n)
  show ?case
  proof (cases "n = 0")
    case False
    have b: "bits n = Suc (bits (n div 2))" using False by (simp add: bits.simps)
    have i: "n div 2 < 2 ^ bits (n div 2)" "0 < n div 2 \<longrightarrow> 2 ^ (bits (n div 2) - 1) \<le> n div 2 \<and> 0 < bits (n div 2)"
      using 1 [OF False] by blast+
    have "n < 2 ^ bits n" using i(1) by (simp add: b)
    moreover have "2 ^ (bits n - 1) \<le> n"
    proof (cases "n div 2 = 0")
      case True
      then have "bits (n div 2) = 0" by (simp add: bits.simps)
      then show ?thesis using False b by simp
    next
      case False
      then have "(2 :: nat) ^ bits (n div 2) = 2 * 2 ^ (bits (n div 2) - 1)" using i(2) by (cases "bits (n div 2)") auto
      moreover have "2 ^ (bits (n div 2) - 1) * 2 \<le> n" using i(2) False by (simp add: less_eq_div_iff_mult_less_eq)
      ultimately show ?thesis by (simp add: b mult.commute)
    qed
    ultimately show ?thesis by (simp add: b)
  qed (simp add: bits.simps)
qed

lemma f64_of_integer:
  assumes "n < 2 ^ 53"
  shows "f64_of_ratio neg n 1 = f64_canon (if neg then - int n else int n) 0"
proof (cases "n = 0")
  case False
  have b1: "bits 1 = 1" by (simp add: bits.simps)
  have n: "2 ^ (bits n - 1) \<le> n" "0 < bits n" using bits_bounds [of n] False by simp_all
  then have "2 ^ (bits n - 1) < (2 :: nat) ^ 53" using assms by linarith
  then have "bits n - 1 < 53" by (rule power_less_imp_less_exp [rotated]) simp
  then have le: "bits n \<le> 53" by simp
  have "ratio_exp n 1 = int (bits n)"
    using n unfolding ratio_exp_def b1 Let_def by (simp add: nat_diff_distrib)
  then have k: "max (ratio_exp n 1 - 53) (- 1074) = - int (53 - bits n)" using le by simp
  have q: "div_half_even (n * 2 ^ (53 - bits n)) 1 = n * 2 ^ (53 - bits n)" by (simp add: div_half_even_def)
  have "f64_canon (if neg then - int (n * 2 ^ (53 - bits n)) else int (n * 2 ^ (53 - bits n))) (- int (53 - bits n)) =
      f64_canon (if neg then - int n else int n) 0"
    using f64_canon_shift [of "if neg then - int n else int n" "53 - bits n" 0] by (cases neg) simp_all
  moreover have "f64_of_ratio neg n 1 = f64_canon (if neg then - int (n * 2 ^ (53 - bits n)) else int (n * 2 ^ (53 - bits n)))
      (- int (53 - bits n)) \<or> 0 \<le> - int (53 - bits n) \<and> 2 ^ 1024 \<le> n"
    unfolding f64_of_ratio_def k Let_def using False q by (auto simp del: of_nat_mult)
  moreover have "\<not> 2 ^ 1024 \<le> n"
  proof
    assume "2 ^ 1024 \<le> n"
    then have "(2 :: nat) ^ 1024 < 2 ^ 53" using assms by linarith
    then have "(1024 :: nat) < 53" by (rule power_less_imp_less_exp [rotated]) simp
    then show False by simp
  qed
  ultimately show ?thesis by auto
qed (simp add: f64_of_ratio_def)

lemma length_nat_str: "n < 10 ^ w \<Longrightarrow> 0 < w \<Longrightarrow> length (nat_str n) \<le> w"
proof (induction w arbitrary: n)
  case (Suc w)
  show ?case
  proof (cases "n < 10")
    case False
    then have "0 < w" "n div 10 < 10 ^ w" using Suc(2) by (cases w; simp)+
    then show ?thesis using Suc(1) [of "n div 10"] False by (subst nat_str.simps) simp
  qed (subst nat_str.simps, simp)
qed simp

lemma number_parts_itoa: "number_parts (itoa i) = (i < 0, nat \<bar>i\<bar>, 0)"
proof -
  let ?s = "nat_str (nat \<bar>i\<bar>)"
  have d: "is_digit c" if "c \<in> set ?s" for c using nat_str_digits that .
  then have t: "takeWhile (\<lambda>c. c \<notin> {CHR ''e'', CHR ''E''}) ?s = ?s" "takeWhile is_digit ?s = ?s"
    by (fastforce simp: takeWhile_eq_all_conv is_digit_def)+
  obtain c u where c: "?s = c # u" "is_digit c" using nat_str_hd by blast
  then have "\<not> has_prefix ?s ''-''" by (auto simp: has_prefix_def is_digit_def)
  then have b: "has_prefix (itoa i) ''-'' = (i < 0)" "trim_prefix (itoa i) ''-'' = ?s"
    by (auto simp: itoa_def has_prefix_def trim_prefix_def)
  have "parse_signed [] = None" by (simp add: parse_signed_def parse_nat_def)
  then show ?thesis unfolding number_parts_def Let_def b t by simp
qed

lemma f64_of_itoa: "\<bar>i\<bar> < 2 ^ 53 \<Longrightarrow> f64_of_number (itoa i) = f64_canon i 0"
  using f64_of_integer [of "nat \<bar>i\<bar>" "i < 0"]
  by (auto simp: f64_of_number_def number_parts_itoa f64_of_decimal_def nat_less_iff)

lemma f64_one: "f64_canon 1 0 = F64 1 0"
  by (simp add: f64_canon.simps)

end
