(* ===== verification/Interactions.thy ===== *)
theory Interactions
  imports Go_Json_Tokens Go_Float
begin

text \<open>
  Interaction envelopes (\<open>interactions.go\<close>): the strict reading of an \<open>interaction.json\<close> part,
  the shape every envelope has, and the validation of data that was decoded elsewhere. The
  lemmas relate the strict reader to \<open>encoding/json\<close>: it accepts exactly the documents that
  package reads, of bounded depth, without repeated keys, and with numbers that are exact.
\<close>

definition MaxInteractionBytes :: nat where "MaxInteractionBytes = 65536"
definition MaxInteractionDepth :: nat where "MaxInteractionDepth = 64"

record InteractionResult =
  ir_Status :: string
  ir_Envelope :: "(string \<times> gval) list option"
  ir_Version :: int
  ir_Reason :: string
  ir_Source :: "string option"

definition InteractionResult_zero :: InteractionResult where
  "InteractionResult_zero = \<lparr>ir_Status = [], ir_Envelope = None, ir_Version = 0, ir_Reason = [], ir_Source = None\<rparr>"

definition invalid_interaction :: "string \<Rightarrow> InteractionResult" where
  "invalid_interaction reason = InteractionResult_zero\<lparr>ir_Status := ''invalid'', ir_Reason := reason\<rparr>"

definition interactionUUID :: re where "interactionUUID = uuid_re hex_cls"

definition interactionSpace :: "nat list" where
  "interactionSpace = [9, 10, 11, 12, 13, 32, 160, 5760, 8192, 8193, 8194, 8195, 8196, 8197, 8198, 8199, 8200,
     8201, 8202, 8232, 8233, 8239, 8287, 12288, 65279]"

text \<open>\<open>strings.Trim(s, interactionSpace)\<close> is empty, \<open>strings.ContainsAny(s, interactionSpace)\<close>.\<close>

definition blank :: "string \<Rightarrow> bool" where
  "blank s \<longleftrightarrow> list_all (\<lambda>r. r \<in> set interactionSpace) (runes s)"

definition has_space :: "string \<Rightarrow> bool" where
  "has_space s \<longleftrightarrow> list_ex (\<lambda>r. r \<in> set interactionSpace) (runes s)"

definition interactionWireID :: "string \<Rightarrow> bool" where
  "interactionWireID s = (case split_on CHR ''@'' s of
     [a, b] \<Rightarrow> re_match interactionUUID a \<and> b \<noteq> [] \<and> \<not> has_space b | _ \<Rightarrow> False)"

section \<open>Numbers and text\<close>

definition interactionNumberSyntax :: re where "interactionNumberSyntax = json_number_re"

definition interactionNumber :: "string \<Rightarrow> f64 option" where
  "interactionNumber token =
     (if 128 < length token \<or> \<not> re_match interactionNumberSyntax token then None
      else (case f64_of_number token of
          F64 m e \<Rightarrow> (case f64_whole (F64 m e) of
              Some n \<Rightarrow> if 9007199254740991 < \<bar>n\<bar> then None else Some (F64 m e)
            | None \<Rightarrow> Some (F64 m e))
        | _ \<Rightarrow> None))"

text \<open>The loop of \<open>interactionUnicode\<close>, outside of a string and inside of one.\<close>

function (sequential) unicode_outside :: "string \<Rightarrow> bool" and unicode_inside :: "string \<Rightarrow> bool" where
  "unicode_outside [] = True"
| "unicode_outside (c # t) = (if c = CHR 0x22 then unicode_inside t else unicode_outside t)"
| "unicode_inside [] = True"
| "unicode_inside (c # t) =
     (if c = CHR 0x22 then unicode_outside t
      else if c \<noteq> CHR 0x5C then unicode_inside t
      else (case t of [] \<Rightarrow> False | e # u \<Rightarrow>
        if e \<noteq> CHR ''u'' then unicode_inside u
        else if length u < 4 then False
        else (case hex4 (take 4 u) of None \<Rightarrow> False | Some code \<Rightarrow>
          let r = drop 4 u
          in if high_surrogate code then
               (if length r < 6 \<or> r ! 0 \<noteq> CHR 0x5C \<or> r ! 1 \<noteq> CHR ''u'' then False
                else (case hex4 (take 4 (drop 2 r)) of None \<Rightarrow> False
                  | Some low \<Rightarrow> low_surrogate low \<and> unicode_inside (drop 6 r)))
             else if low_surrogate code then False
             else unicode_inside r)))"
  by pat_completeness auto
termination
  by (relation "measure (case_sum length length)") auto

definition interactionUnicode :: "string \<Rightarrow> bool" where
  "interactionUnicode s \<longleftrightarrow> utf8_valid s \<and> unicode_outside s"

section \<open>The strict reader\<close>

text \<open>
  \<open>readInteractionJSON\<close> with its two loops. The first argument bounds the recursion: every
  call of one of the three takes at least one token, so one more than the number of tokens
  is enough (\<open>read_complete\<close>).
\<close>

function (sequential) readInteractionJSON :: "nat \<Rightarrow> nat \<Rightarrow> decoder \<Rightarrow> (gval \<times> decoder) option"
  and read_members :: "nat \<Rightarrow> nat \<Rightarrow> (string \<times> gval) list \<Rightarrow> decoder \<Rightarrow> (gval \<times> decoder) option"
  and read_items :: "nat \<Rightarrow> nat \<Rightarrow> gval list \<Rightarrow> decoder \<Rightarrow> (gval \<times> decoder) option"
where
  "readInteractionJSON 0 depth d = None"
| "readInteractionJSON (Suc f) depth (st, k, ts) =
     (case dec_token st k ts of None \<Rightarrow> None | Some (t, d) \<Rightarrow>
       (case t of
          TOpenObj \<Rightarrow> if MaxInteractionDepth \<le> depth then None else read_members f depth [] d
        | TOpenArr \<Rightarrow> if MaxInteractionDepth \<le> depth then None else read_items f depth [] d
        | TNum n \<Rightarrow> map_option (\<lambda>x. (GFloat x, d)) (interactionNumber n)
        | TStr s \<Rightarrow> Some (GString s, d)
        | TBool b \<Rightarrow> Some (GBool b, d)
        | TNull \<Rightarrow> Some (GNil, d)
        | _ \<Rightarrow> None))"
| "read_members 0 depth obj d = None"
| "read_members (Suc f) depth obj (st, k, ts) =
     (if dec_more ts then
        (case dec_token st k ts of
           Some (TStr key, d) \<Rightarrow>
             if obj_get obj key \<noteq> None then None
             else (case readInteractionJSON f (Suc depth) d of None \<Rightarrow> None
               | Some (v, d') \<Rightarrow> read_members f depth (obj @ [(key, v)]) d')
         | _ \<Rightarrow> None)
      else map_option (\<lambda>(t, d). (GMap obj, d)) (dec_token st k ts))"
| "read_items 0 depth items d = None"
| "read_items (Suc f) depth items (st, k, ts) =
     (if dec_more ts then
        (case readInteractionJSON f (Suc depth) (st, k, ts) of None \<Rightarrow> None
         | Some (v, d') \<Rightarrow> read_items f depth (items @ [v]) d')
      else map_option (\<lambda>(t, d). (GList items, d)) (dec_token st k ts))"
  by pat_completeness auto
termination
  by (relation "measure (case_sum fst (case_sum fst fst))") auto

text \<open>The checks an envelope passes.\<close>

definition whole_from_1 :: "f64 \<Rightarrow> int option" where
  "whole_from_1 x = (case f64_whole x of Some n \<Rightarrow> if n < 1 then None else Some n | None \<Rightarrow> None)"

definition envelope_v1_ok :: "(string \<times> gval) list \<Rightarrow> bool" where
  "envelope_v1_ok obj \<longleftrightarrow>
     (case obj_string obj ''interaction_id'' of None \<Rightarrow> False | Some iid \<Rightarrow> interactionWireID iid) \<and>
     (case obj_string obj ''protocol'' of None \<Rightarrow> False | Some p \<Rightarrow> \<not> blank p) \<and>
     (case obj_float obj ''protocol_version'' of None \<Rightarrow> False | Some pv \<Rightarrow> whole_from_1 pv \<noteq> None) \<and>
     (case obj_string obj ''step'' of None \<Rightarrow> False | Some s \<Rightarrow> \<not> blank s) \<and>
     (case obj_string obj ''step_id'' of None \<Rightarrow> False | Some s \<Rightarrow> re_match interactionUUID s) \<and>
     obj_get obj ''payload'' \<noteq> None \<and>
     (case obj_get obj ''prev_step_id'' of None \<Rightarrow> False | Some GNil \<Rightarrow> True
        | Some (GString p) \<Rightarrow> re_match interactionUUID p | Some _ \<Rightarrow> False) \<and>
     (case obj_get obj ''expires_at'' of None \<Rightarrow> False | Some GNil \<Rightarrow> True | Some (GString _) \<Rightarrow> True | Some _ \<Rightarrow> False)"

definition checkInteractionEnvelope :: "gval \<Rightarrow> InteractionResult" where
  "checkInteractionEnvelope value =
     (case value of GMap obj \<Rightarrow>
        (case Option.bind (obj_float obj ''interaction_version'') whole_from_1 of
           None \<Rightarrow> invalid_interaction ''invalid_envelope''
         | Some version \<Rightarrow>
             if version \<noteq> 1 then InteractionResult_zero\<lparr>ir_Status := ''unsupported'', ir_Version := version\<rparr>
             else if envelope_v1_ok obj then
               InteractionResult_zero\<lparr>ir_Status := ''valid'', ir_Envelope := Some obj\<rparr>
             else invalid_interaction ''invalid_envelope'')
      | _ \<Rightarrow> invalid_interaction ''invalid_envelope'')"

text \<open>The value of a whole source: a reading that ends with its text.\<close>

definition strict_read :: "string \<Rightarrow> gval option" where
  "strict_read s = (case json_lex s of (ts, clean) \<Rightarrow>
     (case readInteractionJSON (Suc (length ts)) 0 (TopValue, [], ts) of
        Some (v, _, _, []) \<Rightarrow> if clean then Some v else None | _ \<Rightarrow> None))"

definition with_source :: "string \<Rightarrow> InteractionResult \<Rightarrow> InteractionResult" where
  "with_source source result = (if ir_Status result \<noteq> ''invalid'' then result\<lparr>ir_Source := Some source\<rparr> else result)"

definition ParseInteractionEnvelope :: "string \<Rightarrow> InteractionResult" where
  "ParseInteractionEnvelope source =
     (if MaxInteractionBytes < length source then invalid_interaction ''too_large''
      else if \<not> interactionUnicode source then invalid_interaction ''invalid_json''
      else (case strict_read source of
          None \<Rightarrow> invalid_interaction ''invalid_json''
        | Some value \<Rightarrow> with_source source (checkInteractionEnvelope value)))"

definition ParseInteractionEnvelopeString :: "string \<Rightarrow> InteractionResult" where
  "ParseInteractionEnvelopeString source =
     (if MaxInteractionBytes < length source then invalid_interaction ''too_large''
      else ParseInteractionEnvelope source)"

section \<open>Data decoded elsewhere\<close>

text \<open>\<open>strconv.FormatFloat(x, 'g', -1, 64)\<close>\<close>

definition format_g :: "f64 \<Rightarrow> string" where
  "format_g x = (case x of FNaN \<Rightarrow> ''NaN'' | FInf neg \<Rightarrow> (if neg then ''-Inf'' else ''+Inf'')
     | F64 m e \<Rightarrow>
       if m = 0 then ''0''
       else (case shortest m e of (c, s) \<Rightarrow>
         (let all = nat_str c; ds = strip_zeros all; pt = s + int (length all) - 1;
              sign = (if m < 0 then ''-'' else []); ex = nat_str (nat \<bar>pt\<bar>)
          in sign @ (if pt < - 4 \<or> 6 \<le> pt then
               take 1 ds @ (if length ds = 1 then [] else CHR ''.'' # drop 1 ds) @ ''e'' @
                 (if pt < 0 then ''-'' else ''+'') @ (if length ex < 2 then CHR ''0'' # ex else ex)
             else fixed_digits ds pt))))"

text \<open>A copy of decoded data within a budget, which every value and every string uses up.\<close>

fun snapshotInteraction :: "gval \<Rightarrow> nat \<Rightarrow> int \<Rightarrow> (gval \<times> int) option"
  and snapshot_members :: "(string \<times> gval) list \<Rightarrow> nat \<Rightarrow> int \<Rightarrow> ((string \<times> gval) list \<times> int) option"
  and snapshot_items :: "gval list \<Rightarrow> nat \<Rightarrow> int \<Rightarrow> (gval list \<times> int) option"
where
  "snapshotInteraction value depth b0 =
     (let budget = b0 - 1; number = map_option (\<lambda>x. (GFloat x, budget))
      in if budget < 0 then None
         else (case value of
            GNil \<Rightarrow> Some (GNil, budget)
          | GBool b \<Rightarrow> Some (GBool b, budget)
          | GString s \<Rightarrow>
              if budget - int (length s) < 0 \<or> \<not> utf8_valid s then None
              else Some (GString s, budget - int (length s))
          | GFloat x \<Rightarrow> number (interactionNumber (format_g x))
          | GInt n \<Rightarrow> number (interactionNumber (itoa n))
          | GNumber s \<Rightarrow> number (interactionNumber s)
          | GMap m \<Rightarrow>
              if MaxInteractionDepth \<le> depth \<or> budget < int (length m) then None
              else map_option (apfst GMap) (snapshot_members m depth budget)
          | GList xs \<Rightarrow>
              if MaxInteractionDepth \<le> depth \<or> budget < int (length xs) then None
              else map_option (apfst GList) (snapshot_items xs depth budget)
          | _ \<Rightarrow> None))"
| "snapshot_members [] depth budget = Some ([], budget)"
| "snapshot_members ((key, item) # m) depth budget =
     (let b1 = budget - 1 - int (length key)
      in if budget - 1 < 0 \<or> b1 < 0 \<or> \<not> utf8_valid key then None
         else (case snapshotInteraction item (Suc depth) b1 of None \<Rightarrow> None
           | Some (copy, b2) \<Rightarrow> map_option (apfst (Cons (key, copy))) (snapshot_members m depth b2)))"
| "snapshot_items [] depth budget = Some ([], budget)"
| "snapshot_items (item # xs) depth budget =
     (case snapshotInteraction item (Suc depth) budget of None \<Rightarrow> None
      | Some (copy, b) \<Rightarrow> map_option (apfst (Cons copy)) (snapshot_items xs depth b))"

definition ValidateInteractionEnvelope :: "gval \<Rightarrow> InteractionResult" where
  "ValidateInteractionEnvelope value =
     (case snapshotInteraction value 0 (int MaxInteractionBytes) of
        None \<Rightarrow> invalid_interaction ''invalid_input''
      | Some (snapshot, _) \<Rightarrow> checkInteractionEnvelope snapshot)"

section \<open>The strict reader and encoding/json\<close>

text \<open>A document the reader accepts, at a depth.\<close>

fun strict_json :: "nat \<Rightarrow> json \<Rightarrow> bool" where
  "strict_json depth (JNum n) = (interactionNumber n \<noteq> None)"
| "strict_json depth (JArr vs) = (depth < MaxInteractionDepth \<and> list_all (strict_json (Suc depth)) vs)"
| "strict_json depth (JObj ms) = (depth < MaxInteractionDepth \<and> distinct (map fst ms) \<and>
     list_all (strict_json (Suc depth) \<circ> snd) ms)"
| "strict_json depth v = True"

lemma upsert_fresh: "k \<notin> fst ` set m \<Longrightarrow> upsert k v m = m @ [(k, v)]"
  by (induction m) auto

lemma foldl_upsert_distinct:
  "distinct (map fst (m @ xs)) \<Longrightarrow> foldl (\<lambda>m (k, v). upsert k v m) m xs = m @ xs"
  by (induction xs arbitrary: m) (auto simp: upsert_fresh)

lemma to_any_obj:
  "distinct (map fst ms) \<Longrightarrow> to_any b (JObj ms) = GMap (map (\<lambda>(k, v). (k, to_any b v)) ms)"
  using foldl_upsert_distinct [of "[]" "map (\<lambda>(k, v). (k, to_any b v)) ms"]
  by (simp add: comp_def split_beta)

lemma interactionNumber_any: "interactionNumber n = Some x \<Longrightarrow> to_any False (JNum n) = GFloat x"
  by (auto simp: interactionNumber_def split: if_splits f64.splits option.splits)

text \<open>What is still expected before a value, and the state once that is read.\<close>

definition lead :: "tstate \<Rightarrow> jtok list" where
  "lead st = (if st \<in> {ArrComma, ObjComma} then [TComma] else if st = ObjColon then [TColon] else [])"

definition ready :: "tstate \<Rightarrow> tstate" where
  "ready st = (if st = ArrComma then ArrValue else if st = ObjComma then ObjKey
     else if st = ObjColon then ObjValue else st)"

lemma dec_token_lead:
  "t \<noteq> TComma \<Longrightarrow> t \<noteq> TColon \<Longrightarrow> dec_token st k (lead st @ t # ts) = dec_token (ready st) k (t # ts)"
  by (auto simp: lead_def ready_def)

lemma dec_token_cases:
  assumes "dec_token st k ts = Some (t, d)"
  obtains r where "ts = lead st @ t # r" "t \<noteq> TComma" "t \<noteq> TColon" "dec_token (ready st) k (t # r) = Some (t, d)"
    | r where "ts = t # r" "t \<in> {TCloseArr, TCloseObj}" "dec_token st k (t # r) = Some (t, d)"
  using assms
  by (induction st k ts rule: dec_token.induct)
    (auto simp: lead_def ready_def value_allowed_def split: if_splits list.splits)

lemma member_token:
  assumes "st \<in> {ObjStart, ObjComma}" and "dec_token st k ts = Some (TStr key, d)"
  shows "\<exists>r. ts = lead st @ TStr key # r \<and> d = (ObjColon, k, r)"
  using dec_token_cases [OF assms(2)] assms(1) by cases (auto simp: ready_def)

lemma close_token:
  assumes "\<not> dec_more ts" and "dec_token st (s # k) ts = Some (t, d)"
  shows "\<exists>r. d = (value_end s, k, r) \<and> (st \<in> {ObjStart, ObjComma} \<longrightarrow> ts = TCloseObj # r) \<and>
    (st \<in> {ArrStart, ArrComma} \<longrightarrow> ts = TCloseArr # r)"
  using assms by (cases ts) (auto simp: dec_more_def split: if_splits)

text \<open>Elements or members separated by commas, after the first or from the first on.\<close>

fun sep_toks :: "bool \<Rightarrow> jtok list list \<Rightarrow> jtok list" where
  "sep_toks first [] = []"
| "sep_toks first (x # xs) = (if first then [] else [TComma]) @ x @ sep_toks False xs"

lemma sep_toks_False: "sep_toks False (map f xs) = concat (map (\<lambda>x. TComma # f x) xs)"
  by (induction xs) auto

lemma toks_sep:
  "json_toks (JArr vs) = TOpenArr # sep_toks True (map json_toks vs) @ [TCloseArr]"
  "json_toks (JObj ms) = TOpenObj # sep_toks True (map member_toks ms) @ [TCloseObj]"
   by (cases vs; simp add: sep_toks_False)
     (cases ms; auto simp: sep_toks_False member_toks_pair member_toks_def)

lemma lead_sep: "lead st = (if st \<in> {ObjStart, ArrStart} then [] else lead st)"
  by (simp add: lead_def)

abbreviation any_members :: "(string \<times> json) list \<Rightarrow> (string \<times> gval) list" where
  "any_members \<equiv> map (\<lambda>(k, v). (k, to_any False v))"

lemma read_sound:
  "readInteractionJSON f depth (st, k, ts) = Some (v, st', k', ts') \<Longrightarrow> value_allowed (ready st) \<Longrightarrow>
     \<exists>j. ts = lead st @ json_toks j @ ts' \<and> st' = value_end (ready st) \<and> k' = k \<and>
       strict_json depth j \<and> v = to_any False j"
  "read_members f depth obj (st, k, ts) = Some (v, st', k', ts') \<Longrightarrow> k = s # ks \<Longrightarrow> st \<in> {ObjStart, ObjComma} \<Longrightarrow>
     \<exists>ms. ts = sep_toks (st = ObjStart) (map member_toks ms) @ TCloseObj # ts' \<and> st' = value_end s \<and> k' = ks \<and>
       distinct (map fst ms) \<and> fst ` set obj \<inter> fst ` set ms = {} \<and>
       list_all (strict_json (Suc depth) \<circ> snd) ms \<and> v = GMap (obj @ any_members ms)"
  "read_items f depth items (st, k, ts) = Some (v, st', k', ts') \<Longrightarrow> k = s # ks \<Longrightarrow> st \<in> {ArrStart, ArrComma} \<Longrightarrow>
     \<exists>vs. ts = sep_toks (st = ArrStart) (map json_toks vs) @ TCloseArr # ts' \<and> st' = value_end s \<and> k' = ks \<and>
       list_all (strict_json (Suc depth)) vs \<and> v = GList (items @ map (to_any False) vs)"
proof (induction f depth "(st, k, ts)" and f depth obj "(st, k, ts)" and f depth items "(st, k, ts)"
    arbitrary: st k ts v st' k' ts' and st k ts v st' k' ts' s ks and st k ts v st' k' ts' s ks
    rule: readInteractionJSON_read_members_read_items.induct)
  case (2 f depth st k ts)
  obtain t d where d: "dec_token st k ts = Some (t, d)" using 2(3) by (auto split: option.splits)
  have "t \<noteq> TCloseObj" "t \<noteq> TCloseArr" using 2(3) d by auto
  then obtain r where r: "ts = lead st @ t # r" "dec_token (ready st) k (t # r) = Some (t, d)"
    using dec_token_cases [OF d] by (metis insertE singletonD)
  show ?case
  proof (cases t)
    case TOpenObj
    then have d': "d = (ObjStart, ready st # k, r)" using r(2) 2(4) by simp
    have m: "read_members f depth [] (ObjStart, ready st # k, r) = Some (v, st', k', ts')" "depth < MaxInteractionDepth"
      using 2(3) d by (auto simp: TOpenObj d' split: if_splits)
    obtain ms where "r = sep_toks True (map member_toks ms) @ TCloseObj # ts'" "st' = value_end (ready st)" "k' = k"
       "distinct (map fst ms)" "list_all (strict_json (Suc depth) \<circ> snd) ms" "v = GMap (any_members ms)"
      using 2(1) [OF d _ TOpenObj _ m(1) refl] m(2) d' by auto
    then show ?thesis using r(1) m(2) to_any_obj [of ms False]
      by (intro exI [of _ "JObj ms"]) (simp add: TOpenObj toks_sep)
  next
    case TOpenArr
    then have d': "d = (ArrStart, ready st # k, r)" using r(2) 2(4) by simp
    have m: "read_items f depth [] (ArrStart, ready st # k, r) = Some (v, st', k', ts')" "depth < MaxInteractionDepth"
      using 2(3) d by (auto simp: TOpenArr d' split: if_splits)
    obtain vs where "r = sep_toks True (map json_toks vs) @ TCloseArr # ts'" "st' = value_end (ready st)" "k' = k"
       "list_all (strict_json (Suc depth)) vs" "v = GList (map (to_any False) vs)"
      using 2(2) [OF d _ TOpenArr _ m(1) refl] m(2) d' by auto
    then show ?thesis using r(1) m(2)
      by (intro exI [of _ "JArr vs"]) (simp add: TOpenArr toks_sep)
  next
    case (TNum n)
    then show ?thesis using 2(3,4) d r interactionNumber_any [of n]
      by (intro exI [of _ "JNum n"]) auto
  next
    case (TStr x)
    have "ready st \<notin> {ObjStart, ObjKey}" using 2(4) by (auto simp: value_allowed_def)
    then show ?thesis using 2(3,4) d r TStr by (intro exI [of _ "JStr x"]) auto
  next
    case (TBool b)
    then show ?thesis using 2(3,4) d r by (intro exI [of _ "JBool b"]) auto
  next
    case TNull
    then show ?thesis using 2(3,4) d r by (intro exI [of _ JNull]) auto
  qed (use 2(3) d in auto)
next
  case (4 f depth obj st k ts)
  show ?case
  proof (cases "dec_more ts")
    case True
    obtain key d v1 st1 k1 ts1 where d: "dec_token st k ts = Some (TStr key, d)" and fresh: "key \<notin> fst ` set obj"
        and v1: "readInteractionJSON f (Suc depth) d = Some (v1, st1, k1, ts1)"
        and go: "read_members f depth (obj @ [(key, v1)]) (st1, k1, ts1) = Some (v, st', k', ts')"
      using 4(3) True by (auto simp: obj_get_def map_of_eq_None_iff split: option.splits prod.splits jtok.splits if_splits)
    obtain r where r: "ts = lead st @ TStr key # r" "d = (ObjColon, k, r)" using member_token [OF _ d] 4(5) by auto
    have "obj_get obj key = None" using fresh by (simp add: obj_get_def map_of_eq_None_iff)
    moreover have "value_allowed (ready ObjColon)" by (simp add: ready_def value_allowed_def)
    ultimately obtain j where j: "r = TColon # json_toks j @ ts1" "st1 = ObjComma" "k1 = k"
        "strict_json (Suc depth) j" "v1 = to_any False j"
      using 4(1) [OF True d _ refl _ v1 [unfolded r(2)]] r(2) by (auto simp: lead_def ready_def value_end_def)
    obtain ms where "ts1 = sep_toks False (map member_toks ms) @ TCloseObj # ts'" "st' = value_end s" "k' = ks"
        "distinct (map fst ms)" "fst ` set (obj @ [(key, v1)]) \<inter> fst ` set ms = {}"
        "list_all (strict_json (Suc depth) \<circ> snd) ms" "v = GMap ((obj @ [(key, v1)]) @ any_members ms)"
      using 4(2) [OF True d refl refl _ v1 refl go, of s ks] j 4(4) \<open>obj_get obj key = None\<close> by auto
    then show ?thesis using r(1) j 4(5) fresh
      by (intro exI [of _ "(key, j) # ms"]) (auto simp: lead_def member_toks_def image_iff)
  next
    case False
    then obtain t d where "dec_token st k ts = Some (t, d)" "v = GMap obj" "d = (st', k', ts')"
      using 4(3) by (auto split: prod.splits)
    then show ?thesis using close_token [OF False, of st s ks t d] 4(4,5) by (intro exI [of _ "[]"]) auto
  qed
next
  case (6 f depth items st k ts)
  show ?case
  proof (cases "dec_more ts")
    case True
    obtain v1 st1 k1 ts1 where v1: "readInteractionJSON f (Suc depth) (st, k, ts) = Some (v1, st1, k1, ts1)"
        and go: "read_items f depth (items @ [v1]) (st1, k1, ts1) = Some (v, st', k', ts')"
      using 6(3) True by (auto split: option.splits)
    have "value_allowed (ready st)" using 6(5) by (auto simp: ready_def value_allowed_def)
    then obtain j where j: "ts = lead st @ json_toks j @ ts1" "st1 = ArrComma" "k1 = k"
        "strict_json (Suc depth) j" "v1 = to_any False j"
      using 6(1) [OF True v1] 6(5) by (auto simp: ready_def value_end_def)
    obtain vs where "ts1 = sep_toks False (map json_toks vs) @ TCloseArr # ts'" "st' = value_end s" "k' = ks"
        "list_all (strict_json (Suc depth)) vs" "v = GList ((items @ [v1]) @ map (to_any False) vs)"
      using 6(2) [OF True v1 refl go, of s ks] j 6(4) by auto
    then show ?thesis using j 6(5)
      by (intro exI [of _ "j # vs"]) (auto simp: lead_def)
  next
    case False
    then obtain t d where "dec_token st k ts = Some (t, d)" "v = GList items" "d = (st', k', ts')"
      using 6(3) by (auto split: prod.splits)
    then show ?thesis using close_token [OF False, of st s ks t d] 6(4,5) by (intro exI [of _ "[]"]) auto
  qed
qed simp_all

text \<open>Conversely every such document is read, with fuel for its tokens.\<close>

lemma read_token:
  "value_allowed (ready st) \<Longrightarrow> t \<in> {TOpenObj, TOpenArr} \<union> range TNum \<union> range TStr \<union> range TBool \<union> {TNull} \<Longrightarrow>
   dec_token st k (lead st @ t # ts) = Some (t,
     if t = TOpenObj then (ObjStart, ready st # k, ts) else if t = TOpenArr then (ArrStart, ready st # k, ts)
     else (value_end (ready st), k, ts))"
  by (subst dec_token_lead) (auto simp: value_allowed_def)

lemma members_complete:
  assumes "\<And>m g st k ts. m \<in> set ms \<Longrightarrow> length (json_toks (snd m)) \<le> g \<Longrightarrow> value_allowed (ready st) \<Longrightarrow>
      readInteractionJSON g (Suc depth) (st, k, lead st @ json_toks (snd m) @ ts) =
        Some (to_any False (snd m), value_end (ready st), k, ts)"
    and "distinct (map fst ms)" and "fst ` set obj \<inter> fst ` set ms = {}"
    and "length (sep_toks (st = ObjStart) (map member_toks ms)) < f" and "st \<in> {ObjStart, ObjComma}"
  shows "read_members f depth obj (st, s # k, sep_toks (st = ObjStart) (map member_toks ms) @ TCloseObj # ts) =
      Some (GMap (obj @ any_members ms), value_end s, k, ts)"
  using assms
proof (induction ms arbitrary: obj st f)
  case Nil
  then show ?case by (cases f) (auto simp: dec_more_def)
next
  case (Cons m ms)
  obtain key j where m: "m = (key, j)" by fastforce
  obtain g where f: "f = Suc g" using Cons.prems(4) by (cases f) auto
  let ?r = "sep_toks False (map member_toks ms) @ TCloseObj # ts"
  have t: "sep_toks (st = ObjStart) (map member_toks (m # ms)) @ TCloseObj # ts =
      lead st @ TStr key # TColon # json_toks j @ ?r"
    using Cons.prems(5) by (auto simp: m member_toks_def lead_def)
  have tok: "dec_token st (s # k) (lead st @ TStr key # u) = Some (TStr key, ObjColon, s # k, u)" for u
    by (subst dec_token_lead) (use Cons.prems(5) in \<open>auto simp: ready_def\<close>)
  have more: "dec_more (lead st @ TStr key # u)" for u using Cons.prems(5) by (auto simp: dec_more_def lead_def)
  have fresh: "obj_get obj key = None" using Cons.prems(3) by (auto simp: obj_get_def m map_of_eq_None_iff)
  have "length (json_toks j) \<le> g" using Cons.prems(4) by (simp add: f m member_toks_def)
  from Cons.prems(1) [of m, OF _ _, of g ObjColon "s # k" ?r] this
  have v: "readInteractionJSON g (Suc depth) (ObjColon, s # k, TColon # json_toks j @ ?r) =
      Some (to_any False j, ObjComma, s # k, ?r)"
    by (simp add: m lead_def ready_def value_end_def value_allowed_def)
  have "read_members g depth (obj @ [(key, to_any False j)])
      (ObjComma, s # k, sep_toks (ObjComma = ObjStart) (map member_toks ms) @ TCloseObj # ts) =
      Some (GMap ((obj @ [(key, to_any False j)]) @ any_members ms), value_end s, k, ts)"
  proof (rule Cons.IH)
    have "0 < length (member_toks m)" by (simp add: member_toks_def)
    then show "length (sep_toks (ObjComma = ObjStart) (map member_toks ms)) < g"
      using Cons.prems(4) by (simp add: f del: length_greater_0_conv)
  qed (use Cons.prems m in auto)
  then show ?case unfolding t f by (simp add: more tok fresh v m)
qed

lemma items_complete:
  assumes "\<And>x g st k ts. x \<in> set vs \<Longrightarrow> length (json_toks x) \<le> g \<Longrightarrow> value_allowed (ready st) \<Longrightarrow>
      readInteractionJSON g (Suc depth) (st, k, lead st @ json_toks x @ ts) =
        Some (to_any False x, value_end (ready st), k, ts)"
    and "length (sep_toks (st = ArrStart) (map json_toks vs)) < f" and "st \<in> {ArrStart, ArrComma}"
  shows "read_items f depth items (st, s # k, sep_toks (st = ArrStart) (map json_toks vs) @ TCloseArr # ts) =
      Some (GList (items @ map (to_any False) vs), value_end s, k, ts)"
  using assms
proof (induction vs arbitrary: items st f)
  case Nil
  then show ?case by (cases f) (auto simp: dec_more_def)
next
  case (Cons x vs)
  obtain g where f: "f = Suc g" using Cons.prems(2) by (cases f) auto
  let ?r = "sep_toks False (map json_toks vs) @ TCloseArr # ts"
  have t: "sep_toks (st = ArrStart) (map json_toks (x # vs)) @ TCloseArr # ts = lead st @ json_toks x @ ?r"
    using Cons.prems(3) by (auto simp: lead_def)
  have more: "dec_more (lead st @ json_toks x @ ?r)"
    using Cons.prems(3) by (cases x rule: json_toks.cases) (auto simp: dec_more_def lead_def)
  have "length (json_toks x) \<le> g" using Cons.prems(2) by (simp add: f)
  from Cons.prems(1) [of x, OF _ this, of st "s # k" ?r] Cons.prems(3)
  have v: "readInteractionJSON g (Suc depth) (st, s # k, lead st @ json_toks x @ ?r) =
      Some (to_any False x, ArrComma, s # k, ?r)"
    by (auto simp: ready_def value_end_def value_allowed_def)
  have "0 < length (json_toks x)" by simp
  then have "length (sep_toks (ArrComma = ArrStart) (map json_toks vs)) < g" using Cons.prems(2) by (simp add: f del: length_greater_0_conv)
  then have "read_items g depth (items @ [to_any False x])
      (ArrComma, s # k, sep_toks (ArrComma = ArrStart) (map json_toks vs) @ TCloseArr # ts) =
      Some (GList ((items @ [to_any False x]) @ map (to_any False) vs), value_end s, k, ts)"
    by (intro Cons.IH) (use Cons.prems in auto)
  then show ?case unfolding t f by (simp add: more v)
qed

lemma read_complete:
  "strict_json depth j \<Longrightarrow> length (json_toks j) \<le> f \<Longrightarrow> value_allowed (ready st) \<Longrightarrow>
     readInteractionJSON f depth (st, k, lead st @ json_toks j @ ts) =
       Some (to_any False j, value_end (ready st), k, ts)"
proof (induction j arbitrary: depth f st k ts)
  case (JArr vs)
  obtain g where f: "f = Suc g" using JArr.prems(2) by (cases f) (auto simp: toks_sep)
  have "read_items g depth [] (ArrStart, ready st # k, sep_toks (ArrStart = ArrStart) (map json_toks vs) @ TCloseArr # ts) =
      Some (GList ([] @ map (to_any False) vs), value_end (ready st), k, ts)"
    by (rule items_complete) (use JArr f in \<open>auto simp: toks_sep list_all_iff\<close>)
  then show ?case using JArr.prems read_token [OF JArr.prems(3), of TOpenArr k] by (simp add: f toks_sep)
next
  case (JObj ms)
  obtain g where f: "f = Suc g" using JObj.prems(2) by (cases f) (auto simp: toks_sep)
  have "read_members g depth [] (ObjStart, ready st # k, sep_toks (ObjStart = ObjStart) (map member_toks ms) @ TCloseObj # ts) =
      Some (GMap ([] @ any_members ms), value_end (ready st), k, ts)"
  proof (rule members_complete)
    fix m g st k ts
    assume m: "m \<in> set ms" "length (json_toks (snd m)) \<le> g" "value_allowed (ready st)"
    moreover have "strict_json (Suc depth) (snd m)" using m(1) JObj.prems(1) by (auto simp: list_all_iff)
    ultimately show "readInteractionJSON g (Suc depth) (st, k, lead st @ json_toks (snd m) @ ts) =
        Some (to_any False (snd m), value_end (ready st), k, ts)"
      using JObj.IH [of m "snd m", OF _ snds.intros] by blast
  qed (use JObj.prems f in \<open>auto simp: toks_sep\<close>)
  then show ?case using JObj.prems read_token [OF JObj.prems(3), of TOpenObj k] to_any_obj [of ms False]
    by (simp add: f toks_sep)
next
  case (JNum n)
  obtain x where "interactionNumber n = Some x" using JNum(1) by auto
  then show ?case using JNum read_token [OF JNum.prems(3), of "TNum n" k] interactionNumber_any [of n x]
    by (cases f) auto
next
  case (JStr x)
  then show ?case using read_token [OF JStr.prems(3), of "TStr x" k] by (cases f) auto
next
  case (JBool x)
  then show ?case using read_token [OF JBool.prems(3), of "TBool x" k] by (cases f) auto
next
  case JNull
  then show ?case using read_token [OF JNull.prems(3), of "TNull" k] by (cases f) auto
qed

lemma strict_depth: "strict_json depth j \<Longrightarrow> depth \<le> MaxInteractionDepth \<Longrightarrow> json_depth j + depth \<le> MaxInteractionDepth"
proof (induction j arbitrary: depth)
  case (JArr vs)
  then have "json_depth v \<le> MaxInteractionDepth - Suc depth" if "v \<in> set vs" for v
    using that by (fastforce simp: list_all_iff)
  then show ?case using JArr.prems fold_max_le [of "map json_depth vs" 0 "MaxInteractionDepth - Suc depth"] by auto
next
  case (JObj ms)
  then have "json_depth (snd m) \<le> MaxInteractionDepth - Suc depth" if "m \<in> set ms" for m
    using that by (cases m) (fastforce simp: list_all_iff)
  then show ?case
    using JObj.prems fold_max_le [of "map (json_depth \<circ> snd) ms" 0 "MaxInteractionDepth - Suc depth"] by auto
qed auto

text \<open>The reader over a whole text.\<close>

lemma strict_read_iff:
  "strict_read s = Some v \<longleftrightarrow> (\<exists>j. json_parse s = Some j \<and> strict_json 0 j \<and> v = to_any False j)"
proof
  assume "strict_read s = Some v"
  then obtain ts st k where l: "json_lex s = (ts, True)"
      "readInteractionJSON (Suc (length ts)) 0 (TopValue, [], ts) = Some (v, st, k, [])"
    by (auto simp: strict_read_def simp del: readInteractionJSON.simps split: prod.splits option.splits list.splits if_splits)
  obtain j where "ts = json_toks j" "strict_json 0 j" "v = to_any False j"
    using read_sound(1) [OF l(2)] by (auto simp: lead_def ready_def value_allowed_def)
  moreover have "json_depth j \<le> max_nesting"
    using strict_depth [OF \<open>strict_json 0 j\<close>] by (simp add: MaxInteractionDepth_def max_nesting_def)
  ultimately show "\<exists>j. json_parse s = Some j \<and> strict_json 0 j \<and> v = to_any False j"
    using json_lex_parse l(1) by blast
next
  assume "\<exists>j. json_parse s = Some j \<and> strict_json 0 j \<and> v = to_any False j"
  then obtain j where j: "json_lex s = (json_toks j, True)" "strict_json 0 j" "v = to_any False j"
    using json_parse_lex by blast
  then show "strict_read s = Some v"
    using read_complete [OF j(2), of "Suc (length (json_toks j))" TopValue "[]" "[]"]
    by (simp add: strict_read_def lead_def ready_def value_allowed_def del: readInteractionJSON.simps)
qed

declare readInteractionJSON.simps [simp del]

text \<open>Integers up to 2^53 - 1 are read exactly.\<close>

lemma itoa_short: "\<bar>i\<bar> < 2 ^ 53 \<Longrightarrow> length (itoa i) \<le> 128"
  using length_nat_str [of "nat \<bar>i\<bar>" 16] by (auto simp: itoa_def nat_less_iff)

lemma interactionNumber_itoa:
  assumes "\<bar>i\<bar> \<le> 9007199254740991"
  shows "interactionNumber (itoa i) = Some (f64_canon i 0)"
proof -
  have i: "\<bar>i\<bar> < 2 ^ 53" using assms by simp
  obtain m e where "f64_canon i 0 = F64 m e" using f64_canon_finite by blast
  then show ?thesis
    using itoa_json_number [of i] itoa_short [OF i] f64_of_itoa [OF i] f64_canon_whole [of 0 i] assms
    by (simp add: interactionNumber_def interactionNumberSyntax_def is_json_number_def)
qed

section \<open>Printed documents pass the check of their text\<close>

lemma utf8_valid_append: "utf8_valid a \<Longrightarrow> utf8_valid b \<Longrightarrow> utf8_valid (a @ b)"
proof (induction a rule: utf8_valid.induct)
  case (1 a)
  show ?case
  proof (cases "a = []")
    case False
    obtain r n where d: "decode_rune a = (r, n)" by fastforce
    have ok: "(r, n) \<noteq> (rune_error, 1)" "utf8_valid (drop n a)"
      using 1(2) d by (auto simp: utf8_valid_step [OF False])
    have n: "n \<le> length a" by (rule decode_rune_within [OF d])
    have "decode_rune (take n a @ (drop n a @ b)) = (r, n)" by (rule decode_rune_prefix [OF d ok(1) False])
    then have "decode_rune (a @ b) = (r, n)" by (simp flip: append_assoc)
    moreover have "utf8_valid (drop n a @ b)" using 1(1) [OF False] 1(3) d ok by simp
    ultimately show ?thesis using False ok n by (simp add: utf8_valid_step)
  qed (use 1 in simp)
qed

lemma encode_rune_bytes:
  assumes "128 \<le> r" and "c \<in> set (encode_rune r)"
  shows "128 \<le> ord c"
proof -
  have big: "128 \<le> ord (chr (k + x))" if "128 \<le> k" "k + x < 256" for k x using that by (simp add: ord_chr)
  have low: "128 \<le> ord (chr (128 + x mod 64))" for x by (rule big) (use mod_less_divisor [of 64 x] in linarith)+
  define q where "q = (if (55296 \<le> r \<and> r \<le> 57343) \<or> 1114111 < r then rune_error else r)"
  have q: "128 \<le> q" "q \<le> 1114111" using assms(1) by (auto simp: q_def rune_error_def)
  have "q div 262144 < 5" using q by auto
  moreover have "q div 64 < 32" if "q < 2048" using that by auto
  moreover have "q div 4096 < 16" if "q < 65536" using that by auto
  ultimately have "128 \<le> ord (chr (240 + q div 262144))" "q < 2048 \<Longrightarrow> 128 \<le> ord (chr (192 + q div 64))"
    "q < 65536 \<Longrightarrow> 128 \<le> ord (chr (224 + q div 4096))"
    using big [of 192 "q div 64"] big [of 224 "q div 4096"] big [of 240 "q div 262144"] by auto
  then show ?thesis
    using assms(2) low q unfolding encode_rune_def q_def [symmetric] Let_def by (auto split: if_splits)
qed

lemma unicode_inside_step:
  "c \<noteq> CHR 0x22 \<Longrightarrow> c \<noteq> CHR 0x5C \<Longrightarrow> unicode_inside (c # t) = unicode_inside t"
  "e \<noteq> CHR ''u'' \<Longrightarrow> unicode_inside (CHR 0x5C # e # u) = unicode_inside u"
  "hex4 [a, b, c', d] = Some q \<Longrightarrow> \<not> high_surrogate q \<Longrightarrow> \<not> low_surrogate q \<Longrightarrow>
     unicode_inside (CHR 0x5C # CHR ''u'' # a # b # c' # d # u) = unicode_inside u"
  by simp_all

lemma unicode_inside_high: "(\<And>c. c \<in> set w \<Longrightarrow> 128 \<le> ord c) \<Longrightarrow> unicode_inside (w @ u) = unicode_inside u"
proof (induction w)
  case (Cons c w)
  then have "128 \<le> ord c" by simp
  then have "c \<noteq> CHR 0x22" "c \<noteq> CHR 0x5C" by auto
  then show ?case using Cons unicode_inside_step(1) [of c "w @ u"] by (simp del: unicode_inside.simps)
qed simp

declare unicode_inside.simps [simp del]

lemma unicode_escape: "ord c < 128 \<Longrightarrow> unicode_inside (json_escape html c @ u) = unicode_inside u"
proof -
  assume c: "ord c < 128"
  show ?thesis
  proof (cases "c \<in> {CHR 0x22, CHR 0x5C, CHR 0x08, CHR 0x0C, CHR 0x0A, CHR 0x0D, CHR 0x09}")
    case True
    then show ?thesis by (auto simp: json_escape_def unicode_inside_step)
  next
    case False
    have "hex_val (hex_digit (ord c div 16)) = Some (ord c div 16)" "hex_val (hex_digit (ord c mod 16)) = Some (ord c mod 16)"
      using c by simp_all
    then have "hex4 [CHR ''0'', CHR ''0'', hex_digit (ord c div 16), hex_digit (ord c mod 16)] = Some (ord c)"
      by (simp add: hex4_def hex_val_def)
    then have "unicode_inside (CHR 0x5C # CHR ''u'' # CHR ''0'' # CHR ''0'' # hex_digit (ord c div 16) #
        hex_digit (ord c mod 16) # u) = unicode_inside u"
      by (rule unicode_inside_step(3)) (use c in \<open>simp_all add: high_surrogate_def low_surrogate_def\<close>)
    then show ?thesis using False by (auto simp: json_escape_def unicode_inside_step)
  qed
qed

lemma ascii_escape: "ord c < 128 \<Longrightarrow> ascii (json_escape html c)"
proof -
  have "ascii [hex_digit n]" if "n < 16" for n using that by (simp add: ord_hex_digit)
  then show "ord c < 128 \<Longrightarrow> ascii (json_escape html c)" by (simp add: json_escape_def)
qed

lemma quote_first_text:
  assumes "s \<noteq> []"
  shows "unicode_inside (quote_first html s @ u) = unicode_inside u \<and> utf8_valid (quote_first html s)"
proof (cases "decode_rune s = (rune_error, 1)")
  case True
  then show ?thesis
    by (simp add: quote_first_def unicode_inside_step(3) hex4_def hex_val_def high_surrogate_def low_surrogate_def)
next
  case False
  obtain r n where d: "decode_rune s = (r, n)" by fastforce
  have e: "encode_rune r = take n s" using encode_decode_rune [OF d] False d assms by simp
  show ?thesis
  proof (cases "r < 128")
    case True
    then show ?thesis
      using False d unicode_escape [of "chr r" html u] ascii_utf8_valid [OF ascii_escape, of "chr r" html]
      by (auto simp: quote_first_def ord_chr)
  next
    case r: False
    have "decode_rune (take n s) = (r, n)" using decode_rune_prefix [OF d _ assms, of "[]"] False d by simp
    moreover have "n \<noteq> 0" using decode_rune_width [OF assms] d by simp
    ultimately have v: "utf8_valid (encode_rune r)"
      unfolding e using False d assms by (subst utf8_valid.simps) (auto simp: utf8_valid_Nil)
    have "unicode_inside (encode_rune r @ u) = unicode_inside u"
      by (rule unicode_inside_high) (use encode_rune_bytes [of r] r in auto)
    moreover have "unicode_inside (CHR 0x5C # ''u2028'' @ u) = unicode_inside u" "unicode_inside (CHR 0x5C # ''u2029'' @ u) = unicode_inside u"
      by (simp_all add: unicode_inside_step(3) hex4_def hex_val_def high_surrogate_def low_surrogate_def)
    ultimately show ?thesis using v False d r by (auto simp: quote_first_def escape_multi_def)
  qed
qed

lemma quote_body_text: "unicode_inside (quote_body html s @ u) = unicode_inside u \<and> utf8_valid (quote_body html s)"
proof (induction html s rule: quote_body.induct)
  case (1 html s)
  show ?case
  proof (cases "s = []")
    case False
    then show ?thesis
      using 1 quote_first_text [OF False] by (subst (1 2) quote_body.simps) (auto intro: utf8_valid_append)
  qed (simp add: quote_body.simps)
qed

lemma quote_text: "unicode_outside (json_quote html s @ u) = unicode_outside u \<and> utf8_valid (json_quote html s)"
  using quote_body_text [of html s "CHR 0x22 # u"]
  by (simp add: json_quote_def unicode_inside.simps utf8_valid_append)

lemma unicode_outside_plain: "CHR 0x22 \<notin> set w \<Longrightarrow> unicode_outside (w @ u) = unicode_outside u"
  by (induction w) auto

definition sound_text :: "string \<Rightarrow> bool" where
  "sound_text w \<longleftrightarrow> utf8_valid w \<and> (\<forall>u. unicode_outside (w @ u) = unicode_outside u)"

lemma sound_append: "sound_text a \<Longrightarrow> sound_text b \<Longrightarrow> sound_text (a @ b)"
  by (simp add: sound_text_def utf8_valid_append)

lemma sound_plain: "ascii w \<Longrightarrow> CHR 0x22 \<notin> set w \<Longrightarrow> sound_text w"
  by (simp add: sound_text_def ascii_utf8_valid unicode_outside_plain)

lemma sound_Cons: "ord c < 128 \<Longrightarrow> c \<noteq> CHR 0x22 \<Longrightarrow> sound_text w \<Longrightarrow> sound_text (c # w)"
  using sound_append [OF sound_plain [of "[c]"]] by simp

lemma sound_Nil: "sound_text []"
  by (simp add: sound_plain)

lemma sound_join: "(\<And>w. w \<in> set ws \<Longrightarrow> sound_text w) \<Longrightarrow> sound_text (join '','' ws)"
proof (induction ws rule: induct_list012)
  case (3 x y zs)
  then have "sound_text x" "sound_text (join '','' (y # zs))" by simp_all
  then show ?case by (simp add: sound_append sound_Cons)
qed (simp_all add: sound_Nil)

lemma sound_json_text: "numbers_ok v \<Longrightarrow> sound_text (text_of html v)"
proof (induction v)
  case (JNum n)
  then have c: "number_char c" if "c \<in> set n" for c using number_chars that by simp
  then have "ord c < 128" if "c \<in> set n" for c using that by (force simp: number_char_ord)
  moreover have "CHR 0x22 \<notin> set n" using c by (force simp: number_char_ord)
  ultimately show ?case by (simp add: sound_plain ascii_def)
next
  case (JStr s)
  then show ?case using quote_text by (simp add: sound_text_def)
next
  case (JArr vs)
  then have "sound_text (join '','' (map (text_of html) vs))" by (intro sound_join) (auto simp: list_all_iff)
  then show ?case by (simp add: sound_Cons sound_append sound_Nil)
next
  case (JObj ms)
  have "sound_text (json_quote html k @ CHR '':'' # text_of html v)" if "(k, v) \<in> set ms" for k v
    using JObj that quote_text [of html k] by (intro sound_append sound_Cons) (auto simp: sound_text_def list_all_iff)
  then have "sound_text (join '','' (map (\<lambda>(k, v). json_quote html k @ CHR '':'' # text_of html v) ms))"
    by (intro sound_join) auto
  then show ?case by (simp add: sound_Cons sound_append sound_Nil)
qed (auto intro: sound_plain)

lemma printed_unicode: "numbers_ok v \<Longrightarrow> interactionUnicode (text_of html v)"
  using sound_json_text [of v html] by (metis append_Nil2 interactionUnicode_def sound_text_def unicode_outside.simps(1))

text \<open>A printed document that the reader accepts is read as the value it denotes.\<close>

lemma parse_printed:
  assumes "printable n j" and "strict_json 0 j" and "length (text_of html j) \<le> MaxInteractionBytes"
  shows "ParseInteractionEnvelope (text_of html j) =
    with_source (text_of html j) (checkInteractionEnvelope (to_any False j))"
proof -
  have d: "json_depth j \<le> max_nesting" using strict_depth [OF assms(2)] by (simp add: MaxInteractionDepth_def max_nesting_def)
  have "json_parse (text_of html j) = Some j"
    using json_parse_text [of j html] assms(1) d by (simp add: printable_def)
  then have "strict_read (text_of html j) = Some (to_any False j)" using assms(2) by (auto simp: strict_read_iff)
  moreover have "interactionUnicode (text_of html j)" using assms(1) by (simp add: printed_unicode printable_def)
  ultimately show ?thesis using assms(3) by (simp add: ParseInteractionEnvelope_def)
qed

section \<open>Properties\<close>

text \<open>
  C9. The strict reader agrees with \<open>encoding/json\<close>. The result for a source is decided by
  the document that package reads from it: a source of more than 64 KiB is too large; one
  that is not a document, that holds an unpaired surrogate escape or invalid UTF-8, nests
  deeper than 64, repeats a key of an object, or has a number that is too long, too large
  or an integer beyond 2^53 - 1, is not valid JSON; for any other the envelope check decides on the
  value \<open>json.Unmarshal\<close> gives, and the source is kept exactly unless the check fails.
\<close>

theorem interaction_reader_exact:
  "ParseInteractionEnvelope source =
     (if MaxInteractionBytes < length source then invalid_interaction ''too_large''
      else (case json_parse source of
          None \<Rightarrow> invalid_interaction ''invalid_json''
        | Some j \<Rightarrow>
            if interactionUnicode source \<and> strict_json 0 j
            then with_source source (checkInteractionEnvelope (to_any False j))
            else invalid_interaction ''invalid_json''))"
proof (cases "json_parse source")
  case None
  then have "strict_read source = None" using strict_read_iff [of source] by (metis option.distinct(1) option.exhaust)
  then show ?thesis using None by (simp add: ParseInteractionEnvelope_def)
next
  case (Some j)
  then have "strict_read source = (if strict_json 0 j then Some (to_any False j) else None)"
    using strict_read_iff [of source] by (cases "strict_read source") auto
  then show ?thesis using Some by (simp add: ParseInteractionEnvelope_def)
qed

text \<open>The budget a value uses up, and its depth.\<close>

fun gval_cost :: "gval \<Rightarrow> int" where
  "gval_cost (GString s) = 1 + int (length s)"
| "gval_cost (GMap m) = 1 + sum_list (map (\<lambda>(k, v). 1 + int (length k) + gval_cost v) m)"
| "gval_cost (GList xs) = 1 + sum_list (map gval_cost xs)"
| "gval_cost v = 1"

fun gval_depth :: "gval \<Rightarrow> nat" where
  "gval_depth (GMap m) = Suc (fold max (map (gval_depth \<circ> snd) m) 0)"
| "gval_depth (GList xs) = Suc (fold max (map gval_depth xs) 0)"
| "gval_depth v = 0"

definition fits :: "nat \<Rightarrow> gval \<Rightarrow> bool" where
  "fits depth v \<longleftrightarrow> gval_depth v + depth \<le> MaxInteractionDepth"

lemma fits_map: "depth < MaxInteractionDepth \<Longrightarrow> \<forall>kv \<in> set m. fits (Suc depth) (snd kv) \<Longrightarrow> fits depth (GMap m)"
  using fold_max_le [of "map (gval_depth \<circ> snd) m" 0 "MaxInteractionDepth - Suc depth"] by (force simp: fits_def)

lemma fits_list: "depth < MaxInteractionDepth \<Longrightarrow> \<forall>x \<in> set xs. fits (Suc depth) x \<Longrightarrow> fits depth (GList xs)"
  using fold_max_le [of "map gval_depth xs" 0 "MaxInteractionDepth - Suc depth"] by (force simp: fits_def)

lemma snapshot_budget:
  "snapshotInteraction v depth b = Some (v', b') \<Longrightarrow> depth \<le> MaxInteractionDepth \<Longrightarrow>
     b' = b - gval_cost v \<and> 0 \<le> b' \<and> fits depth v"
  "snapshot_members m depth b = Some (m', b') \<Longrightarrow> depth < MaxInteractionDepth \<Longrightarrow> 0 \<le> b \<Longrightarrow>
     b' = b - sum_list (map (\<lambda>(k, v). 1 + int (length k) + gval_cost v) m) \<and> 0 \<le> b' \<and> (\<forall>kv \<in> set m. fits (Suc depth) (snd kv))"
  "snapshot_items xs depth b = Some (xs', b') \<Longrightarrow> depth < MaxInteractionDepth \<Longrightarrow> 0 \<le> b \<Longrightarrow>
     b' = b - sum_list (map gval_cost xs) \<and> 0 \<le> b' \<and> (\<forall>x \<in> set xs. fits (Suc depth) x)"
proof (induction v depth b and m depth b and xs depth b arbitrary: v' b' and m' b' and xs' b'
    rule: snapshotInteraction_snapshot_members_snapshot_items.induct)
  case (1 v depth b)
  show ?case
  proof (cases v)
    case (GMap m)
    then show ?thesis using 1(2) [OF refl refl _ GMap] 1(3,4) fits_map [of depth m]
      by (auto simp: Let_def split: if_splits)
  next
    case (GList xs)
    then show ?thesis using 1(1) [OF refl refl _ GList] 1(3,4) fits_list [of depth xs]
      by (auto simp: Let_def split: if_splits)
  qed (use 1(3,4) in \<open>auto simp: Let_def fits_def split: if_splits\<close>)
next
  case (3 key item m depth b)
  then show ?case by (fastforce simp: Let_def split: if_splits option.splits)
next
  case (5 item xs depth b)
  then show ?case by (fastforce split: option.splits)
qed auto

text \<open>
  Data decoded elsewhere is accepted within the same bounds as text: an envelope that
  validates, or is of a later version, is a map nested at most 64 deep, whose keys, strings
  and values together count at most 65,536.
\<close>

theorem decoded_envelope_bounded:
  assumes "ir_Status (ValidateInteractionEnvelope v) \<noteq> ''invalid''"
  shows "\<exists>m. v = GMap m \<and> gval_cost v \<le> int MaxInteractionBytes \<and> gval_depth v \<le> MaxInteractionDepth"
proof -
  obtain snap b where s: "snapshotInteraction v 0 (int MaxInteractionBytes) = Some (snap, b)"
      "ir_Status (checkInteractionEnvelope snap) \<noteq> ''invalid''"
    using assms by (auto simp: ValidateInteractionEnvelope_def invalid_interaction_def split: option.splits)
  then obtain m where "snap = GMap m"
    by (auto simp: checkInteractionEnvelope_def invalid_interaction_def split: gval.splits)
  then have "\<exists>m. v = GMap m"
    using s(1) by (cases v) (auto simp: Let_def split: if_splits)
  then show ?thesis using snapshot_budget(1) [OF s(1)] by (auto simp: fits_def)
qed

definition example_decoded :: "(string \<times> gval) list" where
  "example_decoded = [(''interaction_version'', GInt 2), (''payload'', GList [GNil])]"

theorem decoded_envelope_bounded_witness:
  "gval_cost (GMap example_decoded) \<le> int MaxInteractionBytes"
proof -
  have "interactionNumber (itoa 2) = Some (F64 1 1)" by (simp add: interactionNumber_itoa f64_canon.simps)
  then have "ir_Status (ValidateInteractionEnvelope (GMap example_decoded)) \<noteq> ''invalid''"
    by (simp add: ValidateInteractionEnvelope_def example_decoded_def Let_def MaxInteractionBytes_def MaxInteractionDepth_def
        checkInteractionEnvelope_def InteractionResult_zero_def obj_float_def obj_get_def whole_from_1_def f64_whole_def)
  from decoded_envelope_bounded [OF this] show ?thesis by blast
qed

end
