(* ===== verification/Go_Time_Format.thy ===== *)
theory Go_Time_Format
  imports Go_Time Go_Float
begin

text \<open>
  \<open>time.UnixMilli(ms).UTC().Format("2006-01-02T15:04:05.000Z")\<close> and \<open>time.Parse\<close> with the same
  layout, on the text of a value of that form. Formatting is inverted by parsing for every
  time from 1970 to the end of 9999.
\<close>

text \<open>The year of a day counted from the start of year 0: an estimate, and one step to correct it.\<close>

definition year_of :: "int \<Rightarrow> nat" where
  "year_of n = (let y = nat (n * 400 div 146097)
     in if n < days_before_year y then y - 1 else if days_before_year (y + 1) \<le> n then y + 1 else y)"

text \<open>Month and day of a day counted from the start of the year.\<close>

fun month_day :: "nat \<Rightarrow> nat \<Rightarrow> nat list \<Rightarrow> nat \<times> nat" where
  "month_day y k [] = (12, k + 1)"
| "month_day y k (m # ms) = (if k < days_in y m then (m, k + 1) else month_day y (k - days_in y m) ms)"

definition pad :: "nat \<Rightarrow> nat \<Rightarrow> string" where
  "pad w n = replicate (w - length (nat_str n)) (CHR ''0'') @ nat_str n"

definition format_millis :: "int \<Rightarrow> string" where
  "format_millis ms =
     (let t = ms div 1000; days = t div 86400 + 719528; s = nat (t mod 86400); y = year_of days
      in case month_day y (nat (days - days_before_year y)) [1..<13] of (mo, d) \<Rightarrow>
        pad 4 y @ ''-'' @ pad 2 mo @ ''-'' @ pad 2 d @ ''T'' @ pad 2 (s div 3600) @ '':'' @
        pad 2 (s div 60 mod 60) @ '':'' @ pad 2 (s mod 60) @ ''.'' @ pad 3 (nat (ms mod 1000)) @ ''Z'')"

definition date_millis_re :: re where
  "date_millis_re = rseqs [rrep 4 (RCls digit_cls), rchr (CHR ''-''), rrep 2 (RCls digit_cls), rchr (CHR ''-''),
     rrep 2 (RCls digit_cls), rchr (CHR ''T''), rrep 2 (RCls digit_cls), rchr (CHR '':''), rrep 2 (RCls digit_cls),
     rchr (CHR '':''), rrep 2 (RCls digit_cls), rchr (CHR ''.''), rrep 3 (RCls digit_cls), rchr (CHR ''Z'')]"

text \<open>A number in a fixed position of a text, and the ranges \<open>time.Parse\<close> checks.\<close>

definition field_at :: "nat \<Rightarrow> nat \<Rightarrow> string \<Rightarrow> nat" where
  "field_at i w s = digits_val (take w (drop i s))"

definition parse_millis :: "string \<Rightarrow> int option" where
  "parse_millis s =
     (let y = field_at 0 4 s; mo = field_at 5 2 s; d = field_at 8 2 s; h = field_at 11 2 s; mi = field_at 14 2 s;
          sec = field_at 17 2 s; ms = field_at 20 3 s
      in if 1 \<le> mo \<and> mo \<le> 12 \<and> 1 \<le> d \<and> d \<le> days_in y mo \<and> h < 24 \<and> mi < 60 \<and> sec < 60 then
           Some ((unix_days y mo d * 86400 + int ((h * 60 + mi) * 60 + sec)) * 1000 + int ms)
         else None)"

section \<open>Dates\<close>

definition year_len :: "nat \<Rightarrow> nat" where
  "year_len y = (if leap_year y then 366 else 365)"

lemma div_up:
  assumes "0 < (k :: nat)"
  shows "(y + (k - 1)) div k = y div k + (if y mod k = 0 then 0 else 1)"
proof -
  have "(y + (k - 1)) div k = (y div k * k + (y mod k + (k - 1))) div k" by simp
  also have "\<dots> = y div k + (y mod k + (k - 1)) div k"
    using assms by (simp only: div_mult_self3 [of k "y mod k + (k - 1)" "y div k"] mult.commute [of _ k] div_mult_self4)
  also have "(y mod k + (k - 1)) div k = (if y mod k = 0 then 0 else 1)"
  proof (cases "y mod k")
    case (Suc r)
    then have "r < k" using mod_less_divisor [OF assms, of y] by simp
    moreover have "y mod k + (k - 1) = r + k" using Suc assms by simp
    ultimately show ?thesis using Suc div_add_self2 [of k r] by simp
  qed (use assms in simp)
  finally show ?thesis .
qed

lemma div_up_Suc: "0 < (k :: nat) \<Longrightarrow> (Suc y + (k - 1)) div k = (y + (k - 1)) div k + (if y mod k = 0 then 1 else 0)"
  using div_up [of k y] div_add_self2 [of k y] by (simp add: Suc_diff_Suc)

lemma days_before_Suc: "days_before_year (Suc y) = days_before_year y + int (year_len y)"
proof -
  have sum: "365 * int (Suc y) + a' - b' + c' = 365 * int y + a - b + c + int (if p \<and> (\<not> q \<or> r) then 366 else 365)"
    if "a' = a + (if p then 1 else 0)" "b' = b + (if q then 1 else 0)" "c' = c + (if r then 1 else 0)"
      "r \<longrightarrow> q" "q \<longrightarrow> p" for a a' b b' c c' p q r
    unfolding that(1-3) using that(4,5) by (cases p; cases q; cases r) simp_all
  have up: "int ((Suc y + (k - 1)) div k) = int ((y + (k - 1)) div k) + (if y mod k = 0 then 1 else 0)" if "0 < k" for k
    unfolding div_up_Suc [OF that] by simp
  have dvd: "y mod 400 = 0 \<longrightarrow> y mod 100 = 0" "y mod 100 = 0 \<longrightarrow> y mod 4 = 0"
  proof -
    have "y mod 100 = y mod 400 mod 100" "y mod 4 = y mod 100 mod 4"
      by (rule mod_mod_cancel [symmetric], simp)+
    then show "y mod 400 = 0 \<longrightarrow> y mod 100 = 0" "y mod 100 = 0 \<longrightarrow> y mod 4 = 0" by (metis mod_0)+
  qed
  have k: "0 < (4 :: nat)" "0 < (100 :: nat)" "0 < (400 :: nat)" "4 - 1 = (3 :: nat)" "100 - 1 = (99 :: nat)" "400 - 1 = (399 :: nat)"
    by simp_all
  show ?thesis
    unfolding days_before_year_def year_len_def leap_year_def
    by (rule sum [OF up [OF k(1), unfolded k(4)] up [OF k(2), unfolded k(5)] up [OF k(3), unfolded k(6)] dvd])
qed

lemma year_sum: "sum_list (map (days_in y) [1..<13]) = year_len y"
  by (simp add: upt_rec days_in_def year_len_def)

lemma div_up_bounds: "0 < (k :: nat) \<Longrightarrow> int y \<le> int ((y + (k - 1)) div k) * int k \<and> int ((y + (k - 1)) div k) * int k \<le> int y + int k - 1"
proof -
  assume k: "0 < k"
  have "(y + (k - 1)) div k * k + (y + (k - 1)) mod k = y + (k - 1)" by simp
  moreover have "(y + (k - 1)) mod k < k" using k by simp
  ultimately have "(y + (k - 1)) div k * k \<le> y + (k - 1)" "y + (k - 1) < (y + (k - 1)) div k * k + k" by linarith+
  then have "int ((y + (k - 1)) div k * k) \<le> int (y + (k - 1))" "int (y + (k - 1)) < int ((y + (k - 1)) div k * k + k)"
    unfolding of_nat_le_iff of_nat_less_iff .
  then show ?thesis using k by simp
qed

lemma days_before_bounds:
  "146097 * int y - 400 < 400 * days_before_year y \<and> 400 * days_before_year y < 146097 * int y + 800"
  using div_up_bounds [of 4 y] div_up_bounds [of 100 y] div_up_bounds [of 400 y]
  unfolding days_before_year_def by simp

lemma days_before_mono: "y \<le> z \<Longrightarrow> days_before_year y \<le> days_before_year z"
  by (induction z rule: dec_induct) (auto simp: days_before_Suc)

lemma year_of_bounds:
  assumes "0 \<le> n"
  shows "days_before_year (year_of n) \<le> n \<and> n < days_before_year (Suc (year_of n))"
proof -
  let ?y = "nat (n * 400 div 146097)"
  have nn: "0 \<le> n * 400 div 146097" using assms by simp
  have y: "146097 * int ?y \<le> n * 400" "n * 400 < 146097 * int ?y + 146097"
    using div_mult_mod_eq [of "n * 400" 146097] pos_mod_bound [of 146097 "n * 400"] pos_mod_sign [of 146097 "n * 400"] nn
    by linarith+
  have up: "n < days_before_year (?y + 2)" using y days_before_bounds [of "?y + 2"] by simp
  show ?thesis
  proof (cases "n < days_before_year ?y")
    case True
    then have "?y \<noteq> 0" using assms by (cases "?y = 0") (auto simp: days_before_year_def)
    then obtain z where z: "?y = Suc z" by (cases ?y) auto
    have "days_before_year z \<le> n" using y days_before_bounds [of z] by (simp add: z)
    then show ?thesis using True z by (simp add: year_of_def)
  next
    case False
    then show ?thesis using up by (simp add: year_of_def Let_def)
  qed
qed

lemma month_day_bounds:
  "k < sum_list (map (days_in y) [a..<13]) \<Longrightarrow> \<exists>mo d. month_day y k [a..<13] = (mo, d) \<and> a \<le> mo \<and> mo < 13 \<and>
     1 \<le> d \<and> d \<le> days_in y mo \<and> sum_list (map (days_in y) [a..<mo]) + d = k + 1"
proof (induction "13 - a" arbitrary: a k)
  case (Suc n)
  then have a: "[a..<13] = a # [Suc a..<13]" by (simp add: upt_conv_Cons)
  show ?case
  proof (cases "k < days_in y a")
    case True
    then show ?thesis using Suc(2) by (simp add: a)
  next
    case False
    have "n = 13 - Suc a" "k - days_in y a < sum_list (map (days_in y) [Suc a..<13])"
      using Suc(2,3) False by (simp_all add: a)
    from Suc(1) [OF this] obtain mo d where m: "month_day y (k - days_in y a) [Suc a..<13] = (mo, d)" "Suc a \<le> mo" "mo < 13" "1 \<le> d"
        "d \<le> days_in y mo" "sum_list (map (days_in y) [Suc a..<mo]) + d = k - days_in y a + 1"
      by blast
    have "[a..<mo] = a # [Suc a..<mo]" using m(2) by (simp add: upt_conv_Cons)
    then show ?thesis using m False by (intro exI [of _ mo] exI [of _ d]) (simp add: a)
  qed
qed simp

section \<open>Digits\<close>

lemma pad_number:
  assumes "n < 10 ^ w" and "0 < w"
  shows "length (pad w n) = w \<and> (\<forall>c \<in> set (pad w n). is_digit c) \<and> digits_val (pad w n) = n"
  using length_nat_str [OF assms] nat_str_digits [of _ n]
  by (auto simp: pad_def digits_val_append is_digit_def)

lemma pad_field:
  assumes "n < 10 ^ w" "0 < w" and "length u = i"
  shows "field_at i w (u @ pad w n @ v) = n"
  using pad_number [OF assms(1,2)] assms(3) by (simp add: field_at_def)

lemma pad_lang: "n < 10 ^ w \<Longrightarrow> 0 < w \<Longrightarrow> pad w n \<in> lang (rrep w (RCls digit_cls))"
  using pad_number [of n w] by (simp add: lang_rep_cls in_digit_cls is_digit_def)

text \<open>The fields of a formatted time.\<close>

definition date_text :: "nat \<Rightarrow> nat \<Rightarrow> nat \<Rightarrow> nat \<Rightarrow> nat \<Rightarrow> nat \<Rightarrow> nat \<Rightarrow> string" where
  "date_text y mo d h mi s f = pad 4 y @ ''-'' @ pad 2 mo @ ''-'' @ pad 2 d @ ''T'' @ pad 2 h @ '':'' @
     pad 2 mi @ '':'' @ pad 2 s @ ''.'' @ pad 3 f @ ''Z''"

lemma date_text_matches:
  assumes "y < 10000" "mo < 100" "d < 100" "h < 100" "mi < 100" "s < 100" "f < 1000"
  shows "re_match date_millis_re (date_text y mo d h mi s f)"
proof -
  have c: "[x] \<in> lang (rchr x)" for x by (simp add: lang_rchr)
  have "pad 4 y @ ''-'' @ pad 2 mo @ ''-'' @ pad 2 d @ ''T'' @ pad 2 h @ '':'' @ pad 2 mi @ '':'' @ pad 2 s @ ''.'' @
      pad 3 f @ ''Z'' @ [] \<in> lang date_millis_re"
    unfolding date_millis_re_def rseqs.simps
    by (intro lang_seqI c pad_lang) (use assms in simp_all)
  then show ?thesis by (simp add: re_match_lang date_text_def)
qed

lemma date_text_fields:
  assumes "y < 10000" "mo < 100" "d < 100" "h < 100" "mi < 100" "s < 100" "f < 1000"
  shows "field_at 0 4 (date_text y mo d h mi s f) = y" "field_at 5 2 (date_text y mo d h mi s f) = mo"
    "field_at 8 2 (date_text y mo d h mi s f) = d" "field_at 11 2 (date_text y mo d h mi s f) = h"
    "field_at 14 2 (date_text y mo d h mi s f) = mi" "field_at 17 2 (date_text y mo d h mi s f) = s"
    "field_at 20 3 (date_text y mo d h mi s f) = f"
proof -
  have l: "length (pad 4 y) = 4" "length (pad 2 mo) = 2" "length (pad 2 d) = 2" "length (pad 2 h) = 2"
    "length (pad 2 mi) = 2" "length (pad 2 s) = 2"
    using assms pad_number by simp_all
  note fl = pad_field [where w = 4] pad_field [where w = 2] pad_field [where w = 3]
  show "field_at 0 4 (date_text y mo d h mi s f) = y"
    using pad_field [of y 4 "[]" 0] assms by (simp add: date_text_def)
  show "field_at 5 2 (date_text y mo d h mi s f) = mo"
    using pad_field [of mo 2 "pad 4 y @ ''-''" 5] assms l by (simp add: date_text_def)
  show "field_at 8 2 (date_text y mo d h mi s f) = d"
    using pad_field [of d 2 "pad 4 y @ ''-'' @ pad 2 mo @ ''-''" 8] assms l by (simp add: date_text_def)
  show "field_at 11 2 (date_text y mo d h mi s f) = h"
    using pad_field [of h 2 "pad 4 y @ ''-'' @ pad 2 mo @ ''-'' @ pad 2 d @ ''T''" 11] assms l by (simp add: date_text_def)
  show "field_at 14 2 (date_text y mo d h mi s f) = mi"
    using pad_field [of mi 2 "pad 4 y @ ''-'' @ pad 2 mo @ ''-'' @ pad 2 d @ ''T'' @ pad 2 h @ '':''" 14] assms l
    by (simp add: date_text_def)
  show "field_at 17 2 (date_text y mo d h mi s f) = s"
    using pad_field [of s 2 "pad 4 y @ ''-'' @ pad 2 mo @ ''-'' @ pad 2 d @ ''T'' @ pad 2 h @ '':'' @ pad 2 mi @ '':''" 17]
      assms l by (simp add: date_text_def)
  show "field_at 20 3 (date_text y mo d h mi s f) = f"
    using pad_field [of f 3 "pad 4 y @ ''-'' @ pad 2 mo @ ''-'' @ pad 2 d @ ''T'' @ pad 2 h @ '':'' @ pad 2 mi @ '':'' @
        pad 2 s @ ''.''" 20] assms l by (simp add: date_text_def)
qed

text \<open>The times \<open>signalMilliseconds\<close> accepts.\<close>

lemma format_millis_fields:
  assumes "0 \<le> ms" "ms \<le> 253402300799999"
  shows "\<exists>y mo d h mi s f. format_millis ms = date_text y mo d h mi s f \<and> 1970 \<le> y \<and> y < 10000 \<and> 1 \<le> mo \<and> mo \<le> 12 \<and>
    1 \<le> d \<and> d \<le> days_in y mo \<and> h < 24 \<and> mi < 60 \<and> s < 60 \<and> f < 1000 \<and>
    (unix_days y mo d * 86400 + int ((h * 60 + mi) * 60 + s)) * 1000 + int f = ms"
proof -
  define t where "t = ms div 1000"
  define n where "n = t div 86400 + 719528"
  define s where "s = nat (t mod 86400)"
  define y where "y = year_of n"
  have t: "0 \<le> t" "t \<le> 253402300799" using assms by (simp_all add: t_def)
  then have n: "719528 \<le> n" "n \<le> 3652424" by (simp_all add: n_def)
  then have y: "days_before_year y \<le> n" "n < days_before_year (Suc y)" using year_of_bounds [of n] by (simp_all add: y_def)
  have y1: "y < 10000"
  proof (rule ccontr)
    assume "\<not> y < 10000"
    then have "days_before_year 10000 \<le> days_before_year y" by (intro days_before_mono) simp
    then show False using y n by (simp add: days_before_year_def)
  qed
  have y2: "1970 \<le> y"
  proof (rule ccontr)
    assume "\<not> 1970 \<le> y"
    then have "days_before_year (Suc y) \<le> days_before_year 1970" by (intro days_before_mono) simp
    then show False using y n by (simp add: days_before_year_def)
  qed
  have "nat (n - days_before_year y) < sum_list (map (days_in y) [1..<13])"
    unfolding year_sum using y by (simp add: days_before_Suc)
  from month_day_bounds [OF this] obtain mo d where
    m: "month_day y (nat (n - days_before_year y)) [1..<13] = (mo, d)" "1 \<le> mo" "mo < 13" "1 \<le> d" "d \<le> days_in y mo"
      "sum_list (map (days_in y) [1..<mo]) + d = nat (n - days_before_year y) + 1" by blast
  have s: "s < 86400" "int s = t mod 86400" by (simp_all add: s_def nat_less_iff)
  have f: "format_millis ms = date_text y mo d (s div 3600) (s div 60 mod 60) (s mod 60) (nat (ms mod 1000))"
    unfolding format_millis_def Let_def date_text_def t_def [symmetric] n_def [symmetric] s_def [symmetric] y_def [symmetric] m(1)
    by simp
  have "int (sum_list (map (days_in y) [1..<mo])) + int d = n - days_before_year y + 1"
    using m(6) y by linarith
  then have u: "unix_days y mo d = n - 719528" by (simp add: unix_days_def)
  have "s div 3600 = s div 60 div 60" using div_mult2_eq [of s 60 60] by simp
  then have hms: "(s div 3600 * 60 + s div 60 mod 60) * 60 + s mod 60 = s" by (simp only: div_mult_mod_eq)
  have "(unix_days y mo d * 86400 + int s) * 1000 + int (nat (ms mod 1000)) = ms"
    unfolding u s(2) by (simp add: n_def t_def)
  then have "(unix_days y mo d * 86400 + int ((s div 3600 * 60 + s div 60 mod 60) * 60 + s mod 60)) * 1000 +
      int (nat (ms mod 1000)) = ms" unfolding hms .
  moreover have "s div 3600 < 24" "s div 60 mod 60 < 60" "s mod 60 < 60" "nat (ms mod 1000) < 1000"
    using s(1) by (simp_all add: nat_less_iff)
  moreover have "mo \<le> 12" using m(3) by simp
  ultimately show ?thesis using f y1 y2 m(2,4,5) by blast
qed

lemma days_in_le: "days_in y m \<le> 31"
  by (simp add: days_in_def)

lemma format_millis_matches: "0 \<le> ms \<Longrightarrow> ms \<le> 253402300799999 \<Longrightarrow> re_match date_millis_re (format_millis ms)"
proof -
  assume "0 \<le> ms" "ms \<le> 253402300799999"
  then obtain y mo d h mi s f where t: "format_millis ms = date_text y mo d h mi s f" "y < 10000" "mo \<le> 12"
      "d \<le> days_in y mo" "h < 24" "mi < 60" "s < 60" "f < 1000"
    using format_millis_fields by blast
  then show ?thesis using date_text_matches [of y mo d h mi s f] days_in_le [of y mo] by simp
qed

lemma parse_format_millis:
  assumes "0 \<le> ms" "ms \<le> 253402300799999"
  shows "parse_millis (format_millis ms) = Some ms"
proof -
  obtain y mo d h mi s f where t: "format_millis ms = date_text y mo d h mi s f" "y < 10000" "1 \<le> mo" "mo \<le> 12"
      "1 \<le> d" "d \<le> days_in y mo" "h < 24" "mi < 60" "s < 60" "f < 1000"
      "(unix_days y mo d * 86400 + int ((h * 60 + mi) * 60 + s)) * 1000 + int f = ms"
    using format_millis_fields [OF assms] by blast
  have "d < 100" using t(6) days_in_le [of y mo] by simp
  then show ?thesis
    using t date_text_fields [of y mo d h mi s f] by (simp add: parse_millis_def)
qed

end
