(* ===== verification/Go_Json_Size.thy ===== *)
theory Go_Json_Size
  imports Go_Json_Encode
begin

text \<open>
  How long the text of a document can be: every byte of a string takes at most six, and the
  rest is punctuation. The bound is executable, so the size of a document whose strings have known
  limits is a sum of numerals.
\<close>

lemma length_encode_rune: "length (encode_rune r) \<le> 4"
  by (simp add: encode_rune_def Let_def)

lemma quote_first_length:
  assumes "decode_rune s = (r, n)" and "s \<noteq> []"
  shows "length (quote_first html s) \<le> 6 * n"
proof -
  have n: "1 \<le> n" using decode_rune_width [OF assms(2)] assms(1) by simp
  have "length (json_escape html c) \<le> 6" for c by (simp add: json_escape_def)
  moreover have "length (escape_multi r) \<le> 6" using length_encode_rune [of r] by (simp add: escape_multi_def)
  ultimately have "length (quote_first html s) \<le> 6" using assms(1) by (simp add: quote_first_def)
  then show ?thesis using n by linarith
qed

lemma quote_body_length: "length (quote_body html s) \<le> 6 * length s"
proof (induction html s rule: quote_body.induct)
  case (1 html s)
  show ?case
  proof (cases "s = []")
    case False
    obtain r n where d: "decode_rune s = (r, n)" by fastforce
    have "length (quote_first html s) \<le> 6 * n" by (rule quote_first_length [OF d False])
    moreover have "length (quote_body html (drop n s)) \<le> 6 * (length s - n)" using 1 [OF False] d by simp
    moreover have "n \<le> length s" by (rule decode_rune_within [OF d])
    ultimately show ?thesis using d False by (subst quote_body.simps) simp
  qed (simp add: quote_body.simps)
qed

lemma quote_length: "length (json_quote html s) \<le> 6 * length s + 2"
  using quote_body_length [of html s] by (simp add: json_quote_def)

fun text_bound :: "json \<Rightarrow> nat" where
  "text_bound JNull = 4"
| "text_bound (JBool b) = 5"
| "text_bound (JNum n) = length n"
| "text_bound (JStr s) = 6 * length s + 2"
| "text_bound (JArr vs) = 2 + sum_list (map (\<lambda>v. text_bound v + 1) vs)"
| "text_bound (JObj ms) = 2 + sum_list (map (\<lambda>(k, v). 6 * length k + 4 + text_bound v) ms)"

lemma join_length: "length (join '','' ws) \<le> sum_list (map (\<lambda>w. length w + 1) ws)"
  by (induction ws rule: induct_list012) auto

lemma text_of_length: "length (text_of html v) \<le> text_bound v"
proof (induction v)
  case (JStr s)
  then show ?case using quote_length by simp
next
  case (JArr vs)
  have "sum_list (map (\<lambda>w. length w + 1) (map (text_of html) vs)) \<le> sum_list (map (\<lambda>v. text_bound v + 1) vs)"
    unfolding map_map by (rule sum_list_mono) (use JArr in auto)
  then show ?case using join_length [of "map (text_of html) vs"] by simp
next
  case (JObj ms)
  let ?f = "\<lambda>(k, v). json_quote html k @ CHR '':'' # text_of html v"
  have "length (?f m) + 1 \<le> (case m of (k, v) \<Rightarrow> 6 * length k + 4 + text_bound v)" if "m \<in> set ms" for m
    using JObj [OF that, of "snd m"] quote_length [of html "fst m"] by (cases m) (auto simp: snds.simps)
  then have "sum_list (map (\<lambda>w. length w + 1) (map ?f ms)) \<le> sum_list (map (\<lambda>(k, v). 6 * length k + 4 + text_bound v) ms)"
    unfolding map_map by (intro sum_list_mono) auto
  then show ?case using join_length [of "map ?f ms"] by simp
qed auto

text \<open>Printable characters other than the quote and the backslash are printed as they are.\<close>

definition printed_as_is :: "string \<Rightarrow> bool" where
  "printed_as_is s \<longleftrightarrow> (\<forall>c \<in> set s. 32 \<le> ord c \<and> ord c < 127 \<and> c \<noteq> CHR 0x22 \<and> c \<noteq> CHR 0x5C)"

lemma printed_as_is_simps [simp]:
  "printed_as_is []" "printed_as_is (c # s) \<longleftrightarrow> 32 \<le> ord c \<and> ord c < 127 \<and> c \<noteq> CHR 0x22 \<and> c \<noteq> CHR 0x5C \<and> printed_as_is s"
  "printed_as_is (s @ t) \<longleftrightarrow> printed_as_is s \<and> printed_as_is t"
  by (auto simp: printed_as_is_def)

lemma as_is_ascii: "printed_as_is s \<Longrightarrow> ascii s"
  by (induction s) simp_all

lemma quote_body_as_is: "printed_as_is s \<Longrightarrow> quote_body False s = s"
proof (induction s)
  case (Cons c s)
  then have c: "32 \<le> ord c" "ord c < 127" "c \<noteq> CHR 0x22" "c \<noteq> CHR 0x5C" by (simp_all add: printed_as_is_def)
  then have d: "decode_rune (c # s) = (ord c, 1)" by simp
  have "c \<noteq> CHR 0x08" "c \<noteq> CHR 0x0C" "c \<noteq> CHR 0x0A" "c \<noteq> CHR 0x0D" "c \<noteq> CHR 0x09" using c(1) by auto
  then have "quote_first False (c # s) = [c]"
    using c by (simp add: quote_first_def d rune_error_def json_escape_def)
  moreover have "quote_body False s = s" using Cons by simp
  ultimately show ?case by (subst quote_body.simps) (simp add: d)
qed (simp add: quote_body.simps)

lemma quote_as_is: "printed_as_is s \<Longrightarrow> length (json_quote False s) = length s + 2"
  by (simp add: json_quote_def quote_body_as_is)

end
