(* ===== verification/Signals.thy ===== *)
theory Signals
  imports Interactions Go_Time_Format Go_Json_Size
begin

text \<open>
  Signals (\<open>signals.go\<close>): preparing one ordinary email that carries a signal envelope, and
  sending what was prepared. Preparing makes no request; the clock and the UUID source are
  arguments, the UUIDs as the answers of successive calls. Sending is recorded as the calls
  of the send operation.
\<close>

section \<open>Data\<close>

record SignalParent =
  par_AccountScope :: string
  par_From :: string
  par_To :: string
  par_MessageID :: "string option"
  par_Subject :: string
  par_References :: "string list"

record SignalInput =
  sin_Parent :: SignalParent
  sin_Kind :: string
  sin_Status :: string
  sin_Note :: "string option"
  sin_ExpiresAtMs :: "int option"

record SignalDependencies =
  dep_UUID :: "(nat \<Rightarrow> string) option"
  dep_Now :: "int option"

record PreparedSignal =
  ps_AccountScope :: string
  ps_PreparedAtMs :: int
  ps_ExpiresAtMs :: "int option"
  ps_IdempotencyKey :: string
  ps_RequestJSON :: string

record SignalPreparation =
  prep_Status :: string
  prep_Prepared :: "PreparedSignal option"

record 't SignalSendResult =
  ssr_Status :: string
  ssr_Result :: "'t option"
  ssr_IdempotencyKey :: string

section \<open>Patterns and small checks\<close>

definition signalUUID :: re where "signalUUID = uuid_re hex_cls"

definition alnum_cls :: "(char \<times> char) list" where
  "alnum_cls = [(CHR ''A'', CHR ''Z''), (CHR ''a'', CHR ''z''), (CHR ''0'', CHR ''9'')]"

definition atext_cls :: "(char \<times> char) list" where
  "atext_cls = alnum_cls @ map (\<lambda>c. (c, c)) [CHR ''!'', CHR ''#'', CHR ''$'', CHR ''%'', CHR ''&'', CHR 0x27, CHR ''*'',
     CHR ''+'', CHR ''/'', CHR ''='', CHR ''?'', CHR ''^'', CHR ''_'', CHR 0x60, CHR 0x7B, CHR 0x7C, CHR 0x7D, CHR ''~'',
     CHR ''-'']"

definition label_re :: "(char \<times> char) list \<Rightarrow> re" where
  "label_re cls = RSeq (RCls cls) (ropt (RSeq (rupto 61 (RCls (cls @ [(CHR ''-'', CHR ''-'')]))) (RCls cls)))"

definition mailbox_local :: re where
  "mailbox_local = RSeq (rplus (RCls atext_cls)) (RStar (RSeq (rchr (CHR ''.'')) (rplus (RCls atext_cls))))"

definition mailbox_domain :: re where
  "mailbox_domain = RSeq (label_re alnum_cls) (RStar (RSeq (rchr (CHR ''.'')) (label_re alnum_cls)))"

definition signalMailbox :: re where
  "signalMailbox = RSeq mailbox_local (RSeq (rchr (CHR ''@'')) mailbox_domain)"

definition graph_cls :: "(char \<times> char) list" where "graph_cls = [(CHR ''!'', CHR ''~'')]"

definition signalWireID :: re where
  "signalWireID = RSeq (rplus (RCls graph_cls)) (RSeq (rchr (CHR ''@'')) (rplus (RCls graph_cls)))"

definition signalHeader :: "string \<Rightarrow> nat \<Rightarrow> bool" where
  "signalHeader s limit \<longleftrightarrow> utf8_valid s \<and> length s \<le> limit \<and> list_all (\<lambda>c. \<not> c < 32 \<and> c \<noteq> 127) (runes s)"

definition signalMessageID :: "string \<Rightarrow> string + string" where
  "signalMessageID v0 =
     (let v1 = trim_chars [CHR '' ''] v0;
          v = (if has_prefix v1 ''<'' \<and> has_suffix v1 ''>'' then take (length v1 - 2) (drop 1 v1) else v1)
      in if \<not> re_match signalWireID v \<or> CHR ''<'' \<in> set v \<or> CHR ''>'' \<in> set v \<or>
            length (filter ((=) CHR ''@'') v) \<noteq> 1 \<or> 996 < length v
         then Inl ''invalid Message-ID'' else Inr (''<'' @ v @ ''>''))"

definition signalMilliseconds :: "int \<Rightarrow> bool" where
  "signalMilliseconds ms \<longleftrightarrow> 0 \<le> ms \<and> ms \<le> 253402300799999"

definition signalJSON :: "json \<Rightarrow> string" where
  "signalJSON doc = text_of False doc"

definition utf16_len :: "string \<Rightarrow> nat" where
  "utf16_len s = sum_list (map (\<lambda>r. if 65536 \<le> r \<and> r \<le> 1114111 then 2 else 1) (runes s))"

definition ack_texts :: "(string \<times> string) list" where
  "ack_texts = [(''received'', ''Received your message.''), (''will_process'', ''I intend to process your message.''),
     (''will_not_process'', ''I will not process your message.'')]"

definition signalText :: "string \<Rightarrow> string \<Rightarrow> string option \<Rightarrow> string" where
  "signalText kind status note =
     (if kind = ''read'' then ''I read your message.''
      else if kind = ''working'' then ''I am working on your message.''
      else if kind = ''typing'' then ''I am composing a reply to your message.''
      else (case map_of ack_texts status of None \<Rightarrow> [] | Some t \<Rightarrow> t) @
           (case note of None \<Rightarrow> [] | Some n \<Rightarrow> [CHR 0x0A, CHR 0x0A] @ n))"

section \<open>Preparing a signal\<close>

text \<open>The references in canonical form without the target, up to the first invalid one.\<close>

fun signal_refs :: "(string \<Rightarrow> string + string) \<Rightarrow> string \<Rightarrow> string list \<Rightarrow> string + string list" where
  "signal_refs canon target [] = Inr []"
| "signal_refs canon target (v # vs) = (case canon v of Inl e \<Rightarrow> Inl e | Inr ref \<Rightarrow>
     (case signal_refs canon target vs of Inl e \<Rightarrow> Inl e
      | Inr rs \<Rightarrow> Inr (if ref \<noteq> target then ref # rs else rs)))"

text \<open>The length of the references joined by spaces, and the loop that drops the oldest ones.\<close>

definition refs_length :: "string list \<Rightarrow> int" where
  "refs_length rs = sum_list (map (\<lambda>r. int (length r) + 1) rs) - 1"

fun drop_refs :: "string list \<Rightarrow> int \<Rightarrow> string list" where
  "drop_refs [] len = []"
| "drop_refs (r # rs) len =
     (if 100 < length (r # rs) \<or> 8192 < len then drop_refs rs (len - (int (length r) + 1)) else r # rs)"

text \<open>The checks of the parent: the target and the references the email will carry.\<close>

definition signal_thread :: "SignalParent \<Rightarrow> string \<Rightarrow> string + (string \<times> string list)" where
  "signal_thread p message_id =
     (case signalMessageID message_id of Inl e \<Rightarrow> Inl e | Inr target \<Rightarrow>
        if list_ex (\<lambda>a. \<not> signalHeader a 320 \<or> \<not> re_match signalMailbox a) [par_From p, par_To p] then
          Inl ''use one bare mailbox per address''
        else if \<not> signalHeader (par_Subject p) 998 \<or> \<not> signalHeader (par_AccountScope p) 256 \<or> par_AccountScope p = [] then
          Inl ''invalid subject or account scope''
        else if 1000 < length (par_References p) then Inl ''too many references''
        else (case signal_refs signalMessageID target (par_References p) of Inl e \<Rightarrow> Inl e
          | Inr rs \<Rightarrow> Inr (target, drop_refs (rs @ [target]) (refs_length (rs @ [target])))))"

text \<open>The switch on the kind: status, note and expiry of the payload.\<close>

definition signal_kind :: "SignalInput \<Rightarrow> int \<Rightarrow> string + (string \<times> string option \<times> int option)" where
  "signal_kind i now =
     (if sin_Kind i = ''ack'' then
        (if signalText ''ack'' (sin_Status i) None = [] then Inl ''invalid ACK status''
         else (case sin_Note i of None \<Rightarrow> Inr (sin_Status i, None, None)
           | Some n \<Rightarrow> if \<not> utf8_valid n \<or> 2000 < utf16_len n \<or> CHR 0x00 \<in> set n then Inl ''invalid note''
                       else Inr (sin_Status i, Some n, None)))
      else if sin_Kind i = ''read'' then Inr ([], None, None)
      else if sin_Kind i = ''working'' \<or> sin_Kind i = ''typing'' then
        (case sin_ExpiresAtMs i of None \<Rightarrow> Inl (sin_Kind i @ '' expiry must be within 60 seconds'')
         | Some e \<Rightarrow>
             if \<not> signalMilliseconds e \<or> e \<le> now \<or> 60000 < e - now then
               Inl (sin_Kind i @ '' expiry must be within 60 seconds'')
             else Inr ([], None, Some e))
      else Inl ''invalid signal kind'')"

definition signal_envelope ::
    "string \<Rightarrow> string \<Rightarrow> string \<Rightarrow> int option \<Rightarrow> string \<Rightarrow> string \<Rightarrow> string option \<Rightarrow> json" where
  "signal_envelope iid kind step expires target status note = JObj [
     (''interaction_version'', enc_int 1), (''interaction_id'', JStr iid), (''protocol'', JStr kind),
     (''protocol_version'', enc_int 1), (''step'', JStr kind), (''step_id'', JStr step), (''prev_step_id'', JNull),
     (''expires_at'', enc_opt (JStr \<circ> format_millis) expires),
     (''payload'', JObj ((''subject_message_id'', JStr target) #
        (if status = [] then [] else [(''status'', JStr status)]) @ omit_nil ''note'' JStr note))]"

definition attachment_json :: "string \<Rightarrow> json" where
  "attachment_json encoded = JObj [(''filename'', JStr ''interaction.json''), (''content_type'', JStr ''application/json''),
     (''content_base64'', JStr (b64_encode encoded))]"

definition signal_body ::
    "string \<Rightarrow> string \<Rightarrow> string \<Rightarrow> string \<Rightarrow> string \<Rightarrow> string list \<Rightarrow> string \<Rightarrow> json" where
  "signal_body sender recipient subject text target refs encoded = JObj [(''from'', JStr sender), (''to'', JStr recipient),
     (''subject'', JStr subject), (''body_text'', JStr text), (''in_reply_to'', JStr target),
     (''references'', JArr (map JStr refs)), (''attachments'', JArr [attachment_json encoded])]"

definition signal_subject :: "SignalParent \<Rightarrow> string" where
  "signal_subject p = (if par_Subject p = [] then ''Re: Your message'' else par_Subject p)"

text \<open>From the checked parts to the prepared signal.\<close>

definition signal_build ::
    "SignalInput \<Rightarrow> string \<Rightarrow> string list \<Rightarrow> int \<Rightarrow> (nat \<Rightarrow> string) \<Rightarrow> string + SignalPreparation" where
  "signal_build i target refs now uuid =
     (case signal_kind i now of Inl e \<Rightarrow> Inl e | Inr (status, note, expires) \<Rightarrow>
        let interaction = to_lower (uuid 0); step = to_lower (uuid 1); p = sin_Parent i
        in if \<not> re_match signalUUID interaction \<or> \<not> re_match signalUUID step \<or> interaction = step then
             Inl ''two distinct UUIDs are required''
           else (let iid = interaction @ ''@'' @ split_on (CHR ''@'') (par_To p) ! 1;
                     encoded = signalJSON (signal_envelope iid (sin_Kind i) step expires target status note);
                     request = signalJSON (signal_body (par_To p) (par_From p) (signal_subject p)
                       (signalText (sin_Kind i) (sin_Status i) (sin_Note i)) target refs encoded)
                 in if 65536 < length encoded then Inl ''signal exceeds 64 KiB''
                    else Inr \<lparr>prep_Status = ''prepared'', prep_Prepared = Some \<lparr>ps_AccountScope = par_AccountScope p,
                      ps_PreparedAtMs = now, ps_ExpiresAtMs = expires, ps_IdempotencyKey = ''signal-'' @ step,
                      ps_RequestJSON = request\<rparr>\<rparr>))"

definition PrepareSignalEmail :: "SignalInput \<Rightarrow> SignalDependencies \<Rightarrow> string + SignalPreparation" where
  "PrepareSignalEmail i deps =
     (case par_MessageID (sin_Parent i) of
        None \<Rightarrow> Inr \<lparr>prep_Status = ''waiting_on_parent'', prep_Prepared = None\<rparr>
      | Some message_id \<Rightarrow>
          if message_id = [] then Inr \<lparr>prep_Status = ''waiting_on_parent'', prep_Prepared = None\<rparr>
          else (case signal_thread (sin_Parent i) message_id of Inl e \<Rightarrow> Inl e | Inr (target, refs) \<Rightarrow>
            (case (dep_Now deps, dep_UUID deps) of
               (Some now, Some uuid) \<Rightarrow>
                 if \<not> signalMilliseconds now then Inl ''invalid clock'' else signal_build i target refs now uuid
             | _ \<Rightarrow> Inl ''clock and UUID callbacks are required'')))"

section \<open>Sending\<close>

datatype 'e send_error = SignalError string | SendError 'e

text \<open>The calls of the send operation made, each with its request and key, and the outcome.\<close>

definition SendPreparedSignal ::
    "(string \<Rightarrow> string \<Rightarrow> 'e + 't) \<Rightarrow> PreparedSignal \<Rightarrow> string \<Rightarrow> int option \<Rightarrow>
     (string \<times> string) list \<times> ('e send_error + 't SignalSendResult)" where
  "SendPreparedSignal sendMail prepared accountScope now =
     (if accountScope = [] \<or> accountScope \<noteq> ps_AccountScope prepared then ([], Inl (SignalError ''account scope mismatch''))
      else (case now of None \<Rightarrow> ([], Inl (SignalError ''clock is required'')) | Some observed \<Rightarrow>
        if \<not> signalMilliseconds observed then ([], Inl (SignalError ''invalid clock''))
        else if (case ps_ExpiresAtMs prepared of None \<Rightarrow> False | Some e \<Rightarrow> e \<le> observed) then
          ([], Inr \<lparr>ssr_Status = ''expired'', ssr_Result = None, ssr_IdempotencyKey = ps_IdempotencyKey prepared\<rparr>)
        else ([(ps_RequestJSON prepared, ps_IdempotencyKey prepared)],
          (case sendMail (ps_RequestJSON prepared) (ps_IdempotencyKey prepared) of
             Inl e \<Rightarrow> Inl (SendError e)
           | Inr r \<Rightarrow> Inr \<lparr>ssr_Status = ''response'', ssr_Result = Some r, ssr_IdempotencyKey = []\<rparr>))))"

section \<open>Message-IDs and references\<close>

definition wire_id :: "string \<Rightarrow> bool" where
  "wire_id w \<longleftrightarrow> re_match signalWireID w \<and> CHR ''<'' \<notin> set w \<and> CHR ''>'' \<notin> set w \<and>
     length (filter ((=) CHR ''@'') w) = 1 \<and> length w \<le> 996"

lemma signalMessageID_Inr: "signalMessageID v = Inr t \<Longrightarrow> \<exists>w. t = ''<'' @ w @ ''>'' \<and> wire_id w"
  by (auto simp: signalMessageID_def wire_id_def Let_def split: if_splits)

lemma signalMessageID_canon:
  assumes "wire_id w"
  shows "signalMessageID (''<'' @ w @ ''>'') = Inr (''<'' @ w @ ''>'')"
proof -
  have "trim_chars [CHR '' ''] (''<'' @ w @ ''>'') = ''<'' @ w @ ''>''" by (simp add: trim_chars_def)
  then show ?thesis using assms by (simp add: signalMessageID_def wire_id_def Let_def has_prefix_def has_suffix_iff)
qed

lemma graph_char: "in_cls graph_cls c \<longleftrightarrow> 33 \<le> ord c \<and> ord c \<le> 126"
  by (simp add: graph_cls_def in_cls_simps)

lemma wire_id_ascii: "wire_id w \<Longrightarrow> ascii w"
proof -
  have "re_all (\<lambda>c. ord c < 128) signalWireID" by (simp add: signalWireID_def rplus_def rchr_def graph_char in_cls_simps)
  then show "wire_id w \<Longrightarrow> ascii w" using re_all_lang by (auto simp: wire_id_def re_match_lang ascii_def)
qed

text \<open>A canonical Message-ID: a fixed point, short and ASCII.\<close>

lemma signalMessageID_result:
  assumes "signalMessageID v = Inr t"
  shows "signalMessageID t = Inr t \<and> length t \<le> 998 \<and> ascii t \<and> t \<noteq> []"
proof -
  obtain w where w: "t = ''<'' @ w @ ''>''" "wire_id w" using signalMessageID_Inr [OF assms] by blast
  then show ?thesis using signalMessageID_canon [OF w(2)] wire_id_ascii [OF w(2)] by (auto simp: wire_id_def)
qed

lemma signal_refs_result:
  "signal_refs canon target vs = Inr rs \<Longrightarrow> r \<in> set rs \<Longrightarrow> r \<noteq> target \<and> (\<exists>v \<in> set vs. canon v = Inr r)"
  by (induction vs arbitrary: rs) (auto split: sum.splits if_splits)

lemma refs_length_Cons: "refs_length (r # rs) - (int (length r) + 1) = refs_length rs"
  by (simp add: refs_length_def)

lemma refs_length_join: "rs \<noteq> [] \<Longrightarrow> refs_length rs = int (length (join '' '' rs))"
  by (induction rs rule: induct_list012) (auto simp: refs_length_def)

text \<open>What the loop keeps: the newest references that fit, the target among them.\<close>

definition kept_refs :: "string list \<Rightarrow> string list \<Rightarrow> bool" where
  "kept_refs all refs \<longleftrightarrow> refs \<noteq> [] \<and> last refs = last all \<and> length refs \<le> 100 \<and> length (join '' '' refs) \<le> 8192 \<and>
     (\<exists>dropped. all = dropped @ refs \<and>
        (dropped \<noteq> [] \<longrightarrow> 100 < length (last dropped # refs) \<or> 8192 < length (join '' '' (last dropped # refs))))"

lemma drop_refs_kept:
  assumes "length t \<le> 998"
  shows "kept_refs (rs @ [t]) (drop_refs (rs @ [t]) (refs_length (rs @ [t])))"
proof (induction rs)
  case Nil
  then show ?case using assms by (simp add: kept_refs_def refs_length_def)
next
  case (Cons r rs)
  let ?all = "r # rs @ [t]"
  show ?case
  proof (cases "100 < length ?all \<or> 8192 < refs_length ?all")
    case True
    let ?k = "drop_refs (rs @ [t]) (refs_length (rs @ [t]))"
    have d: "drop_refs (?all) (refs_length ?all) = ?k"
      using True refs_length_Cons [of r "rs @ [t]"] by (simp del: One_nat_def)
    obtain dropped where "rs @ [t] = dropped @ ?k"
        "dropped \<noteq> [] \<longrightarrow> 100 < length (last dropped # ?k) \<or> 8192 < length (join '' '' (last dropped # ?k))"
      using Cons by (auto simp: kept_refs_def)
    moreover have "8192 < refs_length ?all \<Longrightarrow> 8192 < length (join '' '' ?all)"
      using refs_length_join [of ?all] by simp
    ultimately have e: "?all = (r # dropped) @ ?k" "(100 < length (last (r # dropped) # ?k) \<or> 8192 < length (join '' '' (last (r # dropped) # ?k)))"
      using True by (cases dropped; auto)+
    have "kept_refs ?all ?k"
      unfolding kept_refs_def
      by (intro conjI exI [of _ "r # dropped"]) (use Cons e in \<open>simp_all add: kept_refs_def\<close>)
    then show ?thesis using d by simp
  next
    case False
    then show ?thesis using refs_length_join [of ?all] by (auto simp: kept_refs_def)
  qed
qed

text \<open>The thread of a signal that passes its checks.\<close>

lemma signal_thread_ok:
  assumes "signal_thread p mid = Inr (target, refs)"
  shows "signalMessageID mid = Inr target \<and> re_match signalMailbox (par_From p) \<and> re_match signalMailbox (par_To p) \<and>
    length (par_To p) \<le> 320 \<and> utf8_valid (par_Subject p) \<and> par_AccountScope p \<noteq> [] \<and>
    (\<exists>rs. signal_refs signalMessageID target (par_References p) = Inr rs \<and> kept_refs (rs @ [target]) refs)"
proof -
  have t: "signalMessageID mid = Inr target" using assms by (simp add: signal_thread_def split: sum.splits if_splits)
  then have "length target \<le> 998" using signalMessageID_result by blast
  then show ?thesis
    using assms t drop_refs_kept [of target] by (auto simp: signal_thread_def signalHeader_def split: sum.splits if_splits)
qed

section \<open>Mailboxes\<close>

lemma in_alnum: "in_cls alnum_cls c \<longleftrightarrow> (65 \<le> ord c \<and> ord c \<le> 90) \<or> (97 \<le> ord c \<and> ord c \<le> 122) \<or> (48 \<le> ord c \<and> ord c \<le> 57)"
  by (simp add: alnum_cls_def in_cls_simps)

lemma re_all_rupto: "re_all P (rupto n (RCls cls)) \<longleftrightarrow> n = 0 \<or> (\<forall>c. in_cls cls c \<longrightarrow> P c)"
  by (induction n) auto

lemma in_cls_append: "in_cls (a @ b) c \<longleftrightarrow> in_cls a c \<or> in_cls b c"
  by (simp add: in_cls_def)

lemma domain_chars:
  assumes "re_match mailbox_domain s"
  shows "s \<noteq> [] \<and> (\<forall>c \<in> set s. in_cls alnum_cls c \<or> c = CHR ''-'' \<or> c = CHR ''.'')"
proof -
  have "re_all (\<lambda>c. in_cls alnum_cls c \<or> c = CHR ''-'' \<or> c = CHR ''.'') mailbox_domain"
    by (auto simp: mailbox_domain_def label_re_def ropt_def rchr_def re_all_rupto in_cls_append in_cls_simps
        simp flip: of_char_eq_iff [where 'a = nat])
  moreover have "s \<noteq> []" using assms by (auto simp: mailbox_domain_def label_re_def re_match_lang)
  ultimately show ?thesis using assms re_all_lang [of _ mailbox_domain s] by (simp add: re_match_lang)
qed

lemma mailbox_parts:
  assumes "re_match signalMailbox a"
  shows "\<exists>l d. a = l @ CHR ''@'' # d \<and> CHR ''@'' \<notin> set l \<and> re_match mailbox_domain d \<and> ascii a"
proof -
  obtain l d where a: "a = l @ CHR ''@'' # d" "l \<in> lang mailbox_local" "d \<in> lang mailbox_domain"
    using assms by (auto simp: signalMailbox_def re_match_lang lang_rchr)
  have "re_all (\<lambda>c. c \<noteq> CHR ''@'' \<and> ord c < 128) mailbox_local"
    by (auto simp: mailbox_local_def rplus_def rchr_def atext_cls_def in_cls_append in_alnum in_cls_simps
        simp flip: of_char_eq_iff [where 'a = nat])
  then have l: "\<forall>c \<in> set l. c \<noteq> CHR ''@'' \<and> ord c < 128" using a(2) re_all_lang by blast
  have d: "\<forall>c \<in> set d. ord c < 128" using domain_chars [of d] a(3) by (auto simp: re_match_lang in_alnum)
  show ?thesis using a l d by (auto simp: re_match_lang ascii_def)
qed

lemma mailbox_split:
  assumes "re_match signalMailbox a"
  shows "\<exists>l d. split_on (CHR ''@'') a = [l, d] \<and> re_match mailbox_domain d \<and> CHR ''@'' \<notin> set d"
proof -
  obtain l d where a: "a = l @ CHR ''@'' # d" "CHR ''@'' \<notin> set l" "re_match mailbox_domain d"
    using mailbox_parts [OF assms] by blast
  have "CHR ''@'' \<notin> set d" using domain_chars [OF a(3)] by (auto simp: in_alnum)
  then show ?thesis using a by (simp add: split_on_append split_on_absent)
qed

end
