(* ===== verification/Signal_Content.thy ===== *)
theory Signal_Content
  imports Signals
begin

text \<open>
  Classifying the content of a received message (\<open>signal_content.go\<close>): whether it is only a
  signal, whose text says nothing beyond its envelope. The text a valid envelope stands for
  is recomputed and compared with the body of the message.
\<close>

record SignalContentPart =
  scp_Filename :: "string option"
  scp_ContentType :: "string option"

text \<open>The inventory's parts are \<open>None\<close> for a nil slice.\<close>

record SignalContentInventory =
  sci_Status :: string
  sci_Parts :: "SignalContentPart list option"

record SignalContentBodies =
  scb_Status :: string
  scb_Text :: "string option"
  scb_HTML :: "string option"

record SignalContentInput =
  sc_Inventory :: SignalContentInventory
  sc_Bodies :: SignalContentBodies
  sc_CanonicalPartBytes :: "string option"

record SignalContentResult =
  scr_Classification :: string
  scr_Reason :: string
  scr_Interaction :: "InteractionResult option"

definition signalEnvelopeKeys :: "string list" where
  "signalEnvelopeKeys = [''interaction_version'', ''interaction_id'', ''protocol'', ''protocol_version'', ''step'',
     ''step_id'', ''prev_step_id'', ''expires_at'', ''payload'']"

definition signalExpirySyntax :: re where
  "signalExpirySyntax = rseqs [rrep 4 (RCls digit_cls), rchr (CHR ''-''), rrep 2 (RCls digit_cls), rchr (CHR ''-''),
     rrep 2 (RCls digit_cls), rchr (CHR ''T''), rrep 2 (RCls digit_cls), rchr (CHR '':''), rrep 2 (RCls digit_cls),
     rchr (CHR '':''), rrep 2 (RCls digit_cls),
     ropt (RSeq (rchr (CHR ''.'')) (RSeq (RCls digit_cls) (rupto 8 (RCls digit_cls)))), rchr (CHR ''Z'')]"

text \<open>\<open>strings.Map\<close> over the runes: an invalid byte becomes U+FFFD.\<close>

definition signalASCIILower :: "string \<Rightarrow> string" where
  "signalASCIILower s = concat (map (\<lambda>r. encode_rune (if 65 \<le> r \<and> r \<le> 90 then r + 32 else r)) (runes s))"

definition signalExactKeys :: "(string \<times> gval) list \<Rightarrow> string list \<Rightarrow> string list \<Rightarrow> bool" where
  "signalExactKeys m required optional \<longleftrightarrow>
     list_all (\<lambda>k. obj_get m k \<noteq> None) required \<and>
     list_all (\<lambda>(k, _). k \<in> set required \<or> k \<in> set optional) m"

text \<open>The pattern has its six numbers in fixed positions.\<close>

definition signalUTCExpiry :: "gval option \<Rightarrow> bool" where
  "signalUTCExpiry v = (case v of
     Some (GString s) \<Rightarrow> re_match signalExpirySyntax s \<and>
       (let y = field_at 0 4 s; mo = field_at 5 2 s; d = field_at 8 2 s
        in 1970 \<le> y \<and> 1 \<le> mo \<and> mo \<le> 12 \<and> 1 \<le> d \<and> d \<le> days_in y mo \<and>
           field_at 11 2 s < 24 \<and> field_at 14 2 s < 60 \<and> field_at 17 2 s < 60)
   | _ \<Rightarrow> False)"

definition repeatStopNoticeText :: "string \<Rightarrow> string" where
  "repeatStopNoticeText reason =
     (if reason = [] then ''Stopped this repeating message.''
      else ''Stopped this repeating message. Reason: '' @ reason)"

text \<open>\<open>e[k] == nil\<close> for an interface value, which a missing key gives too.\<close>

definition is_nil :: "(string \<times> gval) list \<Rightarrow> string \<Rightarrow> bool" where
  "is_nil e k \<longleftrightarrow> (case obj_get e k of None \<Rightarrow> True | Some v \<Rightarrow> v = GNil)"

definition repeatStopFallback :: "(string \<times> gval) list \<Rightarrow> string option" where
  "repeatStopFallback e =
     (if obj_string e ''prev_step_id'' = None \<or> \<not> signalExactKeys e signalEnvelopeKeys [] \<or>
         obj_get e ''protocol_version'' \<noteq> Some (GFloat (F64 1 0)) \<or> obj_get e ''step'' \<noteq> Some (GString ''stop'') \<or>
         \<not> is_nil e ''expires_at'' then None
      else (case obj_map e ''payload'' of None \<Rightarrow> None | Some p \<Rightarrow>
        if \<not> signalExactKeys p [] [''reason''] then None
        else (case obj_get p ''reason'' of
            None \<Rightarrow> Some (repeatStopNoticeText [])
          | Some (GString reason) \<Rightarrow>
              if reason = [] \<or> 280 < utf16_len reason \<or> CHR 0x00 \<in> set reason then None
              else Some (repeatStopNoticeText reason)
          | Some _ \<Rightarrow> None)))"

definition signal_protocols :: "string list" where
  "signal_protocols = [''ack'', ''read'', ''working'', ''typing'']"

definition or_empty :: "string option \<Rightarrow> string" where
  "or_empty s = (case s of None \<Rightarrow> [] | Some x \<Rightarrow> x)"

text \<open>The text an ACK stands for.\<close>

definition ackFallback :: "(string \<times> gval) list \<Rightarrow> string option" where
  "ackFallback p = (case obj_string p ''status'' of None \<Rightarrow> None | Some status \<Rightarrow>
     if status \<notin> {''received'', ''will_process'', ''will_not_process''} then None
     else (case obj_get p ''note'' of
         None \<Rightarrow> Some (signalText ''ack'' status None)
       | Some (GString text) \<Rightarrow>
           if 2000 < utf16_len text \<or> CHR 0x00 \<in> set text then None else Some (signalText ''ack'' status (Some text))
       | Some _ \<Rightarrow> None))"

definition signalContentFallback :: "InteractionResult \<Rightarrow> string option" where
  "signalContentFallback result =
     (if ir_Status result \<noteq> ''valid'' then None
      else (let e = (case ir_Envelope result of None \<Rightarrow> [] | Some m \<Rightarrow> m); protocol = or_empty (obj_string e ''protocol'')
        in if protocol = ''repeat.stop'' then repeatStopFallback e
           else if \<not> signalExactKeys e signalEnvelopeKeys [] \<or>
             obj_get e ''protocol_version'' \<noteq> Some (GFloat (F64 1 0)) \<or> protocol \<notin> set signal_protocols \<or>
             obj_get e ''step'' \<noteq> Some (GString protocol) \<or> \<not> is_nil e ''prev_step_id'' \<or>
             fold_equal (hd (split_on (CHR ''@'') (or_empty (obj_string e ''interaction_id'')))) (or_empty (obj_string e ''step_id''))
           then None
           else if (if protocol \<in> {''working'', ''typing''} then \<not> signalUTCExpiry (obj_get e ''expires_at'')
                    else \<not> is_nil e ''expires_at'') then None
           else (case obj_map e ''payload'' of None \<Rightarrow> None | Some p \<Rightarrow>
             if \<not> signalExactKeys p (''subject_message_id'' # (if protocol = ''ack'' then [''status''] else []))
                 (if protocol = ''ack'' then [''note''] else []) then None
             else (case obj_string p ''subject_message_id'' of None \<Rightarrow> None | Some target \<Rightarrow>
               if signalMessageID target \<noteq> Inr target then None
               else if protocol \<noteq> ''ack'' then Some (signalText protocol [] None)
               else ackFallback p))))"

text \<open>\<open>strings.ReplaceAll(s, "\r\n", "\n")\<close>\<close>

fun unix_lines :: "string \<Rightarrow> string" where
  "unix_lines (c # d # s) = (if c = CHR 0x0D \<and> d = CHR 0x0A then CHR 0x0A # unix_lines s else c # unix_lines (d # s))"
| "unix_lines s = s"

text \<open>The text of the message says what the envelope stands for.\<close>

definition text_agrees :: "bool \<Rightarrow> string \<Rightarrow> string \<Rightarrow> bool" where
  "text_agrees optional actual expected \<longleftrightarrow>
     (let a = unix_lines actual; e = unix_lines expected
      in a = e \<or> a = e @ [CHR 0x0A] \<or> (optional \<and> (a = [] \<or> a = [CHR 0x0A])))"

definition ClassifySignalContent :: "SignalContentInput \<Rightarrow> SignalContentResult" where
  "ClassifySignalContent input =
     (let inventory = sc_Inventory input
      in (case (if sci_Status inventory \<noteq> ''complete'' then None else sci_Parts inventory) of
          None \<Rightarrow> \<lparr>scr_Classification = ''unavailable'', scr_Reason = ''inventory_unavailable'', scr_Interaction = None\<rparr>
        | Some parts \<Rightarrow>
            let canonical = filter (\<lambda>p. case scp_Filename p of None \<Rightarrow> False
                  | Some f \<Rightarrow> signalASCIILower f = ''interaction.json'') parts;
                interaction = map_option ParseInteractionEnvelope (sc_CanonicalPartBytes input);
                result = (\<lambda>c r i. \<lparr>scr_Classification = c, scr_Reason = r, scr_Interaction = i\<rparr>);
                mixed = (\<lambda>r. result ''mixed_or_unsupported'' r interaction)
            in if canonical = [] then result ''plain'' ''no_canonical_part'' None
               else if length canonical \<noteq> 1 then result ''mixed_or_unsupported'' ''duplicate_canonical_parts'' None
               else if length parts \<noteq> 1 then mixed ''additional_parts''
               else (case interaction of
                   None \<Rightarrow> result ''unavailable'' ''part_unavailable'' None
                 | Some i \<Rightarrow>
                     if scb_Status (sc_Bodies input) \<noteq> ''complete'' then result ''unavailable'' ''bodies_unavailable'' interaction
                     else if ir_Status i = ''invalid'' then mixed ''invalid_interaction''
                     else if (case scp_ContentType (hd canonical) of None \<Rightarrow> True | Some media \<Rightarrow>
                         signalASCIILower (trim_chars [CHR '' '', CHR 0x09] (hd (split_on (CHR '';'') media)))
                           \<noteq> ''application/json'') then mixed ''unsupported_content_type''
                     else (case signalContentFallback i of
                         None \<Rightarrow> mixed ''unsupported_signal''
                       | Some expected \<Rightarrow>
                           if or_empty (scb_HTML (sc_Bodies input)) \<noteq> [] then mixed ''html_present''
                           else if \<not> text_agrees
                               (obj_get (case ir_Envelope i of None \<Rightarrow> [] | Some m \<Rightarrow> m) ''protocol'' \<noteq> Some (GString ''repeat.stop''))
                               (or_empty (scb_Text (sc_Bodies input))) expected then mixed ''text_mismatch''
                           else result ''informational_only'' ''informational_signal'' interaction))))"

section \<open>Lower-case identifiers\<close>

lemma lower_ranges_high: "list_all (\<lambda>(lo, hi, stride, delta). 90 < int lo + delta) lower_ranges"
  by (simp add: lower_ranges_def)

lemma lower_rune_not_upper: "lower_rune r < 65 \<or> 90 < lower_rune r"
proof (cases "r < 128")
  case False
  show ?thesis
  proof (cases "find (\<lambda>(lo, hi, stride, delta). lo \<le> r \<and> r \<le> hi \<and> (r - lo) mod stride = 0) lower_ranges")
    case (Some x)
    obtain lo hi stride delta where x: "x = (lo, hi, stride, delta)" by (cases x) auto
    have m: "x \<in> set lower_ranges" "lo \<le> r" using find_SomeD [OF Some] by (auto simp: x)
    have "90 < int lo + delta" using m(1) lower_ranges_high by (auto simp: list_all_iff x)
    then show ?thesis using False Some m(2) by (auto simp: lower_rune_def x)
  qed (use False in \<open>auto simp: lower_rune_def\<close>)
qed (auto simp: lower_rune_def)

lemma to_lower_not_upper:
  assumes "c \<in> set (to_lower s)"
  shows "ord c < 65 \<or> 90 < ord c"
proof -
  obtain r where r: "c \<in> set (encode_rune (lower_rune r))" using assms by (auto simp: to_lower_def)
  show ?thesis
  proof (cases "lower_rune r < 128")
    case True
    then show ?thesis using r lower_rune_not_upper [of r] by (auto simp: encode_rune_ascii ord_chr)
  next
    case False
    then show ?thesis using encode_rune_bytes [of "lower_rune r" c] r by simp
  qed
qed

definition lower_uuid :: "string \<Rightarrow> bool" where
  "lower_uuid s \<longleftrightarrow> re_match (uuid_re hex_cls) s \<and> (\<forall>c \<in> set s. in_cls lower_hex_cls c \<or> c = CHR ''-'')"

lemma to_lower_uuid: "re_match signalUUID (to_lower s) \<Longrightarrow> lower_uuid (to_lower s)"
  using uuid_re_chars [of hex_cls "to_lower s"] to_lower_not_upper [of _ s]
  by (fastforce simp: lower_uuid_def signalUUID_def in_hex_cls in_lower_hex_cls)

lemma lower_uuid_ascii: "lower_uuid s \<Longrightarrow> ascii s \<and> CHR ''@'' \<notin> set s \<and> s \<noteq> []"
  using uuid_re_length [of hex_cls s] by (auto simp: lower_uuid_def ascii_def in_lower_hex_cls)

lemma lower_uuid_fold: "lower_uuid s \<Longrightarrow> map fold_rune (runes s) = map of_char s"
  using lower_uuid_ascii [of s]
  by (auto simp: runes_ascii lower_uuid_def in_lower_hex_cls fold_rune_def)

lemma lower_uuid_fold_equal: "lower_uuid a \<Longrightarrow> lower_uuid b \<Longrightarrow> fold_equal a b \<longleftrightarrow> a = b"
  using inj_map_eq_map [of "of_char :: char \<Rightarrow> nat" a b]
  by (auto simp: fold_equal_def lower_uuid_fold inj_def)

section \<open>The envelope of a prepared signal\<close>

definition signal_payload :: "string \<Rightarrow> string \<Rightarrow> string option \<Rightarrow> (string \<times> gval) list" where
  "signal_payload target status note = (''subject_message_id'', GString target) #
     (if status = [] then [] else [(''status'', GString status)]) @
     (case note of None \<Rightarrow> [] | Some n \<Rightarrow> [(''note'', GString n)])"

definition signal_members ::
    "string \<Rightarrow> string \<Rightarrow> string \<Rightarrow> int option \<Rightarrow> string \<Rightarrow> string \<Rightarrow> string option \<Rightarrow> (string \<times> gval) list" where
  "signal_members iid kind step expires target status note = [
     (''interaction_version'', GFloat (F64 1 0)), (''interaction_id'', GString iid), (''protocol'', GString kind),
     (''protocol_version'', GFloat (F64 1 0)), (''step'', GString kind), (''step_id'', GString step),
     (''prev_step_id'', GNil),
     (''expires_at'', case expires of None \<Rightarrow> GNil | Some e \<Rightarrow> GString (format_millis e)),
     (''payload'', GMap (signal_payload target status note))]"

lemma number_one [simp]: "interactionNumber (itoa 1) = Some (F64 1 0)" "to_any False (enc_int 1) = GFloat (F64 1 0)"
  using interactionNumber_itoa [of 1] interactionNumber_any [of "itoa 1" "F64 1 0"]
  by (simp_all add: f64_one enc_int_def del: to_any.simps)

lemma signal_envelope_any:
  "to_any False (signal_envelope iid kind step expires target status note) =
     GMap (signal_members iid kind step expires target status note)"
proof -
  have p: "to_any False (JObj ((''subject_message_id'', JStr target) #
        (if status = [] then [] else [(''status'', JStr status)]) @ omit_nil ''note'' JStr note)) =
      GMap (signal_payload target status note)"
    by (subst to_any_obj) (auto simp: omit_nil_def signal_payload_def split: option.splits)
  have e: "to_any False (enc_opt (JStr \<circ> format_millis) expires) =
      (case expires of None \<Rightarrow> GNil | Some e \<Rightarrow> GString (format_millis e))"
    by (simp add: enc_opt_def split: option.split)
  show ?thesis unfolding signal_envelope_def
    by (subst to_any_obj) (simp_all add: p e signal_members_def del: to_any.simps(6))
qed

lemma signal_envelope_strict: "strict_json 0 (signal_envelope iid kind step expires target status note)"
  by (auto simp: signal_envelope_def MaxInteractionDepth_def enc_int_def enc_opt_def omit_nil_def split: option.splits)

definition plain_text :: "string \<Rightarrow> bool" where "plain_text s \<longleftrightarrow> sanitize s = s"

lemma plain_ascii: "ascii s \<Longrightarrow> plain_text s"
  by (simp add: plain_text_def)

lemma plain_utf8: "utf8_valid s \<Longrightarrow> plain_text s"
  by (simp add: plain_text_def sanitize_valid)

lemma printable_str: "plain_text s \<Longrightarrow> printable n (JStr s)"
  by (simp add: printable_def plain_text_def)

lemma format_millis_ascii: "0 \<le> ms \<Longrightarrow> ms \<le> 253402300799999 \<Longrightarrow> ascii (format_millis ms)"
proof -
  have "re_all (\<lambda>c. ord c < 128) date_millis_re"
    by (simp add: date_millis_re_def eval_nat_numeral in_digit_cls rchr_def in_cls_simps)
  then show "0 \<le> ms \<Longrightarrow> ms \<le> 253402300799999 \<Longrightarrow> ascii (format_millis ms)"
    using format_millis_matches [of ms] re_all_lang by (fastforce simp: re_match_lang ascii_def)
qed

lemma signal_envelope_printable:
  assumes "ascii iid" "ascii kind" "ascii step" "\<And>e. expires = Some e \<Longrightarrow> 0 \<le> e \<and> e \<le> 253402300799999" "ascii target"
    "ascii status" "\<And>n. note = Some n \<Longrightarrow> utf8_valid n"
  shows "printable 2 (signal_envelope iid kind step expires target status note)"
proof -
  have s: "printable n (JStr x)" if "ascii x" for n x using that by (intro printable_str plain_ascii)
  have p: "printable (Suc 0) (JObj ((''subject_message_id'', JStr target) #
        (if status = [] then [] else [(''status'', JStr status)]) @ omit_nil ''note'' JStr note))"
    by (rule printable_obj) (use assms s printable_str plain_utf8 in \<open>auto simp: omit_nil_def split: if_splits option.splits\<close>)
  have e: "printable (Suc 0) (enc_opt (JStr \<circ> format_millis) expires)"
    using assms(4) s format_millis_ascii by (auto simp: enc_opt_def split: option.split)
  have "printable (Suc (Suc 0)) (signal_envelope iid kind step expires target status note)"
    unfolding signal_envelope_def
    by (rule printable_obj) (use assms s p e in auto)
  then show ?thesis by (simp add: numeral_2_eq_2)
qed

lemma no_space_domain:
  assumes "\<forall>c \<in> set d. in_cls alnum_cls c \<or> c = CHR ''-'' \<or> c = CHR ''.''"
  shows "\<not> has_space d"
proof -
  have "ascii d" using assms by (auto simp: ascii_def in_alnum)
  moreover have "ord c \<notin> set interactionSpace" if "c \<in> set d" for c
    using assms that by (auto simp: in_alnum interactionSpace_def)
  ultimately show ?thesis by (auto simp: has_space_def runes_ascii list_ex_iff)
qed

lemma wire_id_of:
  assumes "lower_uuid u" and "re_match mailbox_domain d" and "CHR ''@'' \<notin> set d"
  shows "interactionWireID (u @ ''@'' @ d) \<and> hd (split_on (CHR ''@'') (u @ ''@'' @ d)) = u"
proof -
  have u: "CHR ''@'' \<notin> set u" "re_match interactionUUID u"
    using assms(1) lower_uuid_ascii by (auto simp: lower_uuid_def interactionUUID_def)
  have d: "d \<noteq> []" "\<forall>c \<in> set d. in_cls alnum_cls c \<or> c = CHR ''-'' \<or> c = CHR ''.''" using domain_chars [OF assms(2)] by auto
  then have "\<not> has_space d" using no_space_domain by blast
  then show ?thesis using u d assms(3) by (simp add: interactionWireID_def split_on_append split_on_absent)
qed

lemma obj_get_Cons [simp]: "obj_get ((k, v) # m) x = (if k = x then Some v else obj_get m x)" "obj_get [] x = None"
  by (simp_all add: obj_get_def)

lemma signal_check:
  assumes "interactionWireID iid" and "kind \<in> set signal_protocols" and "lower_uuid step"
  shows "checkInteractionEnvelope (GMap (signal_members iid kind step expires target status note)) =
    InteractionResult_zero\<lparr>ir_Status := ''valid'', ir_Envelope := Some (signal_members iid kind step expires target status note)\<rparr>"
proof -
  have "whole_from_1 (F64 1 0) = Some 1" by (simp add: whole_from_1_def f64_whole_def)
  moreover have "\<not> blank kind" using assms(2) by (auto simp: signal_protocols_def blank_def interactionSpace_def)
  ultimately show ?thesis using assms(1,3)
    by (auto simp: checkInteractionEnvelope_def envelope_v1_ok_def signal_members_def obj_float_def obj_string_def
        lower_uuid_def interactionUUID_def split: option.split)
qed

lemma date_text_expiry:
  assumes "y < 10000" "mo < 100" "d < 100" "h < 100" "mi < 100" "s < 100" "f < 1000"
  shows "re_match signalExpirySyntax (date_text y mo d h mi s f)"
proof -
  have c: "[x] \<in> lang (rchr x)" for x by (simp add: lang_rchr)
  obtain a b e where f: "pad 3 f = [a, b, e]" "is_digit a" "is_digit b" "is_digit e"
    using pad_number [of f 3] assms(7) by (auto simp: numeral_3_eq_3 length_Suc_conv)
  have "[a] @ [b, e] \<in> lang (RSeq (RCls digit_cls) (rupto 8 (RCls digit_cls)))"
    by (intro lang_seqI) (use f in \<open>simp_all add: lang_upto_cls in_digit_cls is_digit_def del: rupto.simps\<close>)
  then have "''.'' @ pad 3 f \<in> lang (RSeq (rchr (CHR ''.'')) (RSeq (RCls digit_cls) (rupto 8 (RCls digit_cls))))"
    using f(1) by (intro lang_seqI c) simp
  then have o: "''.'' @ pad 3 f \<in> lang (ropt (RSeq (rchr (CHR ''.'')) (RSeq (RCls digit_cls) (rupto 8 (RCls digit_cls)))))"
    by (simp add: ropt_def)
  have "pad 4 y @ ''-'' @ pad 2 mo @ ''-'' @ pad 2 d @ ''T'' @ pad 2 h @ '':'' @ pad 2 mi @ '':'' @ pad 2 s @
      (''.'' @ pad 3 f) @ ''Z'' @ [] \<in> lang signalExpirySyntax"
    unfolding signalExpirySyntax_def rseqs.simps
    by (intro lang_seqI c pad_lang o) (use assms in simp_all)
  then show ?thesis by (simp add: re_match_lang date_text_def)
qed

lemma format_millis_expiry:
  assumes "0 \<le> ms" "ms \<le> 253402300799999"
  shows "signalUTCExpiry (Some (GString (format_millis ms)))"
proof -
  obtain y mo d h mi s f where t: "format_millis ms = date_text y mo d h mi s f" "1970 \<le> y" "y < 10000" "1 \<le> mo" "mo \<le> 12"
      "1 \<le> d" "d \<le> days_in y mo" "h < 24" "mi < 60" "s < 60" "f < 1000"
    using format_millis_fields [OF assms] by blast
  have "d < 100" using t(7) days_in_le [of y mo] by simp
  then show ?thesis
    using t date_text_fields [of y mo d h mi s f] date_text_expiry [of y mo d h mi s f] by (simp add: signalUTCExpiry_def)
qed

lemma signal_kind_ok:
  assumes "signal_kind i now = Inr (status, note, expires)"
  shows "sin_Kind i \<in> set signal_protocols \<and> ascii status \<and>
    signalText (sin_Kind i) (sin_Status i) (sin_Note i) = signalText (sin_Kind i) status note \<and>
    (sin_Kind i = ''ack'' \<longrightarrow> status \<in> {''received'', ''will_process'', ''will_not_process''} \<and> expires = None) \<and>
    (sin_Kind i \<noteq> ''ack'' \<longrightarrow> status = [] \<and> note = None) \<and> (sin_Kind i = ''read'' \<longrightarrow> expires = None) \<and>
    (sin_Kind i \<in> {''working'', ''typing''} \<longrightarrow> (\<exists>e. expires = Some e \<and> now < e \<and> e - now \<le> 60000)) \<and>
    (\<forall>e. expires = Some e \<longrightarrow> signalMilliseconds e) \<and>
    (\<forall>n. note = Some n \<longrightarrow> utf8_valid n \<and> utf16_len n \<le> 2000 \<and> CHR 0x00 \<notin> set n)"
proof -
  consider (ack) "sin_Kind i = ''ack''" | (read) "sin_Kind i = ''read''" | (busy) "sin_Kind i \<in> {''working'', ''typing''}"
    using assms by (auto simp: signal_kind_def split: if_splits)
  then show ?thesis
  proof cases
    case ack
    have st: "status = sin_Status i" "expires = None" "note = sin_Note i" "signalText ''ack'' (sin_Status i) None \<noteq> []"
      using assms ack by (cases "sin_Note i"; simp add: signal_kind_def split: if_splits)+
    have "\<forall>n. note = Some n \<longrightarrow> utf8_valid n \<and> utf16_len n \<le> 2000 \<and> CHR 0x00 \<notin> set n"
      using assms ack st by (cases "sin_Note i") (simp_all add: signal_kind_def split: if_splits)
    moreover have "status \<in> {''received'', ''will_process'', ''will_not_process''}"
      using st(1,4) by (auto simp: signalText_def ack_texts_def split: if_splits)
    ultimately show ?thesis using ack st by (auto simp: signal_protocols_def)
  next
    case read
    then show ?thesis using assms by (auto simp: signal_kind_def signal_protocols_def signalText_def)
  next
    case busy
    then have "signalText (sin_Kind i) s n = signalText (sin_Kind i) [] None" for s n by (auto simp: signalText_def)
    moreover have "status = [] \<and> note = None \<and> (\<exists>e. expires = Some e \<and> signalMilliseconds e \<and> now < e \<and> e - now \<le> 60000)"
    proof (cases "sin_ExpiresAtMs i")
      case (Some a)
      then have "signalMilliseconds a" "now < a" "a - now \<le> 60000" "status = []" "note = None" "expires = Some a"
        using assms busy by (simp_all add: signal_kind_def split: if_splits)
      then show ?thesis by blast
    qed (use assms busy in \<open>simp add: signal_kind_def split: if_splits\<close>)
    ultimately show ?thesis using busy by (auto simp: signal_protocols_def)
  qed
qed

lemma signal_fallback:
  assumes "signal_kind i now = Inr (status, note, expires)"
    and "lower_uuid u" "lower_uuid step" "u \<noteq> step" "hd (split_on (CHR ''@'') iid) = u" "signalMessageID target = Inr target"
    and "ir_Status r = ''valid''" "ir_Envelope r = Some (signal_members iid (sin_Kind i) step expires target status note)"
  shows "signalContentFallback r = Some (signalText (sin_Kind i) (sin_Status i) (sin_Note i))"
proof -
  note k = signal_kind_ok [OF assms(1)]
  have e: "\<not> fold_equal u step" using assms lower_uuid_fold_equal by blast
  have x: "signalUTCExpiry (case expires of None \<Rightarrow> Some GNil | Some e \<Rightarrow> Some (GString (format_millis e)))"
    if "sin_Kind i \<in> {''working'', ''typing''}"
    using k that format_millis_expiry by (auto simp: signalMilliseconds_def)
  consider "sin_Kind i = ''ack''" | "sin_Kind i \<noteq> ''ack''" by blast
  then show ?thesis
  proof cases
    case 1
    then show ?thesis using k e assms(5-8)
      by (auto simp: signalContentFallback_def signal_members_def signal_payload_def signalExactKeys_def signalEnvelopeKeys_def
          signal_protocols_def obj_string_def obj_map_def is_nil_def or_empty_def ackFallback_def split: option.splits)
  next
    case 2
    then show ?thesis using k e x assms(5-8)
      by (auto simp: signalContentFallback_def signal_members_def signal_payload_def signalExactKeys_def signalEnvelopeKeys_def
          signal_protocols_def obj_string_def obj_map_def is_nil_def or_empty_def signalText_def split: option.splits)
  qed
qed

lemma ascii_b64: "ascii (b64_encode s)"
proof -
  have "ord c < 128" if "is_b64 c" for c
    using that by (auto simp: is_b64_def b64_val_def Let_def split: if_splits)
  then show ?thesis using b64_encode_chars [of _ s] by (auto simp: ascii_def)
qed

lemma signal_body_printable:
  assumes "ascii sender" "ascii recipient" "utf8_valid subject" "utf8_valid text" "ascii target" "\<forall>r \<in> set refs. ascii r"
  shows "printable 3 (signal_body sender recipient subject text target refs encoded)"
proof -
  have s: "printable n (JStr x)" if "ascii x" for n x using that by (intro printable_str plain_ascii)
  have a: "printable (Suc (Suc 0)) (JArr [attachment_json encoded])"
    unfolding attachment_json_def
    by (rule printable_arr) (auto intro!: printable_obj s simp: ascii_b64)
  have r: "printable (Suc (Suc 0)) (JArr (map JStr refs))"
    by (rule printable_arr) (use assms(6) s in auto)
  have "printable (Suc (Suc (Suc 0))) (signal_body sender recipient subject text target refs encoded)"
    unfolding signal_body_def
    by (rule printable_obj) (use assms s a r printable_str plain_utf8 in auto)
  then show ?thesis by (simp add: numeral_3_eq_3)
qed

text \<open>Everything a prepared signal is made of.\<close>

lemma prepared_signal:
  assumes "PrepareSignalEmail i deps = Inr \<lparr>prep_Status = st, prep_Prepared = Some p\<rparr>"
  shows "\<exists>mid target refs now uuid status note expires u step encoded.
    par_MessageID (sin_Parent i) = Some mid \<and> signal_thread (sin_Parent i) mid = Inr (target, refs) \<and>
    dep_Now deps = Some now \<and> dep_UUID deps = Some uuid \<and> signalMilliseconds now \<and>
    signal_kind i now = Inr (status, note, expires) \<and> u = to_lower (uuid 0) \<and> step = to_lower (uuid 1) \<and>
    lower_uuid u \<and> lower_uuid step \<and> u \<noteq> step \<and>
    encoded = signalJSON (signal_envelope (u @ ''@'' @ split_on (CHR ''@'') (par_To (sin_Parent i)) ! 1) (sin_Kind i) step
      expires target status note) \<and> length encoded \<le> 65536 \<and> st = ''prepared'' \<and>
    p = \<lparr>ps_AccountScope = par_AccountScope (sin_Parent i), ps_PreparedAtMs = now, ps_ExpiresAtMs = expires,
      ps_IdempotencyKey = ''signal-'' @ step,
      ps_RequestJSON = signalJSON (signal_body (par_To (sin_Parent i)) (par_From (sin_Parent i)) (signal_subject (sin_Parent i))
        (signalText (sin_Kind i) (sin_Status i) (sin_Note i)) target refs encoded)\<rparr>"
proof -
  obtain mid target refs now uuid where t: "par_MessageID (sin_Parent i) = Some mid"
      "signal_thread (sin_Parent i) mid = Inr (target, refs)" "dep_Now deps = Some now" "dep_UUID deps = Some uuid"
      "signalMilliseconds now" "signal_build i target refs now uuid = Inr \<lparr>prep_Status = st, prep_Prepared = Some p\<rparr>"
    using assms by (auto simp: PrepareSignalEmail_def split: option.splits if_splits sum.splits)
  then show ?thesis
    by (auto simp: signal_build_def Let_def to_lower_uuid split: sum.splits if_splits)
qed

lemma prepared_refs:
  assumes "signal_thread p mid = Inr (target, refs)" and "r \<in> set refs"
  shows "signalMessageID r = Inr r \<and> ascii r"
proof -
  obtain rs where rs: "signalMessageID mid = Inr target" "signal_refs signalMessageID target (par_References p) = Inr rs"
      "kept_refs (rs @ [target]) refs" using signal_thread_ok [OF assms(1)] by blast
  obtain dropped where "rs @ [target] = dropped @ refs" using rs(3) by (auto simp: kept_refs_def)
  then have "r \<in> set (rs @ [target])" using assms(2) by (metis Un_iff set_append)
  then obtain v where "signalMessageID v = Inr r" using rs signal_refs_result [OF rs(2)] by auto
  then show ?thesis using signalMessageID_result by blast
qed

lemma signalASCIILower_ascii: "ascii s \<Longrightarrow> signalASCIILower s = map ascii_lower s"
  by (induction s) (auto simp: signalASCIILower_def ascii_lower_def encode_rune_ascii)

section \<open>The size of an envelope\<close>

lemma encode_rune_4_iff: "length (encode_rune r) = 4 \<Longrightarrow> 65536 \<le> r \<and> r \<le> 1114111"
  by (auto simp: encode_rune_def rune_error_def Let_def split: if_splits)

lemma rune_width:
  assumes "decode_rune s = (r, n)" and "s \<noteq> []"
  shows "n \<le> 3 * (if 65536 \<le> r \<and> r \<le> 1114111 then 2 else 1)"
proof (cases "(r, n) = (rune_error, 1)")
  case False
  have "take n s = encode_rune r" by (rule encode_decode_rune [OF assms(1) False assms(2)])
  moreover have "n \<le> length s" by (rule decode_rune_within [OF assms(1)])
  ultimately have n: "n = length (encode_rune r)" by (metis length_take min.absorb2)
  show ?thesis
  proof (cases "n = 4")
    case True
    then show ?thesis using encode_rune_4_iff [of r] n by simp
  next
    case False
    then show ?thesis using length_encode_rune [of r] n by (cases "65536 \<le> r \<and> r \<le> 1114111") auto
  qed
qed simp

lemma utf16_bytes: "length s \<le> 3 * utf16_len s"
proof (induction s rule: runes.induct)
  case (1 s)
  show ?case
  proof (cases "s = []")
    case False
    obtain r n where d: "decode_rune s = (r, n)" by fastforce
    have "length s \<le> n + length (drop n s)" by simp
    moreover have "length (drop n s) \<le> 3 * utf16_len (drop n s)" using 1 [OF False] d by simp
    moreover have "n \<le> 3 * (if 65536 \<le> r \<and> r \<le> 1114111 then 2 else 1)" by (rule rune_width [OF d False])
    moreover have "utf16_len s = (if 65536 \<le> r \<and> r \<le> 1114111 then 2 else 1) + utf16_len (drop n s)"
      by (simp add: utf16_len_def runes_step [OF False] d)
    ultimately show ?thesis by linarith
  qed simp
qed

lemma format_millis_length:
  assumes "0 \<le> ms" "ms \<le> 253402300799999"
  shows "length (format_millis ms) = 24"
proof -
  obtain y mo d h mi s f where t: "format_millis ms = date_text y mo d h mi s f" "y < 10000" "mo \<le> 12" "d \<le> days_in y mo"
      "h < 24" "mi < 60" "s < 60" "f < 1000"
    using format_millis_fields [OF assms] by blast
  have "d < 100" using t(4) days_in_le [of y mo] by simp
  then have "length (pad 4 y) = 4" "length (pad 2 mo) = 2" "length (pad 2 d) = 2" "length (pad 2 h) = 2"
    "length (pad 2 mi) = 2" "length (pad 2 s) = 2" "length (pad 3 f) = 3"
    using t pad_number by simp_all
  then show ?thesis by (simp add: t(1) date_text_def)
qed

lemma signal_envelope_length:
  assumes "length iid \<le> 400" "length kind \<le> 10" "length step \<le> 36" "length target \<le> 998" "length status \<le> 20"
    "\<And>n. note = Some n \<Longrightarrow> length n \<le> 6000" "\<And>e. expires = Some e \<Longrightarrow> 0 \<le> e \<and> e \<le> 253402300799999"
  shows "length (text_of html (signal_envelope iid kind step expires target status note)) \<le> 65536"
proof -
  have one: "text_bound (enc_int 1) = 1" by (simp add: enc_int_def itoa_def nat_str.simps)
  have ex: "text_bound (enc_opt (JStr \<circ> format_millis) expires) \<le> 146"
    using assms(7) format_millis_length by (cases expires) (simp_all add: enc_opt_def)
  have "text_bound (JObj ((''subject_message_id'', JStr target) # (if status = [] then [] else [(''status'', JStr status)]) @
      omit_nil ''note'' JStr note)) \<le> 42296"
    using assms(4-6) by (cases "note") (auto simp: omit_nil_def)
  then have "text_bound (signal_envelope iid kind step expires target status note) \<le> 65536"
    using assms(1-3) one ex unfolding signal_envelope_def
    by (subst text_bound.simps(6)) (simp del: text_bound.simps(6))
  then show ?thesis using text_of_length order_trans by blast
qed

section \<open>Properties\<close>

text \<open>
  C10. What is prepared as a signal is recognised as one. The prepared request is a document from the
  mailbox the parent was sent to, back to its sender, that carries the text of the signal and, in its one
  attachment, an envelope; a receiver who parses that attachment gets a valid envelope, and
  who classifies the message by it and by the text finds an informational signal only.
\<close>

theorem signal_recognised:
  assumes "PrepareSignalEmail i deps = Inr \<lparr>prep_Status = st, prep_Prepared = Some p\<rparr>"
  shows "\<exists>text target refs encoded.
    json_parse (ps_RequestJSON p) = Some (signal_body (par_To (sin_Parent i)) (par_From (sin_Parent i))
      (signal_subject (sin_Parent i)) text target refs encoded) \<and>
    ir_Status (ParseInteractionEnvelope encoded) = ''valid'' \<and>
    ClassifySignalContent \<lparr>
        sc_Inventory = \<lparr>sci_Status = ''complete'', sci_Parts = Some [\<lparr>scp_Filename = Some ''interaction.json'',
          scp_ContentType = Some ''application/json''\<rparr>]\<rparr>,
        sc_Bodies = \<lparr>scb_Status = ''complete'', scb_Text = Some text, scb_HTML = None\<rparr>,
        sc_CanonicalPartBytes = Some encoded\<rparr> =
      \<lparr>scr_Classification = ''informational_only'', scr_Reason = ''informational_signal'',
        scr_Interaction = Some (ParseInteractionEnvelope encoded)\<rparr>"
proof -
  let ?P = "sin_Parent i" and ?text = "signalText (sin_Kind i) (sin_Status i) (sin_Note i)"
  obtain mid target refs now uuid status nt expires u step encoded where
    p: "signal_thread ?P mid = Inr (target, refs)" "signal_kind i now = Inr (status, nt, expires)" "lower_uuid u"
      "lower_uuid step" "u \<noteq> step" "encoded = signalJSON (signal_envelope (u @ ''@'' @ split_on (CHR ''@'') (par_To ?P) ! 1)
        (sin_Kind i) step expires target status nt)" "length encoded \<le> 65536"
      "ps_RequestJSON p = signalJSON (signal_body (par_To ?P) (par_From ?P) (signal_subject ?P) ?text target refs encoded)"
    using prepared_signal [OF assms] by auto
  note th = signal_thread_ok [OF p(1)] and k = signal_kind_ok [OF p(2)]
  obtain l d where d: "split_on (CHR ''@'') (par_To ?P) = [l, d]" "re_match mailbox_domain d" "CHR ''@'' \<notin> set d"
    using mailbox_split th by blast
  define iid where "iid = u @ ''@'' @ d"
  have iid: "interactionWireID iid" "hd (split_on (CHR ''@'') iid) = u" using wire_id_of [OF p(3) d(2,3)] by (simp_all add: iid_def)
  have target: "signalMessageID target = Inr target" "ascii target" using th signalMessageID_result by blast+
  have enc: "encoded = text_of False (signal_envelope iid (sin_Kind i) step expires target status nt)"
    using p(6) d(1) by (simp add: iid_def signalJSON_def)
  have "ascii d" using domain_chars [OF d(2)] by (auto simp: ascii_def in_alnum)
  moreover have "ascii (sin_Kind i)" using k by (auto simp: signal_protocols_def)
  ultimately have "printable 2 (signal_envelope iid (sin_Kind i) step expires target status nt)"
    using k p(3,4) target by (intro signal_envelope_printable) (auto simp: iid_def lower_uuid_ascii signalMilliseconds_def)
  then have parsed: "ParseInteractionEnvelope encoded = with_source encoded (InteractionResult_zero\<lparr>ir_Status := ''valid'',
      ir_Envelope := Some (signal_members iid (sin_Kind i) step expires target status nt)\<rparr>)"
    using parse_printed [OF _ signal_envelope_strict] p(7) signal_check [OF iid(1), of "sin_Kind i" step] k p(4)
    by (simp add: enc MaxInteractionBytes_def signal_envelope_any)
  have fb: "signalContentFallback (ParseInteractionEnvelope encoded) = Some ?text"
    by (rule signal_fallback [OF p(2-5) iid(2) target(1)]) (simp_all add: parsed with_source_def)
  have "signalASCIILower ''interaction.json'' = ''interaction.json''" "signalASCIILower ''application/json'' = ''application/json''"
    by (simp_all add: signalASCIILower_ascii ascii_lower_def)
  moreover have "trim_chars [CHR '' '', CHR 0x09] (hd (split_on (CHR '';'') ''application/json'')) = ''application/json''"
    by (simp add: trim_chars_def)
  moreover have "sin_Kind i \<noteq> ''repeat.stop''" using k by (auto simp: signal_protocols_def)
  ultimately have cl: "ClassifySignalContent \<lparr>
        sc_Inventory = \<lparr>sci_Status = ''complete'', sci_Parts = Some [\<lparr>scp_Filename = Some ''interaction.json'',
          scp_ContentType = Some ''application/json''\<rparr>]\<rparr>,
        sc_Bodies = \<lparr>scb_Status = ''complete'', scb_Text = Some ?text, scb_HTML = None\<rparr>,
        sc_CanonicalPartBytes = Some encoded\<rparr> =
      \<lparr>scr_Classification = ''informational_only'', scr_Reason = ''informational_signal'',
        scr_Interaction = Some (ParseInteractionEnvelope encoded)\<rparr>"
    using fb by (simp add: ClassifySignalContent_def Let_def parsed with_source_def or_empty_def text_agrees_def signal_members_def)
  have "utf8_valid ?text"
    using k by (auto simp: signalText_def ack_texts_def intro!: utf8_valid_append split: option.splits)
  moreover have "utf8_valid (signal_subject ?P)" using th by (simp add: signal_subject_def)
  moreover have "ascii (par_From ?P)" "ascii (par_To ?P)" using th mailbox_parts by blast+
  ultimately have "printable 3 (signal_body (par_To ?P) (par_From ?P) (signal_subject ?P) ?text target refs encoded)"
    using target prepared_refs [OF p(1)] by (intro signal_body_printable) auto
  then have "json_parse (ps_RequestJSON p) = Some (signal_body (par_To ?P) (par_From ?P) (signal_subject ?P) ?text target refs encoded)"
    using json_parse_text [of _ False] by (simp add: p(8) signalJSON_def printable_def max_nesting_def)
  then show ?thesis using cl parsed by (intro exI conjI) (auto simp: with_source_def)
qed

lemma signal_prepared_when:
  assumes r: "par_MessageID (sin_Parent i) = Some mid" "signal_thread (sin_Parent i) mid = Inr thread"
    "dep_Now deps = Some now" "dep_UUID deps = Some uuid" "signalMilliseconds now" "signal_kind i now = Inr kind"
    "re_match signalUUID (to_lower (uuid 0))" "re_match signalUUID (to_lower (uuid 1))" "to_lower (uuid 0) \<noteq> to_lower (uuid 1)"
  shows "\<exists>p. PrepareSignalEmail i deps = Inr \<lparr>prep_Status = ''prepared'', prep_Prepared = Some p\<rparr>"
proof -
  obtain target refs status nt expires where t: "thread = (target, refs)" "kind = (status, nt, expires)"
    by (cases thread; cases kind) auto
  let ?to = "par_To (sin_Parent i)"
  note th = signal_thread_ok [OF r(2) [unfolded t]] and k = signal_kind_ok [OF r(6) [unfolded t]]
  have "mid \<noteq> []" using th by (auto simp: signalMessageID_def Let_def trim_chars_def signalWireID_def rplus_def has_prefix_def)
  have d: "length (split_on (CHR ''@'') ?to ! 1) \<le> length ?to"
  proof -
    obtain l d where "split_on (CHR ''@'') ?to = [l, d]" using th mailbox_split by blast
    then show ?thesis using arg_cong [OF join_split_on [of "CHR ''@''" ?to], of length] by simp
  qed
  have len: "length (to_lower (uuid 0)) = 36" "length (to_lower (uuid 1)) = 36"
    using r(7,8) uuid_re_length by (auto simp: signalUUID_def)
  have "length (text_of False (signal_envelope (to_lower (uuid 0) @ ''@'' @ split_on (CHR ''@'') ?to ! 1) (sin_Kind i)
      (to_lower (uuid 1)) expires target status nt)) \<le> 65536"
  proof (rule signal_envelope_length)
    show "length (to_lower (uuid 0) @ ''@'' @ split_on (CHR ''@'') ?to ! 1) \<le> 400"
      using th len d by simp
    show "length target \<le> 998" using th signalMessageID_result by blast
    fix n assume "nt = Some n"
    then show "length n \<le> 6000" using k utf16_bytes [of n] by auto
  next
    show "length status \<le> 20" using k by (cases "sin_Kind i = ''ack''") auto
  qed (use k len in \<open>auto simp: signal_protocols_def signalMilliseconds_def\<close>)
  then show ?thesis
    using r \<open>mid \<noteq> []\<close> by (simp add: t PrepareSignalEmail_def signal_build_def Let_def signalJSON_def)
qed

text \<open>
  C11. A signal is prepared exactly when its parent, kind and identifiers pass their checks.
  The limit of 64 KiB on the envelope is never what refuses one: the limits on the note,
  the target and the mailbox keep every envelope below it.
\<close>

theorem signal_prepared_iff:
  "(\<exists>p. PrepareSignalEmail i deps = Inr \<lparr>prep_Status = ''prepared'', prep_Prepared = Some p\<rparr>) =
   (\<exists>mid thread now uuid kind. par_MessageID (sin_Parent i) = Some mid \<and> signal_thread (sin_Parent i) mid = Inr thread \<and>
      dep_Now deps = Some now \<and> dep_UUID deps = Some uuid \<and> signalMilliseconds now \<and> signal_kind i now = Inr kind \<and>
      re_match signalUUID (to_lower (uuid 0)) \<and> re_match signalUUID (to_lower (uuid 1)) \<and>
      to_lower (uuid 0) \<noteq> to_lower (uuid 1))" (is "?L = ?R")
proof
  assume ?L
  then show ?R using prepared_signal by (fastforce simp: lower_uuid_def signalUUID_def)
next
  assume ?R
  then show ?L using signal_prepared_when by blast
qed

text \<open>
  The references of a prepared signal are the newest of the parent's that fit. They end
  with the message that is answered, which occurs once; there are at most 100 of them and
  at most 8,192 characters in the header; and the oldest ones were dropped only where one more would have
  been too many or too long.
\<close>

theorem signal_references_kept:
  assumes "PrepareSignalEmail i deps = Inr \<lparr>prep_Status = st, prep_Prepared = Some p\<rparr>"
  shows "\<exists>mid target rs refs text encoded.
    par_MessageID (sin_Parent i) = Some mid \<and> signalMessageID mid = Inr target \<and>
    signal_refs signalMessageID target (par_References (sin_Parent i)) = Inr rs \<and>
    ps_RequestJSON p = signalJSON (signal_body (par_To (sin_Parent i)) (par_From (sin_Parent i))
      (signal_subject (sin_Parent i)) text target refs encoded) \<and>
    kept_refs (rs @ [target]) refs \<and> target \<notin> set rs \<and> (\<forall>r \<in> set refs. signalMessageID r = Inr r)"
proof -
  obtain mid target refs body encoded where p: "par_MessageID (sin_Parent i) = Some mid"
      "signal_thread (sin_Parent i) mid = Inr (target, refs)"
      "ps_RequestJSON p = signalJSON (signal_body (par_To (sin_Parent i)) (par_From (sin_Parent i))
        (signal_subject (sin_Parent i)) body target refs encoded)"
    using prepared_signal [OF assms] by auto
  obtain rs where "signalMessageID mid = Inr target" "signal_refs signalMessageID target (par_References (sin_Parent i)) = Inr rs"
      "kept_refs (rs @ [target]) refs"
    using signal_thread_ok [OF p(2)] by blast
  then show ?thesis using p prepared_refs [OF p(2)] signal_refs_result by blast
qed

text \<open>
  C12. A prepared signal is sent at most once per call, with the saved request and key, for
  the account it was prepared for only, and never when it is stale: one that says its sender
  is working or typing is refused from its expiry on, so never sent 60 seconds after it was prepared or
  later, while an acknowledgement or a read receipt does not expire.
\<close>

theorem signal_sent_fresh:
  assumes "PrepareSignalEmail i deps = Inr \<lparr>prep_Status = st, prep_Prepared = Some p\<rparr>"
  shows "fst (SendPreparedSignal send p scope now) =
      (if scope = par_AccountScope (sin_Parent i) \<and> (\<exists>t. now = Some t \<and> signalMilliseconds t \<and>
          (sin_Kind i \<in> {''working'', ''typing''} \<longrightarrow> (\<exists>e. sin_ExpiresAtMs i = Some e \<and> t < e)))
       then [(ps_RequestJSON p, ps_IdempotencyKey p)] else []) \<and>
    (sin_Kind i \<in> {''working'', ''typing''} \<longrightarrow>
       (\<exists>e. sin_ExpiresAtMs i = Some e \<and> ps_PreparedAtMs p < e \<and> e \<le> ps_PreparedAtMs p + 60000))"
proof -
  obtain mid target refs now0 uuid status nt expires where
    p: "signal_thread (sin_Parent i) mid = Inr (target, refs)" "signal_kind i now0 = Inr (status, nt, expires)"
      "ps_AccountScope p = par_AccountScope (sin_Parent i)" "ps_PreparedAtMs p = now0" "ps_ExpiresAtMs p = expires"
    using prepared_signal [OF assms] by auto
  have scope: "par_AccountScope (sin_Parent i) \<noteq> []" using signal_thread_ok [OF p(1)] by blast
  have ex: "(sin_Kind i \<in> {''working'', ''typing''} \<longrightarrow> expires = sin_ExpiresAtMs i \<and>
      (\<exists>e. sin_ExpiresAtMs i = Some e \<and> now0 < e \<and> e \<le> now0 + 60000)) \<and>
      (sin_Kind i \<notin> {''working'', ''typing''} \<longrightarrow> expires = None)"
  proof (cases "sin_Kind i \<in> {''working'', ''typing''}")
    case True
    then show ?thesis using p(2) by (cases "sin_ExpiresAtMs i") (auto simp: signal_kind_def split: if_splits)
  next
    case False
    then have "sin_Kind i = ''ack'' \<or> sin_Kind i = ''read''"
      using signal_kind_ok [OF p(2)] by (auto simp: signal_protocols_def)
    then show ?thesis using False signal_kind_ok [OF p(2)] by auto
  qed
  then have fresh: "(case expires of None \<Rightarrow> False | Some e \<Rightarrow> e \<le> t) =
      (\<not> (sin_Kind i \<in> {''working'', ''typing''} \<longrightarrow> (\<exists>e. sin_ExpiresAtMs i = Some e \<and> t < e)))" for t
    by (cases "sin_Kind i \<in> {''working'', ''typing''}") auto
  show ?thesis
    using scope ex p(3-5) by (cases now) (simp_all add: SendPreparedSignal_def fresh)
qed

section \<open>An example\<close>

definition example_signal :: SignalInput where
  "example_signal = \<lparr>sin_Parent = \<lparr>par_AccountScope = ''a'', par_From = ''a@b'', par_To = ''c@d'', par_MessageID = Some ''m@x'',
     par_Subject = [], par_References = [''<r@x>'']\<rparr>, sin_Kind = ''typing'', sin_Status = [], sin_Note = None,
     sin_ExpiresAtMs = Some 31000\<rparr>"

definition example_uuid :: "nat \<Rightarrow> string" where
  "example_uuid n = (if n = 0 then ''00000000-0000-4000-8000-000000000001'' else ''00000000-0000-4000-8000-000000000002'')"

definition example_deps :: SignalDependencies where
  "example_deps = \<lparr>dep_UUID = Some example_uuid, dep_Now = Some 1000\<rparr>"

lemma example_thread: "signal_thread (sin_Parent example_signal) ''m@x'' = Inr (''<m@x>'', [''<r@x>'', ''<m@x>''])"
proof -
  have "signalMessageID ''m@x'' = Inr ''<m@x>''" "signalMessageID ''<r@x>'' = Inr ''<r@x>''"
    "re_match signalMailbox ''a@b''" "re_match signalMailbox ''c@d''" by code_simp+
  then show ?thesis by (simp add: signal_thread_def example_signal_def signalHeader_def refs_length_def)
qed

lemma example_prepared:
  "\<exists>p. PrepareSignalEmail example_signal example_deps = Inr \<lparr>prep_Status = ''prepared'', prep_Prepared = Some p\<rparr>"
proof -
  have "re_match signalUUID (to_lower (example_uuid 0))" "re_match signalUUID (to_lower (example_uuid 1))"
    "to_lower (example_uuid 0) \<noteq> to_lower (example_uuid 1)"
    unfolding example_uuid_def by (simp_all add: to_lower_ascii ascii_lower_def, code_simp+)
  moreover have "signal_kind example_signal 1000 = Inr ([], None, Some 31000)"
    by (simp add: signal_kind_def example_signal_def signalMilliseconds_def)
  moreover have "par_MessageID (sin_Parent example_signal) = Some ''m@x''" "dep_Now example_deps = Some 1000"
    "dep_UUID example_deps = Some example_uuid" "signalMilliseconds 1000"
    by (simp_all add: example_signal_def example_deps_def signalMilliseconds_def)
  ultimately show ?thesis using signal_prepared_when example_thread by blast
qed

theorem signal_recognised_witness:
  "\<exists>p text target refs encoded.
     PrepareSignalEmail example_signal example_deps = Inr \<lparr>prep_Status = ''prepared'', prep_Prepared = Some p\<rparr> \<and>
     json_parse (ps_RequestJSON p) = Some (signal_body ''c@d'' ''a@b'' ''Re: Your message'' text target refs encoded) \<and>
     ir_Status (ParseInteractionEnvelope encoded) = ''valid''"
proof -
  obtain p where p: "PrepareSignalEmail example_signal example_deps = Inr \<lparr>prep_Status = ''prepared'', prep_Prepared = Some p\<rparr>"
    using example_prepared by blast
  moreover have "par_To (sin_Parent example_signal) = ''c@d''" "par_From (sin_Parent example_signal) = ''a@b''"
    "signal_subject (sin_Parent example_signal) = ''Re: Your message''"
    by (simp_all add: example_signal_def signal_subject_def)
  ultimately show ?thesis using signal_recognised [OF p] by metis
qed

theorem signal_references_kept_witness:
  "\<exists>refs. kept_refs [''<r@x>'', ''<m@x>''] refs"
proof -
  obtain p where p: "PrepareSignalEmail example_signal example_deps = Inr \<lparr>prep_Status = ''prepared'', prep_Prepared = Some p\<rparr>"
    using example_prepared by blast
  have e: "par_MessageID (sin_Parent example_signal) = Some ''m@x''" "par_References (sin_Parent example_signal) = [''<r@x>'']"
    by (simp_all add: example_signal_def)
  have m: "signalMessageID ''m@x'' = Inr ''<m@x>''" "signalMessageID ''<r@x>'' = Inr ''<r@x>''" by code_simp+
  obtain mid target rs refs where r: "mid = ''m@x''" "signalMessageID mid = Inr target"
      "signal_refs signalMessageID target [''<r@x>''] = Inr rs" "kept_refs (rs @ [target]) refs"
    using signal_references_kept [OF p] e by auto
  then have "rs = [''<r@x>'']" "target = ''<m@x>''" using m by auto
  then show ?thesis using r by auto
qed

theorem signal_sent_fresh_witness:
  "\<exists>p. fst (SendPreparedSignal (\<lambda>_ _. Inr ()) p ''a'' (Some 30999) :: _ \<times> (unit send_error + unit SignalSendResult)) =
       [(ps_RequestJSON p, ps_IdempotencyKey p)] \<and>
     fst (SendPreparedSignal (\<lambda>_ _. Inr ()) p ''a'' (Some 31000) :: _ \<times> (unit send_error + unit SignalSendResult)) = []"
proof -
  obtain p where p: "PrepareSignalEmail example_signal example_deps = Inr \<lparr>prep_Status = ''prepared'', prep_Prepared = Some p\<rparr>"
    using example_prepared by blast
  have e: "par_AccountScope (sin_Parent example_signal) = ''a''" "sin_Kind example_signal = ''typing''"
    "sin_ExpiresAtMs example_signal = Some 31000"
    by (simp_all add: example_signal_def)
  note fresh = signal_sent_fresh [OF p, THEN conjunct1]
  show ?thesis
    using fresh [of "\<lambda>_ _. Inr ()" "''a''" "Some 30999"] fresh [of "\<lambda>_ _. Inr ()" "''a''" "Some 31000"]
    by (intro exI [of _ p]) (simp add: e signalMilliseconds_def)
qed

end
