(* ===== verification/Repeats.thy ===== *)
theory Repeats
  imports Signal_Content
begin

text \<open>
  Repeating sends (\<open>repeats.go\<close>): reading the payloads of \<open>repeat.tick/1\<close> and
  \<open>repeat.stop/1\<close> from an envelope, and the reason, the body and the command that stop a
  repeat. What \<open>fmt\<close> prints for a value is written out for strings, \<open>nil\<close> and integers; for any
  other value it is an argument, as is the result of \<open>int64\<close> outside its range, which Go
  leaves to the implementation.
\<close>

definition RepeatTickProtocol :: string where "RepeatTickProtocol = ''repeat.tick''"
definition RepeatStopProtocol :: string where "RepeatStopProtocol = ''repeat.stop''"
definition RepeatTickStep :: string where "RepeatTickStep = ''tick''"
definition RepeatStopStep :: string where "RepeatStopStep = ''stop''"
definition RepeatStopReasonMax :: nat where "RepeatStopReasonMax = 280"
definition RepeatEveryMinMinutes :: int where "RepeatEveryMinMinutes = 1"
definition RepeatEveryMaxMinutes :: int where "RepeatEveryMaxMinutes = 10080"
definition RepeatIdleMaxMinutes :: int where "RepeatIdleMaxMinutes = 10080"
definition repeatSafeInteger :: int where "repeatSafeInteger = 9007199254740991"

record RepeatTick =
  rt_RepeatID :: string
  rt_Sequence :: int
  rt_EveryMinutes :: int
  rt_OnlyIfRecipientIdleMinutes :: "int option"
  rt_StoppableByRecipient :: bool

record RepeatTickResult =
  rtr_Status :: string
  rtr_Tick :: "RepeatTick option"
  rtr_Reason :: string

record RepeatStop =
  rst_Reason :: "string option"

record RepeatStopResult =
  rsr_Status :: string
  rsr_Stop :: "RepeatStop option"
  rsr_Reason :: string

text \<open>\<open>fmt.Sprintf("%v", x)\<close> for an interface value that may be missing.\<close>

definition fmt_value :: "(gval \<Rightarrow> string) \<Rightarrow> gval option \<Rightarrow> string" where
  "fmt_value sprint v = (case v of None \<Rightarrow> ''<nil>'' | Some GNil \<Rightarrow> ''<nil>'' | Some (GString s) \<Rightarrow> s
     | Some (GInt n) \<Rightarrow> itoa n | Some x \<Rightarrow> sprint x)"

definition float_int64 :: "(f64 \<Rightarrow> int) \<Rightarrow> f64 \<Rightarrow> int" where
  "float_int64 outside x = (case f64_whole x of Some n \<Rightarrow> if is_int64 n then n else outside x | None \<Rightarrow> outside x)"

definition InteractionKind :: "(gval \<Rightarrow> string) \<Rightarrow> (f64 \<Rightarrow> int) \<Rightarrow> (string \<times> gval) list \<Rightarrow> string" where
  "InteractionKind sprint outside envelope =
     (let version = (case obj_get envelope ''protocol_version'' of
          Some (GFloat x) \<Rightarrow>
            (if f64_whole x \<noteq> None \<or> x = FInf True \<or> x = FInf False then Some (GInt (float_int64 outside x)) else Some (GFloat x))
        | v \<Rightarrow> v)
      in fmt_value sprint (obj_get envelope ''protocol'') @ ''/'' @ fmt_value sprint version)"

definition repeatInteger :: "gval option \<Rightarrow> int \<Rightarrow> int \<Rightarrow> int option" where
  "repeatInteger v low high = (case v of Some (GFloat x) \<Rightarrow>
       (case f64_whole x of Some n \<Rightarrow> if n < low \<or> high < n then None else Some n | None \<Rightarrow> None)
     | _ \<Rightarrow> None)"

definition repeatProtocol :: "(string \<times> gval) list \<Rightarrow> string \<Rightarrow> bool" where
  "repeatProtocol envelope protocol \<longleftrightarrow>
     obj_get envelope ''protocol'' = Some (GString protocol) \<and>
     obj_get envelope ''protocol_version'' = Some (GFloat (F64 1 0))"

definition obj_bool :: "(string \<times> gval) list \<Rightarrow> string \<Rightarrow> bool option" where
  "obj_bool m k = (case obj_get m k of Some (GBool b) \<Rightarrow> Some b | _ \<Rightarrow> None)"

definition tick_result :: "string \<Rightarrow> RepeatTick option \<Rightarrow> string \<Rightarrow> RepeatTickResult" where
  "tick_result status tick reason = \<lparr>rtr_Status = status, rtr_Tick = tick, rtr_Reason = reason\<rparr>"

definition stop_result :: "string \<Rightarrow> RepeatStop option \<Rightarrow> string \<Rightarrow> RepeatStopResult" where
  "stop_result status stop reason = \<lparr>rsr_Status = status, rsr_Stop = stop, rsr_Reason = reason\<rparr>"

text \<open>The idle minutes: absent is an error, \<open>null\<close> is none.\<close>

definition tick_idle :: "(string \<times> gval) list \<Rightarrow> int option option" where
  "tick_idle payload = (case obj_get payload ''only_if_recipient_idle_minutes'' of
       None \<Rightarrow> None
     | Some GNil \<Rightarrow> Some None
     | Some v \<Rightarrow> map_option Some (repeatInteger (Some v) 1 RepeatIdleMaxMinutes))"

definition read_tick :: "(string \<times> gval) list \<Rightarrow> RepeatTick option" where
  "read_tick payload =
     (case (obj_string payload ''repeat_id'', repeatInteger (obj_get payload ''sequence'') 1 repeatSafeInteger,
            repeatInteger (obj_get payload ''every_minutes'') RepeatEveryMinMinutes RepeatEveryMaxMinutes,
            tick_idle payload, obj_bool payload ''stoppable_by_recipient'') of
        (Some rid, Some sequence, Some every, Some idle, Some can_stop) \<Rightarrow>
          if re_match interactionUUID rid then
            Some \<lparr>rt_RepeatID = to_lower rid, rt_Sequence = sequence, rt_EveryMinutes = every,
              rt_OnlyIfRecipientIdleMinutes = idle, rt_StoppableByRecipient = can_stop\<rparr>
          else None
      | _ \<Rightarrow> None)"

definition ReadRepeatTick :: "(string \<times> gval) list \<Rightarrow> RepeatTickResult" where
  "ReadRepeatTick envelope =
     (if \<not> repeatProtocol envelope RepeatTickProtocol then tick_result ''other'' None []
      else if obj_get envelope ''step'' \<noteq> Some (GString RepeatTickStep) then tick_result ''invalid'' None ''invalid_step''
      else (case Option.bind (obj_map envelope ''payload'') read_tick of
          None \<Rightarrow> tick_result ''invalid'' None ''invalid_payload''
        | Some tick \<Rightarrow> tick_result ''valid'' (Some tick) []))"

definition parsed_envelope :: "InteractionResult \<Rightarrow> (string \<times> gval) list" where
  "parsed_envelope r = (case ir_Envelope r of None \<Rightarrow> [] | Some m \<Rightarrow> m)"

definition ParseRepeatTick :: "string \<Rightarrow> RepeatTickResult" where
  "ParseRepeatTick source =
     (let parsed = ParseInteractionEnvelope source
      in if ir_Status parsed \<noteq> ''valid'' then tick_result ''invalid'' None ''invalid_envelope''
         else ReadRepeatTick (parsed_envelope parsed))"

definition ReadRepeatStop :: "(string \<times> gval) list \<Rightarrow> RepeatStopResult" where
  "ReadRepeatStop envelope =
     (if \<not> repeatProtocol envelope RepeatStopProtocol then stop_result ''other'' None []
      else if obj_get envelope ''step'' \<noteq> Some (GString RepeatStopStep) then stop_result ''invalid'' None ''invalid_step''
      else (case obj_map envelope ''payload'' of None \<Rightarrow> stop_result ''invalid'' None ''invalid_payload'' | Some payload \<Rightarrow>
        if is_nil payload ''reason'' then stop_result ''valid'' (Some \<lparr>rst_Reason = None\<rparr>) []
        else (case obj_string payload ''reason'' of None \<Rightarrow> stop_result ''invalid'' None ''invalid_payload'' | Some reason \<Rightarrow>
          if reason = [] \<or> RepeatStopReasonMax < utf16_len reason then stop_result ''invalid'' None ''invalid_payload''
          else stop_result ''valid'' (Some \<lparr>rst_Reason = Some reason\<rparr>) [])))"

definition ParseRepeatStop :: "string \<Rightarrow> RepeatStopResult" where
  "ParseRepeatStop source =
     (let parsed = ParseInteractionEnvelope source
      in if ir_Status parsed \<noteq> ''valid'' then stop_result ''invalid'' None ''invalid_envelope''
         else ReadRepeatStop (parsed_envelope parsed))"

definition NormalizeRepeatStopReason :: "string \<Rightarrow> string + string" where
  "NormalizeRepeatStopReason reason =
     (let trimmed = trim_chars [CHR '' '', CHR 0x09, CHR 0x0D, CHR 0x0A] reason
      in if \<not> utf8_valid trimmed then Inl ''reason must be valid Unicode text''
         else if list_ex (\<lambda>c. c < 32 \<or> c = 127) (runes trimmed) then
           Inl ''reason must be one line without control characters''
         else if RepeatStopReasonMax < utf16_len trimmed then
           Inl (''reason must be at most '' @ itoa (int RepeatStopReasonMax) @ '' characters'')
         else Inr trimmed)"

definition BuildRepeatStopBody :: "string \<Rightarrow> string + (string \<times> string) list" where
  "BuildRepeatStopBody reason = (case NormalizeRepeatStopReason reason of Inl e \<Rightarrow> Inl e
     | Inr normalized \<Rightarrow> Inr (if normalized = [] then [] else [(''reason'', normalized)]))"

definition RepeatStopCommand :: "string \<Rightarrow> string + string" where
  "RepeatStopCommand emailID =
     (if \<not> re_match interactionUUID emailID then Inl ''emailID must be an email UUID''
      else Inr (''primitive repeat stop --id '' @ to_lower emailID))"

section \<open>Reading a tick\<close>

lemma repeatInteger_range: "repeatInteger v low high = Some n \<Longrightarrow> low \<le> n \<and> n \<le> high"
  by (auto simp: repeatInteger_def split: option.splits gval.splits if_splits)

lemma to_lower_keeps_uuid:
  assumes "re_match interactionUUID s"
  shows "lower_uuid (to_lower s)"
proof -
  have c: "in_cls hex_cls c \<or> c = CHR ''-''" if "c \<in> set s" for c
    using uuid_re_chars assms that by (auto simp: interactionUUID_def)
  have "ord x < 128" if "x \<in> set s" for x using c [OF that] by (auto simp: in_hex_cls)
  then have "ascii s" by (simp add: ascii_def)
  then have l: "to_lower s = map ascii_lower s" by (rule to_lower_ascii)
  have cls: "in_cls hex_cls c \<Longrightarrow> in_cls hex_cls (ascii_lower c)" for c
    by (auto simp: in_hex_cls ord_ascii_lower)
  have rep: "u \<in> lang (rrep n (RCls hex_cls)) \<Longrightarrow> map ascii_lower u \<in> lang (rrep n (RCls hex_cls))" for u n
    using cls by (auto simp: lang_rep_cls)
  have dash: "ascii_lower CHR ''-'' = CHR ''-''" by (simp add: ascii_lower_def)
  have "map ascii_lower s \<in> lang (uuid_re hex_cls)"
  proof -
    have "\<exists>a b c d e. s = a @ ''-'' @ b @ ''-'' @ c @ ''-'' @ d @ ''-'' @ e \<and> a \<in> lang (rrep 8 (RCls hex_cls)) \<and>
        b \<in> lang (rrep 4 (RCls hex_cls)) \<and> c \<in> lang (rrep 4 (RCls hex_cls)) \<and> d \<in> lang (rrep 4 (RCls hex_cls)) \<and>
        e \<in> lang (rrep 12 (RCls hex_cls))"
      using assms unfolding interactionUUID_def uuid_re_def re_match_lang rseqs.simps
      by (simp only: lang_seq lang_rchr lang_one) (metis append_Nil2)
    then obtain a b c d e where s: "s = a @ ''-'' @ b @ ''-'' @ c @ ''-'' @ d @ ''-'' @ e"
        and m: "a \<in> lang (rrep 8 (RCls hex_cls))" "b \<in> lang (rrep 4 (RCls hex_cls))" "c \<in> lang (rrep 4 (RCls hex_cls))"
          "d \<in> lang (rrep 4 (RCls hex_cls))" "e \<in> lang (rrep 12 (RCls hex_cls))" by blast
    have "map ascii_lower s = map ascii_lower a @ ''-'' @ map ascii_lower b @ ''-'' @ map ascii_lower c @ ''-'' @
        map ascii_lower d @ ''-'' @ map ascii_lower e @ []" by (simp add: s dash)
    also have "\<dots> \<in> lang (uuid_re hex_cls)"
      unfolding uuid_re_def rseqs.simps
      by (intro lang_seqI rep m) (simp_all add: lang_rchr)
    finally show ?thesis .
  qed
  then show ?thesis using to_lower_uuid [of s] by (simp add: signalUUID_def re_match_lang l)
qed

section \<open>Stop reasons\<close>

lemma encode_rune_NUL: "CHR 0x00 \<in> set (encode_rune r) \<Longrightarrow> r = 0"
  using encode_rune_bytes [of r "CHR 0x00"] ord_chr [of r] by (cases "r < 128") (auto simp: encode_rune_ascii dest: arg_cong [of _ _ ord])

lemma NUL_rune:
  assumes "utf8_valid s" and "CHR 0x00 \<in> set s"
  shows "0 \<in> set (runes s)"
proof -
  have "CHR 0x00 \<in> set (concat (map encode_rune (runes s)))"
    using assms sanitize_valid [of s] by (simp add: sanitize_def)
  then show ?thesis using encode_rune_NUL by auto
qed

text \<open>A reason that was normalised: what every reader of a stop asks of it.\<close>

definition stop_reason_ok :: "string \<Rightarrow> bool" where
  "stop_reason_ok r \<longleftrightarrow> utf8_valid r \<and> utf16_len r \<le> 280 \<and> CHR 0x00 \<notin> set r \<and>
     NormalizeRepeatStopReason r = Inr r"

lemma trim_chars_idem: "trim_chars cs (trim_chars cs s) = trim_chars cs s"
proof -
  let ?P = "\<lambda>x. x \<in> set cs"
  define t where "t = dropWhile ?P s"
  have s: "trim_chars cs s = rev (dropWhile ?P (rev t))" by (simp add: trim_chars_def t_def)
  have "\<exists>u. t = rev (dropWhile ?P (rev t)) @ u"
    by (metis rev_append rev_rev_ident takeWhile_dropWhile_id)
  then obtain u where u: "t = rev (dropWhile ?P (rev t)) @ u" by blast
  have "dropWhile ?P (rev (dropWhile ?P (rev t))) = rev (dropWhile ?P (rev t))"
  proof (cases "rev (dropWhile ?P (rev t))")
    case (Cons x xs)
    then have "hd t = x" "t \<noteq> []" using u by (metis append_Cons list.sel(1), auto)
    then have "\<not> ?P x" using hd_dropWhile [of ?P s] by (simp add: t_def)
    then show ?thesis by (simp add: Cons)
  next
    case Nil
    then show ?thesis by (simp only: dropWhile.simps)
  qed
  moreover have "dropWhile ?P (dropWhile ?P (rev t)) = dropWhile ?P (rev t)" by (rule dropWhile_idem)
  ultimately show ?thesis unfolding s by (simp add: trim_chars_def)
qed

lemma normalised_reason:
  assumes "NormalizeRepeatStopReason reason = Inr r"
  shows "stop_reason_ok r"
proof -
  let ?t = "trim_chars [CHR '' '', CHR 0x09, CHR 0x0D, CHR 0x0A] reason"
  have t: "r = ?t" "utf8_valid ?t" "\<not> list_ex (\<lambda>c. c < 32 \<or> c = 127) (runes ?t)" "utf16_len ?t \<le> 280"
    using assms by (auto simp: NormalizeRepeatStopReason_def Let_def RepeatStopReasonMax_def split: if_splits)
  moreover have "CHR 0x00 \<notin> set ?t" using NUL_rune [of ?t] t(2,3) by (force simp: list_ex_iff)
  moreover have "trim_chars [CHR '' '', CHR 0x09, CHR 0x0D, CHR 0x0A] ?t = ?t" by (rule trim_chars_idem)
  ultimately show ?thesis by (simp add: stop_reason_ok_def NormalizeRepeatStopReason_def Let_def RepeatStopReasonMax_def)
qed

section \<open>Properties\<close>

text \<open>
  A tick that parses as valid is well formed: its id is a UUID in lower case, its sequence
  number a positive integer that is exact, its interval one minute to a week, and the idle time,
  when there is one, one minute to a week. The source it was read from is a valid envelope
  of the tick protocol.
\<close>

theorem repeat_tick_bounds:
  assumes "ParseRepeatTick source = tick_result status (Some tick) reason"
  shows "status = ''valid'' \<and> lower_uuid (rt_RepeatID tick) \<and> 1 \<le> rt_Sequence tick \<and> rt_Sequence tick \<le> 2 ^ 53 - 1 \<and>
    1 \<le> rt_EveryMinutes tick \<and> rt_EveryMinutes tick \<le> 7 * 24 * 60 \<and>
    (\<forall>m. rt_OnlyIfRecipientIdleMinutes tick = Some m \<longrightarrow> 1 \<le> m \<and> m \<le> 7 * 24 * 60) \<and>
    ir_Status (ParseInteractionEnvelope source) = ''valid'' \<and>
    repeatProtocol (parsed_envelope (ParseInteractionEnvelope source)) RepeatTickProtocol"
proof -
  let ?e = "parsed_envelope (ParseInteractionEnvelope source)"
  obtain payload where r: "ir_Status (ParseInteractionEnvelope source) = ''valid''" "repeatProtocol ?e RepeatTickProtocol"
      "read_tick payload = Some tick" "status = ''valid''"
    using assms by (auto simp: ParseRepeatTick_def ReadRepeatTick_def tick_result_def Let_def
        split: if_splits option.splits bind_splits)
  obtain rid sequence every idle can_stop where t:
      "repeatInteger (obj_get payload ''sequence'') 1 repeatSafeInteger = Some sequence"
      "repeatInteger (obj_get payload ''every_minutes'') RepeatEveryMinMinutes RepeatEveryMaxMinutes = Some every"
      "tick_idle payload = Some idle" "re_match interactionUUID rid"
      "tick = \<lparr>rt_RepeatID = to_lower rid, rt_Sequence = sequence, rt_EveryMinutes = every,
         rt_OnlyIfRecipientIdleMinutes = idle, rt_StoppableByRecipient = can_stop\<rparr>"
    using r(3) by (auto simp: read_tick_def split: option.splits if_splits)
  have "1 \<le> m \<and> m \<le> 10080" if "idle = Some m" for m
    using t(3) that repeatInteger_range [of _ 1 RepeatIdleMaxMinutes m]
    by (auto simp: tick_idle_def RepeatIdleMaxMinutes_def split: option.splits gval.splits)
  then show ?thesis
    using r repeatInteger_range [OF t(1)] repeatInteger_range [OF t(2)] to_lower_keeps_uuid [OF t(4)]
    by (simp add: t(5) repeatSafeInteger_def RepeatEveryMinMinutes_def RepeatEveryMaxMinutes_def)
qed

text \<open>
  C13. What the recipient may say when stopping a repeat is understood on the other side. A
  reason that the request body is built from is normalised once and for all, and a
  \<open>repeat.stop/1\<close> envelope that carries the body as its payload is read as a stop for that
  reason, and stands for the notice with that reason where content is classified.
\<close>

theorem stop_reason_understood:
  assumes "BuildRepeatStopBody reason = Inr body"
    and "repeatProtocol e RepeatStopProtocol" and "obj_get e ''step'' = Some (GString RepeatStopStep)"
    and "obj_get e ''payload'' = Some (GMap (map (\<lambda>(k, v). (k, GString v)) body))"
  shows "\<exists>r. body = (if r = [] then [] else [(''reason'', r)]) \<and> BuildRepeatStopBody r = Inr body \<and>
    ReadRepeatStop e = stop_result ''valid'' (Some \<lparr>rst_Reason = if r = [] then None else Some r\<rparr>) [] \<and>
    (signalExactKeys e signalEnvelopeKeys [] \<and> obj_string e ''prev_step_id'' \<noteq> None \<and> is_nil e ''expires_at'' \<longrightarrow>
       repeatStopFallback e = Some (repeatStopNoticeText r))"
proof -
  obtain r where n: "NormalizeRepeatStopReason reason = Inr r" "body = (if r = [] then [] else [(''reason'', r)])"
    using assms(1) by (auto simp: BuildRepeatStopBody_def split: sum.splits)
  note ok = normalised_reason [OF n(1), unfolded stop_reason_ok_def]
  have p: "obj_map e ''payload'' = Some (map (\<lambda>(k, v). (k, GString v)) body)"
    using assms(4) by (simp add: obj_map_def)
  have "ReadRepeatStop e = stop_result ''valid'' (Some \<lparr>rst_Reason = if r = [] then None else Some r\<rparr>) []"
    using assms(2,3) ok by (simp add: ReadRepeatStop_def p n(2) is_nil_def obj_string_def RepeatStopReasonMax_def)
  moreover have "BuildRepeatStopBody r = Inr body" using ok by (simp add: BuildRepeatStopBody_def n(2))
  moreover have "repeatStopFallback e = Some (repeatStopNoticeText r)"
    if "signalExactKeys e signalEnvelopeKeys []" "obj_string e ''prev_step_id'' \<noteq> None" "is_nil e ''expires_at''"
    using that assms(2,3) ok
    by (auto simp: repeatStopFallback_def p n(2) repeatProtocol_def RepeatStopStep_def signalExactKeys_def [of "[]"]
        signalExactKeys_def [of "[x]" for x])
  ultimately show ?thesis using n(2) by blast
qed

text \<open>
  The command that stops a repeat is safe to hand to a shell: it is built exactly for an
  email id that is a UUID, and is a fixed text followed by that UUID in lower case, so every
  character of it is a lower-case letter, a digit, a dash or a space.
\<close>

theorem stop_command_safe:
  assumes "RepeatStopCommand emailID = Inr command"
  shows "\<exists>u. command = ''primitive repeat stop --id '' @ u \<and> lower_uuid u \<and>
    (\<forall>c \<in> set command. in_cls [(CHR ''a'', CHR ''z''), (CHR ''0'', CHR ''9'')] c \<or> c = CHR ''-'' \<or> c = CHR '' '')"
proof -
  have u: "lower_uuid (to_lower emailID)" "command = ''primitive repeat stop --id '' @ to_lower emailID"
    using assms to_lower_keeps_uuid [of emailID] by (auto simp: RepeatStopCommand_def split: if_splits)
  then have "\<forall>c \<in> set (to_lower emailID). in_cls [(CHR ''a'', CHR ''z''), (CHR ''0'', CHR ''9'')] c \<or> c = CHR ''-''"
    by (auto simp: lower_uuid_def in_lower_hex_cls in_cls_simps)
  then show ?thesis using u by (auto simp: in_cls_simps)
qed

section \<open>Examples\<close>

definition example_tick_payload :: json where
  "example_tick_payload = JObj [(''repeat_id'', JStr ''0000000A-0000-4000-8000-000000000003''), (''sequence'', enc_int 1),
     (''every_minutes'', enc_int 1), (''only_if_recipient_idle_minutes'', JNull), (''stoppable_by_recipient'', JBool True)]"

definition example_tick_doc :: json where
  "example_tick_doc = JObj [(''interaction_version'', enc_int 1),
     (''interaction_id'', JStr ''00000000-0000-4000-8000-000000000001@x''), (''protocol'', JStr ''repeat.tick''),
     (''protocol_version'', enc_int 1), (''step'', JStr ''tick''), (''step_id'', JStr ''00000000-0000-4000-8000-000000000002''),
     (''prev_step_id'', JNull), (''expires_at'', JNull), (''payload'', example_tick_payload)]"

definition example_tick_payload_map :: "(string \<times> gval) list" where
  "example_tick_payload_map = [(''repeat_id'', GString ''0000000A-0000-4000-8000-000000000003''), (''sequence'', GFloat (F64 1 0)),
     (''every_minutes'', GFloat (F64 1 0)), (''only_if_recipient_idle_minutes'', GNil), (''stoppable_by_recipient'', GBool True)]"

definition example_tick_map :: "(string \<times> gval) list" where
  "example_tick_map = [(''interaction_version'', GFloat (F64 1 0)),
     (''interaction_id'', GString ''00000000-0000-4000-8000-000000000001@x''), (''protocol'', GString ''repeat.tick''),
     (''protocol_version'', GFloat (F64 1 0)), (''step'', GString ''tick''), (''step_id'', GString ''00000000-0000-4000-8000-000000000002''),
     (''prev_step_id'', GNil), (''expires_at'', GNil), (''payload'', GMap example_tick_payload_map)]"

lemma example_tick_any: "to_any False example_tick_doc = GMap example_tick_map"
proof -
  have p: "to_any False example_tick_payload = GMap example_tick_payload_map"
    unfolding example_tick_payload_def example_tick_payload_map_def
    by (subst to_any_obj) (simp_all del: to_any.simps(6))
  show ?thesis unfolding example_tick_doc_def example_tick_map_def
    by (subst to_any_obj) (simp_all add: p del: to_any.simps(6))
qed

lemma example_tick_parses:
  "ParseInteractionEnvelope (text_of True example_tick_doc) = with_source (text_of True example_tick_doc)
     (InteractionResult_zero\<lparr>ir_Status := ''valid'', ir_Envelope := Some example_tick_map\<rparr>)"
proof -
  have s: "printable n (JStr x)" if "ascii x" for n x using that by (intro printable_str plain_ascii)
  have p: "printable (Suc 0) example_tick_payload"
    unfolding example_tick_payload_def by (rule printable_obj) (auto intro: s)
  have pr: "printable (Suc (Suc 0)) example_tick_doc"
    unfolding example_tick_doc_def by (rule printable_obj) (auto intro: s p)
  have st: "strict_json 0 example_tick_doc"
    by (simp add: example_tick_doc_def example_tick_payload_def MaxInteractionDepth_def enc_int_def)
  have "text_bound (enc_int 1) = 1" by (simp add: enc_int_def itoa_def nat_str.simps)
  then have "text_bound example_tick_doc \<le> 65536"
    by (simp add: example_tick_doc_def example_tick_payload_def)
  then have len: "length (text_of True example_tick_doc) \<le> MaxInteractionBytes"
    using text_of_length [of True example_tick_doc] by (simp add: MaxInteractionBytes_def)
  have u: "re_match interactionUUID ''00000000-0000-4000-8000-000000000001''"
    "re_match interactionUUID ''00000000-0000-4000-8000-000000000002''" by code_simp+
  then have w: "interactionWireID ''00000000-0000-4000-8000-000000000001@x''"
    by (simp add: interactionWireID_def has_space_def interactionSpace_def)
  have "whole_from_1 (F64 1 0) = Some 1" by (simp add: whole_from_1_def f64_whole_def)
  moreover have "\<not> blank ''repeat.tick''" "\<not> blank ''tick''" by (simp_all add: blank_def interactionSpace_def)
  ultimately have "checkInteractionEnvelope (GMap example_tick_map) =
      InteractionResult_zero\<lparr>ir_Status := ''valid'', ir_Envelope := Some example_tick_map\<rparr>"
    using u w by (simp add: checkInteractionEnvelope_def envelope_v1_ok_def example_tick_map_def obj_float_def obj_string_def)
  then show ?thesis using parse_printed [OF pr st len] by (simp add: example_tick_any)
qed

theorem repeat_tick_bounds_witness:
  "\<exists>tick. ParseRepeatTick (text_of True example_tick_doc) = tick_result ''valid'' (Some tick) [] \<and> lower_uuid (rt_RepeatID tick)"
proof -
  have "re_match interactionUUID ''0000000A-0000-4000-8000-000000000003''" by code_simp
  then have "ParseRepeatTick (text_of True example_tick_doc) = tick_result ''valid'' (Some
      \<lparr>rt_RepeatID = to_lower ''0000000A-0000-4000-8000-000000000003'', rt_Sequence = 1, rt_EveryMinutes = 1,
       rt_OnlyIfRecipientIdleMinutes = None, rt_StoppableByRecipient = True\<rparr>) []"
    by (simp add: ParseRepeatTick_def example_tick_parses with_source_def Let_def parsed_envelope_def ReadRepeatTick_def
        repeatProtocol_def RepeatTickProtocol_def RepeatTickStep_def example_tick_map_def obj_map_def read_tick_def
        example_tick_payload_map_def obj_string_def repeatInteger_def repeatSafeInteger_def RepeatEveryMinMinutes_def
        RepeatEveryMaxMinutes_def tick_idle_def obj_bool_def f64_whole_def)
  from this repeat_tick_bounds [OF this] show ?thesis by blast
qed

definition example_stop :: "(string \<times> gval) list" where
  "example_stop = [(''protocol'', GString ''repeat.stop''), (''protocol_version'', GFloat (F64 1 0)),
     (''step'', GString ''stop''), (''payload'', GMap [(''reason'', GString ''enough'')])]"

theorem stop_reason_understood_witness:
  "ReadRepeatStop example_stop = stop_result ''valid'' (Some \<lparr>rst_Reason = Some ''enough''\<rparr>) []"
proof -
  have "BuildRepeatStopBody '' enough'' = Inr [(''reason'', ''enough'')]"
    by (simp add: BuildRepeatStopBody_def NormalizeRepeatStopReason_def trim_chars_def RepeatStopReasonMax_def utf16_len_def)
  from stop_reason_understood [OF this, of example_stop]
  obtain r where "[(''reason'', ''enough'')] = (if r = [] then [] else [(''reason'', r)])"
      "ReadRepeatStop example_stop = stop_result ''valid'' (Some \<lparr>rst_Reason = if r = [] then None else Some r\<rparr>) []"
    by (auto simp: example_stop_def repeatProtocol_def RepeatStopProtocol_def RepeatStopStep_def)
  then show ?thesis by (auto split: if_splits)
qed

theorem stop_command_safe_witness:
  "\<exists>u command. RepeatStopCommand ''0000000A-0000-4000-8000-000000000003'' = Inr command \<and>
     command = ''primitive repeat stop --id '' @ u \<and> lower_uuid u"
proof -
  have "re_match interactionUUID ''0000000A-0000-4000-8000-000000000003''" by code_simp
  then have "RepeatStopCommand ''0000000A-0000-4000-8000-000000000003'' =
      Inr (''primitive repeat stop --id '' @ to_lower ''0000000A-0000-4000-8000-000000000003'')"
    by (simp add: RepeatStopCommand_def)
  from this stop_command_safe [OF this] show ?thesis by blast
qed

end
