(* ===== verification/Presence.thy ===== *)
theory Presence
  imports Signal_Content
begin

text \<open>
  Receiver presence (\<open>presence.go\<close>): the probe one side sends and the answer of the other,
  as ordinary emails that carry an envelope of fixed shape. The clock, the UUID source (the
  answers of successive calls) and the nonce are arguments.
\<close>

definition PresenceProtocol :: string where "PresenceProtocol = ''primitive.presence''"
definition PresenceTTLMS :: int where "PresenceTTLMS = 600000"
definition MaxPresenceEnvelopeBytes :: nat where "MaxPresenceEnvelopeBytes = 4096"
definition MaxPresenceDecodedBytes :: nat where "MaxPresenceDecodedBytes = 8192"
definition MaxPresenceRenderedBytes :: nat where "MaxPresenceRenderedBytes = 16384"
definition PresenceProbeText :: string where "PresenceProbeText = ''This email checks whether your receiver is available.''"
definition PresenceAliveText :: string where "PresenceAliveText = ''This receiver answered the presence check.''"
definition PresenceProbeSubject :: string where "PresenceProbeSubject = ''Receiver presence check''"
definition PresenceAliveSubject :: string where "PresenceAliveSubject = ''Re: Receiver presence check''"

section \<open>Data\<close>

record PresencePayload =
  pp_Nonce :: string
  pp_IssuedAt :: string
  pp_Address :: string

definition PresencePayload_zero :: PresencePayload where
  "PresencePayload_zero = \<lparr>pp_Nonce = [], pp_IssuedAt = [], pp_Address = []\<rparr>"

definition dec_PresencePayload :: "PresencePayload dec" where
  "dec_PresencePayload = dec_struct [
    fld ''nonce'' dec_string pp_Nonce pp_Nonce_update,
    fld ''issued_at'' dec_string pp_IssuedAt pp_IssuedAt_update,
    fld ''address'' dec_string pp_Address pp_Address_update]"

definition enc_PresencePayload :: "PresencePayload \<Rightarrow> json" where
  "enc_PresencePayload p = JObj [(''nonce'', JStr (pp_Nonce p)), (''issued_at'', JStr (pp_IssuedAt p)),
     (''address'', JStr (pp_Address p))]"

record PresenceEnvelope =
  pe_InteractionVersion :: int
  pe_InteractionID :: string
  pe_Protocol :: string
  pe_ProtocolVersion :: int
  pe_Step :: string
  pe_StepID :: string
  pe_PrevStepID :: "string option"
  pe_ExpiresAt :: string
  pe_Payload :: PresencePayload

definition PresenceEnvelope_zero :: PresenceEnvelope where
  "PresenceEnvelope_zero = \<lparr>pe_InteractionVersion = 0, pe_InteractionID = [], pe_Protocol = [], pe_ProtocolVersion = 0,
     pe_Step = [], pe_StepID = [], pe_PrevStepID = None, pe_ExpiresAt = [], pe_Payload = PresencePayload_zero\<rparr>"

definition presence_fields :: "(string \<times> PresenceEnvelope dec) list" where
  "presence_fields = [
    fld ''interaction_version'' dec_int64 pe_InteractionVersion pe_InteractionVersion_update,
    fld ''interaction_id'' dec_string pe_InteractionID pe_InteractionID_update,
    fld ''protocol'' dec_string pe_Protocol pe_Protocol_update,
    fld ''protocol_version'' dec_int64 pe_ProtocolVersion pe_ProtocolVersion_update,
    fld ''step'' dec_string pe_Step pe_Step_update,
    fld ''step_id'' dec_string pe_StepID pe_StepID_update,
    fld ''prev_step_id'' opt_string pe_PrevStepID pe_PrevStepID_update,
    fld ''expires_at'' dec_string pe_ExpiresAt pe_ExpiresAt_update,
    fld ''payload'' dec_PresencePayload pe_Payload pe_Payload_update]"

definition dec_PresenceEnvelope :: "PresenceEnvelope dec" where
  "dec_PresenceEnvelope = dec_struct presence_fields"

definition enc_PresenceEnvelope :: "PresenceEnvelope \<Rightarrow> json" where
  "enc_PresenceEnvelope e = JObj [(''interaction_version'', enc_int (pe_InteractionVersion e)),
     (''interaction_id'', JStr (pe_InteractionID e)), (''protocol'', JStr (pe_Protocol e)),
     (''protocol_version'', enc_int (pe_ProtocolVersion e)), (''step'', JStr (pe_Step e)), (''step_id'', JStr (pe_StepID e)),
     (''prev_step_id'', enc_opt JStr (pe_PrevStepID e)), (''expires_at'', JStr (pe_ExpiresAt e)),
     (''payload'', enc_PresencePayload (pe_Payload e))]"

record PresenceParseResult =
  ppr_Status :: string
  ppr_Envelope :: "PresenceEnvelope option"
  ppr_Version :: int
  ppr_Reason :: string
  ppr_Source :: "string option"

record PresenceProbeInput =
  pi_AccountScope :: string
  pi_From :: string
  pi_To :: string

record PresenceAliveInput = PresenceProbeInput +
  pi_Probe :: PresenceEnvelope
  pi_MessageID :: "string option"
  pi_References :: "string list"

record PresenceDependencies =
  pd_UUID :: "(nat \<Rightarrow> string) option"
  pd_Now :: "int option"

record PresenceProbeDependencies = PresenceDependencies +
  pd_Nonce :: "string option"

record PreparedPresence =
  prp_AccountScope :: string
  prp_PreparedAtMs :: int
  prp_ExpiresAtMs :: int
  prp_IdempotencyKey :: string
  prp_RequestJSON :: string

record PresencePreparation =
  ppn_Status :: string
  ppn_Prepared :: "PreparedPresence option"

section \<open>Checks\<close>

definition presenceNonce :: re where
  "presenceNonce = RAlt (rrep 32 (RCls lower_hex_cls)) (rrep 64 (RCls lower_hex_cls))"

definition presenceUUID :: re where "presenceUUID = uuid_re lower_hex_cls"

definition lower_alnum_cls :: "(char \<times> char) list" where
  "lower_alnum_cls = [(CHR ''a'', CHR ''z''), (CHR ''0'', CHR ''9'')]"

definition presenceHost :: re where
  "presenceHost = RSeq (label_re lower_alnum_cls) (rplus (RSeq (rchr (CHR ''.'')) (label_re lower_alnum_cls)))"

definition presenceDate :: re where "presenceDate = date_millis_re"

definition presenceTimestamp :: "string \<Rightarrow> int option" where
  "presenceTimestamp s =
     (if \<not> re_match presenceDate s then None
      else (case parse_millis s of None \<Rightarrow> None | Some ms \<Rightarrow> if signalMilliseconds ms then Some ms else None))"

definition presenceMailbox :: "string \<Rightarrow> bool" where
  "presenceMailbox s \<longleftrightarrow> s = to_lower s \<and> length s \<le> 320 \<and> re_match signalMailbox s \<and>
     (case split_on (CHR ''@'') s of [_, host] \<Rightarrow> length host \<le> 253 \<and> re_match presenceHost host | _ \<Rightarrow> False)"

definition presence_step_ok :: "PresenceEnvelope \<Rightarrow> string \<Rightarrow> bool" where
  "presence_step_ok e u \<longleftrightarrow>
     (if pe_Step e = ''probe'' then pe_PrevStepID e = None
      else if pe_Step e = ''alive'' then
        (case pe_PrevStepID e of None \<Rightarrow> False
         | Some prev \<Rightarrow> re_match presenceUUID prev \<and> prev \<noteq> pe_StepID e \<and> prev \<noteq> u)
      else False)"

definition presenceShape :: "PresenceEnvelope \<Rightarrow> bool" where
  "presenceShape e \<longleftrightarrow> (case split_on (CHR ''@'') (pe_InteractionID e) of
      [u, host] \<Rightarrow>
        re_match presenceUUID u \<and> re_match presenceHost host \<and> length host \<le> 253 \<and> re_match presenceUUID (pe_StepID e) \<and>
        u \<noteq> pe_StepID e \<and> pe_InteractionVersion e = 1 \<and> pe_Protocol e = PresenceProtocol \<and> pe_ProtocolVersion e = 1 \<and>
        presence_step_ok e u \<and>
        (case (presenceTimestamp (pp_IssuedAt (pe_Payload e)), presenceTimestamp (pe_ExpiresAt e)) of
           (Some issued, Some expires) \<Rightarrow> expires - issued = PresenceTTLMS | _ \<Rightarrow> False) \<and>
        re_match presenceNonce (pp_Nonce (pe_Payload e)) \<and> presenceMailbox (pp_Address (pe_Payload e))
    | _ \<Rightarrow> False)"

definition presence_invalid :: "string \<Rightarrow> PresenceParseResult" where
  "presence_invalid reason = \<lparr>ppr_Status = ''invalid'', ppr_Envelope = None, ppr_Version = 0, ppr_Reason = reason, ppr_Source = None\<rparr>"

text \<open>The fixed keys, and the envelope decoded from the map.\<close>

definition presence_decode :: "(string \<times> gval) list \<Rightarrow> PresenceEnvelope option" where
  "presence_decode e =
     (if length e \<noteq> 9 then None
      else (case obj_map e ''payload'' of None \<Rightarrow> None | Some payload \<Rightarrow>
        if length payload \<noteq> 3 \<or> list_ex (\<lambda>k. obj_get payload k = None) [''nonce'', ''issued_at'', ''address''] then None
        else (case Option.bind (of_any (GMap e)) (\<lambda>j. dec_PresenceEnvelope j PresenceEnvelope_zero) of
            None \<Rightarrow> None | Some envelope \<Rightarrow> if presenceShape envelope then Some envelope else None)))"

definition ParsePresenceEnvelope :: "string \<Rightarrow> PresenceParseResult" where
  "ParsePresenceEnvelope source =
     (if MaxPresenceEnvelopeBytes < length source then presence_invalid ''too_large''
      else (let parsed = ParseInteractionEnvelope source; e = (case ir_Envelope parsed of None \<Rightarrow> [] | Some m \<Rightarrow> m);
                version = (case obj_float e ''protocol_version'' of None \<Rightarrow> 0 | Some x \<Rightarrow>
                  (case f64_whole x of None \<Rightarrow> 0 | Some n \<Rightarrow> n))
        in if ir_Status parsed \<noteq> ''valid'' then
             \<lparr>ppr_Status = ir_Status parsed, ppr_Envelope = None, ppr_Version = ir_Version parsed,
              ppr_Reason = ir_Reason parsed, ppr_Source = ir_Source parsed\<rparr>
           else if obj_get e ''protocol'' = Some (GString PresenceProtocol) \<and>
             obj_get e ''protocol_version'' \<noteq> Some (GFloat (F64 1 0)) then
             \<lparr>ppr_Status = ''unsupported'', ppr_Envelope = None, ppr_Version = version, ppr_Reason = [],
              ppr_Source = ir_Source parsed\<rparr>
           else (case presence_decode e of
               None \<Rightarrow> presence_invalid ''invalid_presence''
             | Some envelope \<Rightarrow> \<lparr>ppr_Status = ''valid'', ppr_Envelope = Some envelope, ppr_Version = 0, ppr_Reason = [],
                 ppr_Source = ir_Source parsed\<rparr>)))"

definition ParsePresenceEnvelopeString :: "string \<Rightarrow> PresenceParseResult" where
  "ParsePresenceEnvelopeString source = ParsePresenceEnvelope source"

section \<open>Preparing\<close>

definition presenceContext :: "'a PresenceProbeInput_scheme \<Rightarrow> string + string \<times> string" where
  "presenceContext input =
     (if pi_AccountScope input = [] \<or> 256 < length (pi_AccountScope input) \<or>
         list_ex (\<lambda>c. c < 32 \<or> 126 < c) (runes (pi_AccountScope input)) then Inl ''invalid account scope''
      else if list_ex (\<lambda>c. c < 33 \<or> 126 < c) (runes (pi_From input) @ runes (pi_To input)) then
        Inl ''use one bare ASCII mailbox per address''
      else (let sender = to_lower (pi_From input); recipient = to_lower (pi_To input)
        in if \<not> presenceMailbox sender \<or> \<not> presenceMailbox recipient then Inl ''use one bare ASCII mailbox per address''
           else Inr (sender, recipient)))"

definition presenceNewUUID :: "'a PresenceDependencies_scheme \<Rightarrow> nat \<Rightarrow> string + string" where
  "presenceNewUUID deps i = (case pd_UUID deps of None \<Rightarrow> Inl ''UUID callback required'' | Some uuid \<Rightarrow>
     let v = to_lower (uuid i) in if \<not> re_match presenceUUID v then Inl ''invalid UUID'' else Inr v)"

definition presenceMessageID :: "string \<Rightarrow> string + string" where
  "presenceMessageID s = (if 1024 < length s then Inl ''invalid Message-ID'' else signalMessageID s)"

definition presence_text :: "PresenceEnvelope \<Rightarrow> string" where
  "presence_text e = (if pe_Step e = ''alive'' then PresenceAliveText else PresenceProbeText)"

definition presence_subject :: "PresenceEnvelope \<Rightarrow> string" where
  "presence_subject e = (if pe_Step e = ''alive'' then PresenceAliveSubject else PresenceProbeSubject)"

definition presence_body :: "string \<Rightarrow> string \<Rightarrow> string \<Rightarrow> string \<Rightarrow> string \<Rightarrow> string list \<Rightarrow> string \<Rightarrow> json" where
  "presence_body sender recipient subject body target refs encoded = JObj ([(''from'', JStr sender), (''to'', JStr recipient),
     (''subject'', JStr subject), (''body_text'', JStr body)] @
     (if target = [] then [] else [(''in_reply_to'', JStr target)]) @
     (if refs = [] then [] else [(''references'', JArr (map JStr refs))]) @
     [(''attachments'', JArr [attachment_json encoded])])"

definition carrier_size :: "string \<Rightarrow> string \<Rightarrow> string \<Rightarrow> string \<Rightarrow> string \<Rightarrow> string list \<Rightarrow> nat" where
  "carrier_size sender recipient attachment body target refs =
     4096 + length sender + length recipient + length attachment + ((length attachment + 75) div 76) * 2 + length body +
     length target + length (join '' '' refs)"

definition preparePresence ::
    "'a PresenceProbeInput_scheme \<Rightarrow> PresenceEnvelope \<Rightarrow> int \<Rightarrow> string \<Rightarrow> string list \<Rightarrow> string + PresencePreparation" where
  "preparePresence input e observed target refs =
     (case presenceContext input of Inl err \<Rightarrow> Inl err | Inr (sender, recipient) \<Rightarrow>
       let encoded = signalJSON (enc_PresenceEnvelope e); attachment = b64_encode encoded; body = presence_text e
       in if MaxPresenceEnvelopeBytes < length encoded \<or> MaxPresenceDecodedBytes < length encoded + length body then
            Inl ''presence content too large''
          else if MaxPresenceRenderedBytes < carrier_size sender recipient attachment body target refs then
            Inl ''presence carrier too large''
          else Inr \<lparr>ppn_Status = ''prepared'', ppn_Prepared = Some \<lparr>prp_AccountScope = pi_AccountScope input,
            prp_PreparedAtMs = observed,
            prp_ExpiresAtMs = (case presenceTimestamp (pe_ExpiresAt e) of None \<Rightarrow> 0 | Some ms \<Rightarrow> ms),
            prp_IdempotencyKey = ''presence-'' @ pe_StepID e,
            prp_RequestJSON = signalJSON (presence_body sender recipient (presence_subject e) body target refs encoded)\<rparr>\<rparr>)"

definition presence_probe :: "string \<Rightarrow> string \<Rightarrow> string \<Rightarrow> string \<Rightarrow> string \<Rightarrow> int \<Rightarrow> PresenceEnvelope" where
  "presence_probe interaction step nonce sender recipient observed =
     \<lparr>pe_InteractionVersion = 1, pe_InteractionID = interaction @ ''@'' @ split_on (CHR ''@'') sender ! 1,
      pe_Protocol = PresenceProtocol, pe_ProtocolVersion = 1, pe_Step = ''probe'', pe_StepID = step, pe_PrevStepID = None,
      pe_ExpiresAt = format_millis (observed + PresenceTTLMS),
      pe_Payload = \<lparr>pp_Nonce = nonce, pp_IssuedAt = format_millis observed, pp_Address = recipient\<rparr>\<rparr>"

definition PreparePresenceProbeEmail ::
    "'a PresenceProbeInput_scheme \<Rightarrow> PresenceProbeDependencies \<Rightarrow> string + PresencePreparation" where
  "PreparePresenceProbeEmail input deps =
     (case presenceContext input of Inl e \<Rightarrow> Inl e | Inr (sender, recipient) \<Rightarrow>
       (case (pd_Now deps, pd_Nonce deps) of
          (Some observed, Some nonce) \<Rightarrow>
            if \<not> signalMilliseconds observed \<or> \<not> signalMilliseconds (observed + PresenceTTLMS) then Inl ''invalid clock''
            else (case presenceNewUUID deps 0 of Inl e \<Rightarrow> Inl e | Inr interaction \<Rightarrow>
              (case presenceNewUUID deps 1 of Inl e \<Rightarrow> Inl e | Inr step \<Rightarrow>
                if interaction = step then Inl ''distinct UUIDs are required''
                else if \<not> re_match presenceNonce nonce then Inl ''nonce must be 128 or 256 bits of lowercase hex''
                else preparePresence input (presence_probe interaction step nonce sender recipient observed) observed [] []))
        | _ \<Rightarrow> Inl ''clock and nonce callbacks required''))"

text \<open>The loop that drops the oldest references, which measures the joined list each time.\<close>

fun drop_joined :: "string list \<Rightarrow> string list" where
  "drop_joined [] = []"
| "drop_joined (r # rs) =
     (if 100 < length (r # rs) \<or> 8192 < length (join '' '' (r # rs)) then drop_joined rs else r # rs)"

definition presence_alive :: "PresenceEnvelope \<Rightarrow> string \<Rightarrow> PresenceEnvelope" where
  "presence_alive probe step = probe\<lparr>pe_Step := ''alive'', pe_StepID := step, pe_PrevStepID := Some (pe_StepID probe)\<rparr>"

definition alive_build ::
    "PresenceAliveInput \<Rightarrow> PresenceDependencies \<Rightarrow> string \<Rightarrow> string list \<Rightarrow> string + PresencePreparation" where
  "alive_build input deps target refs =
     (case pd_Now deps of None \<Rightarrow> Inl ''clock required'' | Some observed \<Rightarrow>
       if \<not> signalMilliseconds observed then Inl ''invalid clock''
       else (case presenceNewUUID deps 0 of Inl e \<Rightarrow> Inl e | Inr step \<Rightarrow>
         if step = pe_StepID (pi_Probe input) \<or> step = hd (split_on (CHR ''@'') (pe_InteractionID (pi_Probe input))) then
           Inl ''distinct UUIDs are required''
         else preparePresence input (presence_alive (pi_Probe input) step) observed target refs))"

definition PreparePresenceAliveEmail :: "PresenceAliveInput \<Rightarrow> PresenceDependencies \<Rightarrow> string + PresencePreparation" where
  "PreparePresenceAliveEmail input deps =
     (case pi_MessageID input of
        None \<Rightarrow> Inr \<lparr>ppn_Status = ''waiting_on_parent'', ppn_Prepared = None\<rparr>
      | Some mid \<Rightarrow>
          if mid = [] then Inr \<lparr>ppn_Status = ''waiting_on_parent'', ppn_Prepared = None\<rparr>
          else (case presenceMessageID mid of Inl e \<Rightarrow> Inl e | Inr target \<Rightarrow>
            (case presenceContext input of Inl e \<Rightarrow> Inl e | Inr (sender, _) \<Rightarrow>
              if \<not> presenceShape (pi_Probe input) \<or> pe_Step (pi_Probe input) \<noteq> ''probe'' then Inl ''a valid probe is required''
              else if sender \<noteq> pp_Address (pe_Payload (pi_Probe input)) then Inl ''probe recipient mismatch''
              else if 1000 < length (pi_References input) then Inl ''too many references''
              else (case signal_refs presenceMessageID target (pi_References input) of Inl e \<Rightarrow> Inl e
                | Inr rs \<Rightarrow> alive_build input deps target (drop_joined (rs @ [target]))))))"

section \<open>The forms of the parts\<close>

lemma lang_lower_hex: "lang (rrep n (RCls lower_hex_cls)) \<subseteq> lang (rrep n (RCls hex_cls))"
  by (auto simp: lang_rep_cls in_lower_hex_cls in_hex_cls)

lemma lang_uuid_lower: "lang (uuid_re lower_hex_cls) \<subseteq> lang (uuid_re hex_cls)"
  unfolding uuid_re_def rseqs.simps by (intro lang_seq_mono lang_lower_hex subset_refl)

lemma presenceUUID_lower: "re_match presenceUUID s \<Longrightarrow> lower_uuid s"
  using lang_uuid_lower uuid_re_chars [of lower_hex_cls s]
  by (auto simp: lower_uuid_def presenceUUID_def re_match_lang)

lemma in_lower_alnum: "in_cls lower_alnum_cls c \<longleftrightarrow> (97 \<le> ord c \<and> ord c \<le> 122) \<or> (48 \<le> ord c \<and> ord c \<le> 57)"
  by (simp add: lower_alnum_cls_def in_cls_simps)

lemma host_chars:
  assumes "re_match presenceHost s"
  shows "s \<noteq> [] \<and> (\<forall>c \<in> set s. in_cls alnum_cls c \<or> c = CHR ''-'' \<or> c = CHR ''.'')"
proof -
  have "re_all (\<lambda>c. in_cls alnum_cls c \<or> c = CHR ''-'' \<or> c = CHR ''.'') presenceHost"
    by (auto simp: presenceHost_def rplus_def label_re_def ropt_def rchr_def re_all_rupto in_cls_append in_alnum in_lower_alnum
        in_cls_simps simp flip: of_char_eq_iff [where 'a = nat])
  moreover have "s \<noteq> []" using assms by (auto simp: presenceHost_def label_re_def re_match_lang)
  ultimately show ?thesis using assms re_all_lang [of _ presenceHost s] by (simp add: re_match_lang)
qed

lemma domain_plain: "\<forall>c \<in> set s. in_cls alnum_cls c \<or> c = CHR ''-'' \<or> c = CHR ''.'' \<Longrightarrow> printed_as_is s"
  by (auto simp: printed_as_is_def in_alnum)

lemma uuid_plain: "lower_uuid s \<Longrightarrow> printed_as_is s \<and> length s = 36"
  using uuid_re_length by (auto simp: lower_uuid_def printed_as_is_def in_lower_hex_cls)

lemma nonce_plain: "re_match presenceNonce s \<Longrightarrow> printed_as_is s \<and> length s \<le> 64"
  by (auto simp: presenceNonce_def re_match_lang lang_rep_cls printed_as_is_def in_lower_hex_cls simp del: rrep.simps)

lemma plain_lang:
  assumes "re_all (\<lambda>c. 32 \<le> ord c \<and> ord c < 127 \<and> c \<noteq> CHR 0x22 \<and> c \<noteq> CHR 0x5C) r" and "re_match r s"
  shows "printed_as_is s"
  using re_all_lang [OF assms(1)] assms(2) by (simp add: re_match_lang printed_as_is_def)

lemma timestamp_plain:
  assumes "presenceTimestamp s = Some t"
  shows "printed_as_is s \<and> length s = 24"
proof -
  have m: "re_match date_millis_re s" using assms by (auto simp: presenceTimestamp_def presenceDate_def split: if_splits)
  have "re_all (\<lambda>c. 32 \<le> ord c \<and> ord c < 127 \<and> c \<noteq> CHR 0x22 \<and> c \<noteq> CHR 0x5C) date_millis_re"
    by (auto simp: date_millis_re_def eval_nat_numeral in_digit_cls rchr_def in_cls_simps)
  moreover have "length s = 24"
    using m by (auto simp: re_match_lang date_millis_re_def lang_rep_cls lang_rchr simp del: rrep.simps)
  ultimately show ?thesis using plain_lang m by blast
qed

lemma mailbox_plain:
  assumes "presenceMailbox s"
  shows "printed_as_is s \<and> length s \<le> 320"
proof -
  have "re_all (\<lambda>c. 32 \<le> ord c \<and> ord c < 127 \<and> c \<noteq> CHR 0x22 \<and> c \<noteq> CHR 0x5C) signalMailbox"
    by (auto simp: signalMailbox_def mailbox_local_def mailbox_domain_def label_re_def ropt_def rplus_def rchr_def atext_cls_def
        re_all_rupto in_cls_append in_alnum in_cls_simps simp flip: of_char_eq_iff [where 'a = nat])
  then show ?thesis using plain_lang assms by (simp add: presenceMailbox_def)
qed

lemma timestamp_format: "signalMilliseconds ms \<Longrightarrow> presenceTimestamp (format_millis ms) = Some ms"
  using parse_format_millis [of ms] format_millis_matches [of ms]
  by (simp add: presenceTimestamp_def presenceDate_def signalMilliseconds_def)

text \<open>What a well-shaped envelope consists of.\<close>

lemma shape_parts:
  assumes "presenceShape e"
  shows "\<exists>u host. split_on (CHR ''@'') (pe_InteractionID e) = [u, host] \<and> pe_InteractionID e = u @ ''@'' @ host \<and>
    lower_uuid u \<and> lower_uuid (pe_StepID e) \<and> u \<noteq> pe_StepID e \<and> re_match presenceHost host \<and> length host \<le> 253 \<and>
    pe_InteractionVersion e = 1 \<and> pe_Protocol e = PresenceProtocol \<and> pe_ProtocolVersion e = 1 \<and>
    pe_Step e \<in> {''probe'', ''alive''} \<and> (\<forall>p. pe_PrevStepID e = Some p \<longrightarrow> lower_uuid p) \<and>
    printed_as_is (pe_ExpiresAt e) \<and> length (pe_ExpiresAt e) = 24 \<and> printed_as_is (pp_IssuedAt (pe_Payload e)) \<and>
    length (pp_IssuedAt (pe_Payload e)) = 24 \<and> printed_as_is (pp_Nonce (pe_Payload e)) \<and> length (pp_Nonce (pe_Payload e)) \<le> 64 \<and>
    printed_as_is (pp_Address (pe_Payload e)) \<and> length (pp_Address (pe_Payload e)) \<le> 320"
proof -
  obtain u host where s: "split_on (CHR ''@'') (pe_InteractionID e) = [u, host]"
    using assms by (auto simp: presenceShape_def split: list.splits)
  then have "pe_InteractionID e = u @ ''@'' @ host"
    using join_split_on [of "CHR ''@''" "pe_InteractionID e"] by simp
  moreover have f: "re_match presenceUUID u" "re_match presenceHost host" "length host \<le> 253" "re_match presenceUUID (pe_StepID e)"
      "u \<noteq> pe_StepID e" "pe_InteractionVersion e = 1" "pe_Protocol e = PresenceProtocol" "pe_ProtocolVersion e = 1"
      "presence_step_ok e u" "re_match presenceNonce (pp_Nonce (pe_Payload e))" "presenceMailbox (pp_Address (pe_Payload e))"
    using assms by (auto simp: presenceShape_def s)
  moreover obtain issued expires where "presenceTimestamp (pp_IssuedAt (pe_Payload e)) = Some issued"
      "presenceTimestamp (pe_ExpiresAt e) = Some expires"
    using assms by (auto simp: presenceShape_def s split: option.splits)
  moreover have "pe_Step e \<in> {''probe'', ''alive''} \<and> (\<forall>p. pe_PrevStepID e = Some p \<longrightarrow> lower_uuid p)"
    using f(9) presenceUUID_lower by (auto simp: presence_step_ok_def split: if_splits option.splits)
  ultimately show ?thesis
    using s presenceUUID_lower timestamp_plain nonce_plain mailbox_plain by blast
qed

section \<open>Reading back an envelope\<close>

definition presence_payload :: "PresencePayload \<Rightarrow> (string \<times> gval) list" where
  "presence_payload p = [(''nonce'', GString (pp_Nonce p)), (''issued_at'', GString (pp_IssuedAt p)),
     (''address'', GString (pp_Address p))]"

definition presence_members :: "PresenceEnvelope \<Rightarrow> (string \<times> gval) list" where
  "presence_members e = [(''interaction_version'', GFloat (F64 1 0)), (''interaction_id'', GString (pe_InteractionID e)),
     (''protocol'', GString PresenceProtocol), (''protocol_version'', GFloat (F64 1 0)), (''step'', GString (pe_Step e)),
     (''step_id'', GString (pe_StepID e)),
     (''prev_step_id'', case pe_PrevStepID e of None \<Rightarrow> GNil | Some p \<Rightarrow> GString p),
     (''expires_at'', GString (pe_ExpiresAt e)), (''payload'', GMap (presence_payload (pe_Payload e)))]"

lemma presence_any:
  assumes "presenceShape e"
  shows "to_any False (enc_PresenceEnvelope e) = GMap (presence_members e)"
proof -
  have c: "pe_InteractionVersion e = 1" "pe_ProtocolVersion e = 1" "pe_Protocol e = PresenceProtocol"
    using shape_parts [OF assms] by blast+
  have p: "to_any False (enc_PresencePayload (pe_Payload e)) = GMap (presence_payload (pe_Payload e))"
    unfolding enc_PresencePayload_def presence_payload_def by (subst to_any_obj) simp_all
  have o: "to_any False (enc_opt JStr (pe_PrevStepID e)) = (case pe_PrevStepID e of None \<Rightarrow> GNil | Some p \<Rightarrow> GString p)"
    by (simp add: enc_opt_def split: option.split)
  show ?thesis unfolding enc_PresenceEnvelope_def presence_members_def c
    by (subst to_any_obj) (simp_all add: p o del: to_any.simps(6))
qed

lemma presence_strict: "presenceShape e \<Longrightarrow> strict_json 0 (enc_PresenceEnvelope e)"
  using shape_parts [of e]
  by (auto simp: enc_PresenceEnvelope_def enc_PresencePayload_def MaxInteractionDepth_def enc_int_def enc_opt_def split: option.splits)

lemma presence_id_plain:
  assumes "presenceShape e"
  shows "printed_as_is (pe_InteractionID e) \<and> length (pe_InteractionID e) \<le> 290"
proof -
  obtain u host where p: "pe_InteractionID e = u @ ''@'' @ host" "lower_uuid u" "re_match presenceHost host" "length host \<le> 253"
    using shape_parts [OF assms] by blast
  moreover have "printed_as_is host" using domain_plain host_chars [OF p(3)] by blast
  ultimately show ?thesis using uuid_plain [OF p(2)] by simp
qed

lemma presence_printable:
  assumes "presenceShape e"
  shows "printable 2 (enc_PresenceEnvelope e)"
proof -
  have p: "lower_uuid (pe_StepID e)" "pe_Protocol e = PresenceProtocol" "pe_Step e \<in> {''probe'', ''alive''}"
      "\<forall>p. pe_PrevStepID e = Some p \<longrightarrow> lower_uuid p" "ascii (pe_ExpiresAt e)" "ascii (pp_IssuedAt (pe_Payload e))"
      "ascii (pp_Nonce (pe_Payload e))" "ascii (pp_Address (pe_Payload e))" "ascii (pe_InteractionID e)"
    using shape_parts [OF assms] presence_id_plain [OF assms] as_is_ascii by blast+
  have s: "printable n (JStr x)" if "ascii x" for n x using that by (intro printable_str plain_ascii)
  have "printable (Suc 0) (enc_PresencePayload (pe_Payload e))"
    unfolding enc_PresencePayload_def by (rule printable_obj) (use s p in auto)
  moreover have "printable (Suc 0) (enc_opt JStr (pe_PrevStepID e))"
    using p(4) s lower_uuid_ascii by (auto simp: enc_opt_def split: option.split)
  ultimately have "printable (Suc (Suc 0)) (enc_PresenceEnvelope e)"
    unfolding enc_PresenceEnvelope_def
    by (intro printable_obj) (use s p lower_uuid_ascii in \<open>auto simp: PresenceProtocol_def\<close>)
  then show ?thesis by (simp add: numeral_2_eq_2)
qed

text \<open>Nothing in a well-shaped envelope is escaped, so its text is short.\<close>

lemma presence_size:
  assumes "presenceShape e"
  shows "length (text_of False (enc_PresenceEnvelope e)) \<le> 1200"
proof -
  have p: "printed_as_is (pe_ExpiresAt e)" "length (pe_ExpiresAt e) = 24" "printed_as_is (pp_IssuedAt (pe_Payload e))"
      "length (pp_IssuedAt (pe_Payload e)) = 24" "printed_as_is (pp_Nonce (pe_Payload e))" "length (pp_Nonce (pe_Payload e)) \<le> 64"
      "printed_as_is (pp_Address (pe_Payload e))" "length (pp_Address (pe_Payload e)) \<le> 320"
      "pe_InteractionVersion e = 1" "pe_ProtocolVersion e = 1" "pe_Protocol e = PresenceProtocol"
      "pe_Step e \<in> {''probe'', ''alive''}" "\<forall>p. pe_PrevStepID e = Some p \<longrightarrow> lower_uuid p" "lower_uuid (pe_StepID e)"
    using shape_parts [OF assms] by blast+
  have one: "length (text_of False (enc_int 1)) = 1" by (simp add: enc_int_def itoa_def nat_str.simps)
  have prev: "length (text_of False (enc_opt JStr (pe_PrevStepID e))) \<le> 38"
    using p(13) uuid_plain by (auto simp: enc_opt_def quote_as_is split: option.split)
  have pay: "length (text_of False (enc_PresencePayload (pe_Payload e))) \<le> 460"
    using p by (simp add: enc_PresencePayload_def quote_as_is)
  have "printed_as_is (pe_Step e) \<and> length (pe_Step e) = 5" using p(12) by auto
  then show ?thesis
    using one prev pay p(1,2,9-11) uuid_plain [OF p(14)] presence_id_plain [OF assms]
    unfolding enc_PresenceEnvelope_def by (simp add: quote_as_is PresenceProtocol_def)
qed

lemma presence_check:
  assumes "presenceShape e"
  shows "checkInteractionEnvelope (GMap (presence_members e)) =
    InteractionResult_zero\<lparr>ir_Status := ''valid'', ir_Envelope := Some (presence_members e)\<rparr>"
proof -
  obtain u host where p: "pe_InteractionID e = u @ ''@'' @ host" "split_on (CHR ''@'') (pe_InteractionID e) = [u, host]"
      "lower_uuid u" "lower_uuid (pe_StepID e)" "re_match presenceHost host"
      "pe_Step e \<in> {''probe'', ''alive''}" "\<forall>p. pe_PrevStepID e = Some p \<longrightarrow> lower_uuid p"
    using shape_parts [OF assms] by blast
  have h: "host \<noteq> []" "\<not> has_space host" using host_chars [OF p(5)] no_space_domain by blast+
  have w: "interactionWireID (pe_InteractionID e)"
    using p(2,3) h by (simp add: interactionWireID_def lower_uuid_def interactionUUID_def)
  have "whole_from_1 (F64 1 0) = Some 1" by (simp add: whole_from_1_def f64_whole_def)
  moreover have "\<not> blank PresenceProtocol" "\<not> blank (pe_Step e)"
    using p(6) by (auto simp: blank_def interactionSpace_def PresenceProtocol_def)
  ultimately show ?thesis using w p(4,7)
    by (auto simp: checkInteractionEnvelope_def envelope_v1_ok_def presence_members_def obj_float_def obj_string_def
        lower_uuid_def interactionUUID_def split: option.split)
qed

lemma itoa_one: "itoa 1 = ''1''"
  by code_simp

lemma format_f64_one: "format_f64 1 0 = ''1''"
proof -
  have d: "f64_of_decimal False 1 0 = F64 1 0" using f64_of_integer [of 1 False] by (simp add: f64_of_decimal_def f64_one)
  have n: "nat_str 1 = ''1''" by code_simp
  have "decimal_exp 1 1 = 0" using n by (simp add: decimal_exp_def)
  moreover have "[0..<17] = 0 # [1..<17]" by (simp add: upt_rec)
  moreover have "shortest_with 1 1 0 (F64 1 0) = Some (1, 0)" using d by (simp add: shortest_with_def)
  ultimately have "shortest 1 0 = (1, 0)" by (simp add: shortest_def List.map_filter_simps)
  then show ?thesis using n by (simp add: format_f64_def fixed_digits_def strip_zeros_def)
qed


lemma presence_sorted:
  "sort_key fst (presence_members e) = [(''expires_at'', GString (pe_ExpiresAt e)), (''interaction_id'', GString (pe_InteractionID e)),
     (''interaction_version'', GFloat (F64 1 0)), (''payload'', GMap (presence_payload (pe_Payload e))),
     (''prev_step_id'', case pe_PrevStepID e of None \<Rightarrow> GNil | Some p \<Rightarrow> GString p), (''protocol'', GString PresenceProtocol),
     (''protocol_version'', GFloat (F64 1 0)), (''step'', GString (pe_Step e)), (''step_id'', GString (pe_StepID e))]"
  by (simp add: presence_members_def less_char_def)

lemma payload_sorted:
  "sort_key fst (presence_payload p) = [(''address'', GString (pp_Address p)), (''issued_at'', GString (pp_IssuedAt p)),
     (''nonce'', GString (pp_Nonce p))]"
  by (simp add: presence_payload_def less_char_def)

lemma of_any_map:
  "sort_key fst m = ms \<Longrightarrow>
    of_any (GMap m) = map_option JObj (all_some (map (\<lambda>(k, v). map_option (Pair (sanitize k)) (of_any v)) ms))"
  by simp

lemma presence_marshalled:
  assumes "presenceShape e"
  shows "of_any (GMap (presence_members e)) = Some (JObj [(''expires_at'', JStr (pe_ExpiresAt e)),
    (''interaction_id'', JStr (pe_InteractionID e)), (''interaction_version'', enc_int 1),
    (''payload'', JObj [(''address'', JStr (pp_Address (pe_Payload e))), (''issued_at'', JStr (pp_IssuedAt (pe_Payload e))),
       (''nonce'', JStr (pp_Nonce (pe_Payload e)))]),
    (''prev_step_id'', enc_opt JStr (pe_PrevStepID e)), (''protocol'', JStr PresenceProtocol), (''protocol_version'', enc_int 1),
    (''step'', JStr (pe_Step e)), (''step_id'', JStr (pe_StepID e))])"
proof -
  have a: "ascii (pe_ExpiresAt e)" "ascii (pp_IssuedAt (pe_Payload e))" "ascii (pp_Nonce (pe_Payload e))"
      "ascii (pp_Address (pe_Payload e))" "pe_Step e \<in> {''probe'', ''alive''}" "lower_uuid (pe_StepID e)"
    using shape_parts [OF assms] as_is_ascii by blast+
  have i: "ascii (pe_InteractionID e)" using presence_id_plain [OF assms] as_is_ascii by blast
  have s: "ascii (pe_Step e)" "ascii (pe_StepID e)" using a lower_uuid_ascii by auto
  have prev: "of_any (case pe_PrevStepID e of None \<Rightarrow> GNil | Some p \<Rightarrow> GString p) = Some (enc_opt JStr (pe_PrevStepID e))"
    using shape_parts [OF assms] lower_uuid_ascii by (auto simp: enc_opt_def split: option.split)
  have one: "of_any (GFloat (F64 1 0)) = Some (enc_int 1)" by (simp add: format_f64_one enc_int_def itoa_one)
  have pay: "of_any (GMap (presence_payload (pe_Payload e))) = Some (JObj [(''address'', JStr (pp_Address (pe_Payload e))),
      (''issued_at'', JStr (pp_IssuedAt (pe_Payload e))), (''nonce'', JStr (pp_Nonce (pe_Payload e)))])"
    unfolding of_any_map [OF payload_sorted] using a by (simp add: all_some_def)
  show ?thesis unfolding of_any_map [OF presence_sorted] list.map prod.case one pay prev
    using a i s by (simp add: all_some_def PresenceProtocol_def)
qed

lemma presence_decoded:
  assumes "presenceShape e"
  shows "presence_decode (presence_members e) = Some e"
proof -
  have c: "pe_InteractionVersion e = 1" "pe_ProtocolVersion e = 1" "pe_Protocol e = PresenceProtocol"
    using shape_parts [OF assms] by blast+
  have s: "dec_string (JStr x) y = Some x" for x y by (simp add: dec_string_def)
  have o: "opt_string (enc_opt JStr x) None = Some x" for x by (auto simp: dec_ptr_def enc_opt_def dec_string_def split: option.split)
  have i: "is_int64 1" by (simp add: is_int64_def)
  have p: "dec_PresencePayload (JObj [(''address'', JStr a), (''issued_at'', JStr b), (''nonce'', JStr n)]) PresencePayload_zero =
      Some \<lparr>pp_Nonce = n, pp_IssuedAt = b, pp_Address = a\<rparr>" for a b n
    by (simp add: dec_PresencePayload_def dec_struct_def member_step_exact fld_def s PresencePayload_zero_def)
  have "dec_PresenceEnvelope (JObj [(''expires_at'', JStr (pe_ExpiresAt e)),
    (''interaction_id'', JStr (pe_InteractionID e)), (''interaction_version'', enc_int 1),
    (''payload'', JObj [(''address'', JStr (pp_Address (pe_Payload e))), (''issued_at'', JStr (pp_IssuedAt (pe_Payload e))),
       (''nonce'', JStr (pp_Nonce (pe_Payload e)))]),
    (''prev_step_id'', enc_opt JStr (pe_PrevStepID e)), (''protocol'', JStr PresenceProtocol), (''protocol_version'', enc_int 1),
    (''step'', JStr (pe_Step e)), (''step_id'', JStr (pe_StepID e))]) PresenceEnvelope_zero = Some e"
    using c by (simp add: dec_PresenceEnvelope_def presence_fields_def dec_struct_def member_step_exact fld_def s o p i PresenceEnvelope_zero_def)
  then show ?thesis using assms presence_marshalled [OF assms]
    by (simp add: presence_decode_def presence_members_def obj_map_def obj_get_def presence_payload_def)
qed

lemma presence_parsed:
  assumes "presenceShape e"
  shows "ParsePresenceEnvelope (signalJSON (enc_PresenceEnvelope e)) =
    \<lparr>ppr_Status = ''valid'', ppr_Envelope = Some e, ppr_Version = 0, ppr_Reason = [],
     ppr_Source = Some (signalJSON (enc_PresenceEnvelope e))\<rparr>"
proof -
  let ?t = "text_of False (enc_PresenceEnvelope e)"
  have "length ?t \<le> 1200" by (rule presence_size [OF assms])
  moreover have "ParseInteractionEnvelope ?t = with_source ?t (InteractionResult_zero\<lparr>ir_Status := ''valid'',
      ir_Envelope := Some (presence_members e)\<rparr>)"
    using parse_printed [OF presence_printable [OF assms] presence_strict [OF assms], of False] calculation
    by (simp add: presence_any [OF assms] presence_check [OF assms] MaxInteractionBytes_def)
  moreover have "obj_get (presence_members e) ''protocol_version'' = Some (GFloat (F64 1 0))" by (simp add: presence_members_def)
  ultimately show ?thesis
    using presence_decoded [OF assms]
    by (simp add: ParsePresenceEnvelope_def signalJSON_def with_source_def MaxPresenceEnvelopeBytes_def)
qed

section \<open>What is prepared\<close>

lemma drop_joined_refs: "drop_joined rs = drop_refs rs (refs_length rs)"
proof (induction rs)
  case (Cons r rs)
  then show ?case using refs_length_join [of "r # rs"] refs_length_Cons [of r rs] by (simp del: join.simps)
qed simp

lemma length_b64: "length (b64_encode s) = 4 * ((length s + 2) div 3)"
proof (induction s rule: b64_encode.induct)
  case (4 a b c s)
  have "length (a # b # c # s) + 2 = length s + 2 + 3" by simp
  then have "(length (a # b # c # s) + 2) div 3 = (length s + 2) div 3 + 1" by simp
  then show ?case using 4 by simp
qed simp_all

text \<open>For a well-shaped envelope the limits on the size never refuse.\<close>

lemma prepared_presence:
  assumes "presenceShape e" "presenceContext input = Inr (sender, recipient)" "length target \<le> 998" "length (join '' '' refs) \<le> 8192"
    "presenceTimestamp (pe_ExpiresAt e) = Some expires"
  shows "preparePresence input e observed target refs =
    Inr \<lparr>ppn_Status = ''prepared'', ppn_Prepared = Some \<lparr>prp_AccountScope = pi_AccountScope input, prp_PreparedAtMs = observed,
      prp_ExpiresAtMs = expires, prp_IdempotencyKey = ''presence-'' @ pe_StepID e,
      prp_RequestJSON = signalJSON (presence_body sender recipient (presence_subject e) (presence_text e) target refs
        (signalJSON (enc_PresenceEnvelope e)))\<rparr>\<rparr>"
proof -
  let ?t = "text_of False (enc_PresenceEnvelope e)"
  have m: "length sender \<le> 320" "length recipient \<le> 320"
    using assms(2) by (auto simp: presenceContext_def presenceMailbox_def Let_def split: if_splits)
  have t: "length ?t \<le> 1200" by (rule presence_size [OF assms(1)])
  have x: "length (presence_text e) \<le> 100" by (simp add: presence_text_def PresenceAliveText_def PresenceProbeText_def)
  have b: "length (b64_encode ?t) \<le> 1604" using t by (simp add: length_b64)
  have "((length (b64_encode ?t) + 75) div 76) * 2 \<le> 46" using b by simp
  then have "carrier_size sender recipient (b64_encode ?t) (presence_text e) target refs \<le> MaxPresenceRenderedBytes"
    using m x b assms(3,4) unfolding carrier_size_def MaxPresenceRenderedBytes_def by linarith
  then show ?thesis
    using t x assms(2,5)
    by (simp add: preparePresence_def signalJSON_def MaxPresenceEnvelopeBytes_def MaxPresenceDecodedBytes_def)
qed

lemma presence_body_parsed:
  assumes "ascii sender" "ascii recipient" "ascii subject" "ascii text" "ascii target" "\<forall>r \<in> set refs. ascii r"
  shows "json_parse (signalJSON (presence_body sender recipient subject text target refs encoded)) =
    Some (presence_body sender recipient subject text target refs encoded)"
proof -
  have s: "printable n (JStr x)" if "ascii x" for n x using that by (intro printable_str plain_ascii)
  have a: "printable (Suc (Suc 0)) (JArr [attachment_json encoded])"
    unfolding attachment_json_def by (rule printable_arr) (auto intro!: printable_obj s simp: ascii_b64)
  have r: "printable (Suc (Suc 0)) (JArr (map JStr refs))"
    by (rule printable_arr) (use assms(6) s in auto)
  have "printable (Suc (Suc (Suc 0))) (presence_body sender recipient subject text target refs encoded)"
    unfolding presence_body_def by (rule printable_obj) (use assms s a r in \<open>auto split: if_splits\<close>)
  then show ?thesis using json_parse_text [of _ False] by (simp add: signalJSON_def printable_def max_nesting_def)
qed

lemma context_mailboxes:
  assumes "presenceContext input = Inr (sender, recipient)"
  shows "sender = to_lower (pi_From input) \<and> recipient = to_lower (pi_To input) \<and> presenceMailbox sender \<and>
    presenceMailbox recipient \<and> ascii sender \<and> ascii recipient"
  using assms mailbox_plain as_is_ascii by (auto simp: presenceContext_def Let_def split: if_splits)

lemma presence_subject_ascii: "ascii (presence_subject e) \<and> ascii (presence_text e)"
  by (simp add: presence_subject_def presence_text_def PresenceAliveText_def PresenceProbeText_def PresenceAliveSubject_def
      PresenceProbeSubject_def)

text \<open>The two envelopes are well shaped.\<close>

lemma mailbox_host:
  assumes "presenceMailbox s"
  shows "re_match presenceHost (split_on (CHR ''@'') s ! 1) \<and> length (split_on (CHR ''@'') s ! 1) \<le> 253"
  using assms by (auto simp: presenceMailbox_def split: list.splits)

lemma presence_probe_shape:
  assumes "presenceMailbox sender" "presenceMailbox recipient" "re_match presenceUUID u" "re_match presenceUUID step" "u \<noteq> step"
    "re_match presenceNonce nonce" "signalMilliseconds observed" "signalMilliseconds (observed + PresenceTTLMS)"
  shows "presenceShape (presence_probe u step nonce sender recipient observed)"
proof -
  let ?h = "split_on (CHR ''@'') sender ! 1"
  have h: "re_match presenceHost ?h" "length ?h \<le> 253" using mailbox_host [OF assms(1)] by blast+
  have "CHR ''@'' \<notin> set ?h" using host_chars [OF h(1)] by (auto simp: in_alnum)
  then have "split_on (CHR ''@'') (u @ ''@'' @ ?h) = [u, ?h]"
    using lower_uuid_ascii [OF presenceUUID_lower [OF assms(3)]] by (simp add: split_on_append split_on_absent)
  then show ?thesis
    using assms h timestamp_format by (simp add: presenceShape_def presence_probe_def presence_step_ok_def)
qed

lemma presence_alive_shape:
  assumes "presenceShape probe" "pe_Step probe = ''probe''" "re_match presenceUUID step" "step \<noteq> pe_StepID probe"
    "step \<noteq> hd (split_on (CHR ''@'') (pe_InteractionID probe))"
  shows "presenceShape (presence_alive probe step)"
  using assms by (auto simp: presenceShape_def presence_alive_def presence_step_ok_def split: list.splits option.splits)

lemma presence_refs:
  assumes "presenceMessageID mid = Inr target" "signal_refs presenceMessageID target vs = Inr rs"
  shows "kept_refs (rs @ [target]) (drop_joined (rs @ [target])) \<and> target \<notin> set rs \<and> length target \<le> 998 \<and> ascii target \<and>
    target \<noteq> [] \<and> (\<forall>r \<in> set (drop_joined (rs @ [target])). ascii r)"
proof -
  have t: "presenceMessageID v = Inr w \<Longrightarrow> length w \<le> 998 \<and> ascii w \<and> w \<noteq> []" for v w
    using signalMessageID_result by (auto simp: presenceMessageID_def split: if_splits)
  have k: "kept_refs (rs @ [target]) (drop_joined (rs @ [target]))"
    using drop_refs_kept t [OF assms(1)] by (simp add: drop_joined_refs)
  then obtain dropped where "rs @ [target] = dropped @ drop_joined (rs @ [target])" by (auto simp: kept_refs_def)
  then have "set (drop_joined (rs @ [target])) \<subseteq> set (rs @ [target])" by (metis Un_upper2 set_append)
  moreover have "ascii r" if "r \<in> set rs" for r using signal_refs_result [OF assms(2) that] t by blast
  moreover have "target \<notin> set rs" using signal_refs_result [OF assms(2)] by blast
  ultimately show ?thesis using k t [OF assms(1)] by auto
qed

lemma prepared_probe:
  assumes "PreparePresenceProbeEmail input deps = Inr r"
  shows "\<exists>sender recipient e observed. presenceContext input = Inr (sender, recipient) \<and> presenceShape e \<and> pd_Now deps = Some observed \<and>
    pe_Step e = ''probe'' \<and> pp_Address (pe_Payload e) = recipient \<and>
    presenceTimestamp (pp_IssuedAt (pe_Payload e)) = Some observed \<and>
    presenceTimestamp (pe_ExpiresAt e) = Some (observed + PresenceTTLMS) \<and> preparePresence input e observed [] [] = Inr r"
proof -
  obtain sender recipient observed nonce where
    c: "presenceContext input = Inr (sender, recipient)" "pd_Now deps = Some observed" "pd_Nonce deps = Some nonce"
      "signalMilliseconds observed" "signalMilliseconds (observed + PresenceTTLMS)"
    using assms by (auto simp: PreparePresenceProbeEmail_def split: sum.splits option.splits if_splits)
  then obtain u step where u: "re_match presenceUUID u" "re_match presenceUUID step" "u \<noteq> step" "re_match presenceNonce nonce"
      "preparePresence input (presence_probe u step nonce sender recipient observed) observed [] [] = Inr r"
    using assms by (auto simp: PreparePresenceProbeEmail_def presenceNewUUID_def Let_def split: sum.splits option.splits if_splits)
  let ?e = "presence_probe u step nonce sender recipient observed"
  have "presenceShape ?e" using context_mailboxes [OF c(1)] u c by (intro presence_probe_shape) auto
  then show ?thesis
    using c u timestamp_format by (intro exI [of _ sender] exI [of _ recipient] exI [of _ ?e] exI [of _ observed])
      (simp add: presence_probe_def)
qed

text \<open>The conditions an answer is prepared under, and the answer.\<close>

definition answerable :: "PresenceAliveInput \<Rightarrow> PresenceDependencies \<Rightarrow> string \<Rightarrow> string list \<Rightarrow> string \<Rightarrow> string \<Rightarrow> int \<Rightarrow> bool" where
  "answerable input deps target rs recipient step observed \<longleftrightarrow>
     (\<exists>mid. pi_MessageID input = Some mid \<and> presenceMessageID mid = Inr target) \<and>
     presenceContext input = Inr (pp_Address (pe_Payload (pi_Probe input)), recipient) \<and>
     presenceShape (pi_Probe input) \<and> pe_Step (pi_Probe input) = ''probe'' \<and> length (pi_References input) \<le> 1000 \<and>
     signal_refs presenceMessageID target (pi_References input) = Inr rs \<and> pd_Now deps = Some observed \<and>
     signalMilliseconds observed \<and> presenceNewUUID deps 0 = Inr step \<and> step \<noteq> pe_StepID (pi_Probe input) \<and>
     step \<noteq> hd (split_on (CHR ''@'') (pe_InteractionID (pi_Probe input)))"

lemma no_empty_message_id: "presenceMessageID [] \<noteq> Inr t"
proof
  assume "presenceMessageID [] = Inr t"
  then have "signalMessageID [] = Inr t" by (simp add: presenceMessageID_def)
  then show False by (auto simp: signalMessageID_def Let_def trim_chars_def signalWireID_def rplus_def has_prefix_def)
qed

lemma alive_prepared_from:
  assumes "PreparePresenceAliveEmail input deps = Inr \<lparr>ppn_Status = st, ppn_Prepared = Some p\<rparr>"
  shows "\<exists>target rs recipient step observed. answerable input deps target rs recipient step observed \<and>
    preparePresence input (presence_alive (pi_Probe input) step) observed target (drop_joined (rs @ [target])) =
      Inr \<lparr>ppn_Status = st, ppn_Prepared = Some p\<rparr>"
proof -
  obtain mid target recipient rs where m: "pi_MessageID input = Some mid" "presenceMessageID mid = Inr target"
      "presenceContext input = Inr (pp_Address (pe_Payload (pi_Probe input)), recipient)" "presenceShape (pi_Probe input)"
      "pe_Step (pi_Probe input) = ''probe''" "length (pi_References input) \<le> 1000"
      "signal_refs presenceMessageID target (pi_References input) = Inr rs"
      "alive_build input deps target (drop_joined (rs @ [target])) = Inr \<lparr>ppn_Status = st, ppn_Prepared = Some p\<rparr>"
    using assms by (auto simp: PreparePresenceAliveEmail_def split: sum.splits option.splits if_splits)
  then show ?thesis
    by (auto simp: alive_build_def answerable_def split: sum.splits option.splits if_splits)
qed

lemma alive_prepared_when:
  assumes "answerable input deps target rs recipient step observed"
  shows "\<exists>p. PreparePresenceAliveEmail input deps = Inr \<lparr>ppn_Status = ''prepared'', ppn_Prepared = Some p\<rparr> \<and>
    prp_ExpiresAtMs p = the (presenceTimestamp (pe_ExpiresAt (pi_Probe input))) \<and>
    prp_RequestJSON p = signalJSON (presence_body (pp_Address (pe_Payload (pi_Probe input))) recipient PresenceAliveSubject
      PresenceAliveText target (drop_joined (rs @ [target])) (signalJSON (enc_PresenceEnvelope (presence_alive (pi_Probe input) step))))"
proof -
  let ?P = "pi_Probe input" and ?e = "presence_alive (pi_Probe input) step"
  have a: "presenceContext input = Inr (pp_Address (pe_Payload ?P), recipient)" "presenceShape ?P" "pe_Step ?P = ''probe''"
      "step \<noteq> pe_StepID ?P" "step \<noteq> hd (split_on (CHR ''@'') (pe_InteractionID ?P))" "presenceNewUUID deps 0 = Inr step"
    using assms by (simp_all add: answerable_def)
  obtain mid where mid: "pi_MessageID input = Some mid" "presenceMessageID mid = Inr target"
    using assms by (auto simp: answerable_def)
  then have ne: "mid \<noteq> []" using no_empty_message_id by blast
  have rs: "signal_refs presenceMessageID target (pi_References input) = Inr rs" using assms by (simp add: answerable_def)
  have uuid: "re_match presenceUUID step"
    using a(6) by (auto simp: presenceNewUUID_def Let_def split: option.splits if_splits)
  have shape: "presenceShape ?e" by (rule presence_alive_shape [OF a(2,3) uuid a(4,5)])
  obtain expires where expires: "presenceTimestamp (pe_ExpiresAt ?P) = Some expires"
    using a(2) by (auto simp: presenceShape_def split: list.splits option.splits)
  then have expires': "presenceTimestamp (pe_ExpiresAt ?e) = Some expires" by (simp add: presence_alive_def)
  have refs: "length target \<le> 998" "length (join '' '' (drop_joined (rs @ [target]))) \<le> 8192"
    using presence_refs [OF mid(2) rs] by (auto simp: kept_refs_def)
  have "presence_subject ?e = PresenceAliveSubject" "presence_text ?e = PresenceAliveText"
    by (simp_all add: presence_subject_def presence_text_def presence_alive_def)
  then show ?thesis
    using assms mid ne a rs expires prepared_presence [OF shape a(1) refs expires', of observed]
    by (simp add: PreparePresenceAliveEmail_def alive_build_def answerable_def)
qed

section \<open>Properties\<close>

text \<open>
  C14. A presence probe is prepared in the form its receiver parses. The request is a
  document from the sender to the recipient, each lowercased, whose one attachment parses to a valid
  probe: it names the recipient as the address whose presence is asked for, was issued at the
  observed time and expires ten minutes later, at the time the preparation records.
\<close>

theorem presence_probe_parsed:
  assumes "PreparePresenceProbeEmail input deps = Inr r"
  shows "\<exists>p e observed. r = \<lparr>ppn_Status = ''prepared'', ppn_Prepared = Some p\<rparr> \<and> pd_Now deps = Some observed \<and>
    json_parse (prp_RequestJSON p) = Some (presence_body (to_lower (pi_From input)) (to_lower (pi_To input)) PresenceProbeSubject
      PresenceProbeText [] [] (signalJSON (enc_PresenceEnvelope e))) \<and>
    ParsePresenceEnvelope (signalJSON (enc_PresenceEnvelope e)) = \<lparr>ppr_Status = ''valid'', ppr_Envelope = Some e, ppr_Version = 0,
      ppr_Reason = [], ppr_Source = Some (signalJSON (enc_PresenceEnvelope e))\<rparr> \<and>
    pe_Step e = ''probe'' \<and> pp_Address (pe_Payload e) = to_lower (pi_To input) \<and>
    presenceTimestamp (pp_IssuedAt (pe_Payload e)) = Some observed \<and>
    presenceTimestamp (pe_ExpiresAt e) = Some (prp_ExpiresAtMs p) \<and> prp_ExpiresAtMs p = observed + PresenceTTLMS"
proof -
  obtain sender recipient e observed where
    e: "presenceContext input = Inr (sender, recipient)" "presenceShape e" "pd_Now deps = Some observed" "pe_Step e = ''probe''"
      "pp_Address (pe_Payload e) = recipient" "presenceTimestamp (pp_IssuedAt (pe_Payload e)) = Some observed"
      "presenceTimestamp (pe_ExpiresAt e) = Some (observed + PresenceTTLMS)" "preparePresence input e observed [] [] = Inr r"
    using prepared_probe [OF assms] by blast
  note m = context_mailboxes [OF e(1)]
  have "presence_subject e = PresenceProbeSubject" "presence_text e = PresenceProbeText"
    using e(4) by (simp_all add: presence_subject_def presence_text_def)
  then show ?thesis
    using prepared_presence [OF e(2,1) _ _ e(7), of "[]" "[]" observed] e m presence_parsed [OF e(2)]
      presence_body_parsed [of sender recipient "presence_subject e" "presence_text e" "[]" "[]"] presence_subject_ascii [of e]
    by auto
qed

text \<open>
  C16. The answer to a probe is prepared exactly when the message it answers, the accounts,
  the probe, the references, the clock and the new identifier pass their checks, and the probe was sent to
  the answering address. The limits on the size of the content and of the carrier never refuse one: a
  well-shaped envelope takes at most 1,200 bytes, and the references are cut to fit.
\<close>

theorem presence_alive_iff:
  "(\<exists>p. PreparePresenceAliveEmail input deps = Inr \<lparr>ppn_Status = ''prepared'', ppn_Prepared = Some p\<rparr>) =
   (\<exists>target rs recipient step observed. answerable input deps target rs recipient step observed)"
proof
  assume "\<exists>p. PreparePresenceAliveEmail input deps = Inr \<lparr>ppn_Status = ''prepared'', ppn_Prepared = Some p\<rparr>"
  then obtain p where p: "PreparePresenceAliveEmail input deps = Inr \<lparr>ppn_Status = ''prepared'', ppn_Prepared = Some p\<rparr>" by blast
  show "\<exists>target rs recipient step observed. answerable input deps target rs recipient step observed"
    using alive_prepared_from [OF p] by blast
next
  assume "\<exists>target rs recipient step observed. answerable input deps target rs recipient step observed"
  then obtain target rs recipient step observed where "answerable input deps target rs recipient step observed" by blast
  from alive_prepared_when [OF this]
  show "\<exists>p. PreparePresenceAliveEmail input deps = Inr \<lparr>ppn_Status = ''prepared'', ppn_Prepared = Some p\<rparr>" by blast
qed

text \<open>
  C15. The answer to a probe is bound to it. What is prepared comes from the address the probe
  asked for and replies to the message that carried it, the last of the references; its attachment
  parses to a valid answer that has the probe's interaction, payload and expiry, a new
  step identifier and the probe's own step as the step before.
\<close>

theorem presence_answer_bound:
  assumes "PreparePresenceAliveEmail input deps = Inr \<lparr>ppn_Status = st, ppn_Prepared = Some p\<rparr>"
  shows "\<exists>mid target refs e. pi_MessageID input = Some mid \<and> presenceMessageID mid = Inr target \<and> last refs = target \<and>
    length refs \<le> 100 \<and>
    json_parse (prp_RequestJSON p) = Some (presence_body (pp_Address (pe_Payload (pi_Probe input))) (to_lower (pi_To input))
      PresenceAliveSubject PresenceAliveText target refs (signalJSON (enc_PresenceEnvelope e))) \<and>
    ppr_Envelope (ParsePresenceEnvelope (signalJSON (enc_PresenceEnvelope e))) = Some e \<and>
    ppr_Status (ParsePresenceEnvelope (signalJSON (enc_PresenceEnvelope e))) = ''valid'' \<and>
    pe_Step e = ''alive'' \<and> pe_PrevStepID e = Some (pe_StepID (pi_Probe input)) \<and> pe_StepID e \<noteq> pe_StepID (pi_Probe input) \<and>
    pe_InteractionID e = pe_InteractionID (pi_Probe input) \<and> pe_Payload e = pe_Payload (pi_Probe input) \<and>
    presenceTimestamp (pe_ExpiresAt e) = Some (prp_ExpiresAtMs p) \<and> pe_ExpiresAt e = pe_ExpiresAt (pi_Probe input)"
proof -
  let ?P = "pi_Probe input"
  obtain target rs recipient step observed where ans: "answerable input deps target rs recipient step observed"
    using alive_prepared_from [OF assms] by blast
  let ?e = "presence_alive ?P step" and ?refs = "drop_joined (rs @ [target])"
  obtain mid where mid: "pi_MessageID input = Some mid" "presenceMessageID mid = Inr target"
    using ans by (auto simp: answerable_def)
  have a: "presenceContext input = Inr (pp_Address (pe_Payload ?P), recipient)" "presenceShape ?P" "pe_Step ?P = ''probe''"
      "step \<noteq> pe_StepID ?P" "step \<noteq> hd (split_on (CHR ''@'') (pe_InteractionID ?P))" "presenceNewUUID deps 0 = Inr step"
      "signal_refs presenceMessageID target (pi_References input) = Inr rs"
    using ans by (simp_all add: answerable_def)
  have "re_match presenceUUID step" using a(6) by (auto simp: presenceNewUUID_def Let_def split: option.splits if_splits)
  then have shape: "presenceShape ?e" by (rule presence_alive_shape [OF a(2,3) _ a(4,5)])
  have p: "prp_ExpiresAtMs p = the (presenceTimestamp (pe_ExpiresAt ?P))"
      "prp_RequestJSON p = signalJSON (presence_body (pp_Address (pe_Payload ?P)) recipient PresenceAliveSubject
        PresenceAliveText target ?refs (signalJSON (enc_PresenceEnvelope ?e)))"
    using alive_prepared_when [OF ans] assms by auto
  note refs = presence_refs [OF mid(2) a(7)] and m = context_mailboxes [OF a(1)]
  have "ascii PresenceAliveSubject" "ascii PresenceAliveText" by (simp_all add: PresenceAliveSubject_def PresenceAliveText_def)
  then have j: "json_parse (prp_RequestJSON p) = Some (presence_body (pp_Address (pe_Payload ?P)) recipient PresenceAliveSubject
      PresenceAliveText target ?refs (signalJSON (enc_PresenceEnvelope ?e)))"
    unfolding p(2) using m refs by (intro presence_body_parsed) auto
  obtain expires where "presenceTimestamp (pe_ExpiresAt ?P) = Some expires"
    using a(2) by (auto simp: presenceShape_def split: list.splits option.splits)
  then show ?thesis
    using mid j m refs a(4) p(1) presence_parsed [OF shape]
    by (intro exI [of _ mid] exI [of _ target] exI [of _ ?refs] exI [of _ ?e]) (auto simp: presence_alive_def kept_refs_def)
qed

section \<open>An example\<close>

definition example_nonce :: string where "example_nonce = ''0123456789abcdef0123456789abcdef''"

definition example_probe :: PresenceEnvelope where
  "example_probe = presence_probe ''00000000-0000-4000-8000-000000000001'' ''00000000-0000-4000-8000-000000000002'' example_nonce
     ''a@b.c'' ''d@e.f'' 1000"

definition example_presence :: PresenceProbeInput where
  "example_presence = \<lparr>pi_AccountScope = ''s'', pi_From = ''a@b.c'', pi_To = ''d@e.f''\<rparr>"

definition example_presence_deps :: PresenceProbeDependencies where
  "example_presence_deps = \<lparr>pd_UUID = Some example_uuid, pd_Now = Some 1000, pd_Nonce = Some example_nonce\<rparr>"

definition example_alive :: PresenceAliveInput where
  "example_alive = \<lparr>pi_AccountScope = ''s'', pi_From = ''d@e.f'', pi_To = ''a@b.c'', pi_Probe = example_probe,
     pi_MessageID = Some ''m@x'', pi_References = [''<r@x>'']\<rparr>"

definition example_alive_deps :: PresenceDependencies where
  "example_alive_deps = \<lparr>pd_UUID = Some (\<lambda>_. ''00000000-0000-4000-8000-000000000003''), pd_Now = Some 2000\<rparr>"

lemma example_parts:
  "re_match presenceUUID ''00000000-0000-4000-8000-000000000001''" "re_match presenceUUID ''00000000-0000-4000-8000-000000000002''"
  "re_match presenceUUID ''00000000-0000-4000-8000-000000000003''" "re_match presenceNonce example_nonce"
  "re_match signalMailbox ''a@b.c''" "re_match signalMailbox ''d@e.f''" "re_match presenceHost ''b.c''" "re_match presenceHost ''e.f''"
  by code_simp+

lemma example_mailboxes: "presenceMailbox ''a@b.c''" "presenceMailbox ''d@e.f''"
  using example_parts by (simp_all add: presenceMailbox_def to_lower_ascii ascii_lower_def)

lemma example_contexts:
  "presenceContext example_presence = Inr (''a@b.c'', ''d@e.f'')" "presenceContext example_alive = Inr (''d@e.f'', ''a@b.c'')"
  using example_mailboxes by (simp_all add: presenceContext_def example_presence_def example_alive_def to_lower_ascii ascii_lower_def)

lemma example_uuids:
  "presenceNewUUID example_presence_deps 0 = Inr ''00000000-0000-4000-8000-000000000001''"
  "presenceNewUUID example_presence_deps 1 = Inr ''00000000-0000-4000-8000-000000000002''"
  "presenceNewUUID example_alive_deps 0 = Inr ''00000000-0000-4000-8000-000000000003''"
  using example_parts
  by (simp_all add: presenceNewUUID_def example_presence_deps_def example_alive_deps_def example_uuid_def to_lower_ascii ascii_lower_def)

lemma example_probe_shape: "presenceShape example_probe"
  unfolding example_probe_def using example_parts example_mailboxes
  by (intro presence_probe_shape) (simp_all add: signalMilliseconds_def PresenceTTLMS_def)

lemma example_probe_prepared:
  "\<exists>p. PreparePresenceProbeEmail example_presence example_presence_deps = Inr \<lparr>ppn_Status = ''prepared'', ppn_Prepared = Some p\<rparr>"
proof -
  have "presenceTimestamp (pe_ExpiresAt example_probe) = Some (1000 + PresenceTTLMS)"
    unfolding example_probe_def presence_probe_def
    by (simp add: timestamp_format signalMilliseconds_def PresenceTTLMS_def)
  then have "\<exists>p. preparePresence example_presence example_probe 1000 [] [] = Inr \<lparr>ppn_Status = ''prepared'', ppn_Prepared = Some p\<rparr>"
    using prepared_presence [OF example_probe_shape example_contexts(1), of "[]" "[]"] by simp
  then show ?thesis
    using example_uuids(1,2) example_parts(4) unfolding example_probe_def
    by (simp add: PreparePresenceProbeEmail_def example_contexts)
      (simp add: example_presence_deps_def signalMilliseconds_def PresenceTTLMS_def)
qed

lemma example_answerable:
  "answerable example_alive example_alive_deps ''<m@x>'' [''<r@x>''] ''a@b.c'' ''00000000-0000-4000-8000-000000000003'' 2000"
proof -
  have "presenceMessageID ''m@x'' = Inr ''<m@x>''" "presenceMessageID ''<r@x>'' = Inr ''<r@x>''" by code_simp+
  moreover have "hd (split_on (CHR ''@'') (pe_InteractionID example_probe)) = ''00000000-0000-4000-8000-000000000001''"
    "pe_StepID example_probe = ''00000000-0000-4000-8000-000000000002''" "pe_Step example_probe = ''probe''"
    "pp_Address (pe_Payload example_probe) = ''d@e.f''"
    by (simp_all add: example_probe_def presence_probe_def)
  moreover have "signalMilliseconds 2000" by (simp add: signalMilliseconds_def)
  ultimately show ?thesis
    using example_contexts(2) example_uuids(3) example_probe_shape
    by (simp add: answerable_def) (simp add: example_alive_def example_alive_deps_def)
qed

theorem presence_probe_parsed_witness:
  "\<exists>p e. PreparePresenceProbeEmail example_presence example_presence_deps = Inr \<lparr>ppn_Status = ''prepared'', ppn_Prepared = Some p\<rparr> \<and>
     ppr_Envelope (ParsePresenceEnvelope (signalJSON (enc_PresenceEnvelope e))) = Some e \<and>
     pp_Address (pe_Payload e) = ''d@e.f'' \<and> prp_ExpiresAtMs p = 601000"
proof -
  obtain r where r: "PreparePresenceProbeEmail example_presence example_presence_deps = Inr r"
    using example_probe_prepared by blast
  have ex: "to_lower (pi_To example_presence) = ''d@e.f''" "pd_Now example_presence_deps = Some 1000"
    by (simp_all add: example_presence_def example_presence_deps_def to_lower_ascii ascii_lower_def)
  obtain p e where p: "r = \<lparr>ppn_Status = ''prepared'', ppn_Prepared = Some p\<rparr>" "pp_Address (pe_Payload e) = ''d@e.f''"
      "ppr_Envelope (ParsePresenceEnvelope (signalJSON (enc_PresenceEnvelope e))) = Some e" "prp_ExpiresAtMs p = 601000"
    using presence_probe_parsed [OF r] unfolding ex by (auto simp: PresenceTTLMS_def)
  show ?thesis using r p by (intro exI [of _ p] exI [of _ e]) simp
qed

theorem presence_answer_bound_witness:
  "\<exists>p e. PreparePresenceAliveEmail example_alive example_alive_deps = Inr \<lparr>ppn_Status = ''prepared'', ppn_Prepared = Some p\<rparr> \<and>
     ppr_Envelope (ParsePresenceEnvelope (signalJSON (enc_PresenceEnvelope e))) = Some e \<and>
     pe_PrevStepID e = Some ''00000000-0000-4000-8000-000000000002''"
proof -
  obtain p where p: "PreparePresenceAliveEmail example_alive example_alive_deps = Inr \<lparr>ppn_Status = ''prepared'', ppn_Prepared = Some p\<rparr>"
    using alive_prepared_when [OF example_answerable] by blast
  have "pe_StepID (pi_Probe example_alive) = ''00000000-0000-4000-8000-000000000002''"
    by (simp add: example_alive_def example_probe_def presence_probe_def)
  then show ?thesis using presence_answer_bound [OF p] p by auto
qed

end
