(* ===== verification/Spec2Isabelle.thy ===== *)
theory Spec2Isabelle
  imports Email_Encode Client_Setup X402_Payment Event_Reader Event_Listener Event_Close Repeats Presence
begin

text \<open>
  A verification development for the Go SDK of Primitive (\<open>src/sdk-go\<close>): email in and out of an
  agent, with the webhooks that deliver it, payments in the x402 protocol that ride on it, a
  stream of events, and small protocols between agents carried as email attachments.

  \<^bold>\<open>The parts and how they interact.\<close>
  A webhook request arrives with a body and headers. \<open>helpers.go\<close> coerces both from whatever
  the web framework hands over, \<open>webhook.go\<close> and \<open>standard_webhooks.go\<close> check the signature
  under one of two schemes, \<open>ParseWebhookEvent\<close> turns the body into a typed event, and
  \<open>received_email.go\<close> normalises an email event into the form that \<open>client.go\<close> replies to and
  forwards. The verdicts on an email (\<open>ValidateEmailAuth\<close>, \<open>IsTrustedSender\<close>) read the
  authentication results of the event. \<open>x402.go\<close> reads a payment challenge from an email part or
  from the service, signs the transfer it asks for and sends it. \<open>event_receiver.go\<close> replaces the
  webhook by a socket: reserve a subscription, connect, receive offers under a lease, complete
  each. \<open>interactions.go\<close> reads the \<open>interaction.json\<close> part of an email strictly; signals,
  repeats and presence are protocols in that part.

  \<^bold>\<open>Which theory models what.\<close> Theories named \<open>Go_...\<close> and the prelude model the language and
  its standard library, on byte strings; the others model one part of the SDK each, under the
  names of the source. A struct is a record, a nil pointer is \<open>None\<close>, an \<open>any\<close> is a \<open>gval\<close>, a Go map
  is an association list with distinct keys, an error return is the left of a sum.

  \<^item> \<open>Prelude\<close>: types, word and list lemmas. \<open>Go_Strings\<close>, \<open>Go_Utf8\<close>, \<open>Go_Trim\<close>, \<open>Regex\<close> (backtracking-free
    matching with its language), \<open>Go_Strconv\<close>, \<open>Go_Time\<close>, \<open>Go_Time_Format\<close>, \<open>Go_Float\<close>, \<open>Go_Crypto\<close> (SHA-256,
    HMAC, hex, base64, all executable), \<open>Go_Value\<close>.
  \<^item> \<open>Go_Json\<close> (scanner, parser, printer), \<open>Go_Json_Text\<close> (printing and parsing are inverse),
    \<open>Go_Json_Tokens\<close> (the token stream of a decoder), \<open>Go_Json_Decode\<close> and \<open>Go_Json_Encode\<close> (structs
    from documents and back, values of type \<open>any\<close>, floats), \<open>Go_Json_Size\<close> (lengths of printed text).
  \<^item> \<open>Errors\<close>: \<open>errors.go\<close>. \<open>Webhook_Helpers\<close>: \<open>helpers.go\<close>, \<open>constants.go\<close>.
  \<^item> \<open>Signing\<close>: signing and \<open>VerifyWebhookSignature\<close> of \<open>webhook.go\<close>. \<open>Standard_Webhooks\<close>:
    \<open>standard_webhooks.go\<close>. Both interpret the locale \<open>tag_scheme\<close> (a tag a verifier recognises).
  \<^item> \<open>Email_Types\<close>: the structs of \<open>types.go\<close>. \<open>Email_Auth\<close>: \<open>ValidateEmailAuth\<close>. \<open>Trust\<close>: \<open>trust.go\<close>.
  \<^item> \<open>Webhook_Input\<close>: raw emails and downloads, \<open>validation.go\<close>. \<open>Sent_Email\<close>: \<open>sent_email_events.go\<close>.
    \<open>Webhook_Events\<close>: parsing and handling of \<open>webhook.go\<close>, \<open>events.go\<close>. \<open>Received_Email\<close>:
    \<open>received_email.go\<close>. \<open>Mail_Client\<close>: \<open>client.go\<close>. \<open>Email_Encode\<close>: the custom marshalling of \<open>types.go\<close>.
    \<open>Client_Setup\<close>: the constructors of \<open>client.go\<close>, \<open>api/helpers.go\<close>.
  \<^item> \<open>X402_Sign\<close> (amounts, nonce, window, step envelope), \<open>X402_Wire\<close> (response structs, challenge
    checks), \<open>X402_Client\<close> (every method), \<open>X402_Payment\<close> (its properties): \<open>x402.go\<close>.
  \<^item> \<open>Event_Table\<close> (subscriptions; locale \<open>lease_table\<close>), \<open>Event_Connection\<close> (frames, opening,
    requests), \<open>Event_Receiver\<close> (its properties; locale \<open>connection_property\<close>, what every operation on a
    connection keeps), \<open>Event_Delivery\<close> (a step relation), \<open>Event_Listener\<close> (wait and listen),
    \<open>Event_Close\<close> (closing a listener, a step relation), \<open>Event_Reader\<close> (the goroutine that reads the socket,
    a step relation, and Retry-After):
    \<open>event_receiver.go\<close>, \<open>api/event_transport.go\<close>.
  \<^item> \<open>Interactions\<close>: \<open>interactions.go\<close>. \<open>Signals\<close>: \<open>signals.go\<close>. \<open>Signal_Content\<close>:
    \<open>signal_content.go\<close>. \<open>Repeats\<close>: \<open>repeats.go\<close>. \<open>Presence\<close>: \<open>presence.go\<close>.

  \<^bold>\<open>What the lemmas show.\<close>
  \<^item> Signatures: what is signed is accepted, acceptance means exactly a fresh and matching tag, and each
    rejection names the check that failed (C1--C5). A handled event is authentic and typed, and a signed
    request is handled (C17--C19); raw emails and downloads are returned only if their digest is right (C20).
  \<^item> Verdicts on email: exactly when an email is legitimate or its sender trusted (C6--C8). Restricted content and
    forward results survive marshalling (\<open>content_roundtrip\<close>).
  \<^item> Interactions: the strict reader accepts exactly the bounded documents of \<open>encoding/json\<close> without repeated
    keys or inexact numbers (C9), decoded data stays within its budget (\<open>decoded_envelope_bounded\<close>). What is
    prepared as a signal, a stop reason, a probe or an answer is what the other side reads (C10, C13--C15), is
    prepared exactly when its inputs are good, so the size limits never decide (C11, C16), and is sent only
    while fresh (C12).
  \<^item> Mail: subjects are stable under repeated replies (C21); forwarding makes one call (C22); a client built
    from a key uses it on two hosts, the second for all mail (\<open>client_hosts\<close>).
  \<^item> x402: amounts are exact (C23), a nonce fixes interaction and step (C24), the window lies in its band
    (C25), which can be empty (C26); \<open>Pay\<close> signs only the challenge, sends once, and an extracted
    challenge can be paid (C27--C29).
  \<^item> Events: subscriptions are exclusive under any sequence of calls (C30); retrying is the first settled
    attempt and ends by the deadline (C31, C32); the token goes only to the host that was checked (C33).
    Deliveries complete once, refine an abstract outcome and fit their lease (C34--C36); waiting and
    listening hold on to nothing they do not deliver (C37, C38); closing a listener loses no cancellation
    in any interleaving and ends it (C39, C40). The socket's reader passes on what the server sent, in order
    (\<open>reader_faithful\<close>).

  \<^bold>\<open>Arguments for code that is not in the repository.\<close> Keccak-256 and go-ethereum's signing, the address
  parser of \<open>net/mail\<close>, compiled JSON schemas, \<open>fmt\<close>'s rendering of arbitrary values, the parser
  of \<open>net/url\<close>, \<open>uuid.Parse\<close>, \<open>strconv.ParseFloat\<close> and \<open>http.ParseTime\<close>,
  the answers of HTTP, the websocket and the generated API client, the clock, UUIDs
  and nonces, and the conversion of a float outside the range of the integer type. Where a theorem needs
  something of one of these, it is a hypothesis of that theorem and its witness supplies a concrete function.

  \<^bold>\<open>Bounds.\<close> \<open>readInteractionJSON\<close> is bounded by the number of tokens plus one, which
  \<open>read_complete\<close> shows to be enough, since every call takes a token. \<open>retryEvent\<close> and the loops of waiting and
  listening may run forever in Go and are partial functions, with \<open>None\<close> for not returning; C32 shows
  that retrying does return. The nesting of documents is limited to 10,000 as in \<open>encoding/json\<close>. Nanosecond
  arithmetic and Unix seconds are on 64-bit integers with their wrap-around.

  \<^bold>\<open>What is not modelled.\<close> The generated files \<open>api/oas_*_gen.go\<close>, more than nine tenths of the
  Go lines, have no logic of this SDK: they are the API client, an argument of the mail client. \<open>schema.go\<close>
  embeds the JSON schemas and compiles them once. A nil slice is not told from an empty one in the structs of a received
  email, so their default marshalling, for which the SDK has no code, is left to \<open>encoding/json\<close>. Negative zero is
  not told from zero, messages of \<open>encoding/json\<close> errors are not rendered, and a map is iterated in the order of
  its list. The Node and Python SDKs and the tooling are not Go code of this library.
\<close>

end
